(* ===== verification/Prelude.thy ===== *)
theory Prelude
  imports Main "HOL-Library.Word" "HOL-Library.AList"
begin

text \<open>
  What every component of the development shares: the machine integers of the Rust sources, the
  hash maps of \<open>std::collections\<close>, failures as values, the state-and-error monad in which the
  asynchronous code runs, and the few string operations the sources use.

  The collections of facts: \<open>hm_simps\<close> (hash maps seen as maps) and \<open>io_simps\<close> (running the monad).
\<close>

named_theorems hm_simps "hash maps as maps"
named_theorems io_simps "equations that run the state-and-error monad"

section \<open>Machine integers and time\<close>

text \<open>
  The deployed binaries are built with \<open>cargo build --release\<close> (scripts/arm/build.sh), where the
  arithmetic operators of the fixed-width integers wrap around, as they do on words.
  A time stamp is a number of nanoseconds.
\<close>

type_synonym u16 = "16 word"
type_synonym u32 = "32 word"
type_synonym u64 = "64 word"
type_synonym i32 = "32 word"
type_synonym i64 = "64 word"
type_synonym ipv4 = "32 word"
type_synonym time = int

abbreviation seconds :: "u32 \<Rightarrow> time" where
  "seconds n \<equiv> uint n * 1000000000"

lemma uint_eq_int_unat: "uint (x :: 'a::len word) = int (unat x)"
  by simp

lemma uint_less_iff: "uint (x :: 'a::len word) < int n \<longleftrightarrow> unat x < n"
  unfolding uint_eq_int_unat by (rule of_nat_less_iff)

lemma unat_u32_less: "unat (x :: u32) < 4294967296"
  using unsigned_less [of x, where ?'a = nat] by simp

section \<open>Failures as values\<close>

text \<open>An error returned with \<open>?\<close> or \<open>Err\<close>, and a panic (\<open>unwrap\<close>, \<open>expect\<close>, an index out of range).\<close>

datatype fault = Err string | Panic string

type_synonym 'a outcome = "fault + 'a"

definition ok_or :: "'e \<Rightarrow> 'a option \<Rightarrow> 'e + 'a" where
  "ok_or e x = (case x of None \<Rightarrow> Inl e | Some a \<Rightarrow> Inr a)"

lemma ok_or_simps [simp]: "ok_or e None = Inl e" "ok_or e (Some a) = Inr a"
  by (simp_all add: ok_or_def)

lemma ok_or_Inr_iff [simp]: "ok_or e x = Inr a \<longleftrightarrow> x = Some a"
  by (cases x) simp_all

definition is_ok :: "'e + 'a \<Rightarrow> bool" where
  "is_ok r = (case r of Inl _ \<Rightarrow> False | Inr _ \<Rightarrow> True)"

lemma is_ok_simps [simp]: "\<not> is_ok (Inl e)" "is_ok (Inr a)"
  by (simp_all add: is_ok_def)

section \<open>The state-and-error monad\<close>

text \<open>
  An asynchronous operation runs against a world (the API server, the files, the kernel tables);
  it changes the world, and ends with a value or a failure. The world a failed operation has
  already changed stays changed.
\<close>

type_synonym ('w, 'e, 'a) eio = "'w \<Rightarrow> ('e + 'a) \<times> 'w"

type_synonym ('w, 'a) io = "('w, fault, 'a) eio"

definition io_return :: "'a \<Rightarrow> ('w, 'e, 'a) eio" where
  "io_return a w = (Inr a, w)"

definition io_fail :: "'e \<Rightarrow> ('w, 'e, 'a) eio" where
  "io_fail e w = (Inl e, w)"

definition io_bind :: "('w, 'e, 'a) eio \<Rightarrow> ('a \<Rightarrow> ('w, 'e, 'b) eio) \<Rightarrow> ('w, 'e, 'b) eio" where
  "io_bind m f w = (case m w of (Inl e, w') \<Rightarrow> (Inl e, w') | (Inr a, w') \<Rightarrow> f a w')"

definition io_lift :: "'e + 'a \<Rightarrow> ('w, 'e, 'a) eio" where
  "io_lift r w = (r, w)"

text \<open>\<open>map_err\<close> with the error replaced, and running an operation for its result as a value.\<close>

definition io_map_err :: "('e \<Rightarrow> 'f) \<Rightarrow> ('w, 'e, 'a) eio \<Rightarrow> ('w, 'f, 'a) eio" where
  "io_map_err f m w = (case m w of (Inl e, w') \<Rightarrow> (Inl (f e), w') | (Inr a, w') \<Rightarrow> (Inr a, w'))"

definition io_try :: "('w, 'a) io \<Rightarrow> ('w, 'a outcome) io" where
  "io_try m w = (case m w of (Inl (Panic p), w') \<Rightarrow> (Inl (Panic p), w')
                           | (r, w') \<Rightarrow> (Inr r, w'))"

lemma io_return_apply [simp, io_simps]: "io_return a w = (Inr a, w)"
  by (simp add: io_return_def)

lemma io_fail_apply [simp, io_simps]: "io_fail e w = (Inl e, w)"
  by (simp add: io_fail_def)

lemma io_lift_apply [simp, io_simps]: "io_lift r w = (r, w)"
  by (simp add: io_lift_def)

lemma io_bind_Inr [io_simps]: "m w = (Inr a, w') \<Longrightarrow> io_bind m f w = f a w'"
  by (simp add: io_bind_def)

lemma io_bind_Inl [io_simps]: "m w = (Inl e, w') \<Longrightarrow> io_bind m f w = (Inl e, w')"
  by (simp add: io_bind_def)

lemma io_bind_return [simp]: "io_bind (io_return a) f = f a"
  by (rule ext) (simp add: io_bind_def)

lemma io_bind_fail [simp]: "io_bind (io_fail e) f = io_fail e"
  by (rule ext) (simp add: io_bind_def)

lemma io_lift_Inr [simp]: "io_lift (Inr a) = io_return a"
  and io_lift_Inl [simp]: "io_lift (Inl e) = io_fail e"
  by (simp_all add: fun_eq_iff)

lemma io_bind_assoc: "io_bind (io_bind m f) g = io_bind m (\<lambda>a. io_bind (f a) g)"
  by (rule ext) (simp add: io_bind_def split: prod.splits sum.splits)

lemma io_bind_InrE:
  assumes "io_bind m f w = (Inr b, w')"
  obtains a w1 where "m w = (Inr a, w1)" and "f a w1 = (Inr b, w')"
  using assms by (auto simp: io_bind_def split: prod.splits sum.splits)

lemma io_map_err_apply [simp]:
  "io_map_err f (io_return a) = io_return a" "io_map_err f (io_fail e) = io_fail (f e)"
  by (simp_all add: fun_eq_iff io_map_err_def)

lemma io_map_err_map_err: "io_map_err f (io_map_err g m) = io_map_err (\<lambda>e. f (g e)) m"
  by (rule ext) (simp add: io_map_err_def split: prod.splits sum.splits)

lemma io_map_err_bind: "io_map_err f (io_bind m g) = io_bind (io_map_err f m) (\<lambda>a. io_map_err f (g a))"
  by (rule ext) (simp add: io_map_err_def io_bind_def split: prod.splits sum.splits)

lemma io_bindE:
  assumes "io_bind m f w = (r, w')"
  obtains e where "m w = (Inl e, w')" and "r = Inl e"
  | a w1 where "m w = (Inr a, w1)" and "f a w1 = (r, w')"
  using assms by (auto simp: io_bind_def split: prod.splits sum.splits)

lemma io_map_errE:
  assumes "io_map_err g m w = (r, w')"
  obtains e where "m w = (Inl e, w')" and "r = Inl (g e)"
  | a where "m w = (Inr a, w')" and "r = Inr a"
  using assms by (auto simp: io_map_err_def split: prod.splits sum.splits)

text \<open>\<open>preserves I m\<close>: every run of \<open>m\<close> that starts in \<open>I\<close> ends in \<open>I\<close>, however it ends.\<close>

definition preserves :: "('w \<Rightarrow> bool) \<Rightarrow> ('w, 'e, 'a) eio \<Rightarrow> bool" where
  "preserves I m \<longleftrightarrow> (\<forall>w r w'. I w \<longrightarrow> m w = (r, w') \<longrightarrow> I w')"

named_theorems preserves_rules "operations of the monad that preserve an invariant"

lemma preservesD: "preserves I m \<Longrightarrow> I w \<Longrightarrow> m w = (r, w') \<Longrightarrow> I w'"
  unfolding preserves_def by blast

lemma preserves_return [preserves_rules]: "preserves I (io_return a)"
  and preserves_fail [preserves_rules]: "preserves I (io_fail e)"
  and preserves_lift [preserves_rules]: "preserves I (io_lift r)"
  by (simp_all add: preserves_def)

lemma preserves_bind [preserves_rules]:
  assumes m: "preserves I m" and f: "\<And>a. preserves I (f a)"
  shows "preserves I (io_bind m f)"
  unfolding preserves_def
proof (intro allI impI)
  fix w r w' assume I: "I w" and run: "io_bind m f w = (r, w')"
  obtain q w1 where mw: "m w = (q, w1)" by (cases "m w")
  with m I have I1: "I w1" by (rule preservesD)
  show "I w'"
  proof (cases q)
    case (Inl e)
    with run mw I1 show ?thesis by (simp add: io_bind_def)
  next
    case (Inr a)
    with run mw have "f a w1 = (r, w')" by (simp add: io_bind_def)
    with f I1 show ?thesis by (rule preservesD)
  qed
qed

lemma preserves_map_err [preserves_rules]:
  assumes m: "preserves I m"
  shows "preserves I (io_map_err f m)"
  unfolding preserves_def
proof (intro allI impI)
  fix w r w' assume I: "I w" and run: "io_map_err f m w = (r, w')"
  obtain q w1 where mw: "m w = (q, w1)" by (cases "m w")
  with m I have "I w1" by (rule preservesD)
  with run mw show "I w'" by (cases q) (simp_all add: io_map_err_def)
qed

text \<open>Loops: an operation for every element, collecting the results, or threading a value through.\<close>

fun io_each :: "('a \<Rightarrow> ('w, 'e, unit) eio) \<Rightarrow> 'a list \<Rightarrow> ('w, 'e, unit) eio" where
  "io_each f [] = io_return ()"
| "io_each f (x # xs) = io_bind (f x) (\<lambda>_. io_each f xs)"

fun io_map :: "('a \<Rightarrow> ('w, 'e, 'b) eio) \<Rightarrow> 'a list \<Rightarrow> ('w, 'e, 'b list) eio" where
  "io_map f [] = io_return []"
| "io_map f (x # xs) = io_bind (f x) (\<lambda>y. io_bind (io_map f xs) (\<lambda>ys. io_return (y # ys)))"

fun io_fold :: "('a \<Rightarrow> 's \<Rightarrow> ('w, 'e, 's) eio) \<Rightarrow> 'a list \<Rightarrow> 's \<Rightarrow> ('w, 'e, 's) eio" where
  "io_fold f [] s = io_return s"
| "io_fold f (x # xs) s = io_bind (f x s) (io_fold f xs)"

text \<open>An error that is only logged.\<close>

definition io_ignore :: "('w, 'e, 'a) eio \<Rightarrow> ('w, 'f, unit) eio" where
  "io_ignore m w = (Inr (), snd (m w))"

text \<open>
  \<open>achieves view m v a v'\<close>: in every world seen as \<open>v\<close> the operation succeeds with the value \<open>a\<close> and
  leaves a world seen as \<open>v'\<close>.
\<close>

definition achieves :: "('w \<Rightarrow> 'v) \<Rightarrow> ('w, 'e, 'a) eio \<Rightarrow> 'v \<Rightarrow> 'a \<Rightarrow> 'v \<Rightarrow> bool" where
  "achieves view m v a v' \<longleftrightarrow> (\<forall>w. view w = v \<longrightarrow> (\<exists>w'. m w = (Inr a, w') \<and> view w' = v'))"

lemma achievesD: "achieves view m v a v' \<Longrightarrow> view w = v \<Longrightarrow> \<exists>w'. m w = (Inr a, w') \<and> view w' = v'"
  by (simp add: achieves_def)

lemma achieves_return: "achieves view (io_return a) v a v"
  by (simp add: achieves_def)

lemma achieves_bind:
  assumes "achieves view m v a v1" and "achieves view (f a) v1 b v2"
  shows "achieves view (io_bind m f) v b v2"
  using assms unfolding achieves_def io_bind_def by fastforce

lemma achieves_map_err: "achieves view m v a v' \<Longrightarrow> achieves view (io_map_err f m) v a v'"
  unfolding achieves_def io_map_err_def by fastforce

lemma achieves_ignore: "achieves view m v a v' \<Longrightarrow> achieves view (io_ignore m) v () v'"
  unfolding achieves_def io_ignore_def by fastforce

section \<open>Key-value stores\<close>

text \<open>
  What the components rely on wherever they keep objects under string keys: the hash maps of the
  informers and of the controllers, and the objects the API server keeps in etcd.
\<close>

locale key_store =
  fixes lookup :: "'s \<Rightarrow> 'k \<Rightarrow> 'v option"
    and insert :: "'k \<Rightarrow> 'v \<Rightarrow> 's \<Rightarrow> 's"
    and remove :: "'k \<Rightarrow> 's \<Rightarrow> 's"
    and empty :: "'s"
  assumes lookup_empty: "lookup empty = Map.empty"
    and lookup_insert: "lookup (insert k v s) = (lookup s)(k \<mapsto> v)"
    and lookup_remove: "lookup (remove k s) = (lookup s)(k := None)"
begin

lemma lookup_fold_insert:
  "lookup (fold (\<lambda>x. insert (key x) (val x)) xs s) =
     lookup s ++ map_of (rev (map (\<lambda>x. (key x, val x)) xs))"
  by (induction xs arbitrary: s) (auto simp: lookup_insert map_add_def fun_eq_iff split: option.splits)

lemma lookup_fold_insert_empty:
  "lookup (fold (\<lambda>x. insert (key x) (val x)) xs empty) = map_of (rev (map (\<lambda>x. (key x, val x)) xs))"
  by (simp add: lookup_fold_insert lookup_empty)

lemma lookup_insert_other: "k \<noteq> k' \<Longrightarrow> lookup (insert k v s) k' = lookup s k'"
  by (simp add: lookup_insert)

lemma insert_insert_same: "lookup (insert k v (insert k u s)) = lookup (insert k v s)"
  by (simp add: lookup_insert)

lemma remove_insert_same: "lookup (remove k (insert k v s)) = lookup (remove k s)"
  by (simp add: lookup_insert lookup_remove)

lemma insert_remove_swap:
  "k \<noteq> k' \<Longrightarrow> lookup (insert k v (remove k' s)) = lookup (remove k' (insert k v s))"
  by (auto simp: lookup_insert lookup_remove)

end

section \<open>Hash maps\<close>

text \<open>
  A \<open>HashMap\<close> is an association list with distinct keys: the order of the list stands for the
  iteration order, which the Rust map leaves unspecified, so a fact about every list holds for
  every iteration order. \<open>==\<close> on hash maps is \<open>hm_eq\<close>: equal sizes, and every entry of the one is an
  entry of the other.
\<close>

type_synonym ('k, 'v) hashmap = "('k \<times> 'v) list"

definition hm_empty :: "('k, 'v) hashmap" where
  "hm_empty = []"

definition hm_get :: "('k, 'v) hashmap \<Rightarrow> 'k \<Rightarrow> 'v option" where
  "hm_get m k = map_of m k"

definition hm_insert :: "'k \<Rightarrow> 'v \<Rightarrow> ('k, 'v) hashmap \<Rightarrow> ('k, 'v) hashmap" where
  "hm_insert k v m = AList.update k v m"

definition hm_remove :: "'k \<Rightarrow> ('k, 'v) hashmap \<Rightarrow> ('k, 'v) hashmap" where
  "hm_remove k m = AList.delete k m"

definition hm_wf :: "('k, 'v) hashmap \<Rightarrow> bool" where
  "hm_wf m \<longleftrightarrow> distinct (map fst m)"

definition hm_values :: "('k, 'v) hashmap \<Rightarrow> 'v list" where
  "hm_values m = map snd m"

definition hm_eq_by :: "('v \<Rightarrow> 'v \<Rightarrow> bool) \<Rightarrow> ('k, 'v) hashmap \<Rightarrow> ('k, 'v) hashmap \<Rightarrow> bool" where
  "hm_eq_by eqv m1 m2 \<longleftrightarrow> length m1 = length m2 \<and>
     list_all (\<lambda>(k, v). case hm_get m2 k of None \<Rightarrow> False | Some v' \<Rightarrow> eqv v v') m1"

abbreviation hm_eq :: "('k, 'v) hashmap \<Rightarrow> ('k, 'v) hashmap \<Rightarrow> bool" where
  "hm_eq \<equiv> hm_eq_by (=)"

lemma hm_get_empty [simp, hm_simps]: "hm_get hm_empty = Map.empty"
  by (rule ext) (simp add: hm_get_def hm_empty_def)

lemma hm_get_Nil [simp]: "hm_get [] k = None"
  by (simp add: hm_get_def)

lemma hm_get_Cons [simp]: "hm_get ((k', v) # m) k = (if k' = k then Some v else hm_get m k)"
  by (simp add: hm_get_def)

lemma hm_get_insert [simp, hm_simps]: "hm_get (hm_insert k v m) = (hm_get m)(k \<mapsto> v)"
  by (rule ext) (simp add: hm_get_def hm_insert_def update_conv')

lemma hm_get_remove [simp, hm_simps]: "hm_get (hm_remove k m) = (hm_get m)(k := None)"
  by (rule ext) (simp add: hm_get_def hm_remove_def delete_conv')

interpretation hm: key_store hm_get hm_insert hm_remove hm_empty
  by unfold_locales simp_all

lemma hm_wf_empty [simp]: "hm_wf hm_empty"
  by (simp add: hm_wf_def hm_empty_def)

lemma hm_wf_insert [simp]: "hm_wf m \<Longrightarrow> hm_wf (hm_insert k v m)"
  by (simp add: hm_wf_def hm_insert_def distinct_update)

lemma hm_wf_remove [simp]: "hm_wf m \<Longrightarrow> hm_wf (hm_remove k m)"
  by (simp add: hm_wf_def hm_remove_def distinct_delete)

lemma hm_get_SomeD: "hm_get m k = Some v \<Longrightarrow> (k, v) \<in> set m"
  by (simp add: hm_get_def map_of_SomeD)

lemma hm_get_iff: "hm_wf m \<Longrightarrow> hm_get m k = Some v \<longleftrightarrow> (k, v) \<in> set m"
  by (simp add: hm_get_def hm_wf_def)

lemma hm_get_None_iff: "hm_get m k = None \<longleftrightarrow> k \<notin> fst ` set m"
  by (simp add: hm_get_def map_of_eq_None_iff)

lemma hm_get_all_None:
  assumes "\<And>k. hm_get m k = None"
  shows "m = []"
proof (cases m)
  case (Cons a l)
  with assms [of "fst a"] show ?thesis by (cases a) simp
qed simp

lemma hm_eq_refl: "hm_wf m \<Longrightarrow> hm_eq m m"
  unfolding hm_eq_by_def list_all_iff by (force dest: hm_get_iff [THEN iffD2])

lemma dom_hm_get: "dom (hm_get m) = fst ` set m"
  by (simp add: hm_get_def [abs_def] dom_map_of_conv_image_fst)

lemma card_dom_hm: "hm_wf m \<Longrightarrow> card (dom (hm_get m)) = length m"
proof -
  assume wf: "hm_wf m"
  show ?thesis
    using wf distinct_card [of "map fst m"] by (simp add: hm_wf_def dom_hm_get)
qed

lemma hm_wf_fold_insert: "hm_wf m \<Longrightarrow> hm_wf (fold (\<lambda>x. hm_insert (key x) (val x)) xs m)"
  by (induction xs arbitrary: m) simp_all

lemma hm_eq_by_rel:
  assumes eq: "hm_eq_by eqv m1 m2" and wf: "hm_wf m1" "hm_wf m2"
  shows "rel_option eqv (hm_get m1 k) (hm_get m2 k)"
proof -
  have each: "\<exists>v'. hm_get m2 k = Some v' \<and> eqv v v'" if "hm_get m1 k = Some v" for k v
    using eq hm_get_SomeD [OF that] by (fastforce simp: hm_eq_by_def list_all_iff split: option.splits)
  have "dom (hm_get m1) = dom (hm_get m2)"
  proof (rule card_subset_eq)
    show "finite (dom (hm_get m2))" by (simp add: hm_get_def [abs_def] finite_dom_map_of)
    show "dom (hm_get m1) \<subseteq> dom (hm_get m2)" using each by fastforce
    show "card (dom (hm_get m1)) = card (dom (hm_get m2))"
      using eq wf by (simp add: card_dom_hm hm_eq_by_def)
  qed
  then have "hm_get m1 k = None \<longleftrightarrow> hm_get m2 k = None" by (metis domIff)
  with each show ?thesis by (cases "hm_get m1 k") fastforce+
qed

theorem hm_eq_iff:
  assumes "hm_wf m1" and "hm_wf m2"
  shows "hm_eq m1 m2 \<longleftrightarrow> hm_get m1 = hm_get m2"
proof
  assume "hm_eq m1 m2"
  then have "rel_option (=) (hm_get m1 k) (hm_get m2 k)" for k
    using assms by (rule hm_eq_by_rel)
  then show "hm_get m1 = hm_get m2" by (auto simp: option.rel_eq)
next
  assume eq: "hm_get m1 = hm_get m2"
  then have "length m1 = length m2"
    using assms card_dom_hm by metis
  with eq assms show "hm_eq m1 m2"
    by (auto simp: hm_eq_by_def list_all_iff hm_get_iff [symmetric] split: option.splits)
qed

section \<open>Strings\<close>

fun dec_of_nat :: "nat \<Rightarrow> string" where
  "dec_of_nat n = (if n < 10 then [char_of (48 + n)]
                   else dec_of_nat (n div 10) @ [char_of (48 + n mod 10)])"

declare dec_of_nat.simps [simp del]

definition show_u16 :: "u16 \<Rightarrow> string" where
  "show_u16 n = dec_of_nat (unat n)"

definition show_u32 :: "u32 \<Rightarrow> string" where
  "show_u32 n = dec_of_nat (unat n)"

text \<open>An IPv4 address is printed as its four octets.\<close>

definition show_ipv4 :: "ipv4 \<Rightarrow> string" where
  "show_ipv4 a = (let n = unat a in
     dec_of_nat (n div 16777216) @ ''.'' @ dec_of_nat (n div 65536 mod 256) @ ''.'' @
     dec_of_nat (n div 256 mod 256) @ ''.'' @ dec_of_nat (n mod 256))"

definition ends_with :: "string \<Rightarrow> string \<Rightarrow> bool" where
  "ends_with s suf \<longleftrightarrow> length suf \<le> length s \<and> drop (length s - length suf) s = suf"

definition starts_with :: "string \<Rightarrow> string \<Rightarrow> bool" where
  "starts_with s pre \<longleftrightarrow> take (length pre) s = pre"

definition char_to_lower :: "char \<Rightarrow> char" where
  "char_to_lower c = (let n = (of_char c :: nat) in
     if 65 \<le> n \<and> n \<le> 90 then char_of (n + 32) else c)"

text \<open>Lower case of the ASCII letters; the names the sources lower are ASCII.\<close>

definition to_lowercase :: "string \<Rightarrow> string" where
  "to_lowercase s = map char_to_lower s"

definition eq_ignore_ascii_case :: "string \<Rightarrow> string \<Rightarrow> bool" where
  "eq_ignore_ascii_case a b \<longleftrightarrow> to_lowercase a = to_lowercase b"

fun join :: "string \<Rightarrow> string list \<Rightarrow> string" where
  "join sep [] = []"
| "join sep [x] = x"
| "join sep (x # y # xs) = x @ sep @ join sep (y # xs)"

text \<open>\<open>str::split\<close> with a single character: always at least one part.\<close>

fun split_on :: "char \<Rightarrow> string \<Rightarrow> string list" where
  "split_on c [] = [[]]"
| "split_on c (x # xs) =
     (if x = c then [] # split_on c xs
      else case split_on c xs of [] \<Rightarrow> [[x]] | p # ps \<Rightarrow> (x # p) # ps)"

lemma split_on_nonempty [simp]: "split_on c s \<noteq> []"
  by (induction s) (auto split: list.splits)

lemma split_on_no_sep: "c \<notin> set s \<Longrightarrow> split_on c s = [s]"
  by (induction s) auto

lemma split_on_append:
  "c \<notin> set s \<Longrightarrow> split_on c (s @ c # rest) = s # split_on c rest"
  by (induction s) auto

lemma split_on_join:
  assumes "xs \<noteq> []" and "\<forall>x \<in> set xs. c \<notin> set x"
  shows "split_on c (join [c] xs) = xs"
  using assms
proof (induction "[c]" xs rule: join.induct)
  case 1
  then show ?case by simp
next
  case (2 x)
  then show ?case by (simp add: split_on_no_sep)
next
  case (3 x y xs)
  then show ?case by (simp add: split_on_append)
qed

lemma dec_of_nat_digits: "c \<in> set (dec_of_nat n) \<Longrightarrow> 48 \<le> (of_char c :: nat) \<and> (of_char c :: nat) \<le> 57"
proof (induction n rule: dec_of_nat.induct)
  case (1 n)
  have small: "of_char (char_of (48 + d) :: char) = 48 + d" if "d < 10" for d :: nat
    using that by simp
  show ?case
  proof (cases "n < 10")
    case True
    with "1.prems" show ?thesis by (auto simp: dec_of_nat.simps [of n])
  next
    case False
    then have eq: "dec_of_nat n = dec_of_nat (n div 10) @ [char_of (48 + n mod 10)]"
      by (simp add: dec_of_nat.simps [of n])
    have "n mod 10 < 10" by simp
    from small [OF this] "1.IH" [OF False] "1.prems" eq show ?thesis by auto
  qed
qed

section \<open>Stable sorting\<close>

text \<open>
  \<open>slice::sort_by\<close> is a stable sort by a comparison. The comparisons of the sources are
  lexicographic orders of a key, for which the stable sort is the insertion sort by that key.
\<close>

lemma insort_key_hd:
  "xs \<noteq> [] \<Longrightarrow> sort_key f xs \<noteq> [] \<and> hd (sort_key f xs) \<in> set xs \<and>
    (\<forall>y \<in> set xs. f (hd (sort_key f xs)) \<le> f y)"
proof -
  assume ne: "xs \<noteq> []"
  then obtain y ys where s: "sort_key f xs = y # ys"
    by (metis length_0_conv length_sort list.exhaust)
  have "sorted (map f (sort_key f xs))" by simp
  then have "\<forall>z \<in> set ys. f y \<le> f z" by (simp add: s)
  moreover have "set (sort_key f xs) = set xs" by simp
  ultimately show ?thesis by (auto simp: s)
qed

section \<open>Lists\<close>

lemma filter_dropWhile_disjoint:
  "(\<And>x. Q x \<Longrightarrow> \<not> P x) \<Longrightarrow> filter P (dropWhile Q xs) = filter P xs"
  by (induction xs) auto

lemma fold_min_le:
  fixes f :: "'a \<Rightarrow> 'b::linorder"
  shows "fold (\<lambda>p r. min r (f p)) ps z \<le> z" and "p \<in> set ps \<Longrightarrow> fold (\<lambda>p r. min r (f p)) ps z \<le> f p"
proof -
  show le: "fold (\<lambda>p r. min r (f p)) ps z \<le> z" for ps z
  proof (induction ps arbitrary: z)
    case (Cons p ps)
    from Cons.IH [of "min z (f p)"] show ?case by (simp add: order.trans)
  qed simp
  show "p \<in> set ps \<Longrightarrow> fold (\<lambda>p r. min r (f p)) ps z \<le> f p"
  proof (induction ps arbitrary: z)
    case (Cons q qs)
    show ?case
    proof (cases "p = q")
      case True
      from le [of qs "min z (f q)"] True show ?thesis by simp
    next
      case False
      with Cons show ?thesis by simp
    qed
  qed simp
qed

end
