(* ===== verification/Objects.thy ===== *)
theory Objects
  imports Prelude
begin

text \<open>
  The resource objects of the cluster (crate \<open>resources\<close>, \<open>resources/src/objects\<close>): one record per
  struct, one datatype per enum, the sum type \<open>KubeObject\<close> of all the objects the API server stores,
  and the operations of the trait \<open>Object\<close> that give an object its key in the store.
  Field names carry a prefix of the struct's name. A \<open>Uuid\<close> is a 128-bit word.

  The lemmas at the end: label matching as inclusion of maps, the key of an object determines its
  kind and its name, and the directory of one kind holds no key of another kind.
\<close>

section \<open>Metadata, labels and references\<close>

type_synonym uuid = "128 word"

type_synonym labels = "(string, string) hashmap"

record object_reference =
  or_kind :: string
  or_name :: string

record metadata =
  md_name :: string
  md_uid :: "uuid option"
  md_labels :: labels
  md_owner_references :: "object_reference list"

definition metadata_default :: metadata where
  "metadata_default = \<lparr>md_name = [], md_uid = None, md_labels = hm_empty, md_owner_references = []\<rparr>"

text \<open>The derived equality: labels are compared as maps.\<close>

definition metadata_eq :: "metadata \<Rightarrow> metadata \<Rightarrow> bool" where
  "metadata_eq a b \<longleftrightarrow> md_name a = md_name b \<and> md_uid a = md_uid b \<and>
     hm_eq (md_labels a) (md_labels b) \<and> md_owner_references a = md_owner_references b"

text \<open>\<open>labels_matches self labels\<close>: the entries of \<open>labels\<close> are entries of \<open>self\<close>.\<close>

definition labels_matches :: "labels \<Rightarrow> labels \<Rightarrow> bool" where
  "labels_matches self labels \<longleftrightarrow>
     list_all (\<lambda>(k, v). case hm_get self k of Some v2 \<Rightarrow> v = v2 | None \<Rightarrow> False) labels"

definition labels_to_string :: "labels \<Rightarrow> string" where
  "labels_to_string ls = join '','' (map (\<lambda>(k, v). k @ ''='' @ v) ls)"

text \<open>
  \<open>Labels::try_from\<close>: the parts between commas, each split at \<open>=\<close>; the first piece is the key, the
  second the value, further pieces are dropped; a part without \<open>=\<close> is an error.
\<close>

fun labels_try_from_parts :: "labels \<Rightarrow> string list \<Rightarrow> labels outcome" where
  "labels_try_from_parts ls [] = Inr ls"
| "labels_try_from_parts ls (p # ps) =
     (case split_on (CHR ''='') p of
        [] \<Rightarrow> Inl (Err ''Missing label name'')
      | [key] \<Rightarrow> Inl (Err ''Missing label value'')
      | key # val # _ \<Rightarrow> labels_try_from_parts (hm_insert key val ls) ps)"

definition labels_try_from :: "string \<Rightarrow> labels outcome" where
  "labels_try_from s = labels_try_from_parts hm_empty (split_on (CHR '','') s)"

section \<open>Metrics\<close>

datatype resource = CPU | Memory

record container_metrics =
  cm_name :: string
  cm_usage :: "(resource, i64) hashmap"

record pod_metrics =
  pms_name :: string
  pms_timestamp :: time
  pms_window :: u32
  pms_containers :: "container_metrics list"

record pod_metric =
  pm_timestamp :: time
  pm_window :: u32
  pm_value :: i64

type_synonym pod_metrics_info = "(string, pod_metric) hashmap"

record function_metric =
  fm_name :: string
  fm_timestamp :: time
  fm_value :: i64

section \<open>Pods\<close>

datatype image_pull_policy = PullAlways | PullNever | PullIfNotPresent

record volume_mount =
  vm_mount_path :: string
  vm_name :: string

record resource_quantity =
  rq_cpu :: i64
  rq_memory :: i64

definition resource_quantity_default :: resource_quantity where
  "resource_quantity_default = \<lparr>rq_cpu = 0, rq_memory = 0\<rparr>"

record resource_requirements =
  rr_limits :: resource_quantity
  rr_requests :: resource_quantity

definition resource_requirements_default :: resource_requirements where
  "resource_requirements_default =
     \<lparr>rr_limits = resource_quantity_default, rr_requests = resource_quantity_default\<rparr>"

text \<open>Signed division truncates towards zero; \<open>MILLI_CPU_TO_CPU\<close> is not zero.\<close>

definition milli_cpu_to_shares :: "i64 \<Rightarrow> i64" where
  "milli_cpu_to_shares milli_cpu =
     (if milli_cpu = 0 then 2
      else let n = sint (milli_cpu * 1024);
               shares = sgn n * (\<bar>n\<bar> div 1000)
           in word_of_int (max shares 2))"

definition cpu_shares :: "resource_requirements \<Rightarrow> i64" where
  "cpu_shares r = milli_cpu_to_shares
     (if rq_cpu (rr_requests r) = 0 \<and> rq_cpu (rr_limits r) \<noteq> 0 then rq_cpu (rr_limits r)
      else rq_cpu (rr_requests r))"

record container =
  co_name :: string
  co_image :: string
  co_image_pull_policy :: "image_pull_policy option"
  co_command :: "string list"
  co_ports :: "u16 list"
  co_volume_mounts :: "volume_mount list"
  co_resources :: resource_requirements

definition container_default :: container where
  "container_default = \<lparr>co_name = [], co_image = [], co_image_pull_policy = None, co_command = [],
     co_ports = [], co_volume_mounts = [], co_resources = resource_requirements_default\<rparr>"

definition container_requests :: "container \<Rightarrow> resource \<Rightarrow> i64" where
  "container_requests c r = (case r of CPU \<Rightarrow> rq_cpu (rr_requests (co_resources c))
                                     | Memory \<Rightarrow> rq_memory (rr_requests (co_resources c)))"

definition image_pull_policy :: "container \<Rightarrow> image_pull_policy" where
  "image_pull_policy c = (case co_image_pull_policy c of
       Some policy \<Rightarrow> policy
     | None \<Rightarrow> if ends_with (co_image c) '':latest'' then PullAlways else PullIfNotPresent)"

definition container_exposed_ports :: "container \<Rightarrow> (string, unit) hashmap" where
  "container_exposed_ports c =
     fold (\<lambda>p m. hm_insert (show_u16 p @ ''/tcp'') () m) (co_ports c) hm_empty"

datatype volume_config = HostPath string | EmptyDir

record volume =
  vo_name :: string
  vo_config :: volume_config

datatype restart_policy = RestartAlways | RestartOnFailure | RestartNever

record pod_spec =
  ps_containers :: "container list"
  ps_volumes :: "volume list"
  ps_restart_policy :: restart_policy
  ps_host_network :: bool
  ps_node_selector :: labels
  ps_node_name :: "string option"

definition pod_spec_default :: pod_spec where
  "pod_spec_default = \<lparr>ps_containers = [], ps_volumes = [], ps_restart_policy = RestartAlways,
     ps_host_network = False, ps_node_selector = hm_empty, ps_node_name = None\<rparr>"

definition network_mode :: "pod_spec \<Rightarrow> string" where
  "network_mode s = (if ps_host_network s then ''host'' else ''bridge'')"

definition pod_exposed_ports :: "pod_spec \<Rightarrow> (string, unit) hashmap" where
  "pod_exposed_ports s =
     fold (\<lambda>c m. fold (\<lambda>(k, v) m. hm_insert k v m) (container_exposed_ports c) m)
       (ps_containers s) hm_empty"

datatype pod_phase = Failed | Pending | Running | Succeeded

datatype pod_condition_type = ContainersReady | PodScheduled | Ready

type_synonym pod_condition = bool

datatype container_state = CRunning | CTerminated i64 | CWaiting

record container_status =
  cs_name :: string
  cs_image :: string
  cs_container_id :: string
  cs_state :: container_state
  cs_restart_count :: u32

record pod_status =
  pst_host_ip :: "string option"
  pst_start_time :: time
  pst_phase :: pod_phase
  pst_pod_ip :: "ipv4 option"
  pst_conditions :: "(pod_condition_type, pod_condition) hashmap"
  pst_container_statuses :: "container_status list"

text \<open>\<open>PodStatus::default\<close> reads the clock; the reading is an argument.\<close>

definition pod_status_default :: "time \<Rightarrow> pod_status" where
  "pod_status_default now =
     \<lparr>pst_host_ip = None, pst_start_time = now, pst_phase = Pending, pst_pod_ip = None,
      pst_conditions = fold (\<lambda>c m. hm_insert c False m) [ContainersReady, PodScheduled, Ready] hm_empty,
      pst_container_statuses = []\<rparr>"

record pod =
  pod_metadata :: metadata
  pod_spec :: pod_spec
  pod_status :: "pod_status option"

record pod_template_spec =
  pt_metadata :: metadata
  pt_spec :: pod_spec

definition pod_is_ready :: "pod \<Rightarrow> bool" where
  "pod_is_ready p = (case pod_status p of
       Some status \<Rightarrow> (case hm_get (pst_conditions status) Ready of
                         Some condition \<Rightarrow> condition | None \<Rightarrow> False)
     | None \<Rightarrow> False)"

definition pod_is_active :: "pod \<Rightarrow> bool" where
  "pod_is_active p = (case pod_status p of
       Some status \<Rightarrow> pst_phase status \<in> {Pending, Running} | None \<Rightarrow> False)"

definition pod_is_succeeded :: "pod \<Rightarrow> bool" where
  "pod_is_succeeded p = (case pod_status p of
       Some status \<Rightarrow> pst_phase status = Succeeded | None \<Rightarrow> False)"

definition pod_is_on_node :: "pod \<Rightarrow> string \<Rightarrow> bool" where
  "pod_is_on_node p node_name = (case ps_node_name (pod_spec p) of
       Some name \<Rightarrow> name = node_name | None \<Rightarrow> False)"

definition pod_requests :: "pod \<Rightarrow> resource \<Rightarrow> i64" where
  "pod_requests p r = sum_list (map (\<lambda>c. container_requests c r) (ps_containers (pod_spec p)))"

definition pod_get_ip :: "pod \<Rightarrow> ipv4 option" where
  "pod_get_ip p = (case pod_status p of Some status \<Rightarrow> pst_pod_ip status | None \<Rightarrow> None)"

definition container_pairs :: "pod \<Rightarrow> (container \<times> container_status option) list" where
  "container_pairs p =
     (let statuses = (case pod_status p of Some status \<Rightarrow> pst_container_statuses status | None \<Rightarrow> [])
      in map (\<lambda>c. (c, List.find (\<lambda>s. cs_name s = co_name c) statuses))
           (ps_containers (pod_spec p)))"

section \<open>Nodes\<close>

record capacity =
  cap_cpu :: u16
  cap_memory :: u64

definition capacity_default :: capacity where
  "capacity_default = \<lparr>cap_cpu = 0, cap_memory = 0\<rparr>"

record node_info =
  ni_architecture :: string
  ni_machine_id :: string
  ni_operating_system :: string
  ni_os_image :: string

definition node_info_default :: node_info where
  "node_info_default =
     \<lparr>ni_architecture = [], ni_machine_id = [], ni_operating_system = [], ni_os_image = []\<rparr>"

datatype node_address_type = Hostname | ExternalIP | InternalIP

record node_status =
  ns_addresses :: "(node_address_type, string) hashmap"
  ns_allocatable :: capacity
  ns_capacity :: capacity
  ns_kubelet_port :: u16
  ns_node_info :: node_info
  ns_last_heartbeat :: time

definition node_status_default :: node_status where
  "node_status_default = \<lparr>ns_addresses = hm_empty, ns_allocatable = capacity_default,
     ns_capacity = capacity_default, ns_kubelet_port = 10250, ns_node_info = node_info_default,
     ns_last_heartbeat = 0\<rparr>"

text \<open>The derived equality of \<open>NodeStatus\<close> ignores the heartbeat.\<close>

definition node_status_eq :: "node_status \<Rightarrow> node_status \<Rightarrow> bool" where
  "node_status_eq a b \<longleftrightarrow> hm_eq (ns_addresses a) (ns_addresses b) \<and>
     ns_allocatable a = ns_allocatable b \<and> ns_capacity a = ns_capacity b \<and>
     ns_kubelet_port a = ns_kubelet_port b \<and> ns_node_info a = ns_node_info b"

record node =
  node_metadata :: metadata
  node_status :: node_status

definition node_eq :: "node \<Rightarrow> node \<Rightarrow> bool" where
  "node_eq a b \<longleftrightarrow> metadata_eq (node_metadata a) (node_metadata b) \<and>
     node_status_eq (node_status a) (node_status b)"

definition node_internal_ip :: "node \<Rightarrow> string option" where
  "node_internal_ip n = map_option snd
     (List.find (\<lambda>(t, _). t = InternalIP) (ns_addresses (node_status n)))"

record kubelet_config =
  kc_node_status_update_frequency :: u64
  kc_node_status_report_frequency :: u64
  kc_pod_status_update_frequency :: u64
  kc_port :: u16

definition kubelet_config_default :: kubelet_config where
  "kubelet_config_default = \<lparr>kc_node_status_update_frequency = 10,
     kc_node_status_report_frequency = 30, kc_pod_status_update_frequency = 10, kc_port = 10250\<rparr>"

definition node_is_ready :: "time \<Rightarrow> node \<Rightarrow> bool" where
  "node_is_ready now n \<longleftrightarrow>
     (let config = kubelet_config_default in
      ns_last_heartbeat (node_status n) >
        now - (uint (kc_node_status_report_frequency config) +
               uint (kc_node_status_update_frequency config)) * 1000000000)"

section \<open>Services, ingresses and bindings\<close>

record service_port =
  sp_port :: u16
  sp_target_port :: u16

text \<open>A \<open>HashSet\<close> of addresses is a list without duplicates, in the set's iteration order.\<close>

record service_spec =
  ss_selector :: labels
  ss_ports :: "service_port list"
  ss_endpoints :: "ipv4 list"
  ss_cluster_ip :: "ipv4 option"

record service =
  svc_metadata :: metadata
  svc_spec :: service_spec

record ingress_service =
  is_name :: string
  is_port :: u16

record ingress_path =
  ip_path :: string
  ip_service :: ingress_service

record ingress_rule =
  ir_host :: "string option"
  ir_paths :: "ingress_path list"

record ingress =
  ing_metadata :: metadata
  ing_rules :: "ingress_rule list"

record binding =
  bd_metadata :: metadata
  bd_target :: object_reference

section \<open>Replica sets\<close>

record replica_set_status =
  rss_replicas :: u32
  rss_ready_replicas :: u32

definition replica_set_status_default :: replica_set_status where
  "replica_set_status_default = \<lparr>rss_replicas = 0, rss_ready_replicas = 0\<rparr>"

record replica_set_spec =
  rsp_selector :: labels
  rsp_template :: pod_template_spec
  rsp_replicas :: u32

record replica_set =
  rs_metadata :: metadata
  rs_spec :: replica_set_spec
  rs_status :: "replica_set_status option"

section \<open>Horizontal pod autoscalers\<close>

datatype policy_selection = SelMin | SelMax | SelDisabled

datatype scaling_policy_type = Pods | Percent

record hpa_scaling_policy =
  sc_type :: scaling_policy_type
  sc_value :: u32
  sc_period_seconds :: u32

record hpa_scaling_rules =
  hr_policies :: "hpa_scaling_policy list"
  hr_select_policy :: policy_selection
  hr_stabilization_window_seconds :: u32

definition longest_period :: "hpa_scaling_rules \<Rightarrow> u32" where
  "longest_period r = fold max (map sc_period_seconds (hr_policies r)) 0"

record hpa_behavior =
  hb_scale_down :: hpa_scaling_rules
  hb_scale_up :: hpa_scaling_rules

definition default_scale_down_behavior :: hpa_scaling_rules where
  "default_scale_down_behavior =
     \<lparr>hr_policies = [\<lparr>sc_type = Percent, sc_value = 100, sc_period_seconds = 60\<rparr>],
      hr_select_policy = SelMax, hr_stabilization_window_seconds = 60\<rparr>"

definition default_scale_up_behavior :: hpa_scaling_rules where
  "default_scale_up_behavior =
     \<lparr>hr_policies = [\<lparr>sc_type = Pods, sc_value = 4, sc_period_seconds = 60\<rparr>,
                     \<lparr>sc_type = Percent, sc_value = 100, sc_period_seconds = 60\<rparr>],
      hr_select_policy = SelMax, hr_stabilization_window_seconds = 0\<rparr>"

definition hpa_behavior_default :: hpa_behavior where
  "hpa_behavior_default = \<lparr>hb_scale_down = default_scale_down_behavior,
     hb_scale_up = default_scale_up_behavior\<rparr>"

datatype metric_target = AverageUtilization u32 | AverageValue u64

record resource_metric_source =
  rms_name :: resource
  rms_target :: metric_target

record function_metric_source =
  fms_name :: string
  fms_target :: u64

datatype metric_source =
    ResourceMetric resource_metric_source
  | FunctionMetric function_metric_source

definition default_metrics :: metric_source where
  "default_metrics = ResourceMetric \<lparr>rms_name = CPU, rms_target = AverageUtilization 80\<rparr>"

record hpa_spec =
  hs_max_replicas :: u32
  hs_min_replicas :: u32
  hs_scale_target_ref :: object_reference
  hs_behavior :: hpa_behavior
  hs_metrics :: metric_source

record hpa_status =
  hst_desired_replicas :: u32
  hst_current_replicas :: u32
  hst_last_scale_time :: "time option"

record hpa =
  hpa_metadata :: metadata
  hpa_spec :: hpa_spec
  hpa_status :: "hpa_status option"

section \<open>GPU jobs\<close>

record slurm_config =
  sl_partition :: string
  sl_total_core_number :: u32
  sl_ntasks_per_node :: u32
  sl_cpus_per_task :: u32
  sl_gres :: string
  sl_scripts :: "string list option"

record gpu_config =
  gc_slurm_config :: slurm_config
  gc_compile_scripts :: string

record gpu_job_spec =
  gs_gpu_config :: gpu_config
  gs_completions :: u32
  gs_parallelism :: u32
  gs_back_off_limit :: u32

record gpu_job_status =
  gst_active :: u32
  gst_failed :: u32
  gst_succeeded :: u32
  gst_filename :: "string option"
  gst_template :: "pod_template_spec option"

definition gpu_job_status_default :: gpu_job_status where
  "gpu_job_status_default = \<lparr>gst_active = 0, gst_failed = 0, gst_succeeded = 0,
     gst_filename = None, gst_template = None\<rparr>"

record gpu_job =
  gj_metadata :: metadata
  gj_spec :: gpu_job_spec
  gj_status :: "gpu_job_status option"

section \<open>Functions and workflows\<close>

record function_spec =
  fs_max_replicas :: u32
  fs_behavior :: hpa_behavior
  fs_metrics :: metric_source

record function_status =
  fst_service_ref :: string
  fst_filename :: string
  fst_host :: string
  fst_image :: "string option"

record func =
  fn_metadata :: metadata
  fn_spec :: function_spec
  fn_status :: "function_status option"

datatype comparison = FieldEquals string string | FieldNumEquals string i32

record choice_rule =
  cr_comparison :: comparison
  cr_next :: string

datatype workflow_state =
    Task string "string option"
  | Choice "choice_rule list" string

record workflow =
  wf_metadata :: metadata
  wf_start_at :: string
  wf_states :: "(string, workflow_state) hashmap"

section \<open>The sum of all objects\<close>

datatype kube_object =
    KPod pod
  | KBinding binding
  | KNode node
  | KService service
  | KReplicaSet replica_set
  | KIngress ingress
  | KHorizontalPodAutoscaler hpa
  | KGpuJob gpu_job
  | KFunction func
  | KWorkflow workflow

definition kind_of :: "kube_object \<Rightarrow> string" where
  "kind_of k = (case k of KPod _ \<Rightarrow> ''Pod'' | KBinding _ \<Rightarrow> ''Binding'' | KNode _ \<Rightarrow> ''Node''
     | KService _ \<Rightarrow> ''Service'' | KReplicaSet _ \<Rightarrow> ''ReplicaSet'' | KIngress _ \<Rightarrow> ''Ingress''
     | KHorizontalPodAutoscaler _ \<Rightarrow> ''HorizontalPodAutoscaler'' | KGpuJob _ \<Rightarrow> ''GpuJob''
     | KFunction _ \<Rightarrow> ''Function'' | KWorkflow _ \<Rightarrow> ''Workflow'')"

text \<open>The default method appends \<open>s\<close> (its test for \<open>ingress\<close> never holds); \<open>Ingress\<close> overrides it.\<close>

definition kind_plural :: "kube_object \<Rightarrow> string" where
  "kind_plural k = (case k of KIngress _ \<Rightarrow> ''Ingresses''
     | _ \<Rightarrow> if kind_of k = ''ingress'' then kind_of k @ ''es'' else kind_of k @ ''s'')"

definition metadata_of :: "kube_object \<Rightarrow> metadata" where
  "metadata_of k = (case k of KPod x \<Rightarrow> pod_metadata x | KBinding x \<Rightarrow> bd_metadata x
     | KNode x \<Rightarrow> node_metadata x | KService x \<Rightarrow> svc_metadata x | KReplicaSet x \<Rightarrow> rs_metadata x
     | KIngress x \<Rightarrow> ing_metadata x | KHorizontalPodAutoscaler x \<Rightarrow> hpa_metadata x
     | KGpuJob x \<Rightarrow> gj_metadata x | KFunction x \<Rightarrow> fn_metadata x | KWorkflow x \<Rightarrow> wf_metadata x)"

definition name_of :: "kube_object \<Rightarrow> string" where
  "name_of k = md_name (metadata_of k)"

definition prefix_of :: "kube_object \<Rightarrow> string" where
  "prefix_of k = ''/api/v1/'' @ to_lowercase (kind_plural k)"

definition uri_of :: "kube_object \<Rightarrow> string" where
  "uri_of k = prefix_of k @ ''/'' @ name_of k"

definition object_reference_of :: "kube_object \<Rightarrow> object_reference" where
  "object_reference_of k = \<lparr>or_kind = kind_of k, or_name = name_of k\<rparr>"

section \<open>Labels\<close>

lemma labels_matches_iff:
  assumes "hm_wf self" and "hm_wf ls"
  shows "labels_matches self ls \<longleftrightarrow> hm_get ls \<subseteq>\<^sub>m hm_get self"
proof
  assume m: "labels_matches self ls"
  show "hm_get ls \<subseteq>\<^sub>m hm_get self"
    unfolding map_le_def
  proof
    fix k assume "k \<in> dom (hm_get ls)"
    then obtain v where v: "hm_get ls k = Some v" by auto
    from m hm_get_SomeD [OF v] have "hm_get self k = Some v"
      by (fastforce simp: labels_matches_def list_all_iff split: option.splits)
    with v show "hm_get ls k = hm_get self k" by simp
  qed
next
  assume le: "hm_get ls \<subseteq>\<^sub>m hm_get self"
  have "hm_get self k = Some v" if "(k, v) \<in> set ls" for k v
    using le that assms by (metis domI hm_get_iff map_le_def)
  then show "labels_matches self ls"
    by (auto simp: labels_matches_def list_all_iff)
qed

lemma labels_matches_empty [simp]: "labels_matches self []"
  by (simp add: labels_matches_def)

lemma labels_matches_trans:
  assumes "hm_wf a" "hm_wf b" "hm_wf c" "labels_matches a b" "labels_matches b c"
  shows "labels_matches a c"
  using assms map_le_trans by (auto simp: labels_matches_iff)

lemma labels_matches_refl: "hm_wf a \<Longrightarrow> labels_matches a a"
  by (simp add: labels_matches_iff)

text \<open>Printing labels and parsing them back.\<close>

definition labels_printable :: "labels \<Rightarrow> bool" where
  "labels_printable ls \<longleftrightarrow> hm_wf ls \<and> ls \<noteq> [] \<and>
     list_all (\<lambda>(k, v). CHR ''='' \<notin> set k \<and> CHR '','' \<notin> set k \<and> CHR ''='' \<notin> set v \<and> CHR '','' \<notin> set v) ls"

lemma labels_try_from_parts_pairs:
  assumes "list_all (\<lambda>(k, v). CHR ''='' \<notin> set k \<and> CHR ''='' \<notin> set v) kvs"
  shows "labels_try_from_parts ls (map (\<lambda>(k, v). k @ ''='' @ v) kvs) =
           Inr (fold (\<lambda>(k, v) m. hm_insert k v m) kvs ls)"
  using assms
proof (induction kvs arbitrary: ls)
  case Nil
  then show ?case by simp
next
  case (Cons kv kvs)
  obtain k v where kv: "kv = (k, v)" by (cases kv)
  with Cons.prems have "split_on (CHR ''='') (k @ ''='' @ v) = [k, v]"
    by (simp add: split_on_append split_on_no_sep)
  with Cons kv show ?case by simp
qed

lemma hm_insert_new: "k \<notin> fst ` set m \<Longrightarrow> hm_insert k v m = m @ [(k, v)]"
  unfolding hm_insert_def by (induction m) auto

lemma fold_hm_insert:
  "distinct (map fst kvs) \<Longrightarrow> fst ` set kvs \<inter> fst ` set m = {} \<Longrightarrow>
     fold (\<lambda>(k, v) m. hm_insert k v m) kvs m = m @ kvs"
proof (induction kvs arbitrary: m)
  case Nil
  then show ?case by simp
next
  case (Cons kv kvs)
  obtain k v where kv: "kv = (k, v)" by (cases kv)
  with Cons.prems have "hm_insert k v m = m @ [(k, v)]"
    by (intro hm_insert_new) auto
  moreover have "fst ` set kvs \<inter> fst ` set (m @ [(k, v)]) = {}"
    using Cons.prems kv by auto
  ultimately show ?case
    using Cons.IH [of "m @ [(k, v)]"] Cons.prems kv by simp
qed

section \<open>Keys of objects\<close>

lemma to_lowercase_append [simp]: "to_lowercase (a @ b) = to_lowercase a @ to_lowercase b"
  by (simp add: to_lowercase_def)

text \<open>The nine directories of the store, by the constructor of the object.\<close>

definition directory :: "kube_object \<Rightarrow> string" where
  "directory k = (case k of KPod _ \<Rightarrow> ''pods'' | KBinding _ \<Rightarrow> ''bindings'' | KNode _ \<Rightarrow> ''nodes''
     | KService _ \<Rightarrow> ''services'' | KReplicaSet _ \<Rightarrow> ''replicasets'' | KIngress _ \<Rightarrow> ''ingresses''
     | KHorizontalPodAutoscaler _ \<Rightarrow> ''horizontalpodautoscalers'' | KGpuJob _ \<Rightarrow> ''gpujobs''
     | KFunction _ \<Rightarrow> ''functions'' | KWorkflow _ \<Rightarrow> ''workflows'')"

lemma prefix_of_directory: "prefix_of k = ''/api/v1/'' @ directory k"
  by (cases k) (simp_all add: prefix_of_def kind_plural_def kind_of_def directory_def
      to_lowercase_def char_to_lower_def char_of_eq_iff)

lemma directory_no_slash: "CHR ''/'' \<notin> set (directory k)"
  by (cases k) (simp_all add: directory_def)

lemma directory_kind: "directory a = directory b \<Longrightarrow> kind_of a = kind_of b"
  by (cases a; cases b) (simp_all add: directory_def kind_of_def)

lemma directory_eq_iff: "directory a = directory b \<longleftrightarrow> kind_of a = kind_of b"
  by (cases a; cases b) (simp_all add: directory_def kind_of_def)

lemma append_sep_inject:
  assumes "c \<notin> set a" and "c \<notin> set b" and "a @ c # x = b @ c # y"
  shows "a = b \<and> x = y"
  using assms
proof (induction a arbitrary: b)
  case Nil
  then show ?case by (cases b) auto
next
  case (Cons h t)
  then show ?case by (cases b) auto
qed

lemma uri_of_inject:
  "uri_of a = uri_of b \<longleftrightarrow> directory a = directory b \<and> name_of a = name_of b"
  using append_sep_inject [of "CHR ''/''" "directory a" "directory b" "name_of a" "name_of b"]
  by (auto simp: uri_of_def prefix_of_directory directory_no_slash)

lemma directory_prefix_kind:
  assumes "starts_with (uri_of a) (prefix_of b)"
  shows "kind_of a = kind_of b"
proof -
  have "starts_with (directory a @ ''/'' @ name_of a) (directory b)"
    using assms by (simp add: uri_of_def prefix_of_directory starts_with_def)
  then show ?thesis
    by (cases a; cases b) (simp_all add: starts_with_def directory_def kind_of_def)
qed

end
