(* ===== verification/Http.thy ===== *)
theory Http
  imports Objects
begin

text \<open>
  The API server as its clients see it: a request goes out, a reply or a transport error comes back.
  The network and the HTTP libraries are a parameter of the model, a function \<open>api\<close> that answers a
  request in a world. \<open>Response<T>\<close> has two optional fields (\<open>resources/src/models/mod.rs\<close>); an error
  reply of the API server carries a \<open>msg\<close> and no \<open>data\<close>, so it decodes as a \<open>Response\<close> too.
\<close>

datatype http_method = GET | PUT | POST | PATCH | DELETE

record api_request =
  rq_method :: http_method
  rq_path :: string
  rq_body :: "kube_object option"

datatype reply_data =
    DObject kube_object
  | DObjects "kube_object list"
  | DPodMetrics "pod_metrics list"
  | DFunctionMetric function_metric

datatype api_reply = SendError string | BadBody nat string | Reply nat "string option" "reply_data option"

type_synonym 'w api = "api_request \<Rightarrow> 'w \<Rightarrow> api_reply \<times> 'w"

text \<open>\<open>send().await?.json::<Response<T>>().await?\<close>: message and data of the reply.\<close>

definition api_send :: "'w api \<Rightarrow> api_request \<Rightarrow> ('w, string option \<times> reply_data option) io" where
  "api_send api r w = (case api r w of
       (SendError e, w') \<Rightarrow> (Inl (Err e), w')
     | (BadBody status e, w') \<Rightarrow> (Inl (Err e), w')
     | (Reply status msg d, w') \<Rightarrow> (Inr (msg, d), w'))"

text \<open>
  The other pattern of the clients: only an error status makes them read the body, as an
  \<open>ErrResponse\<close>, whose message is not optional; it is logged, and the request counts as done.
\<close>

definition api_send_checked :: "'w api \<Rightarrow> api_request \<Rightarrow> ('w, unit) io" where
  "api_send_checked api r w = (case api r w of
       (SendError e, w') \<Rightarrow> (Inl (Err e), w')
     | (BadBody status e, w') \<Rightarrow> (if 400 \<le> status \<and> status < 600 then Inl (Err e) else Inr (), w')
     | (Reply status msg d, w') \<Rightarrow>
         (if 400 \<le> status \<and> status < 600 \<and> msg = None then Inl (Err ''missing field msg'') else Inr (), w'))"

lemma api_send_Inr_iff:
  "api_send api r w = (Inr (m, d), w') \<longleftrightarrow> (\<exists>s. api r w = (Reply s m d, w'))"
  by (auto simp: api_send_def split: prod.splits api_reply.splits)

definition put_object :: "kube_object \<Rightarrow> api_request" where
  "put_object k = \<lparr>rq_method = PUT, rq_path = uri_of k, rq_body = Some k\<rparr>"

section \<open>What an operation sends\<close>

text \<open>
  \<open>logged\<close> records the requests of an operation in front of the world. \<open>sends lg P m\<close>: in every run
  of \<open>m\<close>, whatever the replies are and however it ends, the log only grows, and every request it
  grows by satisfies \<open>P\<close>.
\<close>

definition logged :: "'w api \<Rightarrow> (api_request list \<times> 'w) api" where
  "logged api r = (\<lambda>(log, w). case api r w of (reply, w') \<Rightarrow> (reply, (log @ [r], w')))"

definition sends :: "('s \<Rightarrow> api_request list) \<Rightarrow> (api_request \<Rightarrow> bool) \<Rightarrow> ('s, 'a) io \<Rightarrow> bool" where
  "sends lg P m \<longleftrightarrow> (\<forall>s r s'. m s = (r, s') \<longrightarrow> (\<exists>l. lg s' = lg s @ l \<and> list_all P l))"

named_theorems sends_rules "what the operations of the monad send"

lemma sendsD:
  assumes "sends lg P m" and "m s = (r, s')"
  obtains l where "lg s' = lg s @ l" and "list_all P l"
  using assms unfolding sends_def by blast

lemma sends_return [sends_rules]: "sends lg P (io_return a)"
  by (simp add: sends_def)

lemma sends_fail [sends_rules]: "sends lg P (io_fail e)"
  by (simp add: sends_def)

lemma sends_lift [sends_rules]: "sends lg P (io_lift r)"
  by (simp add: sends_def)

lemma sends_bind:
  assumes m: "sends lg P m" and f: "\<And>a s s'. m s = (Inr a, s') \<Longrightarrow> sends lg P (f a)"
  shows "sends lg P (io_bind m f)"
  unfolding sends_def
proof (intro allI impI)
  fix s r s' assume run: "io_bind m f s = (r, s')"
  obtain q s1 where ms: "m s = (q, s1)" by (cases "m s")
  obtain l1 where l1: "lg s1 = lg s @ l1" "list_all P l1" using sendsD [OF m ms] .
  show "\<exists>l. lg s' = lg s @ l \<and> list_all P l"
  proof (cases q)
    case (Inl e)
    with run ms l1 show ?thesis by (auto simp: io_bind_def)
  next
    case (Inr a)
    with run ms have fa: "f a s1 = (r, s')" by (simp add: io_bind_def)
    from sendsD [OF f [OF ms [unfolded Inr]] fa] obtain l2
      where "lg s' = lg s1 @ l2" "list_all P l2" .
    with l1 show ?thesis by (intro exI [of _ "l1 @ l2"]) simp
  qed
qed

lemma sends_bind_any [sends_rules]:
  "sends lg P m \<Longrightarrow> (\<And>a. sends lg P (f a)) \<Longrightarrow> sends lg P (io_bind m f)"
  by (rule sends_bind)

lemma sends_try [sends_rules]: "sends lg P m \<Longrightarrow> sends lg P (io_try m)"
  unfolding sends_def io_try_def
  by (fastforce split: prod.splits sum.splits fault.splits)

lemma sends_api_send [sends_rules]:
  assumes "P r"
  shows "sends fst P (api_send (logged api) r)"
  using assms
  by (auto simp: sends_def api_send_def logged_def split: prod.splits api_reply.splits)

lemma sends_weaken: "sends lg P m \<Longrightarrow> (\<And>r. P r \<Longrightarrow> Q r) \<Longrightarrow> sends lg Q m"
  unfolding sends_def by (meson list.pred_mono_strong)

section \<open>Exactly what an operation sends\<close>

text \<open>\<open>logs m rs\<close>: every run of \<open>m\<close> sends the requests \<open>rs\<close>, whatever the replies are.\<close>

definition logs :: "(api_request list \<times> 'w, 'a) io \<Rightarrow> api_request list \<Rightarrow> bool" where
  "logs m rs \<longleftrightarrow> (\<forall>s r s'. m s = (r, s') \<longrightarrow> fst s' = fst s @ rs)"

named_theorems logs_rules "exactly what the operations of the monad send"

lemma logsD: "logs m rs \<Longrightarrow> m s = (r, s') \<Longrightarrow> fst s' = fst s @ rs"
  unfolding logs_def by blast

lemma logs_return [logs_rules]: "logs (io_return a) []"
  and logs_fail [logs_rules]: "logs (io_fail e) []"
  and logs_lift [logs_rules]: "logs (io_lift r) []"
  and logs_Pair [logs_rules]: "logs (Pair r) []"
  by (simp_all add: logs_def)

lemma logs_api_send [logs_rules]: "logs (api_send (logged api) r) [r]"
  by (auto simp: logs_def api_send_def logged_def split: prod.splits api_reply.splits)

lemma logs_send_return [logs_rules]: "logs (io_bind (api_send (logged api) r) (\<lambda>_. io_return ())) [r]"
  by (auto simp: logs_def io_bind_def api_send_def logged_def split: prod.splits api_reply.splits sum.splits)

lemma logs_lift_Inr: "logs (f a) rs \<Longrightarrow> logs (io_bind (io_lift (Inr a)) f) rs"
  by (simp add: logs_def io_bind_def)

lemma logs_lift_Inl: "logs (io_bind (io_lift (Inl e)) f) []"
  by (simp add: logs_def io_bind_def)

lemma logs_lift_bind:
  "(\<And>a. r = Inr a \<Longrightarrow> logs (f a) (rs a)) \<Longrightarrow>
     logs (io_bind (io_lift r) f) (case r of Inl _ \<Rightarrow> [] | Inr a \<Rightarrow> rs a)"
  by (cases r) (simp_all add: logs_fail)

lemma logs_try [logs_rules]: "logs m rs \<Longrightarrow> logs (io_try m) rs"
  unfolding logs_def io_try_def by (fastforce split: prod.splits sum.splits fault.splits)

lemma logs_bind_return: "logs m rs \<Longrightarrow> logs (io_bind m (\<lambda>_. io_return ())) rs"
  unfolding logs_def io_bind_def by (fastforce split: prod.splits sum.splits)

section \<open>What an operation leaves alone\<close>

text \<open>\<open>keeps f m\<close>: no run of \<open>m\<close> changes the observation \<open>f\<close> of the state.\<close>

definition keeps :: "('s \<Rightarrow> 'b) \<Rightarrow> ('s, 'a) io \<Rightarrow> bool" where
  "keeps f m \<longleftrightarrow> (\<forall>s r s'. m s = (r, s') \<longrightarrow> f s' = f s)"

named_theorems keeps_rules "operations of the monad that keep an observation"

lemma keepsD: "keeps f m \<Longrightarrow> m s = (r, s') \<Longrightarrow> f s' = f s"
  by (simp add: keeps_def)

lemma keeps_return [keeps_rules]: "keeps f (io_return a)"
  and keeps_fail [keeps_rules]: "keeps f (io_fail e)"
  and keeps_lift [keeps_rules]: "keeps f (io_lift r)"
  by (simp_all add: keeps_def)

lemma keeps_bind [keeps_rules]:
  "keeps f m \<Longrightarrow> (\<And>a. keeps f (g a)) \<Longrightarrow> keeps f (io_bind m g)"
  unfolding keeps_def io_bind_def by (fastforce split: prod.splits sum.splits)

lemma io_try_state: "io_try m s = (r, s') \<Longrightarrow> snd (m s) = s'"
  by (cases "m s"; cases "fst (m s)") (auto simp: io_try_def split: fault.splits)

lemma keeps_try [keeps_rules]: "keeps f m \<Longrightarrow> keeps f (io_try m)"
  unfolding keeps_def
proof (intro allI impI)
  fix s r s'
  assume k: "\<forall>s r s'. m s = (r, s') \<longrightarrow> f s' = f s" and t: "io_try m s = (r, s')"
  show "f s' = f s"
    using k io_try_state [OF t] by (cases "m s") auto
qed

end
