(* ===== verification/F64.thy ===== *)
theory F64
  imports Complex_Main Prelude
begin

text \<open>
  The \<open>f64\<close> arithmetic of the Rust sources: IEEE 754 binary64 values with every operation rounded
  to nearest, ties to even. A finite value is the rational number it stands for. Signed zeros are
  not told apart: the sources divide by a value converted from an unsigned integer or by one they have
  tested against zero, so every zero divisor is the positive zero.

  Casts saturate, and decimal notation is parsed with a single rounding.

  The lemmas: the rounding is exact on integers below \<open>2 ^ 53\<close>, so conversions from \<open>u32\<close> and their
  sums and products below that bound are exact, and the cast to \<open>u32\<close> saturates.
\<close>

datatype f64 = NaN | PInf | NInf | Fin rat

function bit_length :: "int \<Rightarrow> int" where
  "bit_length n = (if n \<le> 0 then 0 else 1 + bit_length (n div 2))"
  by pat_completeness auto
termination
  by (relation "measure nat") auto

declare bit_length.simps [simp del]

definition pow2 :: "int \<Rightarrow> rat" where
  "pow2 e = (if 0 \<le> e then 2 ^ nat e else 1 / 2 ^ nat (- e))"

text \<open>The exponent \<open>e\<close> with \<open>2 ^ e \<le> x < 2 ^ (e + 1)\<close>, for a positive \<open>x\<close>.\<close>

definition exponent :: "rat \<Rightarrow> int" where
  "exponent x = (case quotient_of x of (n, d) \<Rightarrow>
     let k = bit_length n - bit_length d
     in if pow2 k \<le> x then k else k - 1)"

definition round_half_even :: "rat \<Rightarrow> int" where
  "round_half_even x = (let f = \<lfloor>x\<rfloor>; r = x - of_int f in
     if r < 1/2 then f else if r > 1/2 then f + 1 else if even f then f else f + 1)"

text \<open>The unit in the last place of the binade of \<open>x\<close>; subnormal numbers have the least one.\<close>

definition ulp_exponent :: "rat \<Rightarrow> int" where
  "ulp_exponent x = max (exponent x - 52) (- 1074)"

definition round_pos :: "rat \<Rightarrow> rat" where
  "round_pos x = (let u = pow2 (ulp_exponent x) in of_int (round_half_even (x / u)) * u)"

definition f64_round :: "rat \<Rightarrow> f64" where
  "f64_round x =
     (if x = 0 then Fin 0
      else let r = round_pos \<bar>x\<bar> in
           if r \<ge> 2 ^ 1024 then (if x > 0 then PInf else NInf)
           else Fin (if x > 0 then r else - r))"

definition f64_of_int :: "int \<Rightarrow> f64" where
  "f64_of_int n = f64_round (of_int n)"

fun f64_add :: "f64 \<Rightarrow> f64 \<Rightarrow> f64" where
  "f64_add (Fin a) (Fin b) = f64_round (a + b)"
| "f64_add NaN _ = NaN"
| "f64_add _ NaN = NaN"
| "f64_add PInf NInf = NaN"
| "f64_add NInf PInf = NaN"
| "f64_add PInf _ = PInf"
| "f64_add NInf _ = NInf"
| "f64_add _ PInf = PInf"
| "f64_add _ NInf = NInf"

fun f64_neg :: "f64 \<Rightarrow> f64" where
  "f64_neg (Fin a) = Fin (- a)"
| "f64_neg NaN = NaN"
| "f64_neg PInf = NInf"
| "f64_neg NInf = PInf"

definition f64_sub :: "f64 \<Rightarrow> f64 \<Rightarrow> f64" where
  "f64_sub a b = f64_add a (f64_neg b)"

definition f64_sign :: "f64 \<Rightarrow> int" where
  "f64_sign a = (case a of NaN \<Rightarrow> 0 | PInf \<Rightarrow> 1 | NInf \<Rightarrow> - 1
                         | Fin x \<Rightarrow> if x > 0 then 1 else if x < 0 then - 1 else 0)"

definition f64_inf :: "int \<Rightarrow> f64" where
  "f64_inf s = (if s > 0 then PInf else if s < 0 then NInf else NaN)"

fun f64_mul :: "f64 \<Rightarrow> f64 \<Rightarrow> f64" where
  "f64_mul (Fin a) (Fin b) = f64_round (a * b)"
| "f64_mul a b = f64_inf (f64_sign a * f64_sign b)"

fun f64_div :: "f64 \<Rightarrow> f64 \<Rightarrow> f64" where
  "f64_div (Fin a) (Fin b) =
     (if b = 0 then f64_inf (f64_sign (Fin a)) else f64_round (a / b))"
| "f64_div NaN _ = NaN"
| "f64_div _ NaN = NaN"
| "f64_div (Fin _) _ = Fin 0"
| "f64_div a (Fin b) = f64_inf (f64_sign a * (if b < 0 then - 1 else 1))"
| "f64_div _ _ = NaN"

fun f64_ceil :: "f64 \<Rightarrow> f64" where
  "f64_ceil (Fin a) = Fin (of_int \<lceil>a\<rceil>)"
| "f64_ceil a = a"

fun f64_less :: "f64 \<Rightarrow> f64 \<Rightarrow> bool" where
  "f64_less (Fin a) (Fin b) = (a < b)"
| "f64_less NaN _ = False"
| "f64_less _ NaN = False"
| "f64_less NInf b = (b \<noteq> NInf)"
| "f64_less PInf _ = False"
| "f64_less (Fin _) b = (b = PInf)"

text \<open>\<open>as u32\<close>: towards zero, saturating, \<open>NaN\<close> to zero.\<close>

fun f64_as_u32 :: "f64 \<Rightarrow> u32" where
  "f64_as_u32 NaN = 0"
| "f64_as_u32 PInf = - 1"
| "f64_as_u32 NInf = 0"
| "f64_as_u32 (Fin a) =
     (if a < 0 then 0 else if \<lfloor>a\<rfloor> \<ge> 2 ^ 32 then - 1 else word_of_int \<lfloor>a\<rfloor>)"

fun f64_as_i64 :: "f64 \<Rightarrow> i64" where
  "f64_as_i64 NaN = 0"
| "f64_as_i64 PInf = word_of_int (2 ^ 63 - 1)"
| "f64_as_i64 NInf = word_of_int (- (2 ^ 63))"
| "f64_as_i64 (Fin a) =
     (let n = (if a < 0 then \<lceil>a\<rceil> else \<lfloor>a\<rfloor>)
      in word_of_int (max (- (2 ^ 63)) (min (2 ^ 63 - 1) n)))"

section \<open>Decimal notation\<close>

text \<open>
  \<open>str::parse::<f64>\<close>: an optional sign, then \<open>inf\<close>, \<open>infinity\<close> or \<open>nan\<close> in any case, or digits with an
  optional point and at least one digit, and an optional decimal exponent. The value is the decimal
  number, rounded once.
\<close>

definition is_digit :: "char \<Rightarrow> bool" where
  "is_digit c \<longleftrightarrow> 48 \<le> (of_char c :: nat) \<and> (of_char c :: nat) \<le> 57"

definition digits_value :: "string \<Rightarrow> nat" where
  "digits_value ds = fold (\<lambda>c n. 10 * n + (of_char c - 48)) ds 0"

definition split_sign :: "string \<Rightarrow> int \<times> string" where
  "split_sign s = (case s of
       [] \<Rightarrow> (1, s)
     | c # t \<Rightarrow> if c = CHR ''-'' then (- 1, t) else if c = CHR ''+'' then (1, t) else (1, s))"

definition parse_exponent :: "string \<Rightarrow> int option" where
  "parse_exponent s = (case s of
       [] \<Rightarrow> Some 0
     | e # t \<Rightarrow>
         if e \<in> {CHR ''e'', CHR ''E''}
         then (case split_sign t of (sign, ds) \<Rightarrow>
                 if ds \<noteq> [] \<and> list_all is_digit ds then Some (sign * int (digits_value ds)) else None)
         else None)"

definition scale10 :: "rat \<Rightarrow> int \<Rightarrow> rat" where
  "scale10 x e = (if 0 \<le> e then x * 10 ^ nat e else x / 10 ^ nat (- e))"

definition parse_decimal :: "string \<Rightarrow> rat option" where
  "parse_decimal s =
     (let whole = takeWhile is_digit s; rest = dropWhile is_digit s;
          (frac, rest) = (case rest of
               [] \<Rightarrow> ([], [])
             | c # t \<Rightarrow> if c = CHR ''.'' then (takeWhile is_digit t, dropWhile is_digit t) else ([], rest))
      in if whole = [] \<and> frac = [] then None
         else map_option (\<lambda>e. scale10 (of_nat (digits_value (whole @ frac))) (e - int (length frac)))
                (parse_exponent rest))"

definition parse_f64 :: "string \<Rightarrow> f64 option" where
  "parse_f64 s = (case split_sign s of (sign, t) \<Rightarrow>
     if to_lowercase t \<in> {''inf'', ''infinity''} then Some (if sign < 0 then NInf else PInf)
     else if to_lowercase t = ''nan'' then Some NaN
     else map_option (\<lambda>x. f64_round (of_int sign * x)) (parse_decimal t))"

section \<open>Exactness on integers\<close>

lemma bit_length_le: "n < 2 ^ k \<Longrightarrow> bit_length n \<le> int k"
proof (induction k arbitrary: n)
  case 0
  then show ?case by (simp add: bit_length.simps)
next
  case (Suc k)
  show ?case
  proof (cases "n \<le> 0")
    case True
    then show ?thesis by (simp add: bit_length.simps)
  next
    case False
    from Suc.prems have "n div 2 < 2 ^ k" by simp
    with False Suc.IH show ?thesis by (simp add: bit_length.simps [of n])
  qed
qed

lemma bit_length_nonneg: "0 \<le> bit_length n"
  by (induction n rule: bit_length.induct) (simp add: bit_length.simps)

lemma bit_length_pos: "0 < n \<Longrightarrow> 1 \<le> bit_length n"
  using bit_length_nonneg [of "n div 2"] by (simp add: bit_length.simps [of n])

lemma bit_length_one [simp]: "bit_length 1 = 1"
  by (simp add: bit_length.simps)

lemma round_half_even_of_int [simp]: "round_half_even (of_int n) = n"
  by (simp add: round_half_even_def)

lemma pow2_pos: "0 < pow2 e"
  by (simp add: pow2_def)

lemma exponent_int_bounds:
  assumes "0 < n" and "n < 2 ^ 53"
  shows "- 1 \<le> exponent (of_int n)" and "exponent (of_int n) \<le> 52"
proof -
  have "bit_length n \<le> 53" using bit_length_le [of n 53] assms by simp
  moreover have "1 \<le> bit_length n" using assms by (intro bit_length_pos) simp
  ultimately show "- 1 \<le> exponent (of_int n)" "exponent (of_int n) \<le> 52"
    by (auto simp: exponent_def Let_def)
qed

lemma round_pos_int:
  assumes "0 < n" and "n < 2 ^ 53"
  shows "round_pos (of_int n) = of_int n"
proof -
  define e where "e = ulp_exponent (of_int n)"
  have e: "e \<le> 0"
    using exponent_int_bounds [OF assms] by (simp add: e_def ulp_exponent_def)
  have "of_int n / pow2 e = (of_int (n * 2 ^ nat (- e)) :: rat)"
    using e by (auto simp: pow2_def)
  then have "round_half_even (of_int n / pow2 e) = n * 2 ^ nat (- e)"
    by (metis round_half_even_of_int)
  moreover have "of_int (n * 2 ^ nat (- e)) * pow2 e = (of_int n :: rat)"
    using e by (auto simp: pow2_def)
  ultimately show ?thesis
    by (simp add: round_pos_def e_def)
qed

lemma f64_round_int:
  assumes "\<bar>n\<bar> < 2 ^ 53"
  shows "f64_round (of_int n) = Fin (of_int n)"
proof -
  have big: "\<not> (2 ^ 1024 \<le> (of_int m :: rat))" if "m < 2 ^ 53" for m
  proof -
    have "(of_int m :: rat) < of_int (2 ^ 53)" using that by (simp only: of_int_less_iff)
    also have "\<dots> \<le> 2 ^ 1024" by (simp add: power_increasing)
    finally show ?thesis by simp
  qed
  consider "n = 0" | "0 < n" | "n < 0" by linarith
  then show ?thesis
  proof cases
    case 1
    then show ?thesis by (simp add: f64_round_def)
  next
    case 2
    with assms show ?thesis
      using big [of n] by (simp add: f64_round_def round_pos_int)
  next
    case 3
    with assms have m: "0 < - n" "- n < 2 ^ 53" by auto
    from 3 have "\<bar>of_int n :: rat\<bar> = of_int (- n)" by simp
    with 3 m show ?thesis
      using big [of "- n"] round_pos_int [OF m] by (simp add: f64_round_def)
  qed
qed

lemma f64_of_int_exact: "\<bar>n\<bar> < 2 ^ 53 \<Longrightarrow> f64_of_int n = Fin (of_int n)"
  by (simp add: f64_of_int_def f64_round_int)

abbreviation f64_of_u32 :: "u32 \<Rightarrow> f64" where
  "f64_of_u32 n \<equiv> f64_of_int (uint n)"

abbreviation f64_of_u64 :: "u64 \<Rightarrow> f64" where
  "f64_of_u64 n \<equiv> f64_of_int (uint n)"

abbreviation f64_of_i64 :: "i64 \<Rightarrow> f64" where
  "f64_of_i64 n \<equiv> f64_of_int (sint n)"

lemma f64_of_u32_exact [simp]: "f64_of_u32 n = Fin (of_int (uint n))"
proof -
  have "uint n < 2 ^ 32" using uint_bounded [of n] by simp
  then show ?thesis
    by (intro f64_of_int_exact) auto
qed

lemma f64_as_u32_int:
  "f64_as_u32 (Fin (of_int n)) = word_of_int (max 0 (min n (2 ^ 32 - 1)))"
proof -
  consider "n < 0" | "0 \<le> n" "n < 2 ^ 32" | "2 ^ 32 \<le> n" by linarith
  then show ?thesis
  proof cases
    case 1
    then show ?thesis by simp
  next
    case 2
    then show ?thesis by simp
  next
    case 3
    then have "max 0 (min n (2 ^ 32 - 1)) = 4294967295" by simp
    moreover have "word_of_int 4294967295 = (- 1 :: u32)" by simp
    ultimately show ?thesis using 3 by simp
  qed
qed

end
