(* ===== verification/ReplicaCalculator.thy ===== *)
theory ReplicaCalculator
  imports Http F64
begin

text \<open>
  The replica calculator of the pod autoscaler
  (\<open>controllers/src/podautoscaler/replica_calculator.rs\<close>, \<open>metrics.rs\<close>): the metrics of the pods a
  selector picks, the ratio of their use to the target, and the replica count the ratio asks for.
  Sums of \<open>i64\<close> wrap around; \<open>/\<close> on \<open>i64\<close> truncates and panics on zero; ratios are \<open>f64\<close>.
\<close>

section \<open>The metrics client\<close>

text \<open>The containers of a pod are summed up to the first one without the resource.\<close>

fun sum_usage :: "resource \<Rightarrow> container_metrics list \<Rightarrow> i64" where
  "sum_usage r [] = 0"
| "sum_usage r (c # cs) =
     (case hm_get (cm_usage c) r of None \<Rightarrow> 0 | Some usage \<Rightarrow> usage + sum_usage r cs)"

definition collect_metrics :: "resource \<Rightarrow> pod_metrics list \<Rightarrow> pod_metrics_info" where
  "collect_metrics r ms = fold (\<lambda>p info.
     if pms_containers p = [] then info
     else hm_insert (pms_name p)
            \<lparr>pm_timestamp = pms_timestamp p, pm_window = pms_window p,
             pm_value = sum_usage r (pms_containers p)\<rparr> info) ms hm_empty"

definition get_pod_metrics :: "'w api \<Rightarrow> labels \<Rightarrow> ('w, pod_metrics list) io" where
  "get_pod_metrics api selector =
     io_bind (api_send api \<lparr>rq_method = GET,
                rq_path = ''/api/v1/metrics/pods?selector='' @ labels_to_string selector,
                rq_body = None\<rparr>)
       (\<lambda>(msg, d). case d of
          None \<Rightarrow> io_fail (Err ''Failed to get pod metrics'')
        | Some (DPodMetrics ms) \<Rightarrow> io_return ms
        | Some _ \<Rightarrow> io_fail (Err ''decode''))"

definition get_resource_metric_value ::
    "'w api \<Rightarrow> resource \<Rightarrow> labels \<Rightarrow> ('w, pod_metrics_info) io" where
  "get_resource_metric_value api r selector =
     io_bind (get_pod_metrics api selector)
       (\<lambda>metrics. if metrics = [] then io_fail (Err ''No metrics found'')
                  else io_return (collect_metrics r metrics))"

definition get_function_metric :: "'w api \<Rightarrow> string \<Rightarrow> ('w, function_metric) io" where
  "get_function_metric api func_name =
     io_bind (api_send api \<lparr>rq_method = GET,
                rq_path = ''/api/v1/metrics/functions/'' @ func_name, rq_body = None\<rparr>)
       (\<lambda>(msg, d). case d of
          None \<Rightarrow> io_fail (Err ''Failed to get function metrics'')
        | Some (DFunctionMetric m) \<Rightarrow> io_return m
        | Some _ \<Rightarrow> io_fail (Err ''decode''))"

section \<open>Filtering pods\<close>

definition get_pods :: "(string, pod) hashmap \<Rightarrow> labels \<Rightarrow> pod list" where
  "get_pods store selector =
     filter (\<lambda>p. labels_matches (md_labels (pod_metadata p)) selector) (hm_values store)"

text \<open>
  A pod without metrics is missing; the metrics of a failed pod and of one that is not ready are
  dropped; a pod without status ends the computation with an error.
\<close>

fun filter_pods ::
    "pod_metrics_info \<Rightarrow> pod list \<Rightarrow> (pod_metrics_info \<times> pod list) outcome" where
  "filter_pods metrics [] = Inr (metrics, [])"
| "filter_pods metrics (p # ps) =
     (case pod_status p of
        None \<Rightarrow> Inl (Err (''Missing status for pod '' @ md_name (pod_metadata p)))
      | Some status \<Rightarrow>
          (case hm_get metrics (md_name (pod_metadata p)) of
             None \<Rightarrow> (case filter_pods metrics ps of
                        Inl e \<Rightarrow> Inl e | Inr (m, missing) \<Rightarrow> Inr (m, p # missing))
           | Some _ \<Rightarrow>
               if pst_phase status = Failed \<or>
                  \<not> (case hm_get (pst_conditions status) Ready of Some c \<Rightarrow> c | None \<Rightarrow> False)
               then filter_pods (hm_remove (md_name (pod_metadata p)) metrics) ps
               else filter_pods metrics ps))"

section \<open>Scale ratios\<close>

definition metrics_total :: "pod_metrics_info \<Rightarrow> i64" where
  "metrics_total metrics = sum_list (map (\<lambda>(_, m). pm_value m) metrics)"

definition calc_scale_ratio_by_utilization ::
    "pod_metrics_info \<Rightarrow> pod list \<Rightarrow> u32 \<Rightarrow> resource \<Rightarrow> f64" where
  "calc_scale_ratio_by_utilization metrics pods target_utilization r =
     (let requests_total = sum_list (map (\<lambda>p. pod_requests p r)
            (filter (\<lambda>p. hm_get metrics (md_name (pod_metadata p)) \<noteq> None) pods))
      in if requests_total = 0 then Fin 1
         else let current_utilization =
                    f64_div (f64_of_i64 (metrics_total metrics * 100)) (f64_of_i64 requests_total)
              in f64_div current_utilization (f64_of_u32 target_utilization))"

definition i64_div :: "i64 \<Rightarrow> i64 \<Rightarrow> i64 outcome" where
  "i64_div a b = (if b = 0 then Inl (Panic ''attempt to divide by zero'')
     else if sint a = - (2 ^ 63) \<and> sint b = - 1 then Inl (Panic ''attempt to divide with overflow'')
     else Inr (word_of_int (sgn (sint a) * sgn (sint b) * (\<bar>sint a\<bar> div \<bar>sint b\<bar>))))"

definition calc_scale_ratio_by_value :: "pod_metrics_info \<Rightarrow> u64 \<Rightarrow> f64 outcome" where
  "calc_scale_ratio_by_value metrics target_value =
     (case i64_div (metrics_total metrics) (of_nat (length metrics)) of
        Inl e \<Rightarrow> Inl e
      | Inr current_value \<Rightarrow>
          if target_value = 0 then Inr (Fin 1)
          else Inr (f64_div (f64_of_i64 current_value) (f64_of_u64 target_value)))"

text \<open>\<open>metrics.insert\<close> of the assumed value for every missing pod.\<close>

definition assume_missing ::
    "time \<Rightarrow> (pod \<Rightarrow> i64) \<Rightarrow> pod list \<Rightarrow> pod_metrics_info \<Rightarrow> pod_metrics_info" where
  "assume_missing now val missing metrics =
     fold (\<lambda>p m. hm_insert (md_name (pod_metadata p))
             \<lparr>pm_timestamp = now, pm_window = 60, pm_value = val p\<rparr> m) missing metrics"

text \<open>The final decision both calculations share.\<close>

definition settle_replicas :: "u32 \<Rightarrow> f64 \<Rightarrow> f64 \<Rightarrow> nat \<Rightarrow> u32" where
  "settle_replicas current_replicas scale_ratio new_scale_ratio n_metrics =
     (let new_replicas = f64_as_u32 (f64_ceil (f64_mul new_scale_ratio (f64_of_int (int n_metrics))))
      in if (f64_less (Fin 1) new_scale_ratio \<and>
               (f64_less scale_ratio (Fin 1) \<or> new_replicas < current_replicas)) \<or>
            (f64_less new_scale_ratio (Fin 1) \<and>
               (f64_less (Fin 1) scale_ratio \<or> new_replicas > current_replicas))
         then current_replicas else new_replicas)"

definition calc_replicas_by_utilization ::
    "'w api \<Rightarrow> (string, pod) hashmap \<Rightarrow> time \<Rightarrow> u32 \<Rightarrow> u32 \<Rightarrow> resource \<Rightarrow> labels \<Rightarrow> ('w, u32) io" where
  "calc_replicas_by_utilization api pod_store now current_replicas target_utilization r selector =
     io_bind (get_resource_metric_value api r selector) (\<lambda>metrics.
       let pods = get_pods pod_store selector in
       if pods = [] then io_fail (Err ''No pods found when calculating replicas'')
       else io_bind (io_lift (filter_pods metrics pods)) (\<lambda>(metrics, missing_pods).
         let scale_ratio = calc_scale_ratio_by_utilization metrics pods target_utilization r;
             metrics = assume_missing now
               (\<lambda>p. if f64_less scale_ratio (Fin 1) then pod_requests p r else 0)
               missing_pods metrics;
             new_scale_ratio = calc_scale_ratio_by_utilization metrics pods target_utilization r
         in io_return (settle_replicas current_replicas scale_ratio new_scale_ratio (length metrics))))"

definition calc_replicas_by_value ::
    "'w api \<Rightarrow> (string, pod) hashmap \<Rightarrow> time \<Rightarrow> u32 \<Rightarrow> u64 \<Rightarrow> resource \<Rightarrow> labels \<Rightarrow> ('w, u32) io" where
  "calc_replicas_by_value api pod_store now current_replicas target_value r selector =
     io_bind (get_resource_metric_value api r selector) (\<lambda>metrics.
       let pods = get_pods pod_store selector in
       if pods = [] then io_fail (Err ''No pods found when calculating replicas'')
       else io_bind (io_lift (filter_pods metrics pods)) (\<lambda>(metrics, missing_pods).
         io_bind (io_lift (calc_scale_ratio_by_value metrics target_value)) (\<lambda>scale_ratio.
           let metrics = assume_missing now
                 (\<lambda>p. if f64_less scale_ratio (Fin 1) then target_value else 0)
                 missing_pods metrics
           in io_bind (io_lift (calc_scale_ratio_by_value metrics target_value)) (\<lambda>new_scale_ratio.
                io_return
                  (settle_replicas current_replicas scale_ratio new_scale_ratio (length metrics))))))"

definition calc_function_replicas :: "'w api \<Rightarrow> u32 \<Rightarrow> u64 \<Rightarrow> string \<Rightarrow> ('w, u32) io" where
  "calc_function_replicas api current_replicas target_value func_name =
     io_bind (get_function_metric api func_name) (\<lambda>metric.
       io_bind (io_lift (i64_div (fm_value metric) (ucast current_replicas))) (\<lambda>current_value.
         let scale_ratio = f64_div (f64_of_i64 current_value) (f64_of_u64 target_value)
         in io_return (f64_as_u32 (f64_ceil (f64_mul (f64_of_u32 current_replicas) scale_ratio)))))"

section \<open>Facts\<close>

text \<open>What is left of the metrics belongs to pods that are ready and did not fail.\<close>

definition pod_usable :: "pod \<Rightarrow> bool" where
  "pod_usable p \<longleftrightarrow> pod_is_ready p \<and>
     (case pod_status p of Some s \<Rightarrow> pst_phase s \<noteq> Failed | None \<Rightarrow> False)"

lemma filter_pods_error:
  "filter_pods metrics pods = Inl e \<Longrightarrow> \<exists>p \<in> set pods. pod_status p = None"
proof (induction metrics pods arbitrary: e rule: filter_pods.induct)
  case (1 metrics)
  then show ?case by simp
next
  case (2 metrics p ps)
  then show ?case
    by (fastforce split: option.splits sum.splits prod.splits if_splits)
qed

lemma filter_pods_submap:
  assumes "filter_pods metrics pods = Inr (m, missing)"
  shows "hm_get m \<subseteq>\<^sub>m hm_get metrics"
  using assms
proof (induction metrics pods arbitrary: m missing rule: filter_pods.induct)
  case (1 metrics)
  then show ?case by simp
next
  case (2 metrics p ps)
  have drop: "(hm_get metrics)(k := None) \<subseteq>\<^sub>m hm_get metrics" for k
    by (simp add: map_le_def)
  show ?case
    using "2.prems" "2.IH"
    by (fastforce split: option.splits sum.splits prod.splits if_splits
        intro: map_le_trans [OF _ drop])
qed

lemma filter_pods_missing:
  assumes "filter_pods metrics pods = Inr (m, missing)" and "p \<in> set missing"
  shows "p \<in> set pods \<and> hm_get m (md_name (pod_metadata p)) = None"
  using assms
proof (induction metrics pods arbitrary: m missing rule: filter_pods.induct)
  case (1 metrics)
  then show ?case by simp
next
  case (2 metrics q qs)
  show ?case
  proof (cases "hm_get metrics (md_name (pod_metadata q))")
    case None
    with "2.prems"(1) obtain s missing' where s: "pod_status q = Some s"
      and r: "filter_pods metrics qs = Inr (m, missing')" and "missing = q # missing'"
      by (auto split: option.splits sum.splits prod.splits)
    then have "p = q \<or> p \<in> set missing'" using "2.prems"(2) by simp
    then show ?thesis
    proof
      assume "p = q"
      moreover have "hm_get m (md_name (pod_metadata q)) = None"
        using filter_pods_submap [OF r] None by (metis domIff map_le_def)
      ultimately show ?thesis by simp
    next
      assume "p \<in> set missing'"
      with "2.IH"(1) [OF s None r] show ?thesis by simp
    qed
  next
    case (Some v)
    with "2.prems" "2.IH" show ?thesis
      by (fastforce split: option.splits if_splits)
  qed
qed

lemma filter_pods_keeps_usable:
  assumes "filter_pods metrics pods = Inr (m, missing)" and "p \<in> set pods"
    and "hm_get m (md_name (pod_metadata p)) \<noteq> None"
  shows "pod_usable p"
  using assms
proof (induction metrics pods arbitrary: m missing rule: filter_pods.induct)
  case (1 metrics)
  then show ?case by simp
next
  case (2 metrics q qs)
  from "2.prems"(1) obtain s where s: "pod_status q = Some s"
    by (auto split: option.splits)
  show ?case
  proof (cases "hm_get metrics (md_name (pod_metadata q))")
    case None
    with "2.prems"(1) s obtain missing' where r: "filter_pods metrics qs = Inr (m, missing')"
      by (auto split: sum.splits prod.splits)
    have "p \<noteq> q"
      using filter_pods_submap [OF r] None "2.prems"(3) by (metis domIff map_le_def)
    with "2.IH"(1) [OF s None r] "2.prems" show ?thesis by simp
  next
    case (Some v)
    show ?thesis
    proof (cases "pst_phase s = Failed \<or>
        \<not> (case hm_get (pst_conditions s) Ready of Some c \<Rightarrow> c | None \<Rightarrow> False)")
      case True
      let ?m = "hm_remove (md_name (pod_metadata q)) metrics"
      from True Some s "2.prems"(1) have r: "filter_pods ?m qs = Inr (m, missing)" by simp
      have "hm_get m (md_name (pod_metadata q)) = None"
        using filter_pods_submap [OF r]
        by (metis domIff fun_upd_same hm_get_remove map_le_def)
      with "2.prems"(3) have "p \<noteq> q" by auto
      with "2.IH"(2) [OF s Some True r] "2.prems" show ?thesis by simp
    next
      case False
      with Some s "2.prems"(1) have r: "filter_pods metrics qs = Inr (m, missing)" by simp
      show ?thesis
      proof (cases "p = q")
        case True
        with False s show ?thesis
          by (auto simp: pod_usable_def pod_is_ready_def split: option.splits)
      next
        assume "p \<noteq> q"
        with "2.IH"(3) [OF s Some False r] "2.prems" show ?thesis by simp
      qed
    qed
  qed
qed

text \<open>The decision never goes against the ratio.\<close>

lemma settle_replicas_up:
  "f64_less (Fin 1) new_ratio \<Longrightarrow> current \<le> settle_replicas current ratio new_ratio n"
  by (auto simp: settle_replicas_def Let_def not_less)

lemma settle_replicas_down:
  "f64_less new_ratio (Fin 1) \<Longrightarrow> settle_replicas current ratio new_ratio n \<le> current"
  by (auto simp: settle_replicas_def Let_def not_less)

lemma calc_scale_ratio_by_value_empty:
  "calc_scale_ratio_by_value [] t = Inl (Panic ''attempt to divide by zero'')"
  by (simp add: calc_scale_ratio_by_value_def i64_div_def)

lemma filter_pods_none_usable:
  assumes "\<forall>p \<in> set pods. pod_status p \<noteq> None \<and> \<not> pod_is_ready p"
  shows "\<exists>m missing. filter_pods metrics pods = Inr (m, missing) \<and> hm_get m \<subseteq>\<^sub>m hm_get metrics \<and>
           (\<forall>p \<in> set pods. hm_get m (md_name (pod_metadata p)) = None)"
proof -
  have "\<exists>m missing. filter_pods metrics pods = Inr (m, missing)"
    using assms by (cases "filter_pods metrics pods") (use filter_pods_error in \<open>fastforce+\<close>)
  then obtain m missing where r: "filter_pods metrics pods = Inr (m, missing)" by blast
  then show ?thesis
    using filter_pods_submap [OF r] filter_pods_keeps_usable [OF r] assms
    by (fastforce simp: pod_usable_def)
qed

end
