(* ===== verification/Autoscaler.thy ===== *)
theory Autoscaler
  imports ReplicaCalculator
begin

text \<open>
  The horizontal pod autoscaler (\<open>controllers/src/podautoscaler/horizontal.rs\<close>, \<open>utils.rs\<close>): its state,
  the stabilisation of recommendations, the rate limits of the scaling behaviour, the record of scale
  events, one reconciliation, and the steps of its main loop with the work queue.
  The clock is an argument: \<open>now\<close> is the reading a synchronous function works with.
  The delay queue is the list of its entries (name and due time), in insertion order.
\<close>

section \<open>State\<close>

record recommendation =
  rec_replicas :: u32
  rec_time :: time

record scale_event =
  se_change :: u32
  se_time :: time

record pod_autoscaler =
  pa_hpa_store :: "(string, hpa) hashmap"
  pa_pod_store :: "(string, pod) hashmap"
  pa_recommendations :: "(string, recommendation list) hashmap"
  pa_scale_up_events :: "(string, scale_event list) hashmap"
  pa_scale_down_events :: "(string, scale_event list) hashmap"
  pa_work_queue :: "(string \<times> time) list"
  pa_in_queue :: "string list"

definition pod_autoscaler_new :: pod_autoscaler where
  "pod_autoscaler_new = \<lparr>pa_hpa_store = hm_empty, pa_pod_store = hm_empty,
     pa_recommendations = hm_empty, pa_scale_up_events = hm_empty, pa_scale_down_events = hm_empty,
     pa_work_queue = [], pa_in_queue = []\<rparr>"

section \<open>Stabilisation\<close>

definition up_bound :: "time \<Rightarrow> recommendation list \<Rightarrow> u32 \<Rightarrow> u32" where
  "up_bound up_cutoff recs d =
     fold (\<lambda>r acc. if rec_time r \<ge> up_cutoff then min acc (rec_replicas r) else acc) recs d"

definition down_bound :: "time \<Rightarrow> recommendation list \<Rightarrow> u32 \<Rightarrow> u32" where
  "down_bound down_cutoff recs d =
     fold (\<lambda>r acc. if rec_time r \<ge> down_cutoff then max acc (rec_replicas r) else acc) recs d"

definition stabilize_recommendation ::
    "time \<Rightarrow> string \<Rightarrow> u32 \<Rightarrow> u32 \<Rightarrow> hpa_behavior \<Rightarrow> pod_autoscaler \<Rightarrow> u32 \<times> pod_autoscaler" where
  "stabilize_recommendation now hpa_name current_replicas desired_replicas behavior pa =
     (let up_cutoff = now - seconds (hr_stabilization_window_seconds (hb_scale_up behavior));
          down_cutoff = now - seconds (hr_stabilization_window_seconds (hb_scale_down behavior))
      in case hm_get (pa_recommendations pa) hpa_name of
           None \<Rightarrow> (current_replicas, pa)
         | Some recs \<Rightarrow>
             let recs = dropWhile (\<lambda>r. rec_time r < up_cutoff \<and> rec_time r < down_cutoff) recs;
                 recommendation = min (max current_replicas (up_bound up_cutoff recs desired_replicas))
                                      (down_bound down_cutoff recs desired_replicas);
                 recs = recs @ [\<lparr>rec_replicas = desired_replicas, rec_time = now\<rparr>]
             in (recommendation,
                 pa\<lparr>pa_recommendations := hm_insert hpa_name recs (pa_recommendations pa)\<rparr>))"

section \<open>Rate limits\<close>

definition get_replicas_change_in_period :: "time \<Rightarrow> u32 \<Rightarrow> scale_event list option \<Rightarrow> u32" where
  "get_replicas_change_in_period now period_seconds events =
     (case events of
        Some es \<Rightarrow> sum_list (map se_change (filter (\<lambda>e. se_time e \<ge> now - seconds period_seconds) es))
      | None \<Rightarrow> 0)"

definition up_period_limit :: "hpa_scaling_policy \<Rightarrow> u32 \<Rightarrow> u32" where
  "up_period_limit policy period_start = (case sc_type policy of
       Pods \<Rightarrow> period_start + sc_value policy
     | Percent \<Rightarrow> f64_as_u32 (f64_ceil (f64_mul (f64_of_u32 period_start)
                    (f64_add (Fin 1) (f64_div (f64_of_u32 (sc_value policy)) (Fin 100))))))"

definition down_period_limit :: "hpa_scaling_policy \<Rightarrow> u32 \<Rightarrow> u32" where
  "down_period_limit policy period_start = (case sc_type policy of
       Pods \<Rightarrow> if period_start \<ge> sc_value policy then period_start - sc_value policy else 0
     | Percent \<Rightarrow> f64_as_u32 (f64_ceil (f64_mul (f64_of_u32 period_start)
                    (f64_sub (Fin 1) (f64_div (f64_of_u32 (sc_value policy)) (Fin 100))))))"

definition calc_scale_up_limit ::
    "time \<Rightarrow> u32 \<Rightarrow> scale_event list option \<Rightarrow> hpa_scaling_rules \<Rightarrow> u32" where
  "calc_scale_up_limit now current_replicas events rules =
     (let limit = \<lambda>policy. up_period_limit policy
            (current_replicas - get_replicas_change_in_period now (sc_period_seconds policy) events)
      in case hr_select_policy rules of
           SelDisabled \<Rightarrow> current_replicas
         | SelMin \<Rightarrow> fold (\<lambda>p result. min result (limit p)) (hr_policies rules) (- 1)
         | SelMax \<Rightarrow> fold (\<lambda>p result. max result (limit p)) (hr_policies rules) 0)"

definition calc_scale_down_limit ::
    "time \<Rightarrow> u32 \<Rightarrow> scale_event list option \<Rightarrow> hpa_scaling_rules \<Rightarrow> u32" where
  "calc_scale_down_limit now current_replicas events rules =
     (let limit = \<lambda>policy. down_period_limit policy
            (current_replicas + get_replicas_change_in_period now (sc_period_seconds policy) events)
      in case hr_select_policy rules of
           SelDisabled \<Rightarrow> current_replicas
         | SelMin \<Rightarrow> fold (\<lambda>p result. max result (limit p)) (hr_policies rules) 0
         | SelMax \<Rightarrow> fold (\<lambda>p result. min result (limit p)) (hr_policies rules) (- 1))"

definition conform_with_behavior ::
    "time \<Rightarrow> string \<Rightarrow> hpa \<Rightarrow> u32 \<Rightarrow> u32 \<Rightarrow> pod_autoscaler \<Rightarrow> u32" where
  "conform_with_behavior now hpa_name h current_replicas desired_replicas pa =
     (let spec = hpa_spec h in
      if desired_replicas > current_replicas then
        let scale_up_limit = max (calc_scale_up_limit now current_replicas
              (hm_get (pa_scale_up_events pa) hpa_name) (hb_scale_up (hs_behavior spec)))
              current_replicas;
            max_replicas = hs_max_replicas spec;
            max_replicas = (if max_replicas > scale_up_limit then scale_up_limit else max_replicas)
        in min desired_replicas max_replicas
      else if desired_replicas < current_replicas then
        let scale_down_limit = min (calc_scale_down_limit now current_replicas
              (hm_get (pa_scale_down_events pa) hpa_name) (hb_scale_down (hs_behavior spec)))
              current_replicas;
            min_replicas = hs_min_replicas spec;
            min_replicas = (if min_replicas < scale_down_limit then scale_down_limit else min_replicas)
        in max desired_replicas min_replicas
      else desired_replicas)"

definition normalize_desired_replicas ::
    "time \<Rightarrow> string \<Rightarrow> hpa \<Rightarrow> u32 \<Rightarrow> u32 \<Rightarrow> pod_autoscaler \<Rightarrow> u32 \<times> pod_autoscaler" where
  "normalize_desired_replicas now hpa_name h current_replicas desired_replicas pa =
     (case stabilize_recommendation now hpa_name current_replicas desired_replicas
             (hs_behavior (hpa_spec h)) pa of
        (stabilized, pa) \<Rightarrow>
          (max (hs_min_replicas (hpa_spec h))
               (conform_with_behavior now hpa_name h current_replicas stabilized pa), pa))"

section \<open>Scale events\<close>

definition discard_outdated_scale_events ::
    "time \<Rightarrow> u32 \<Rightarrow> scale_event list \<Rightarrow> scale_event list" where
  "discard_outdated_scale_events now period events =
     dropWhile (\<lambda>e. se_time e < now - seconds period) events"

text \<open>\<open>entry(..).and_modify(discard).or_insert_with(new).push_back(event)\<close>.\<close>

definition push_scale_event ::
    "time \<Rightarrow> u32 \<Rightarrow> string \<Rightarrow> u32 \<Rightarrow> (string, scale_event list) hashmap \<Rightarrow>
     (string, scale_event list) hashmap" where
  "push_scale_event now period hpa_name change events =
     (let es = (case hm_get events hpa_name of
                  None \<Rightarrow> [] | Some es \<Rightarrow> discard_outdated_scale_events now period es)
      in hm_insert hpa_name (es @ [\<lparr>se_change = change, se_time = now\<rparr>]) events)"

definition record_scale_event ::
    "time \<Rightarrow> string \<Rightarrow> hpa_behavior \<Rightarrow> u32 \<Rightarrow> u32 \<Rightarrow> pod_autoscaler \<Rightarrow> pod_autoscaler" where
  "record_scale_event now hpa_name behavior prev_replicas new_replicas pa =
     (if new_replicas > prev_replicas then
        pa\<lparr>pa_scale_up_events := push_scale_event now (longest_period (hb_scale_up behavior)) hpa_name
             (new_replicas - prev_replicas) (pa_scale_up_events pa)\<rparr>
      else if new_replicas < prev_replicas then
        pa\<lparr>pa_scale_down_events := push_scale_event now (longest_period (hb_scale_down behavior)) hpa_name
             (prev_replicas - new_replicas) (pa_scale_down_events pa)\<rparr>
      else pa)"

section \<open>Reconciliation\<close>

definition get_scale_target :: "'w api \<Rightarrow> object_reference \<Rightarrow> ('w, kube_object) io" where
  "get_scale_target api target =
     io_bind (api_send api \<lparr>rq_method = GET,
                rq_path = ''/api/v1/'' @ to_lowercase (or_kind target) @ ''s/'' @ or_name target,
                rq_body = None\<rparr>)
       (\<lambda>(msg, d). case d of
          None \<Rightarrow> io_fail (Err ''Failed to get scale target'')
        | Some (DObject k) \<Rightarrow> io_return k
        | Some _ \<Rightarrow> io_fail (Err ''decode''))"

definition post_update :: "'w api \<Rightarrow> kube_object \<Rightarrow> ('w, unit) io" where
  "post_update api k = io_bind (api_send api (put_object k)) (\<lambda>_. io_return ())"

text \<open>Lifting: the autoscaler's own state beside the world of the API server.\<close>

definition on_world :: "('w, 'a) io \<Rightarrow> (pod_autoscaler \<times> 'w, 'a) io" where
  "on_world m = (\<lambda>(pa, w). case m w of (r, w') \<Rightarrow> (r, (pa, w')))"

definition on_state :: "(pod_autoscaler \<Rightarrow> 'a \<times> pod_autoscaler) \<Rightarrow> (pod_autoscaler \<times> 'w, 'a) io" where
  "on_state f = (\<lambda>(pa, w). case f pa of (a, pa') \<Rightarrow> (Inr a, (pa', w)))"

definition push_recommendation ::
    "time \<Rightarrow> string \<Rightarrow> u32 \<Rightarrow> pod_autoscaler \<Rightarrow> pod_autoscaler" where
  "push_recommendation now hpa_name replicas pa =
     (let recs = (case hm_get (pa_recommendations pa) hpa_name of None \<Rightarrow> [] | Some rs \<Rightarrow> rs)
      in pa\<lparr>pa_recommendations := hm_insert hpa_name
              (recs @ [\<lparr>rec_replicas = replicas, rec_time = now\<rparr>]) (pa_recommendations pa)\<rparr>)"

text \<open>The two initial recommendations of a reconciliation.\<close>

definition note_current ::
    "time \<Rightarrow> string \<Rightarrow> u32 \<Rightarrow> hpa_status \<Rightarrow> pod_autoscaler \<Rightarrow> unit \<times> pod_autoscaler" where
  "note_current now hpa_name current_replicas status pa =
     (let pa = (if hm_get (pa_recommendations pa) hpa_name = None
                then push_recommendation now hpa_name current_replicas pa else pa);
          pa = (if current_replicas \<noteq> hst_desired_replicas status
                then push_recommendation now hpa_name current_replicas pa else pa)
      in ((), pa))"

definition compute_resource_replicas ::
    "'w api \<Rightarrow> (string, pod) hashmap \<Rightarrow> time \<Rightarrow> resource_metric_source \<Rightarrow> u32 \<Rightarrow> labels \<Rightarrow> ('w, u32) io" where
  "compute_resource_replicas api pod_store now metrics current_replicas selector =
     (case rms_target metrics of
        AverageUtilization target_utilization \<Rightarrow>
          calc_replicas_by_utilization api pod_store now current_replicas target_utilization
            (rms_name metrics) selector
      | AverageValue target_value \<Rightarrow>
          calc_replicas_by_value api pod_store now current_replicas target_value
            (rms_name metrics) selector)"

definition compute_function_replicas ::
    "'w api \<Rightarrow> function_metric_source \<Rightarrow> u32 \<Rightarrow> ('w, u32) io" where
  "compute_function_replicas api metrics current_replicas =
     calc_function_replicas api current_replicas (fms_target metrics) (fms_name metrics)"

definition desired_replicas_of ::
    "'w api \<Rightarrow> time \<Rightarrow> hpa \<Rightarrow> replica_set \<Rightarrow> (pod_autoscaler \<times> 'w, u32) io" where
  "desired_replicas_of api now h rs = (\<lambda>(pa, w).
     let current_replicas = rsp_replicas (rs_spec rs); spec = hpa_spec h in
     if current_replicas = 0 then (Inr 0, (pa, w))
     else if current_replicas > hs_max_replicas spec then (Inr (hs_max_replicas spec), (pa, w))
     else if current_replicas < hs_min_replicas spec then (Inr (hs_min_replicas spec), (pa, w))
     else io_bind (on_world (case hs_metrics spec of
              ResourceMetric m \<Rightarrow> compute_resource_replicas api (pa_pod_store pa) now m current_replicas
                                    (rsp_selector (rs_spec rs))
            | FunctionMetric m \<Rightarrow> compute_function_replicas api m current_replicas))
            (\<lambda>desired. on_state (normalize_desired_replicas now (md_name (hpa_metadata h)) h
                                   current_replicas desired))
            (pa, w))"

definition reconciled_status :: "time \<Rightarrow> hpa_status \<Rightarrow> u32 \<Rightarrow> u32 \<Rightarrow> hpa_status" where
  "reconciled_status now status current_replicas desired_replicas =
     \<lparr>hst_desired_replicas = desired_replicas,
      hst_current_replicas = (if desired_replicas = 0 then 0 else current_replicas),
      hst_last_scale_time = (if current_replicas \<noteq> desired_replicas then Some now
                             else hst_last_scale_time status)\<rparr>"

definition reconcile :: "'w api \<Rightarrow> time \<Rightarrow> hpa \<Rightarrow> (pod_autoscaler \<times> 'w, unit) io" where
  "reconcile api now h =
     (let hpa_name = md_name (hpa_metadata h) in
      io_bind (on_world (get_scale_target api (hs_scale_target_ref (hpa_spec h)))) (\<lambda>target.
      io_bind (io_lift (ok_or (Err ''Failed to get HPA status'') (hpa_status h))) (\<lambda>status.
      case target of
        KReplicaSet rs \<Rightarrow>
          let current_replicas = rsp_replicas (rs_spec rs) in
          io_bind (on_state (note_current now hpa_name current_replicas status)) (\<lambda>_.
          io_bind (desired_replicas_of api now h rs) (\<lambda>desired_replicas.
          io_bind
            (if current_replicas \<noteq> desired_replicas then
               io_bind (on_world (post_update api
                 (KReplicaSet (rs\<lparr>rs_spec := (rs_spec rs)\<lparr>rsp_replicas := desired_replicas\<rparr>\<rparr>)))) (\<lambda>_.
               on_state (\<lambda>pa. ((), record_scale_event now hpa_name (hs_behavior (hpa_spec h))
                                      current_replicas desired_replicas pa)))
             else io_return ()) (\<lambda>_.
          let new_status = reconciled_status now status current_replicas desired_replicas in
          if status \<noteq> new_status then
            on_world (post_update api (KHorizontalPodAutoscaler (h\<lparr>hpa_status := Some new_status\<rparr>)))
          else io_return ())))
      | _ \<Rightarrow> io_return ())))"

section \<open>The main loop\<close>

definition sync_period :: time where
  "sync_period = 15 * 1000000000"

text \<open>An added or updated autoscaler is queued at once.\<close>

definition on_hpa_changed :: "time \<Rightarrow> string \<Rightarrow> pod_autoscaler \<Rightarrow> pod_autoscaler" where
  "on_hpa_changed now hpa_name pa =
     pa\<lparr>pa_in_queue := List.insert hpa_name (pa_in_queue pa),
        pa_work_queue := pa_work_queue pa @ [(hpa_name, now)]\<rparr>"

text \<open>The informer passes an update on only when the specification changed.\<close>

definition update_notifies :: "hpa \<Rightarrow> hpa \<Rightarrow> bool" where
  "update_notifies old new \<longleftrightarrow> hpa_spec old \<noteq> hpa_spec new"

definition handle_resync :: "time \<Rightarrow> pod_autoscaler \<Rightarrow> pod_autoscaler" where
  "handle_resync now pa = fold (\<lambda>h pa.
     if md_name (hpa_metadata h) \<in> set (pa_in_queue pa) then pa
     else pa\<lparr>pa_in_queue := List.insert (md_name (hpa_metadata h)) (pa_in_queue pa),
             pa_work_queue := pa_work_queue pa @ [(md_name (hpa_metadata h), now)]\<rparr>)
     (hm_values (pa_hpa_store pa)) pa"

definition enqueue_hpa :: "time \<Rightarrow> string \<Rightarrow> time \<Rightarrow> pod_autoscaler \<Rightarrow> pod_autoscaler" where
  "enqueue_hpa now hpa_name duration pa =
     (if hpa_name \<notin> set (pa_in_queue pa)
      then pa\<lparr>pa_work_queue := pa_work_queue pa @ [(hpa_name, now + duration)]\<rparr> else pa)"

text \<open>
  One entry received from the work queue. A panic inside the reconciliation ends the process; an
  error is only logged.
\<close>

definition on_work ::
    "'w api \<Rightarrow> time \<Rightarrow> string \<times> time \<Rightarrow> (pod_autoscaler \<times> 'w, unit) io" where
  "on_work api now entry = (\<lambda>(pa, w).
     let hpa_name = fst entry;
         pa = pa\<lparr>pa_work_queue := remove1 entry (pa_work_queue pa),
                 pa_in_queue := removeAll hpa_name (pa_in_queue pa)\<rparr>
     in case hm_get (pa_hpa_store pa) (''/api/v1/horizontalpodautoscalers/'' @ hpa_name) of
          Some h \<Rightarrow> io_bind (io_try (reconcile api now h)) (\<lambda>_.
                      on_state (\<lambda>pa. ((), enqueue_hpa now hpa_name sync_period pa))) (pa, w)
        | None \<Rightarrow> (Inr (), (pa\<lparr>pa_recommendations := hm_remove hpa_name (pa_recommendations pa),
                      pa_scale_up_events := hm_remove hpa_name (pa_scale_up_events pa),
                      pa_scale_down_events := hm_remove hpa_name (pa_scale_down_events pa)\<rparr>, w)))"

section \<open>Facts\<close>

subsection \<open>Stabilisation\<close>

lemma up_bound_le: "up_bound c recs d \<le> d"
proof (induction recs arbitrary: d)
  case Nil
  then show ?case by (simp add: up_bound_def)
next
  case (Cons r rs)
  have "up_bound c (r # rs) d \<le> (if rec_time r \<ge> c then min d (rec_replicas r) else d)"
    using Cons.IH by (simp add: up_bound_def)
  also have "\<dots> \<le> d" by simp
  finally show ?case .
qed

lemma down_bound_ge: "d \<le> down_bound c recs d"
proof (induction recs arbitrary: d)
  case Nil
  then show ?case by (simp add: down_bound_def)
next
  case (Cons r rs)
  have "d \<le> (if rec_time r \<ge> c then max d (rec_replicas r) else d)" by simp
  also have "\<dots> \<le> down_bound c (r # rs) d"
    using Cons.IH by (simp add: down_bound_def)
  finally show ?case .
qed

lemma down_bound_ge_rec:
  "r \<in> set recs \<Longrightarrow> c \<le> rec_time r \<Longrightarrow> rec_replicas r \<le> down_bound c recs d"
proof (induction recs arbitrary: d)
  case Nil
  then show ?case by simp
next
  case (Cons x xs)
  show ?case
  proof (cases "x = r")
    case True
    have "rec_replicas r \<le> max d (rec_replicas r)" by simp
    also have "\<dots> \<le> down_bound c xs (max d (rec_replicas r))" by (rule down_bound_ge)
    finally show ?thesis using True Cons.prems by (simp add: down_bound_def)
  next
    case False
    with Cons show ?thesis by (simp add: down_bound_def)
  qed
qed

lemma stabilize_between:
  assumes "stabilize_recommendation now n current desired b pa = (r, pa')"
  shows "min current desired \<le> r \<and> r \<le> max current desired"
proof (cases "hm_get (pa_recommendations pa) n")
  case None
  with assms show ?thesis by (simp add: stabilize_recommendation_def Let_def)
next
  case (Some recs)
  let ?up = "now - seconds (hr_stabilization_window_seconds (hb_scale_up b))"
  let ?down = "now - seconds (hr_stabilization_window_seconds (hb_scale_down b))"
  let ?recs = "dropWhile (\<lambda>r. rec_time r < ?up \<and> rec_time r < ?down) recs"
  have "r = min (max current (up_bound ?up ?recs desired)) (down_bound ?down ?recs desired)"
    using assms Some by (simp add: stabilize_recommendation_def Let_def)
  moreover have "up_bound ?up ?recs desired \<le> desired" by (rule up_bound_le)
  moreover have "desired \<le> down_bound ?down ?recs desired" by (rule down_bound_ge)
  ultimately show ?thesis by (auto simp: min_def max_def)
qed

lemma stabilize_frame:
  assumes "stabilize_recommendation now n current desired b pa = (r, pa')"
  shows "pa_scale_up_events pa' = pa_scale_up_events pa"
    and "pa_scale_down_events pa' = pa_scale_down_events pa"
    and "pa_hpa_store pa' = pa_hpa_store pa" and "pa_pod_store pa' = pa_pod_store pa"
    and "pa_work_queue pa' = pa_work_queue pa" and "pa_in_queue pa' = pa_in_queue pa"
  using assms by (auto simp: stabilize_recommendation_def Let_def split: option.splits)

subsection \<open>Bounds\<close>

lemma conform_up_le:
  assumes "current < desired" and "current \<le> hs_max_replicas (hpa_spec h)"
  shows "current \<le> conform_with_behavior now n h current desired pa"
    and "conform_with_behavior now n h current desired pa \<le> hs_max_replicas (hpa_spec h)"
    and "conform_with_behavior now n h current desired pa \<le> desired"
    and "conform_with_behavior now n h current desired pa \<le>
           max (calc_scale_up_limit now current (hm_get (pa_scale_up_events pa) n)
                  (hb_scale_up (hs_behavior (hpa_spec h)))) current"
  using assms by (auto simp: conform_with_behavior_def Let_def min_def max_def)

lemma conform_down_ge:
  assumes "desired < current" and "hs_min_replicas (hpa_spec h) \<le> current"
  shows "conform_with_behavior now n h current desired pa \<le> current"
    and "hs_min_replicas (hpa_spec h) \<le> conform_with_behavior now n h current desired pa"
    and "desired \<le> conform_with_behavior now n h current desired pa"
    and "min (calc_scale_down_limit now current (hm_get (pa_scale_down_events pa) n)
                  (hb_scale_down (hs_behavior (hpa_spec h)))) current
           \<le> conform_with_behavior now n h current desired pa"
  using assms by (auto simp: conform_with_behavior_def Let_def min_def max_def)

lemma conform_equal: "conform_with_behavior now n h current current pa = current"
  by (simp add: conform_with_behavior_def)

lemma normalize_bounds:
  assumes "normalize_desired_replicas now n h current desired pa = (r, pa')"
    and "hs_min_replicas (hpa_spec h) \<le> current" and "current \<le> hs_max_replicas (hpa_spec h)"
  shows "hs_min_replicas (hpa_spec h) \<le> r" and "r \<le> hs_max_replicas (hpa_spec h)"
proof -
  obtain s pa1 where s: "stabilize_recommendation now n current desired
      (hs_behavior (hpa_spec h)) pa = (s, pa1)" by (meson surj_pair)
  let ?c = "conform_with_behavior now n h current s pa1"
  have r: "r = max (hs_min_replicas (hpa_spec h)) ?c"
    using assms(1) s by (auto simp: normalize_desired_replicas_def)
  have "?c \<le> hs_max_replicas (hpa_spec h)"
  proof -
    consider "current < s" | "s < current" | "s = current" by (meson linorder_neqE)
    then show ?thesis
    proof cases
      case 1
      then show ?thesis using assms(3) by (rule conform_up_le(2))
    next
      case 2
      then have "?c \<le> current" using assms(2) by (rule conform_down_ge(1))
      then show ?thesis using assms(3) by (rule order.trans)
    next
      case 3
      then show ?thesis using assms(3) by (simp add: conform_equal)
    qed
  qed
  then show "hs_min_replicas (hpa_spec h) \<le> r" and "r \<le> hs_max_replicas (hpa_spec h)"
    using r assms by (auto simp: max_def)
qed

lemma desired_replicas_bounds:
  assumes "desired_replicas_of api now h rs (pa, w) = (Inr d, s')"
    and "hs_min_replicas (hpa_spec h) \<le> hs_max_replicas (hpa_spec h)"
  shows "if rsp_replicas (rs_spec rs) = 0 then d = 0
         else hs_min_replicas (hpa_spec h) \<le> d \<and> d \<le> hs_max_replicas (hpa_spec h)"
proof -
  let ?c = "rsp_replicas (rs_spec rs)"
  consider "?c = 0" | "?c \<noteq> 0" "?c > hs_max_replicas (hpa_spec h)"
    | "?c \<noteq> 0" "?c < hs_min_replicas (hpa_spec h)" "\<not> ?c > hs_max_replicas (hpa_spec h)"
    | "?c \<noteq> 0" "hs_min_replicas (hpa_spec h) \<le> ?c" "?c \<le> hs_max_replicas (hpa_spec h)"
    by (meson not_less)
  then show ?thesis
  proof cases
    case 4
    let ?m = "on_world (case hs_metrics (hpa_spec h) of
              ResourceMetric m \<Rightarrow> compute_resource_replicas api (pa_pod_store pa) now m ?c
                                    (rsp_selector (rs_spec rs))
            | FunctionMetric m \<Rightarrow> compute_function_replicas api m ?c)"
    let ?f = "\<lambda>desired. on_state (normalize_desired_replicas now (md_name (hpa_metadata h)) h ?c desired)"
    have "io_bind ?m ?f (pa, w) = (Inr d, s')"
      using assms(1) 4 by (simp add: desired_replicas_of_def Let_def not_less [symmetric])
    then obtain x s1 where "?f x s1 = (Inr d, s')" by (rule io_bind_InrE)
    then obtain pa1 pa2 where
      "normalize_desired_replicas now (md_name (hpa_metadata h)) h ?c x pa1 = (d, pa2)"
      by (auto simp: on_state_def split: prod.splits)
    from normalize_bounds [OF this 4(2,3)] 4(1) show ?thesis by simp
  qed (use assms in \<open>auto simp: desired_replicas_of_def Let_def\<close>)
qed

subsection \<open>Requests of a reconciliation\<close>

abbreviation pa_log :: "pod_autoscaler \<times> api_request list \<times> 'w \<Rightarrow> api_request list" where
  "pa_log \<equiv> \<lambda>s. fst (snd s)"

lemma sends_on_state [sends_rules]: "sends pa_log P (on_state f)"
  by (auto simp: sends_def on_state_def split: prod.splits)

lemma sends_on_world [sends_rules]: "sends fst P m \<Longrightarrow> sends pa_log P (on_world m)"
  by (fastforce simp: sends_def on_world_def split: prod.splits)

definition no_body :: "api_request \<Rightarrow> bool" where
  "no_body r \<longleftrightarrow> rq_body r = None"

lemma sends_get_pod_metrics [sends_rules]: "sends fst no_body (get_pod_metrics (logged api) sel)"
  unfolding get_pod_metrics_def
  by (intro sends_rules)
    (auto simp: no_body_def intro!: sends_rules split: option.splits reply_data.splits)

lemma sends_get_resource_metric_value [sends_rules]:
  "sends fst no_body (get_resource_metric_value (logged api) r sel)"
  unfolding get_resource_metric_value_def
  by (intro sends_rules) (auto intro: sends_rules)

lemma sends_get_function_metric [sends_rules]: "sends fst no_body (get_function_metric (logged api) n)"
  unfolding get_function_metric_def
  by (intro sends_rules)
    (auto simp: no_body_def intro!: sends_rules split: option.splits reply_data.splits)

lemma sends_get_scale_target [sends_rules]: "sends fst no_body (get_scale_target (logged api) t)"
  unfolding get_scale_target_def
  by (intro sends_rules)
    (auto simp: no_body_def intro!: sends_rules split: option.splits reply_data.splits)

lemma sends_compute_function [sends_rules]:
  "sends fst no_body (compute_function_replicas (logged api) m c)"
  unfolding compute_function_replicas_def calc_function_replicas_def Let_def
  by (intro sends_rules)

lemma sends_by_utilization [sends_rules]:
  "sends fst no_body (calc_replicas_by_utilization (logged api) store now c t r sel)"
  unfolding calc_replicas_by_utilization_def Let_def
  by (intro sends_rules) (auto intro!: sends_rules)

lemma sends_by_value [sends_rules]:
  "sends fst no_body (calc_replicas_by_value (logged api) store now c t r sel)"
  unfolding calc_replicas_by_value_def Let_def
  by (intro sends_rules) (auto intro!: sends_rules)

lemma sends_compute_resource [sends_rules]:
  "sends fst no_body (compute_resource_replicas (logged api) store now m c sel)"
  unfolding compute_resource_replicas_def
  by (auto intro: sends_rules split: metric_target.splits)

lemma sends_post_update [sends_rules]:
  "P (put_object k) \<Longrightarrow> sends fst P (post_update (logged api) k)"
  unfolding post_update_def by (intro sends_rules)

lemma sends_desired_replicas [sends_rules]:
  "sends pa_log no_body (desired_replicas_of (logged api) now h rs)"
proof -
  have "sends pa_log no_body (io_bind (on_world (case hs_metrics (hpa_spec h) of
              ResourceMetric m \<Rightarrow> compute_resource_replicas (logged api) store now m c sel
            | FunctionMetric m \<Rightarrow> compute_function_replicas (logged api) m c))
            (\<lambda>desired. on_state (g desired)))" for store c sel
    and g :: "u32 \<Rightarrow> pod_autoscaler \<Rightarrow> u32 \<times> pod_autoscaler"
    by (auto intro!: sends_rules split: metric_source.splits)
  from this [unfolded sends_def] show ?thesis
    unfolding sends_def desired_replicas_of_def Let_def
    by (auto split: if_splits)
qed

text \<open>What a reconciliation may put: the target with a count within the bounds, and the autoscaler.\<close>

definition scales_within :: "u32 \<Rightarrow> u32 \<Rightarrow> api_request \<Rightarrow> bool" where
  "scales_within lo hi r \<longleftrightarrow> (case rq_body r of
       None \<Rightarrow> True
     | Some (KReplicaSet rs) \<Rightarrow> lo \<le> rsp_replicas (rs_spec rs) \<and> rsp_replicas (rs_spec rs) \<le> hi
     | Some (KHorizontalPodAutoscaler _) \<Rightarrow> True
     | Some _ \<Rightarrow> False)"

lemma no_body_scales: "no_body r \<Longrightarrow> scales_within lo hi r"
  by (simp add: no_body_def scales_within_def)

lemmas sends_silent = sends_weaken [where P = no_body, OF _ no_body_scales]

lemma reconcile_sends:
  assumes "hs_min_replicas (hpa_spec h) \<le> hs_max_replicas (hpa_spec h)"
  shows "sends pa_log (scales_within (hs_min_replicas (hpa_spec h)) (hs_max_replicas (hpa_spec h)))
           (reconcile (logged api) now h)"
proof -
  let ?P = "scales_within (hs_min_replicas (hpa_spec h)) (hs_max_replicas (hpa_spec h))"
  have put: "?P (put_object (KReplicaSet (rs\<lparr>rs_spec := (rs_spec rs)\<lparr>rsp_replicas := d\<rparr>\<rparr>)))"
    if "desired_replicas_of (logged api) now h rs s = (Inr d, s')"
      and "rsp_replicas (rs_spec rs) \<noteq> d" for rs d s s'
    using desired_replicas_bounds [of "logged api" now h rs "fst s" "snd s" d s'] that assms
    by (auto simp: scales_within_def put_object_def split: if_splits)
  have status: "?P (put_object (KHorizontalPodAutoscaler (h\<lparr>hpa_status := Some st\<rparr>)))" for st
    by (simp add: scales_within_def put_object_def)
  have rs_case: "sends pa_log ?P
      (io_bind (desired_replicas_of (logged api) now h rs) (\<lambda>d.
         io_bind (if rsp_replicas (rs_spec rs) \<noteq> d then
               io_bind (on_world (post_update (logged api)
                 (KReplicaSet (rs\<lparr>rs_spec := (rs_spec rs)\<lparr>rsp_replicas := d\<rparr>\<rparr>)))) (\<lambda>_. on_state (f d))
             else io_return ()) (\<lambda>_.
          if stat \<noteq> new_status d then
            on_world (post_update (logged api) (KHorizontalPodAutoscaler (h\<lparr>hpa_status := Some (new_status d)\<rparr>)))
          else io_return ())))" for rs f stat new_status
    by (rule sends_bind)
      (auto intro!: sends_rules status sends_silent [OF sends_desired_replicas] intro: put)
  show ?thesis
    unfolding reconcile_def Let_def
    by (intro sends_rules sends_silent [OF sends_on_world [OF sends_get_scale_target]])
      (auto intro!: sends_rules rs_case split: kube_object.splits)
qed

subsection \<open>Scale events inside a period\<close>

lemma longest_period_ge:
  assumes "p \<in> set (hr_policies r)"
  shows "sc_period_seconds p \<le> longest_period r"
proof -
  have ge: "z \<le> fold max xs z" for z :: u32 and xs
  proof (induction xs arbitrary: z)
    case (Cons x xs)
    from Cons.IH [of "max x z"] show ?case by simp
  qed simp
  have "x \<in> set xs \<Longrightarrow> x \<le> fold max xs z" for x z :: u32 and xs
  proof (induction xs arbitrary: z)
    case (Cons y ys)
    then show ?case using ge [of "max y z" ys] by auto
  qed simp
  then show ?thesis using assms by (simp add: longest_period_def)
qed

lemma change_after_push:
  assumes "p \<le> q"
  shows "get_replicas_change_in_period now p (hm_get (push_scale_event now q n c ev) n) =
           get_replicas_change_in_period now p (hm_get ev n) + c"
proof -
  have le: "now - seconds q \<le> now - seconds p"
    using assms by (simp add: word_le_def)
  have flt: "filter (\<lambda>e. now - seconds p \<le> se_time e) (dropWhile (\<lambda>e. se_time e < now - seconds q) es) =
        filter (\<lambda>e. now - seconds p \<le> se_time e) es" for es
    using le by (intro filter_dropWhile_disjoint) auto
  show ?thesis
    by (simp add: flt push_scale_event_def get_replicas_change_in_period_def
        discard_outdated_scale_events_def Let_def split: option.splits)
qed

definition added_in_period :: "time \<Rightarrow> u32 \<Rightarrow> string \<Rightarrow> pod_autoscaler \<Rightarrow> u32" where
  "added_in_period now p n pa = get_replicas_change_in_period now p (hm_get (pa_scale_up_events pa) n)"

subsection \<open>Entries of the work queue\<close>

definition queues :: "pod_autoscaler \<times> 'w \<Rightarrow> (string, hpa) hashmap \<times> (string \<times> time) list \<times> string list" where
  "queues s = (pa_hpa_store (fst s), pa_work_queue (fst s), pa_in_queue (fst s))"

lemma keeps_on_world [keeps_rules]: "keeps queues (on_world m)"
  by (auto simp: keeps_def on_world_def queues_def split: prod.splits)

lemma keeps_on_state:
  "(\<And>pa a pa'. f pa = (a, pa') \<Longrightarrow> queues (pa', ()) = queues (pa, ())) \<Longrightarrow> keeps queues (on_state f)"
  by (fastforce simp: keeps_def on_state_def queues_def split: prod.splits)

lemma keeps_desired [keeps_rules]: "keeps queues (desired_replicas_of api now h rs)"
proof -
  have norm: "queues (pa', ()) = queues (pa, ())"
    if norm: "normalize_desired_replicas now n h c d pa = (a, pa')" for n c d pa a pa'
  proof -
    obtain s pa1 where st: "stabilize_recommendation now n c d (hs_behavior (hpa_spec h)) pa = (s, pa1)"
      by (meson surj_pair)
    with norm have "pa' = pa1" by (simp add: normalize_desired_replicas_def)
    then show ?thesis using stabilize_frame [OF st] by (simp add: queues_def)
  qed
  have k: "keeps queues (io_bind (on_world m)
     (\<lambda>d. on_state (normalize_desired_replicas now n h c d)))" for m :: "('w, u32) io" and n c
    by (intro keeps_rules keeps_on_state) (rule norm)
  show ?thesis
    unfolding keeps_def desired_replicas_of_def Let_def
    by (auto split: if_splits dest: keepsD [OF k])
qed

lemma keeps_reconcile [keeps_rules]: "keeps queues (reconcile api now h)"
proof -
  have note1: "keeps queues (on_state (note_current now n c st))" for n c st
    by (rule keeps_on_state)
      (auto simp: note_current_def push_recommendation_def queues_def Let_def split: if_splits)
  have record1: "keeps queues (on_state (\<lambda>pa. ((), record_scale_event now n b p q pa)))" for n b p q
    by (rule keeps_on_state) (auto simp: record_scale_event_def queues_def)
  show ?thesis
    unfolding reconcile_def Let_def
    by (intro keeps_rules) (auto intro!: keeps_rules note1 record1 simp: keeps_return split: kube_object.splits)
qed

definition entries :: "string \<Rightarrow> pod_autoscaler \<Rightarrow> nat" where
  "entries n pa = length (filter (\<lambda>e. fst e = n) (pa_work_queue pa))"

lemma entries_changed: "entries n (on_hpa_changed now m pa) = entries n pa + (if m = n then 1 else 0)"
  by (simp add: entries_def on_hpa_changed_def)

lemma length_filter_remove1:
  "x \<in> set xs \<Longrightarrow> length (filter P (remove1 x xs)) + (if P x then 1 else 0) = length (filter P xs)"
  by (induction xs) auto

lemma entries_work:
  assumes run: "on_work api now e (pa, w) = (Inr u, (pa', w'))" and e: "e \<in> set (pa_work_queue pa)"
    and stored: "hm_get (pa_hpa_store pa) (''/api/v1/horizontalpodautoscalers/'' @ n) \<noteq> None"
  shows "entries n pa' = entries n pa" and "pa_hpa_store pa' = pa_hpa_store pa"
proof -
  let ?pa = "pa\<lparr>pa_work_queue := remove1 e (pa_work_queue pa),
                pa_in_queue := removeAll (fst e) (pa_in_queue pa)\<rparr>"
  have "entries n pa' = entries n pa \<and> pa_hpa_store pa' = pa_hpa_store pa"
  proof (cases "hm_get (pa_hpa_store pa) (''/api/v1/horizontalpodautoscalers/'' @ fst e)")
    case None
    with stored have "fst e \<noteq> n" by auto
    with None run e show ?thesis
      using length_filter_remove1 [OF e, of "\<lambda>e. fst e = n"]
      by (auto simp: on_work_def Let_def entries_def)
  next
    case (Some h)
    with run have "io_bind (io_try (reconcile api now h)) (\<lambda>_.
        on_state (\<lambda>pa. ((), enqueue_hpa now (fst e) sync_period pa))) (?pa, w) = (Inr u, (pa', w'))"
      by (simp add: on_work_def Let_def)
    then obtain r pa1 w1 where r: "io_try (reconcile api now h) (?pa, w) = (Inr r, (pa1, w1))"
      and pa': "pa' = enqueue_hpa now (fst e) sync_period pa1"
      by (auto elim!: io_bind_InrE simp: on_state_def)
    have "queues (pa1, w1) = queues (?pa, w)"
      using keeps_try [OF keeps_reconcile] r unfolding keeps_def by blast
    then have "pa_work_queue pa' = remove1 e (pa_work_queue pa) @ [(fst e, now + sync_period)]"
      and "pa_hpa_store pa' = pa_hpa_store pa"
      using pa' by (auto simp: queues_def enqueue_hpa_def)
    then show ?thesis
      using length_filter_remove1 [OF e, of "\<lambda>e. fst e = n"] by (auto simp: entries_def)
  qed
  then show "entries n pa' = entries n pa" and "pa_hpa_store pa' = pa_hpa_store pa" by auto
qed

lemma entries_resync: "entries n pa \<le> entries n (handle_resync now pa)"
proof -
  let ?f = "\<lambda>h pa. if md_name (hpa_metadata h) \<in> set (pa_in_queue pa) then pa
     else pa\<lparr>pa_in_queue := List.insert (md_name (hpa_metadata h)) (pa_in_queue pa),
             pa_work_queue := pa_work_queue pa @ [(md_name (hpa_metadata h), now)]\<rparr>"
  have "entries n pa \<le> entries n (fold ?f hs pa)" for hs pa
  proof (induction hs arbitrary: pa)
    case (Cons h hs)
    have "entries n pa \<le> entries n (?f h pa)" by (simp add: entries_def)
    also have "\<dots> \<le> entries n (fold ?f hs (?f h pa))" by (rule Cons.IH)
    finally show ?case by simp
  qed simp
  then show ?thesis by (simp add: handle_resync_def)
qed

text \<open>The events of the main loop; the informer may replace the stores at any time.\<close>

datatype pa_event =
    HpaChanged time string
  | Resync time
  | Work time "string \<times> time"
  | StoresChanged "(string, hpa) hashmap" "(string, pod) hashmap"

definition hpa_stored :: "string \<Rightarrow> (string, hpa) hashmap \<Rightarrow> bool" where
  "hpa_stored n store \<longleftrightarrow> hm_get store (''/api/v1/horizontalpodautoscalers/'' @ n) \<noteq> None"

fun pa_step :: "'w api \<Rightarrow> pa_event \<Rightarrow> (pod_autoscaler \<times> 'w, unit) io" where
  "pa_step api (HpaChanged now n) = on_state (\<lambda>pa. ((), on_hpa_changed now n pa))"
| "pa_step api (Resync now) = on_state (\<lambda>pa. ((), handle_resync now pa))"
| "pa_step api (Work now e) = (\<lambda>(pa, w). if e \<in> set (pa_work_queue pa) then on_work api now e (pa, w)
                                else (Inr (), (pa, w)))"
| "pa_step api (StoresChanged hs ps) = on_state (\<lambda>pa. ((), pa\<lparr>pa_hpa_store := hs, pa_pod_store := ps\<rparr>))"

fun pa_run :: "'w api \<Rightarrow> pa_event list \<Rightarrow> (pod_autoscaler \<times> 'w, unit) io" where
  "pa_run api [] = io_return ()"
| "pa_run api (ev # evs) = io_bind (pa_step api ev) (\<lambda>_. pa_run api evs)"

definition changes_of :: "string \<Rightarrow> pa_event list \<Rightarrow> nat" where
  "changes_of n evs = length (filter (\<lambda>ev. \<exists>t. ev = HpaChanged t n) evs)"

lemma handle_resync_store: "pa_hpa_store (handle_resync now pa) = pa_hpa_store pa"
proof -
  let ?f = "\<lambda>h pa. if md_name (hpa_metadata h) \<in> set (pa_in_queue pa) then pa
     else pa\<lparr>pa_in_queue := List.insert (md_name (hpa_metadata h)) (pa_in_queue pa),
             pa_work_queue := pa_work_queue pa @ [(md_name (hpa_metadata h), now)]\<rparr>"
  have "pa_hpa_store (fold ?f hs pa) = pa_hpa_store pa" for hs pa
    by (induction hs arbitrary: pa) simp_all
  then show ?thesis by (simp add: handle_resync_def)
qed

lemma pa_step_entries:
  assumes "pa_step api ev (pa, w) = (Inr u, (pa', w'))" and "hpa_stored n (pa_hpa_store pa)"
    and "\<forall>hs ps. ev = StoresChanged hs ps \<longrightarrow> hpa_stored n hs"
  shows "entries n pa + changes_of n [ev] \<le> entries n pa'" and "hpa_stored n (pa_hpa_store pa')"
proof -
  have "entries n pa + changes_of n [ev] \<le> entries n pa' \<and> hpa_stored n (pa_hpa_store pa')"
  proof (cases ev)
    case (HpaChanged t m)
    with assms show ?thesis
      by (auto simp: on_state_def entries_changed changes_of_def on_hpa_changed_def entries_def)
  next
    case (Resync t)
    with assms show ?thesis
      using entries_resync [of n pa t]
      by (auto simp: on_state_def changes_of_def handle_resync_store)
  next
    case (Work t e)
    show ?thesis
    proof (cases "e \<in> set (pa_work_queue pa)")
      case True
      with assms Work have "on_work api t e (pa, w) = (Inr u, (pa', w'))" by simp
      from entries_work [OF this True] assms(2) Work show ?thesis
        by (simp add: hpa_stored_def changes_of_def)
    next
      case False
      with assms Work show ?thesis by (auto simp: changes_of_def)
    qed
  next
    case (StoresChanged hs ps)
    with assms show ?thesis by (auto simp: on_state_def changes_of_def entries_def)
  qed
  then show "entries n pa + changes_of n [ev] \<le> entries n pa'" and "hpa_stored n (pa_hpa_store pa')"
    by auto
qed

section \<open>Example data\<close>

definition wit_metadata :: "string \<Rightarrow> metadata" where
  "wit_metadata n = metadata_default\<lparr>md_name := n\<rparr>"

definition wit_rs :: "u32 \<Rightarrow> replica_set" where
  "wit_rs n = \<lparr>rs_metadata = wit_metadata ''web'',
     rs_spec = \<lparr>rsp_selector = hm_empty,
       rsp_template = \<lparr>pt_metadata = metadata_default, pt_spec = pod_spec_default\<rparr>, rsp_replicas = n\<rparr>,
     rs_status = Some \<lparr>rss_replicas = n, rss_ready_replicas = n\<rparr>\<rparr>"

definition wit_hpa :: hpa where
  "wit_hpa = \<lparr>hpa_metadata = wit_metadata ''web'',
     hpa_spec = \<lparr>hs_max_replicas = 10, hs_min_replicas = 2,
       hs_scale_target_ref = \<lparr>or_kind = ''ReplicaSet'', or_name = ''web''\<rparr>,
       hs_behavior = hpa_behavior_default, hs_metrics = default_metrics\<rparr>,
     hpa_status = Some \<lparr>hst_desired_replicas = 20, hst_current_replicas = 20, hst_last_scale_time = None\<rparr>\<rparr>"

definition wit_api :: "u32 \<Rightarrow> unit api" where
  "wit_api n r w = (case rq_method r of
       GET \<Rightarrow> (Reply 200 None (Some (DObject (KReplicaSet (wit_rs n)))), w)
     | _ \<Rightarrow> (Reply 200 (Some ''ok'') None, w))"

definition wit_pod :: "string \<Rightarrow> bool \<Rightarrow> pod" where
  "wit_pod n ready = \<lparr>pod_metadata = wit_metadata n, pod_spec = pod_spec_default,
     pod_status = Some ((pod_status_default 0)\<lparr>pst_phase := Running, pst_conditions := [(Ready, ready)]\<rparr>)\<rparr>"

definition wit_pods_rules :: "policy_selection \<Rightarrow> hpa_scaling_rules" where
  "wit_pods_rules sel = \<lparr>hr_policies = [\<lparr>sc_type = Pods, sc_value = 4, sc_period_seconds = 60\<rparr>],
     hr_select_policy = sel, hr_stabilization_window_seconds = 0\<rparr>"

definition wit_limited_hpa :: hpa where
  "wit_limited_hpa = wit_hpa\<lparr>hpa_spec := (hpa_spec wit_hpa)\<lparr>hs_behavior :=
     hpa_behavior_default\<lparr>hb_scale_up := wit_pods_rules SelMin\<rparr>\<rparr>\<rparr>"

section \<open>Properties\<close>


lemmas run_simps = io_bind_def on_world_def on_state_def api_send_def logged_def

definition wit_put :: api_request where
  "wit_put = put_object (KReplicaSet ((wit_rs 20)\<lparr>rs_spec := (rs_spec (wit_rs 20))\<lparr>rsp_replicas := 10\<rparr>\<rparr>))"

definition wit_run where
  "wit_run = reconcile (logged (wit_api 20)) 0 wit_hpa (pod_autoscaler_new, ([], ()))"

lemma wit_run_log: "fst (snd (snd wit_run)) =
   [\<lparr>rq_method = GET, rq_path = ''/api/v1/replicasets/web'', rq_body = None\<rparr>, wit_put,
    put_object (KHorizontalPodAutoscaler (wit_hpa\<lparr>hpa_status := Some
      \<lparr>hst_desired_replicas = 10, hst_current_replicas = 20, hst_last_scale_time = Some 0\<rparr>\<rparr>))]"
  unfolding wit_run_def reconcile_def
  by (simp add: run_simps Let_def wit_hpa_def wit_api_def get_scale_target_def
      desired_replicas_of_def note_current_def post_update_def put_object_def wit_put_def
      reconciled_status_def to_lowercase_def char_to_lower_def char_of_eq_iff wit_rs_def)


lemma unat_shifted:
  fixes current a v :: u32
  assumes "a \<le> current" and "a \<le> v" and "unat current + unat v < 2 ^ 32"
  shows "unat (current - a + v) = unat current - unat a + unat v" and "current \<le> current - a + v"
proof -
  have "unat (current - a) = unat current - unat a"
    using assms(1) by (rule unat_sub)
  moreover have "unat (current - a + v) = unat (current - a) + unat v"
    using assms(3) calculation by (intro unat_add_lem [THEN iffD1]) simp
  ultimately show "unat (current - a + v) = unat current - unat a + unat v" by simp
  then show "current \<le> current - a + v"
    using assms(1, 2) by (simp add: word_le_nat_alt)
qed



text \<open>
  The subtraction of the limit for scaling up wraps around: once more replicas were recorded as
  added within the period than there are now (the target was scaled down in between, which is
  recorded elsewhere), the limit of a policy of \<open>v\<close> pods is a number near \<open>2 ^ 32\<close>, so it limits nothing.
\<close>

theorem scale_up_limit_wraps:
  assumes "hr_policies rules = [\<lparr>sc_type = Pods, sc_value = v, sc_period_seconds = p\<rparr>]"
    and "hr_select_policy rules \<noteq> SelDisabled"
    and "added = get_replicas_change_in_period now p events"
    and "unat current + unat v < unat added"
  shows "unat (calc_scale_up_limit now current events rules) =
           2 ^ 32 + unat current + unat v - unat added"
proof -
  have lim: "calc_scale_up_limit now current events rules = current - added + v"
    using assms(1,2,3)
    by (cases "hr_select_policy rules")
      (auto simp: calc_scale_up_limit_def up_period_limit_def max_def min_def Let_def
        intro: order.antisym)
  have "current < added" using assms(4) by (simp add: word_less_nat_alt)
  have sub: "unat (current - added) = unat current + 4294967296 - unat added"
    using assms(4) by (simp add: unat_sub_if' word_le_nat_alt)
  have "unat (current - added + v) = unat (current - added) + unat v"
    using assms(4) unat_u32_less [of added] sub
    by (intro unat_add_lem [THEN iffD1]) simp
  then show ?thesis
    using assms(4) unat_u32_less [of added] by (simp add: lim sub)
qed

theorem scale_up_limit_wraps_witness:
  "unat (calc_scale_up_limit 10 5 (Some [\<lparr>se_change = 10, se_time = 0\<rparr>]) (wit_pods_rules SelMax)) = 4294967295"
  using scale_up_limit_wraps [of "wit_pods_rules SelMax" 4 60 10 10 "Some [\<lparr>se_change = 10, se_time = 0\<rparr>]" 5]
  by (simp add: wit_pods_rules_def get_replicas_change_in_period_def)

text \<open>
  The default behaviour for scaling up allows the larger of four more pods and twice the pods,
  exactly, although one of its limits is computed in floating point.
\<close>

theorem default_scale_up_limit:
  assumes "unat current < 2 ^ 31"
  shows "calc_scale_up_limit now current None default_scale_up_behavior = max (current + 4) (2 * current)"
proof -
  have u: "uint current < 2 ^ 31" using assms uint_less_iff [of current "2 ^ 31"] by simp
  have one: "f64_add (Fin 1) (f64_div (Fin 100) (Fin 100)) = Fin 2"
    using f64_round_int [of 1] f64_round_int [of 2] by simp
  have hundred: "f64_of_int 100 = Fin 100"
    using f64_of_int_exact [of 100] by simp
  have "f64_mul (Fin (of_int (uint current))) (Fin 2) = Fin (of_int (2 * uint current))"
    using u f64_round_int [of "2 * uint current"] by (simp add: mult.commute)
  moreover have "word_of_int (2 * uint current) = 2 * current" by simp
  ultimately have "f64_as_u32 (f64_ceil (f64_mul (Fin (of_int (uint current))) (Fin 2))) = 2 * current"
    using u f64_as_u32_int [of "2 * uint current"]
    by (simp del: f64_as_u32.simps of_int_mult f64_mul.simps)
  then show ?thesis
    using one hundred by (simp add: calc_scale_up_limit_def default_scale_up_behavior_def up_period_limit_def
       get_replicas_change_in_period_def Let_def del: f64_as_u32.simps f64_add.simps f64_div.simps f64_mul.simps)
qed



theorem default_scale_up_limit_witness:
  "calc_scale_up_limit 0 6 None default_scale_up_behavior = 12"
  using default_scale_up_limit [of 6 0] by (simp add: max_def)

text \<open>
  Stabilisation when scaling down: the stabilised count is not below any recommendation of the
  window (up to the current count), and never above the current count.
\<close>

theorem stabilize_holds_down:
  assumes "stabilize_recommendation now n current desired b pa = (r, pa')"
    and "hm_get (pa_recommendations pa) n = Some recs" and "x \<in> set recs"
    and "rec_time x \<ge> now - seconds (hr_stabilization_window_seconds (hb_scale_down b))"
    and "desired \<le> current"
  shows "min current (rec_replicas x) \<le> r \<and> r \<le> current"
proof -
  let ?up = "now - seconds (hr_stabilization_window_seconds (hb_scale_up b))"
  let ?down = "now - seconds (hr_stabilization_window_seconds (hb_scale_down b))"
  let ?P = "\<lambda>r. rec_time r < ?up \<and> rec_time r < ?down"
  let ?recs = "dropWhile ?P recs"
  have "x \<in> set (filter (\<lambda>r. \<not> ?P r) recs)" using assms(3,4) by simp
  also have "filter (\<lambda>r. \<not> ?P r) recs = filter (\<lambda>r. \<not> ?P r) ?recs"
    by (rule filter_dropWhile_disjoint [symmetric]) simp
  finally have "x \<in> set ?recs" by simp
  then have "rec_replicas x \<le> down_bound ?down ?recs desired"
    using assms(4) by (intro down_bound_ge_rec)
  moreover have "up_bound ?up ?recs desired \<le> desired" by (rule up_bound_le)
  moreover have "r = min (max current (up_bound ?up ?recs desired)) (down_bound ?down ?recs desired)"
    using assms(1,2) by (simp add: stabilize_recommendation_def Let_def)
  ultimately show ?thesis using assms(5) by (auto simp: min_def max_def)
qed

theorem stabilize_holds_down_witness:
  "\<exists>r pa'. stabilize_recommendation 0 ''web'' 10 3 hpa_behavior_default
      (pod_autoscaler_new\<lparr>pa_recommendations := [(''web'', [\<lparr>rec_replicas = 8, rec_time = 0\<rparr>])]\<rparr>) = (r, pa')
    \<and> 8 \<le> r \<and> r \<le> 10"
proof -
  let ?pa = "pod_autoscaler_new\<lparr>pa_recommendations := [(''web'', [\<lparr>rec_replicas = 8, rec_time = 0\<rparr>])]\<rparr>"
  obtain r pa' where run: "stabilize_recommendation 0 ''web'' 10 3 hpa_behavior_default ?pa = (r, pa')"
    by (meson surj_pair)
  have "8 \<le> r \<and> r \<le> 10"
    using stabilize_holds_down [OF run, of "[\<lparr>rec_replicas = 8, rec_time = 0\<rparr>]"
        "\<lparr>rec_replicas = 8, rec_time = 0\<rparr>"]
    by (simp add: hpa_behavior_default_def)
  with run show ?thesis by blast
qed

text \<open>
  C27. Every message about a stored autoscaler (one is sent when it is created and whenever its
  specification changes) adds an entry to the work queue that never leaves it: over any run of the main
  loop the entries of an autoscaler that stays stored grow by at least the number of these messages,
  since every entry worked off is queued again.
\<close>

theorem queue_entries_accumulate:
  assumes "pa_run api evs (pa, w) = (Inr u, (pa', w'))" and "hpa_stored n (pa_hpa_store pa)"
    and "\<forall>hs ps. StoresChanged hs ps \<in> set evs \<longrightarrow> hpa_stored n hs"
  shows "entries n pa + changes_of n evs \<le> entries n pa'"
  using assms
proof (induction evs arbitrary: pa w)
  case Nil
  then show ?case by (simp add: changes_of_def)
next
  case (Cons ev evs)
  from Cons.prems(1) obtain pa1 w1 where step: "pa_step api ev (pa, w) = (Inr (), (pa1, w1))"
    and run: "pa_run api evs (pa1, w1) = (Inr u, (pa', w'))"
    by (auto elim!: io_bind_InrE)
  note s = pa_step_entries [OF step Cons.prems(2), simplified]
  have one: "entries n pa + changes_of n [ev] \<le> entries n pa1" "hpa_stored n (pa_hpa_store pa1)"
    using pa_step_entries [OF step Cons.prems(2)] Cons.prems(3) by auto
  have "entries n pa1 + changes_of n evs \<le> entries n pa'"
    using Cons.IH [OF run one(2)] Cons.prems(3) by auto
  moreover have "changes_of n (ev # evs) = changes_of n [ev] + changes_of n evs"
    by (simp add: changes_of_def)
  ultimately show ?case using one by simp
qed

definition wit_store :: "(string, hpa) hashmap" where
  "wit_store = [(''/api/v1/horizontalpodautoscalers/web'', wit_hpa)]"

definition dead_api :: "unit api" where
  "dead_api r w = (SendError ''down'', w)"

theorem queue_entries_accumulate_witness:
  "\<exists>u pa' w'. pa_run dead_api [StoresChanged wit_store [], HpaChanged 1 ''web'', HpaChanged 2 ''web'', Work 3 (''web'', 1)]
      (pod_autoscaler_new\<lparr>pa_hpa_store := wit_store\<rparr>, ()) = (Inr u, (pa', w')) \<and> 2 \<le> entries ''web'' pa'"
proof -
  let ?evs = "[StoresChanged wit_store [], HpaChanged 1 ''web'', HpaChanged 2 ''web'', Work 3 (''web'', 1)]"
  let ?pa = "pod_autoscaler_new\<lparr>pa_hpa_store := wit_store\<rparr>"
  have "\<exists>pa' w'. pa_run dead_api ?evs (?pa, ()) = (Inr (), (pa', w'))"
    by (simp add: io_bind_def io_try_def on_state_def on_work_def Let_def on_hpa_changed_def
        pod_autoscaler_new_def wit_store_def reconcile_def on_world_def get_scale_target_def
        api_send_def dead_api_def)
  then obtain pa' w' where run: "pa_run dead_api ?evs (?pa, ()) = (Inr (), (pa', w'))" by blast
  have "changes_of ''web'' ?evs = 2" by (simp add: changes_of_def)
  with queue_entries_accumulate [OF run, of "''web''"] run show ?thesis
    by (auto simp: hpa_stored_def wit_store_def)
qed

text \<open>
  C28. Scaling by an average value panics when there are metrics but none of the pods is ready: the
  metrics are all dropped before the average divides by their number.
\<close>

theorem by_value_panics_when_no_pod_is_ready:
  assumes "api \<lparr>rq_method = GET, rq_path = ''/api/v1/metrics/pods?selector='' @ labels_to_string sel,
                rq_body = None\<rparr> w = (Reply st msg (Some (DPodMetrics ms)), w')"
    and "ms \<noteq> []" and "get_pods store sel \<noteq> []"
    and "\<forall>p \<in> set (get_pods store sel). pod_status p \<noteq> None \<and> \<not> pod_is_ready p"
    and "\<forall>m \<in> set ms. \<exists>p \<in> set (get_pods store sel). pms_name m = md_name (pod_metadata p)"
  shows "calc_replicas_by_value api store now current target r sel w =
           (Inl (Panic ''attempt to divide by zero''), w')"
proof -
  let ?pods = "get_pods store sel" and ?names = "(\<lambda>p. md_name (pod_metadata p)) ` set (get_pods store sel)"
  have dom: "fst ` set (fold (\<lambda>p info. if pms_containers p = [] then info
     else hm_insert (pms_name p) \<lparr>pm_timestamp = pms_timestamp p, pm_window = pms_window p,
             pm_value = sum_usage r (pms_containers p)\<rparr> info) xs info) \<subseteq> N"
    if "pms_name ` set xs \<subseteq> N" and "fst ` set info \<subseteq> N" for xs info and N :: "string set"
    using that
  proof (induction xs arbitrary: info)
    case (Cons x xs)
    then show ?case
      by (auto simp flip: dom_hm_get)
  qed simp
  obtain m missing where f: "filter_pods (collect_metrics r ms) ?pods = Inr (m, missing)"
    and sub: "hm_get m \<subseteq>\<^sub>m hm_get (collect_metrics r ms)"
    and none: "\<forall>p \<in> set ?pods. hm_get m (md_name (pod_metadata p)) = None"
    using filter_pods_none_usable [OF assms(4)] by blast
  have names: "dom (hm_get (collect_metrics r ms)) \<subseteq> ?names"
    using dom [of ms ?names hm_empty] assms(5)
    by (auto simp: collect_metrics_def hm_empty_def dom_hm_get)
  have "hm_get m k = None" for k
  proof (rule ccontr)
    assume k: "hm_get m k \<noteq> None"
    then have "k \<in> dom (hm_get m)" by (simp add: domIff)
    with map_le_implies_dom_le [OF sub] names have "k \<in> ?names" by blast
    with none k show False by auto
  qed
  then have "m = []"
    by (rule hm_get_all_None)
  then show ?thesis
    using assms(1,2,3) f
    by (simp add: calc_replicas_by_value_def get_resource_metric_value_def get_pod_metrics_def
        io_bind_def api_send_def Let_def calc_scale_ratio_by_value_empty)
qed

theorem by_value_panics_when_no_pod_is_ready_witness:
  "calc_replicas_by_value
     (\<lambda>r w. (Reply 200 None (Some (DPodMetrics [\<lparr>pms_name = ''web-1'', pms_timestamp = 0, pms_window = 60,
        pms_containers = []\<rparr>])), w))
     [(''/api/v1/pods/web-1'', wit_pod ''web-1'' False)] 0 1 100 CPU [] () =
   (Inl (Panic ''attempt to divide by zero''), ())"
  by (rule by_value_panics_when_no_pod_is_ready [where ms = "[\<lparr>pms_name = ''web-1'', pms_timestamp = 0,
        pms_window = 60, pms_containers = []\<rparr>]"])
    (auto simp: get_pods_def hm_values_def wit_pod_def pod_is_ready_def wit_metadata_def pod_status_default_def)

end
