(* ===== verification/Informer.thy ===== *)
theory Informer
  imports Objects
begin

text \<open>
  The informers (\<open>resources/src/informer\<close>): a reflector lists the objects of one kind, watches the
  API server for changes, keeps the objects in a store and notifies; the informer passes the
  notifications to the handlers of a controller. The listing, the watch connection, the JSON parser
  and the \<open>PartialEq\<close> of the objects are parameters.

  The lemmas: the store follows the watched changes, the notifications replay to the store, and the
  pipeline from the reflector to a handler that reads the store, with the bound on the pending
  changes up to which it cannot get stuck.
\<close>

section \<open>Messages and notifications\<close>

datatype 'a watch_event = WPut string 'a | WDelete string

datatype 'a notification = NAdd 'a | NUpdate 'a 'a | NDelete 'a

text \<open>What \<open>receiver.next()\<close> yields; a list of items that ends is a closed stream.\<close>

datatype stream_item = StreamError string | CloseMessage | TextMessage string | OtherMessage

record 'a reflector =
  rf_store :: "(string, 'a) hashmap"
  rf_events :: "'a notification list"
  rf_resyncs :: nat

definition reflector_new :: "'a reflector" where
  "reflector_new = \<lparr>rf_store = hm_empty, rf_events = [], rf_resyncs = 0\<rparr>"

section \<open>Listing and watching\<close>

text \<open>A listing replaces the store when it differs, and asks for a resynchronisation then.\<close>

definition apply_listing ::
    "('a \<Rightarrow> 'a \<Rightarrow> bool) \<Rightarrow> ('a \<Rightarrow> string) \<Rightarrow> 'a list \<Rightarrow> 'a reflector \<Rightarrow> 'a reflector" where
  "apply_listing eqv uri objects st =
     (let new_store = fold (\<lambda>x. hm_insert (uri x) x) objects hm_empty
      in if hm_eq_by eqv (rf_store st) new_store then st
         else st\<lparr>rf_store := new_store, rf_resyncs := rf_resyncs st + 1\<rparr>)"

definition handle_watch_event ::
    "('a \<Rightarrow> 'a \<Rightarrow> bool) \<Rightarrow> 'a watch_event \<Rightarrow> 'a reflector \<Rightarrow> 'a reflector" where
  "handle_watch_event eqv ev st = (case ev of
       WPut key object \<Rightarrow>
         (case hm_get (rf_store st) key of
            Some old \<Rightarrow>
              if eqv old object then st
              else st\<lparr>rf_store := hm_insert key object (rf_store st),
                      rf_events := rf_events st @ [NUpdate old object]\<rparr>
          | None \<Rightarrow> st\<lparr>rf_store := hm_insert key object (rf_store st),
                       rf_events := rf_events st @ [NAdd object]\<rparr>)
     | WDelete key \<Rightarrow>
         (case hm_get (rf_store st) key of
            Some old \<Rightarrow> st\<lparr>rf_store := hm_remove key (rf_store st),
                            rf_events := rf_events st @ [NDelete old]\<rparr>
          | None \<Rightarrow> st))"

text \<open>One message; an error ends the watch.\<close>

definition handle_message ::
    "('a \<Rightarrow> 'a \<Rightarrow> bool) \<Rightarrow> (string \<Rightarrow> 'a watch_event option) \<Rightarrow> stream_item \<Rightarrow> ('a reflector, unit) io" where
  "handle_message eqv parse item = (\<lambda>st. case item of
       StreamError e \<Rightarrow> (Inl (Err e), st)
     | CloseMessage \<Rightarrow> (Inl (Err ''Api-server watch disconnect''), st)
     | OtherMessage \<Rightarrow> (Inr (), st)
     | TextMessage msg \<Rightarrow> (case parse msg of
         None \<Rightarrow> (Inl (Err ''decode''), st)
       | Some ev \<Rightarrow> (Inr (), handle_watch_event eqv ev st)))"

fun handle_watcher ::
    "('a \<Rightarrow> 'a \<Rightarrow> bool) \<Rightarrow> (string \<Rightarrow> 'a watch_event option) \<Rightarrow> stream_item list \<Rightarrow> ('a reflector, unit) io" where
  "handle_watcher eqv parse [] = io_fail (Err ''Failed to receive watch message from api-server'')"
| "handle_watcher eqv parse (item # items) =
     io_bind (handle_message eqv parse item) (\<lambda>_. handle_watcher eqv parse items)"

text \<open>
  One round of \<open>Reflector::run\<close>: the listing that succeeded (failed ones are retried), then the watch,
  if its connection came up, until it ends.
\<close>

definition reflector_round ::
    "('a \<Rightarrow> 'a \<Rightarrow> bool) \<Rightarrow> ('a \<Rightarrow> string) \<Rightarrow> (string \<Rightarrow> 'a watch_event option) \<Rightarrow>
     'a list \<Rightarrow> stream_item list option \<Rightarrow> 'a reflector \<Rightarrow> 'a reflector" where
  "reflector_round eqv uri parse objects watch st =
     (let st = apply_listing eqv uri objects st in
      case watch of None \<Rightarrow> st | Some items \<Rightarrow> snd (handle_watcher eqv parse items st))"

definition reflector_run ::
    "('a \<Rightarrow> 'a \<Rightarrow> bool) \<Rightarrow> ('a \<Rightarrow> string) \<Rightarrow> (string \<Rightarrow> 'a watch_event option) \<Rightarrow>
     ('a list \<times> stream_item list option) list \<Rightarrow> 'a reflector" where
  "reflector_run eqv uri parse rounds =
     fold (\<lambda>(objects, watch). reflector_round eqv uri parse objects watch) rounds reflector_new"

section \<open>The store as a mirror\<close>

text \<open>The changes of a watch up to the item that ends it, and their meaning on the objects by key.\<close>

fun watched :: "(string \<Rightarrow> 'a watch_event option) \<Rightarrow> stream_item list \<Rightarrow> 'a watch_event list" where
  "watched parse [] = []"
| "watched parse (OtherMessage # items) = watched parse items"
| "watched parse (TextMessage msg # items) =
     (case parse msg of None \<Rightarrow> [] | Some ev \<Rightarrow> ev # watched parse items)"
| "watched parse (_ # items) = []"

definition apply_change :: "'a watch_event \<Rightarrow> (string \<rightharpoonup> 'a) \<Rightarrow> (string \<rightharpoonup> 'a)" where
  "apply_change ev m = (case ev of WPut k x \<Rightarrow> m(k \<mapsto> x) | WDelete k \<Rightarrow> m(k := None))"

text \<open>What a handler that keeps its own copy makes of a notification.\<close>

definition replay :: "('a \<Rightarrow> string) \<Rightarrow> 'a notification \<Rightarrow> (string \<rightharpoonup> 'a) \<Rightarrow> (string \<rightharpoonup> 'a)" where
  "replay uri n m = (case n of NAdd x \<Rightarrow> m(uri x \<mapsto> x) | NUpdate old x \<Rightarrow> m(uri x \<mapsto> x)
                             | NDelete old \<Rightarrow> m(uri old := None))"

definition keyed :: "('a \<Rightarrow> string) \<Rightarrow> (string \<rightharpoonup> 'a) \<Rightarrow> bool" where
  "keyed uri m \<longleftrightarrow> (\<forall>k x. m k = Some x \<longrightarrow> uri x = k)"

definition keyed_event :: "('a \<Rightarrow> string) \<Rightarrow> 'a watch_event \<Rightarrow> bool" where
  "keyed_event uri ev = (case ev of WPut k x \<Rightarrow> uri x = k | WDelete k \<Rightarrow> True)"

lemma handle_watcher_watched:
  "snd (handle_watcher eqv parse items st) = fold (handle_watch_event eqv) (watched parse items) st"
proof (induction parse items arbitrary: st rule: watched.induct)
  case (3 parse msg items)
  then show ?case
    by (cases "parse msg") (simp_all add: io_bind_def handle_message_def)
qed (simp_all add: io_bind_def handle_message_def)

text \<open>
  The equality of the objects is an interface: a reflexive relation on the objects \<open>ok\<close> that are
  well formed. Up to it the store is a mirror.
\<close>

locale object_equality =
  fixes eqv :: "'a \<Rightarrow> 'a \<Rightarrow> bool" and ok :: "'a \<Rightarrow> bool"
  assumes eqv_refl: "ok x \<Longrightarrow> eqv x x"
begin

lemma event_mirrors:
  assumes "rel_fun (=) (rel_option eqv) (hm_get (rf_store st)) m"
    and "\<And>k x. ev = WPut k x \<Longrightarrow> ok x"
  shows "rel_fun (=) (rel_option eqv) (hm_get (rf_store (handle_watch_event eqv ev st))) (apply_change ev m)"
proof -
  have r: "rel_option eqv (hm_get (rf_store st) k) (m k)" for k
    using assms(1) by (simp add: rel_fun_def)
  show ?thesis
  proof (cases ev)
    case (WPut k x)
    with assms(2) have x: "eqv x x" by (simp add: eqv_refl)
    show ?thesis
      using r x by (auto simp: WPut handle_watch_event_def apply_change_def rel_fun_def split: option.splits)
  next
    case (WDelete k)
    show ?thesis
      using r by (auto simp: WDelete handle_watch_event_def apply_change_def rel_fun_def split: option.splits)
  qed
qed

lemma events_mirror:
  assumes "rel_fun (=) (rel_option eqv) (hm_get (rf_store st)) m"
    and "\<And>k x. WPut k x \<in> set evs \<Longrightarrow> ok x"
  shows "rel_fun (=) (rel_option eqv) (hm_get (rf_store (fold (handle_watch_event eqv) evs st)))
           (fold apply_change evs m)"
  using assms
proof (induction evs arbitrary: st m)
  case (Cons ev evs)
  have "rel_fun (=) (rel_option eqv) (hm_get (rf_store (handle_watch_event eqv ev st))) (apply_change ev m)"
    using Cons.prems by (intro event_mirrors) auto
  moreover have "\<And>k x. WPut k x \<in> set evs \<Longrightarrow> ok x" by (rule Cons.prems(2) [OF list.set_intros(2)])
  ultimately show ?case using Cons.IH by simp
qed simp

lemma listing_mirrors:
  assumes ok: "\<And>x. x \<in> set objects \<Longrightarrow> ok x" and wf: "hm_wf (rf_store st)"
  shows "rel_fun (=) (rel_option eqv) (hm_get (rf_store (apply_listing eqv uri objects st)))
           (map_of (rev (map (\<lambda>x. (uri x, x)) objects)))"
proof -
  let ?new = "fold (\<lambda>x. hm_insert (uri x) x) objects hm_empty"
  have new: "hm_get ?new = map_of (rev (map (\<lambda>x. (uri x, x)) objects))"
    by (rule hm.lookup_fold_insert_empty [where val = "\<lambda>x. x"])
  have "rel_option eqv (hm_get ?new k) (hm_get ?new k)" for k
  proof (cases "hm_get ?new k")
    case (Some x)
    then have "(k, x) \<in> set (rev (map (\<lambda>x. (uri x, x)) objects))"
      unfolding new by (rule map_of_SomeD)
    then have "x \<in> set objects" by auto
    with ok eqv_refl Some show ?thesis by simp
  qed simp
  moreover have "rel_option eqv (hm_get (rf_store st) k) (hm_get ?new k)"
    if "hm_eq_by eqv (rf_store st) ?new" for k
    using that wf hm_wf_fold_insert [of hm_empty uri "\<lambda>x. x" objects] by (intro hm_eq_by_rel) simp_all
  ultimately show ?thesis
    by (auto simp: apply_listing_def Let_def new [symmetric] rel_fun_def)
qed

end

interpretation exact: object_equality "(=) :: 'a \<Rightarrow> 'a \<Rightarrow> bool" "\<lambda>_. True"
  by unfold_locales simp

lemma rel_exact: "rel_fun (=) (rel_option (=)) f g \<longleftrightarrow> f = g"
  by (auto simp: rel_fun_def option.rel_eq fun_eq_iff)


lemma handle_watch_event_wf: "hm_wf (rf_store st) \<Longrightarrow> hm_wf (rf_store (handle_watch_event eqv ev st))"
  by (auto simp: handle_watch_event_def split: watch_event.splits option.splits)

lemma handle_watcher_wf: "hm_wf (rf_store st) \<Longrightarrow> hm_wf (rf_store (snd (handle_watcher eqv parse items st)))"
proof -
  have "hm_wf (rf_store st) \<Longrightarrow> hm_wf (rf_store (fold (handle_watch_event eqv) evs st))" for evs
    by (induction evs arbitrary: st) (simp_all add: handle_watch_event_wf)
  then show "hm_wf (rf_store st) \<Longrightarrow> ?thesis" by (simp add: handle_watcher_watched)
qed

lemma apply_listing_wf: "hm_wf (rf_store st) \<Longrightarrow> hm_wf (rf_store (apply_listing eqv uri objects st))"
  by (simp add: apply_listing_def Let_def hm_wf_fold_insert)

lemma reflector_round_wf: "hm_wf (rf_store st) \<Longrightarrow> hm_wf (rf_store (reflector_round eqv uri parse objects w st))"
  by (simp add: reflector_round_def Let_def apply_listing_wf handle_watcher_wf split: option.splits)

subsection \<open>Notifications\<close>

text \<open>Of one change: what it notifies of, and that the notification replays it.\<close>

lemma event_replays:
  assumes "keyed uri (hm_get (rf_store st))" and "keyed_event uri ev"
  obtains ns where "rf_events (handle_watch_event eqv ev st) = rf_events st @ ns"
    and "fold (replay uri) ns (hm_get (rf_store st)) = hm_get (rf_store (handle_watch_event eqv ev st))"
    and "keyed uri (hm_get (rf_store (handle_watch_event eqv ev st)))"
proof -
  let ?ns = "drop (length (rf_events st)) (rf_events (handle_watch_event eqv ev st))"
  have "rf_events (handle_watch_event eqv ev st) = rf_events st @ ?ns \<and>
     fold (replay uri) ?ns (hm_get (rf_store st)) = hm_get (rf_store (handle_watch_event eqv ev st)) \<and>
     keyed uri (hm_get (rf_store (handle_watch_event eqv ev st)))"
    using assms
    by (auto simp: handle_watch_event_def replay_def keyed_def keyed_event_def
        split: watch_event.splits option.splits)
  with that show ?thesis by blast
qed

lemma events_replay:
  assumes "keyed uri (hm_get (rf_store st))" and "list_all (keyed_event uri) evs"
  shows "\<exists>ns. rf_events (fold (handle_watch_event eqv) evs st) = rf_events st @ ns \<and>
    fold (replay uri) ns (hm_get (rf_store st)) = hm_get (rf_store (fold (handle_watch_event eqv) evs st)) \<and>
    keyed uri (hm_get (rf_store (fold (handle_watch_event eqv) evs st)))"
  using assms
proof (induction evs arbitrary: st)
  case Nil
  then show ?case by simp
next
  case (Cons ev evs)
  from Cons.prems have "keyed_event uri ev" by simp
  with Cons.prems(1) obtain n1 where
    n1: "rf_events (handle_watch_event eqv ev st) = rf_events st @ n1"
      "fold (replay uri) n1 (hm_get (rf_store st)) = hm_get (rf_store (handle_watch_event eqv ev st))"
      "keyed uri (hm_get (rf_store (handle_watch_event eqv ev st)))"
    by (rule event_replays)
  from Cons.IH [OF n1(3)] Cons.prems(2) obtain n2 where
    "rf_events (fold (handle_watch_event eqv) (ev # evs) st) = rf_events st @ n1 @ n2"
    "fold (replay uri) n2 (hm_get (rf_store (handle_watch_event eqv ev st))) =
       hm_get (rf_store (fold (handle_watch_event eqv) (ev # evs) st))"
    "keyed uri (hm_get (rf_store (fold (handle_watch_event eqv) (ev # evs) st)))"
    using n1(1) by auto
  with n1(2) show ?case by (intro exI [of _ "n1 @ n2"]) simp
qed

text \<open>A change to an object that is equal to the stored one is dropped.\<close>

lemma equal_puts_dropped:
  assumes "hm_get (rf_store st) k = Some old" and "list_all (\<lambda>x. eqv old x) xs"
  shows "fold (handle_watch_event eqv) (map (WPut k) xs) st = st"
  using assms by (induction xs) (simp_all add: handle_watch_event_def)

section \<open>The pipeline to a handler\<close>

text \<open>
  The reflector holds the write lock of the store while it sends a notification into the informer's
  channel (16 places); the informer passes one notification at a time into the controller's channel
  (16 places); the controller handles one at a time, and its handler reads the store. A full channel
  makes the sender wait, and a reader of the store waits for the writer. The changes of the watch
  that still come are \<open>pp_pending\<close>; the notifications handled are \<open>pp_done\<close>.
\<close>

record 'n pipeline =
  pp_pending :: "'n list"
  pp_locked :: "'n option"
  pp_channel :: "'n list"
  pp_informer :: "'n option"
  pp_queue :: "'n list"
  pp_handler :: "'n option"
  pp_done :: "'n list"

definition channel_capacity :: nat where
  "channel_capacity = 16"

definition pipeline_start :: "'n list \<Rightarrow> 'n pipeline" where
  "pipeline_start ns = \<lparr>pp_pending = ns, pp_locked = None, pp_channel = [], pp_informer = None,
     pp_queue = [], pp_handler = None, pp_done = []\<rparr>"

inductive pipe_step :: "'n pipeline \<Rightarrow> 'n pipeline \<Rightarrow> bool" where
  watch: "pp_pending s = n # ns \<Longrightarrow> pp_locked s = None \<Longrightarrow>
    pipe_step s (s\<lparr>pp_pending := ns, pp_locked := Some n\<rparr>)"
| sent: "pp_locked s = Some n \<Longrightarrow> length (pp_channel s) < channel_capacity \<Longrightarrow>
    pipe_step s (s\<lparr>pp_locked := None, pp_channel := pp_channel s @ [n]\<rparr>)"
| receive: "pp_channel s = n # ns \<Longrightarrow> pp_informer s = None \<Longrightarrow>
    pipe_step s (s\<lparr>pp_channel := ns, pp_informer := Some n\<rparr>)"
| pass: "pp_informer s = Some n \<Longrightarrow> length (pp_queue s) < channel_capacity \<Longrightarrow>
    pipe_step s (s\<lparr>pp_informer := None, pp_queue := pp_queue s @ [n]\<rparr>)"
| start: "pp_queue s = n # ns \<Longrightarrow> pp_handler s = None \<Longrightarrow>
    pipe_step s (s\<lparr>pp_queue := ns, pp_handler := Some n\<rparr>)"
| finish: "pp_handler s = Some n \<Longrightarrow> pp_locked s = None \<Longrightarrow>
    pipe_step s (s\<lparr>pp_handler := None, pp_done := pp_done s @ [n]\<rparr>)"

inductive_cases pipe_stepE: "pipe_step s t"

fun opt_list :: "'n option \<Rightarrow> 'n list" where
  "opt_list None = []"
| "opt_list (Some n) = [n]"

text \<open>The notifications in the order in which they are handled.\<close>

definition in_order :: "'n pipeline \<Rightarrow> 'n list" where
  "in_order s = pp_done s @ opt_list (pp_handler s) @ pp_queue s @ opt_list (pp_informer s) @
     pp_channel s @ opt_list (pp_locked s) @ pp_pending s"

definition within_capacity :: "'n pipeline \<Rightarrow> bool" where
  "within_capacity s \<longleftrightarrow> length (pp_channel s) \<le> channel_capacity \<and> length (pp_queue s) \<le> channel_capacity"

lemma pipe_step_in_order: "pipe_step s t \<Longrightarrow> in_order t = in_order s"
  by (auto simp: in_order_def elim!: pipe_stepE)

lemma pipe_step_capacity: "pipe_step s t \<Longrightarrow> within_capacity s \<Longrightarrow> within_capacity t"
  by (auto simp: within_capacity_def elim!: pipe_stepE)

lemma pipe_reach_invariant:
  assumes "pipe_step\<^sup>*\<^sup>* (pipeline_start ns) s"
  shows "in_order s = ns \<and> within_capacity s"
  using assms
proof (induction rule: rtranclp_induct)
  case base
  then show ?case by (simp add: in_order_def within_capacity_def pipeline_start_def)
next
  case (step t u)
  then show ?case by (simp add: pipe_step_in_order pipe_step_capacity)
qed

text \<open>A state without a step: everything is handled, or every place is taken.\<close>

lemma pipe_stuck_iff:
  assumes "within_capacity s"
  shows "(\<nexists>t. pipe_step s t) \<longleftrightarrow>
    (pp_done s = in_order s) \<or>
    (pp_handler s \<noteq> None \<and> length (pp_queue s) = channel_capacity \<and> pp_informer s \<noteq> None \<and>
     length (pp_channel s) = channel_capacity \<and> pp_locked s \<noteq> None)"
proof -
  have steps: "(\<exists>t. pipe_step s t) \<longleftrightarrow>
     (pp_pending s \<noteq> [] \<and> pp_locked s = None) \<or>
     (pp_locked s \<noteq> None \<and> length (pp_channel s) < channel_capacity) \<or>
     (pp_channel s \<noteq> [] \<and> pp_informer s = None) \<or>
     (pp_informer s \<noteq> None \<and> length (pp_queue s) < channel_capacity) \<or>
     (pp_queue s \<noteq> [] \<and> pp_handler s = None) \<or> (pp_handler s \<noteq> None \<and> pp_locked s = None)"
    by (auto simp: neq_Nil_conv elim!: pipe_stepE intro: pipe_step.intros)
  have cap: "length xs = channel_capacity \<Longrightarrow> xs \<noteq> []" for xs :: "'a list"
    by (auto simp: channel_capacity_def)
  have le: "length (pp_channel s) \<le> channel_capacity" "length (pp_queue s) \<le> channel_capacity"
    using assms by (simp_all add: within_capacity_def)
  show ?thesis
    unfolding steps
    using le cap
    by (cases "pp_locked s"; cases "pp_handler s"; cases "pp_informer s")
      (auto simp: in_order_def not_less)
qed

text \<open>Every step moves one notification on, so there are at most six steps for each.\<close>

definition pipe_work :: "'n pipeline \<Rightarrow> nat" where
  "pipe_work s = 6 * length (pp_pending s) + 5 * length (opt_list (pp_locked s)) +
     4 * length (pp_channel s) + 3 * length (opt_list (pp_informer s)) + 2 * length (pp_queue s) +
     length (opt_list (pp_handler s))"

lemma pipe_step_work: "pipe_step s t \<Longrightarrow> pipe_work t < pipe_work s"
  by (auto simp: pipe_work_def elim!: pipe_stepE)

lemma pipe_stuck_long:
  assumes "pipe_step\<^sup>*\<^sup>* (pipeline_start ns) s" and "\<nexists>t. pipe_step s t" and "pp_done s \<noteq> ns"
  shows "2 * channel_capacity + 3 \<le> length ns"
proof -
  have inv: "in_order s = ns" "within_capacity s"
    using pipe_reach_invariant [OF assms(1)] by simp_all
  with assms(2,3) have full: "pp_handler s \<noteq> None" "length (pp_queue s) = channel_capacity"
      "pp_informer s \<noteq> None" "length (pp_channel s) = channel_capacity" "pp_locked s \<noteq> None"
    using pipe_stuck_iff [OF inv(2)] by simp_all
  then have "length (in_order s) \<ge> 2 * channel_capacity + 3"
    by (cases "pp_handler s"; cases "pp_informer s"; cases "pp_locked s") (simp_all add: in_order_def)
  with inv(1) show ?thesis by simp
qed

lemma pipe_runs_on:
  assumes "pipe_step\<^sup>*\<^sup>* (pipeline_start ns) s" and "length ns < 2 * channel_capacity + 3"
  shows "\<exists>t. pipe_step\<^sup>*\<^sup>* s t \<and> pp_done t = ns"
  using assms
proof (induction "pipe_work s" arbitrary: s rule: less_induct)
  case less
  show ?case
  proof (cases "pp_done s = ns")
    case False
    with less.prems pipe_stuck_long obtain u where u: "pipe_step s u" by (meson not_less)
    with less.prems(1) have "pipe_step\<^sup>*\<^sup>* (pipeline_start ns) u" by (rule rtranclp.rtrancl_into_rtrancl)
    from less.hyps [OF pipe_step_work [OF u] this less.prems(2)] u show ?thesis
      by (metis converse_rtranclp_into_rtranclp)
  qed blast
qed

subsection \<open>The way into the deadlock\<close>

abbreviation blocked_handler :: "'n \<Rightarrow> 'n list \<Rightarrow> 'n option \<Rightarrow> 'n list \<Rightarrow> 'n option \<Rightarrow> 'n list \<Rightarrow> 'n pipeline" where
  "blocked_handler h q i c l rest \<equiv> \<lparr>pp_pending = rest, pp_locked = l, pp_channel = c, pp_informer = i,
     pp_queue = q, pp_handler = Some h, pp_done = []\<rparr>"

lemma fill_first: "pipe_step\<^sup>*\<^sup>* (pipeline_start (h # ns)) (blocked_handler h [] None [] None ns)"
  unfolding pipeline_start_def
  by (rule converse_rtranclp_into_rtranclp, rule pipe_step.watch, simp, simp,
      rule converse_rtranclp_into_rtranclp, rule pipe_step.sent, simp, simp add: channel_capacity_def,
      rule converse_rtranclp_into_rtranclp, rule pipe_step.receive, simp, simp,
      rule converse_rtranclp_into_rtranclp, rule pipe_step.pass, simp, simp add: channel_capacity_def,
      rule converse_rtranclp_into_rtranclp, rule pipe_step.start, simp, simp, simp)

lemma fill_channel:
  assumes "length c + length ms \<le> channel_capacity"
  shows "pipe_step\<^sup>*\<^sup>* (blocked_handler h q i c None (ms @ ns)) (blocked_handler h q i (c @ ms) None ns)"
  using assms
proof (induction ms arbitrary: c)
  case (Cons m ms)
  have "pipe_step\<^sup>*\<^sup>* (blocked_handler h q i c None ((m # ms) @ ns))
          (blocked_handler h q i (c @ [m]) None (ms @ ns))"
    by (rule converse_rtranclp_into_rtranclp, rule pipe_step.watch, simp, simp,
        rule converse_rtranclp_into_rtranclp, rule pipe_step.sent, simp)
      (use Cons.prems in simp_all)
  also have "pipe_step\<^sup>*\<^sup>* \<dots> (blocked_handler h q i ((c @ [m]) @ ms) None ns)"
    using Cons.IH [of "c @ [m]"] Cons.prems by simp
  finally show ?case by simp
qed simp

lemma fill_informer:
  "pipe_step\<^sup>*\<^sup>* (blocked_handler h q None [] None (m # ns)) (blocked_handler h q (Some m) [] None ns)"
  by (rule converse_rtranclp_into_rtranclp, rule pipe_step.watch, simp, simp,
      rule converse_rtranclp_into_rtranclp, rule pipe_step.sent, simp, simp add: channel_capacity_def,
      rule converse_rtranclp_into_rtranclp, rule pipe_step.receive, simp, simp, simp)

lemma fill_queue:
  assumes "length q + length ms \<le> channel_capacity"
  shows "pipe_step\<^sup>*\<^sup>* (blocked_handler h q None [] None (ms @ ns)) (blocked_handler h (q @ ms) None [] None ns)"
  using assms
proof (induction ms arbitrary: q)
  case (Cons m ms)
  have "pipe_step\<^sup>*\<^sup>* (blocked_handler h q None [] None ((m # ms) @ ns))
          (blocked_handler h q (Some m) [] None (ms @ ns))"
    using fill_informer by simp
  also have "pipe_step \<dots> (blocked_handler h (q @ [m]) None [] None (ms @ ns))"
    using pipe_step.pass [of "blocked_handler h q (Some m) [] None (ms @ ns)" m] Cons.prems by simp
  also have "pipe_step\<^sup>*\<^sup>* \<dots> (blocked_handler h ((q @ [m]) @ ms) None [] None ns)"
    using Cons.IH [of "q @ [m]"] Cons.prems by simp
  finally show ?case by simp
qed simp

lemma fill_all:
  assumes "length q = channel_capacity" and "length c = channel_capacity"
  shows "pipe_step\<^sup>*\<^sup>* (pipeline_start (h # q @ i # c @ l # ns)) (blocked_handler h q (Some i) c (Some l) ns)"
proof -
  have "pipe_step\<^sup>*\<^sup>* (pipeline_start (h # q @ i # c @ l # ns)) (blocked_handler h [] None [] None (q @ i # c @ l # ns))"
    by (rule fill_first)
  also have "pipe_step\<^sup>*\<^sup>* \<dots> (blocked_handler h q None [] None (i # c @ l # ns))"
    using fill_queue [where q = "[]" and ms = q] assms by simp
  also have "pipe_step\<^sup>*\<^sup>* \<dots> (blocked_handler h q (Some i) [] None (c @ l # ns))"
    by (rule fill_informer)
  also have "pipe_step\<^sup>*\<^sup>* \<dots> (blocked_handler h q (Some i) c None (l # ns))"
    using fill_channel [where c = "[]" and ms = c] assms by simp
  also have "pipe_step \<dots> (blocked_handler h q (Some i) c (Some l) ns)"
    using pipe_step.watch [of "blocked_handler h q (Some i) c None (l # ns)" l ns] by simp
  finally show ?thesis .
qed

lemma split_for_deadlock:
  assumes "2 * channel_capacity + 3 \<le> length ns"
  obtains h q i c l rest where "ns = h # q @ i # c @ l # rest"
    and "length q = channel_capacity" and "length c = channel_capacity"
proof -
  let ?k = channel_capacity
  have eq: "ns = hd ns # take ?k (tl ns) @ hd (drop ?k (tl ns)) # take ?k (drop (Suc ?k) (tl ns)) @
          hd (drop (2 * ?k + 1) (tl ns)) # drop (2 * ?k + 2) (tl ns)"
  proof -
    have d: "drop n xs = hd (drop n xs) # drop (Suc n) xs" if "n < length xs" for n and xs :: "'a list"
      using that by (simp add: Cons_nth_drop_Suc hd_drop_conv_nth)
    have "ns = hd ns # tl ns" using assms by (cases ns) simp_all
    also have "tl ns = take ?k (tl ns) @ drop ?k (tl ns)" by simp
    also have "drop ?k (tl ns) = hd (drop ?k (tl ns)) # drop (Suc ?k) (tl ns)"
      using assms by (intro d) simp
    also have "drop (Suc ?k) (tl ns) = take ?k (drop (Suc ?k) (tl ns)) @ drop (2 * ?k + 1) (tl ns)"
      using append_take_drop_id [of ?k "drop (Suc ?k) (tl ns)"] by (simp add: mult_2 del: append_take_drop_id)
    also have "drop (2 * ?k + 1) (tl ns) = hd (drop (2 * ?k + 1) (tl ns)) # drop (2 * ?k + 2) (tl ns)"
      using d [of "2 * ?k + 1" "tl ns"] assms by simp
    finally show ?thesis by simp
  qed
  have "length (take ?k (tl ns)) = ?k" and "length (take ?k (drop (Suc ?k) (tl ns))) = ?k"
    using assms by simp_all
  with eq show ?thesis by (rule that)
qed

lemma reflector_run_wf: "hm_wf (rf_store (reflector_run eqv uri parse rounds))"
proof -
  have "hm_wf (rf_store st) \<Longrightarrow> hm_wf (rf_store (fold (\<lambda>(objects, watch).
      reflector_round eqv uri parse objects watch) rounds st))" for st
    by (induction rounds arbitrary: st) (auto simp: reflector_round_wf)
  then show ?thesis by (simp add: reflector_run_def reflector_new_def)
qed

section \<open>Properties\<close>

text \<open>
  After any rounds of listing and watching, the store holds exactly the listed objects with the
  watched changes applied in order, whatever it held before.
\<close>

theorem reflector_mirrors:
  "hm_get (rf_store (reflector_round (=) uri parse objects (Some items) (reflector_run (=) uri parse rounds))) =
     fold apply_change (watched parse items) (map_of (rev (map (\<lambda>x. (uri x, x)) objects)))"
proof -
  let ?st = "reflector_run (=) uri parse rounds"
  have "hm_get (rf_store (apply_listing (=) uri objects ?st)) = map_of (rev (map (\<lambda>x. (uri x, x)) objects))"
    using exact.listing_mirrors [OF TrueI reflector_run_wf] by (simp add: rel_exact)
  then show ?thesis
    using exact.events_mirror [OF _ TrueI, of "apply_listing (=) uri objects ?st"]
    by (simp add: reflector_round_def Let_def handle_watcher_watched rel_exact)
qed

text \<open>
  C29. The notifications of a watch lose nothing: replayed on what the store held before, they give
  what it holds afterwards, also when puts of equal objects were dropped.
\<close>

theorem notifications_replay:
  assumes "keyed uri (hm_get (rf_store st))" and "list_all (keyed_event uri) (watched parse items)"
  shows "\<exists>ns. rf_events (snd (handle_watcher eqv parse items st)) = rf_events st @ ns \<and>
    fold (replay uri) ns (hm_get (rf_store st)) = hm_get (rf_store (snd (handle_watcher eqv parse items st)))"
  using events_replay [OF assms] by (auto simp: handle_watcher_watched)

theorem notifications_replay_witness:
  "\<exists>ns. rf_events (snd (handle_watcher (=) (\<lambda>s. Some (if s = ''d'' then WDelete ''a'' else WPut s s))
       [TextMessage ''a'', TextMessage ''b'', TextMessage ''d''] reflector_new)) = [] @ ns \<and>
    fold (replay (\<lambda>s. s)) ns Map.empty = [''b'' \<mapsto> ''b'']"
  using notifications_replay [of "\<lambda>s. s" reflector_new
      "\<lambda>s. Some (if s = ''d'' then WDelete ''a'' else WPut s s)"
      "[TextMessage ''a'', TextMessage ''b'', TextMessage ''d'']" "(=)"]
  by (simp add: reflector_new_def keyed_def keyed_event_def io_bind_def handle_message_def
      handle_watch_event_def)

text \<open>
  C30. The pipeline from the reflector to a handler that reads the store can come to a stop with
  notifications unhandled if and only if 35 or more changes come in: then every channel is full, the
  reflector waits for a place while it holds the lock, and the handler waits for the lock.
\<close>

theorem pipeline_deadlock_iff:
  "(\<exists>s. pipe_step\<^sup>*\<^sup>* (pipeline_start ns) s \<and> (\<nexists>t. pipe_step s t) \<and> pp_done s \<noteq> ns) \<longleftrightarrow>
     35 \<le> length ns"
proof
  assume "\<exists>s. pipe_step\<^sup>*\<^sup>* (pipeline_start ns) s \<and> (\<nexists>t. pipe_step s t) \<and> pp_done s \<noteq> ns"
  then show "35 \<le> length ns"
    using pipe_stuck_long [of ns] by (auto simp: channel_capacity_def)
next
  assume "35 \<le> length ns"
  then have "2 * channel_capacity + 3 \<le> length ns" by (simp add: channel_capacity_def)
  then obtain h q i c l rest where ns: "ns = h # q @ i # c @ l # rest"
    and len: "length q = channel_capacity" "length c = channel_capacity" by (rule split_for_deadlock)
  let ?s = "blocked_handler h q (Some i) c (Some l) rest"
  have "pipe_step\<^sup>*\<^sup>* (pipeline_start ns) ?s" unfolding ns by (rule fill_all [OF len])
  moreover have "within_capacity ?s" using len by (simp add: within_capacity_def)
  then have "\<nexists>t. pipe_step ?s t" using len by (subst pipe_stuck_iff) simp_all
  moreover have "pp_done ?s \<noteq> ns" by (simp add: ns)
  ultimately show "\<exists>s. pipe_step\<^sup>*\<^sup>* (pipeline_start ns) s \<and> (\<nexists>t. pipe_step s t) \<and> pp_done s \<noteq> ns"
    by blast
qed

text \<open>
  With at most 34 changes, every state the pipeline reaches can go on until all of them have been
  handled in the order in which they came.
\<close>

theorem pipeline_completes:
  assumes "length ns \<le> 34" and "pipe_step\<^sup>*\<^sup>* (pipeline_start ns) s"
  shows "\<exists>t. pipe_step\<^sup>*\<^sup>* s t \<and> pp_done t = ns"
  using assms by (intro pipe_runs_on) (simp_all add: channel_capacity_def)

theorem pipeline_completes_witness:
  "\<exists>t. pipe_step\<^sup>*\<^sup>* (pipeline_start [1, 2, 3 :: nat]) t \<and> pp_done t = [1, 2, 3]"
  by (rule pipeline_completes) simp_all

end
