(* ===== verification/Workload.thy ===== *)
theory Workload
  imports Informer Http "HOL-Library.Product_Lexorder"
begin

text \<open>
  What the replica set controller and the GPU job controller share (both carry a copy of it): the
  comparison of pods that picks the next one to delete, the stable sort by that comparison, the owner
  of a pod, the requests that create and delete a pod, and the resynchronisation of all owners.

  The lemmas: the comparison is a lexicographic order, so the pod picked is a least one; a pick fails
  exactly without pods, or when a pod that has to be compared has no status; a resynchronisation
  updates every owner once.
\<close>

section \<open>The order of pods\<close>

text \<open>The order of the phases is that of the table \<open>order\<close> in the comparison.\<close>

definition phase_order :: "pod_phase \<Rightarrow> nat" where
  "phase_order p = (case p of Failed \<Rightarrow> 0 | Pending \<Rightarrow> 1 | Running \<Rightarrow> 2 | Succeeded \<Rightarrow> 3)"

lemma phase_order_inject: "phase_order p = phase_order q \<longleftrightarrow> p = q"
  by (cases p; cases q) (simp_all add: phase_order_def)

instantiation pod_phase :: linorder
begin

definition less_eq_pod_phase :: "pod_phase \<Rightarrow> pod_phase \<Rightarrow> bool" where
  "p \<le> q \<longleftrightarrow> phase_order p \<le> phase_order q"

definition less_pod_phase :: "pod_phase \<Rightarrow> pod_phase \<Rightarrow> bool" where
  "p < q \<longleftrightarrow> phase_order p < phase_order q"

instance
  by standard (auto simp: less_eq_pod_phase_def less_pod_phase_def phase_order_inject)

end

datatype ordering = OrdLess | OrdEqual | OrdGreater

definition cmp :: "'a::linorder \<Rightarrow> 'a \<Rightarrow> ordering" where
  "cmp a b = (if a < b then OrdLess else if a = b then OrdEqual else OrdGreater)"

definition compare_pods :: "pod \<Rightarrow> pod \<Rightarrow> ordering outcome" where
  "compare_pods a b = (case (pod_status a, pod_status b) of
       (Some status_a, Some status_b) \<Rightarrow>
         if pst_phase status_a \<noteq> pst_phase status_b
         then Inr (cmp (phase_order (pst_phase status_a)) (phase_order (pst_phase status_b)))
         else if pod_is_ready a \<noteq> pod_is_ready b then Inr (cmp (pod_is_ready a) (pod_is_ready b))
         else if pst_start_time status_a \<noteq> pst_start_time status_b
         then Inr (cmp (pst_start_time status_a) (pst_start_time status_b))
         else Inr OrdEqual
     | _ \<Rightarrow> Inl (Panic ''called `Option::unwrap()` on a `None` value''))"

text \<open>\<open>slice::sort_by\<close>: a stable sort; a comparison that panics makes the sort panic.\<close>

fun insert_by :: "('a \<Rightarrow> 'a \<Rightarrow> ordering outcome) \<Rightarrow> 'a \<Rightarrow> 'a list \<Rightarrow> 'a list outcome" where
  "insert_by f x [] = Inr [x]"
| "insert_by f x (y # ys) = (case f x y of
       Inl e \<Rightarrow> Inl e
     | Inr OrdGreater \<Rightarrow> (case insert_by f x ys of Inl e \<Rightarrow> Inl e | Inr zs \<Rightarrow> Inr (y # zs))
     | Inr _ \<Rightarrow> Inr (x # y # ys))"

fun sort_by :: "('a \<Rightarrow> 'a \<Rightarrow> ordering outcome) \<Rightarrow> 'a list \<Rightarrow> 'a list outcome" where
  "sort_by f [] = Inr []"
| "sort_by f (x # xs) = (case sort_by f xs of Inl e \<Rightarrow> Inl e | Inr ys \<Rightarrow> insert_by f x ys)"

definition first_name :: "pod list outcome \<Rightarrow> string outcome" where
  "first_name r = (case r of
       Inl e \<Rightarrow> Inl e
     | Inr [] \<Rightarrow> Inl (Panic ''index out of bounds'')
     | Inr (p # _) \<Rightarrow> Inr (md_name (pod_metadata p)))"

definition pick_pod_to_delete :: "pod list \<Rightarrow> string outcome" where
  "pick_pod_to_delete pods = first_name (sort_by compare_pods pods)"

section \<open>Owners\<close>

definition resolve_owner ::
    "string \<Rightarrow> string \<Rightarrow> (string, 'o) hashmap \<Rightarrow> object_reference list \<Rightarrow> 'o option" where
  "resolve_owner kind prefix store refs =
     (case filter (\<lambda>r. or_kind r = kind) refs of
        [owner] \<Rightarrow> hm_get store (prefix @ or_name owner)
      | _ \<Rightarrow> None)"

text \<open>The loop of \<open>resync_pod\<close>: an update that fails is logged, a panic ends the controller.\<close>

fun resync_owners ::
    "(pod \<Rightarrow> 'o option) \<Rightarrow> ('o \<Rightarrow> string) \<Rightarrow> ('o \<Rightarrow> ('w, unit) io) \<Rightarrow> string list \<Rightarrow> pod list \<Rightarrow> ('w, unit) io" where
  "resync_owners resolve nm update seen [] = io_return ()"
| "resync_owners resolve nm update seen (p # ps) = (case resolve p of
       None \<Rightarrow> resync_owners resolve nm update seen ps
     | Some owner \<Rightarrow>
         if nm owner \<in> set seen then resync_owners resolve nm update seen ps
         else io_bind (io_try (update owner))
                (\<lambda>_. resync_owners resolve nm update (nm owner # seen) ps))"

fun update_all :: "('o \<Rightarrow> ('w, unit) io) \<Rightarrow> 'o list \<Rightarrow> ('w, unit) io" where
  "update_all update [] = io_return ()"
| "update_all update (x # xs) = io_bind (io_try (update x)) (\<lambda>_. update_all update xs)"

section \<open>Requests\<close>

definition post_pod :: "pod \<Rightarrow> api_request" where
  "post_pod p = \<lparr>rq_method = POST, rq_path = ''/api/v1/pods'', rq_body = Some (KPod p)\<rparr>"

definition delete_pod_request :: "string \<Rightarrow> api_request" where
  "delete_pod_request name = \<lparr>rq_method = DELETE, rq_path = ''/api/v1/pods/'' @ name, rq_body = None\<rparr>"

definition delete_pod :: "'w api \<Rightarrow> string \<Rightarrow> ('w, unit) io" where
  "delete_pod api name = io_bind (api_send api (delete_pod_request name)) (\<lambda>_. io_return ())"

definition send_pod :: "'w api \<Rightarrow> pod \<Rightarrow> ('w, unit) io" where
  "send_pod api p = io_bind (api_send api (post_pod p)) (\<lambda>_. io_return ())"

section \<open>Facts\<close>

subsection \<open>Sorting\<close>

lemma cmp_le: "cmp a b \<noteq> OrdGreater \<longleftrightarrow> a \<le> b"
  by (auto simp: cmp_def)

text \<open>A comparison that agrees with a key sorts as \<open>sort_key\<close> does.\<close>

lemma insert_by_key:
  assumes "\<And>y. y \<in> set ys \<Longrightarrow> f x y = Inr (cmp (key x) (key y))"
  shows "insert_by f x ys = Inr (insort_key key x ys)"
  using assms by (induction ys) (auto simp: cmp_def split: ordering.splits)

lemma sort_by_key:
  assumes "\<And>x y. x \<in> set xs \<Longrightarrow> y \<in> set xs \<Longrightarrow> f x y = Inr (cmp (key x) (key y))"
  shows "sort_by f xs = Inr (sort_key key xs)"
  using assms
proof (induction xs)
  case (Cons x xs)
  then have "sort_by f xs = Inr (sort_key key xs)" by simp
  moreover have "insert_by f x (sort_key key xs) = Inr (insort_key key x (sort_key key xs))"
    using Cons.prems by (intro insert_by_key) simp
  ultimately show ?case by simp
qed simp

definition pod_key :: "pod \<Rightarrow> pod_phase \<times> bool \<times> time" where
  "pod_key p = (case pod_status p of
       Some s \<Rightarrow> (pst_phase s, pod_is_ready p, pst_start_time s) | None \<Rightarrow> (Failed, False, 0))"

lemma cmp_pair: "cmp (a, b) (c, d) = (if a \<noteq> c then cmp a c else cmp b d)"
  by (auto simp: cmp_def less_prod_simp)

lemma cmp_phase: "cmp (phase_order p) (phase_order q) = cmp p q"
  by (simp add: cmp_def less_pod_phase_def phase_order_inject)

lemma cmp_refl: "cmp a a = OrdEqual"
  by (simp add: cmp_def)

lemma compare_pods_key:
  assumes "pod_status a \<noteq> None" and "pod_status b \<noteq> None"
  shows "compare_pods a b = Inr (cmp (pod_key a) (pod_key b))"
  using assms by (auto simp: compare_pods_def pod_key_def cmp_pair cmp_phase cmp_refl)

lemma compare_pods_None:
  "pod_status a = None \<or> pod_status b = None \<Longrightarrow> \<exists>e. compare_pods a b = Inl e"
  by (auto simp: compare_pods_def split: option.splits)

lemma insert_by_length: "insert_by f x ys = Inr zs \<Longrightarrow> length zs = Suc (length ys)"
  by (induction ys arbitrary: zs) (auto split: sum.splits ordering.splits)

lemma sort_by_length: "sort_by f xs = Inr ys \<Longrightarrow> length ys = length xs"
  by (induction xs arbitrary: ys) (auto split: sum.splits dest: insert_by_length)

lemma insert_by_set: "insert_by f x ys = Inr zs \<Longrightarrow> set zs = {x} \<union> set ys"
proof (induction ys arbitrary: zs)
  case (Cons y ys)
  then consider "zs = x # y # ys" | zs' where "insert_by f x ys = Inr zs'" "zs = y # zs'"
    by (auto split: sum.splits ordering.splits)
  then show ?case by cases (auto simp: Cons.IH)
qed simp

lemma sort_by_set: "sort_by f xs = Inr ys \<Longrightarrow> set ys = set xs"
  by (induction xs arbitrary: ys) (auto split: sum.splits dest: insert_by_set)

text \<open>Every element of a list of two or more is compared, so a missing status is met.\<close>

lemma insert_by_compares:
  assumes "ys \<noteq> []" and "insert_by compare_pods x ys = Inr zs"
  shows "pod_status x \<noteq> None \<and> pod_status (hd ys) \<noteq> None"
  using assms by (cases ys) (auto simp: compare_pods_def split: sum.splits option.splits)

lemma sort_by_compares:
  assumes "sort_by compare_pods ps = Inr qs" and "2 \<le> length ps"
  shows "\<forall>p \<in> set ps. pod_status p \<noteq> None"
  using assms
proof (induction ps arbitrary: qs)
  case (Cons p ps)
  then obtain ys where ys: "sort_by compare_pods ps = Inr ys" "insert_by compare_pods p ys = Inr qs"
    by (auto split: sum.splits)
  from Cons.prems(2) sort_by_length [OF ys(1)] have ne: "ys \<noteq> []" by auto
  have "\<forall>q \<in> set ps. pod_status q \<noteq> None"
  proof (cases "2 \<le> length ps")
    case True
    with Cons.IH [OF ys(1)] show ?thesis .
  next
    case False
    with Cons.prems(2) obtain q where q: "ps = [q]"
      by (cases ps rule: remdups_adj.cases) auto
    with ys(1) have "ys = [q]" by simp
    with q insert_by_compares [OF ne ys(2)] show ?thesis by simp
  qed
  with insert_by_compares [OF ne ys(2)] show ?case by simp
qed simp

lemma pick_least:
  assumes "pick_pod_to_delete pods = Inr n"
  obtains p where "p \<in> set pods" and "md_name (pod_metadata p) = n"
    and "\<forall>q \<in> set pods. pod_key p \<le> pod_key q"
proof -
  obtain p qs where s: "sort_by compare_pods pods = Inr (p # qs)" and n: "md_name (pod_metadata p) = n"
    using assms by (auto simp: pick_pod_to_delete_def first_name_def split: sum.splits list.splits)
  have "\<forall>q \<in> set pods. pod_key p \<le> pod_key q"
  proof (cases "2 \<le> length pods")
    case True
    with sort_by_compares [OF s] have st: "\<forall>q \<in> set pods. pod_status q \<noteq> None" .
    have "sort_by compare_pods pods = Inr (sort_key pod_key pods)"
      using st by (intro sort_by_key compare_pods_key) auto
    with s have "sort_key pod_key pods = p # qs" by simp
    moreover have "pods \<noteq> []" using True by auto
    ultimately show ?thesis using insort_key_hd [of pods pod_key] by simp
  next
    case False
    with s show ?thesis by (cases pods rule: remdups_adj.cases) auto
  qed
  moreover have "p \<in> set pods" using sort_by_set [OF s] by auto
  ultimately show ?thesis using n that by blast
qed

lemma pick_ok_iff:
  "is_ok (pick_pod_to_delete pods) \<longleftrightarrow>
     (case pods of [] \<Rightarrow> False | [p] \<Rightarrow> True | _ \<Rightarrow> \<forall>p \<in> set pods. pod_status p \<noteq> None)"
proof (cases pods rule: remdups_adj.cases)
  case (3 p q ps)
  have "sort_by compare_pods pods = Inr (sort_key pod_key pods)" if "\<forall>p \<in> set pods. pod_status p \<noteq> None"
    using that by (intro sort_by_key compare_pods_key) auto
  moreover have "sort_key pod_key pods \<noteq> []" using 3 by (metis length_sort length_0_conv list.distinct(1))
  moreover have "\<forall>p \<in> set pods. pod_status p \<noteq> None" if "sort_by compare_pods pods = Inr qs" for qs
    using sort_by_compares [OF that] 3 by simp
  ultimately have "(\<exists>q qs. sort_by compare_pods pods = Inr (q # qs)) \<longleftrightarrow> (\<forall>p \<in> set pods. pod_status p \<noteq> None)"
    by (metis list.exhaust)
  then show ?thesis
    unfolding pick_pod_to_delete_def first_name_def is_ok_def 3
    by (cases "sort_by compare_pods (p # q # ps)") (auto split: list.splits)
qed (simp_all add: pick_pod_to_delete_def first_name_def is_ok_def)

subsection \<open>Resynchronisation\<close>

text \<open>The owners updated, in order: the first pod of each owner counts.\<close>

fun first_owners :: "('o \<Rightarrow> string) \<Rightarrow> string list \<Rightarrow> 'o list \<Rightarrow> 'o list" where
  "first_owners nm seen [] = []"
| "first_owners nm seen (x # xs) =
     (if nm x \<in> set seen then first_owners nm seen xs else x # first_owners nm (nm x # seen) xs)"

lemma first_owners_distinct: "distinct (map nm (first_owners nm seen xs))"
  and first_owners_unseen: "nm ` set (first_owners nm seen xs) = nm ` set xs - set seen"
proof -
  show un: "nm ` set (first_owners nm seen xs) = nm ` set xs - set seen" for xs seen
    by (induction xs arbitrary: seen) auto
  show "distinct (map nm (first_owners nm seen xs))"
  proof (induction xs arbitrary: seen)
    case (Cons x xs)
    have "nm x \<notin> nm ` set (first_owners nm (nm x # seen) xs)" by (simp add: un)
    with Cons.IH show ?case by simp
  qed simp
qed

lemma resync_owners_update_all:
  "resync_owners resolve nm update seen ps =
     update_all update (first_owners nm seen (List.map_filter resolve ps))"
  by (induction ps arbitrary: seen) (auto simp: List.map_filter_simps split: option.splits)

end
