(* ===== verification/GpuJobController.thy ===== *)
theory GpuJobController
  imports Workload
begin

text \<open>
  The GPU job controller (\<open>controllers/src/gpu_job/controller.rs\<close>, \<open>utils.rs\<close>): the pods a job runs, its
  status, and the build of the image of a new job. The files, the download of the code and the
  docker command are a parameter, a record of the operations the build uses.

  The lemmas: the exact requests of a reconciliation, the number of pods a job wants, what its status
  counts, and that the pods it creates are the ones it counts.
\<close>

section \<open>State and helpers\<close>

record job_controller =
  jc_job_store :: "(string, gpu_job) hashmap"
  jc_pod_store :: "(string, pod) hashmap"

definition get_job_status :: "gpu_job \<Rightarrow> gpu_job_status outcome" where
  "get_job_status job = ok_or (Err ''GpuJob has no status'') (gj_status job)"

definition get_job_filename :: "gpu_job \<Rightarrow> string outcome" where
  "get_job_filename job = (case gj_status job of
       None \<Rightarrow> Inl (Err ''GpuJob has no status'')
     | Some status \<Rightarrow> ok_or (Err ''GpuJob has no code filname'') (gst_filename status))"

definition job_name :: "gpu_job \<Rightarrow> string" where
  "job_name job = md_name (gj_metadata job)"

definition job_reference :: "gpu_job \<Rightarrow> object_reference" where
  "job_reference job = object_reference_of (KGpuJob job)"

definition job_resolve_owner :: "job_controller \<Rightarrow> object_reference list \<Rightarrow> gpu_job option" where
  "job_resolve_owner c refs = resolve_owner ''GpuJob'' ''/api/v1/gpujobs/'' (jc_job_store c) refs"

definition job_get_pods :: "job_controller \<Rightarrow> gpu_job \<Rightarrow> pod list" where
  "job_get_pods c job =
     filter (\<lambda>p. job_reference job \<in> set (md_owner_references (pod_metadata p))) (hm_values (jc_pod_store c))"

definition job_get_active_pods :: "job_controller \<Rightarrow> gpu_job \<Rightarrow> pod list" where
  "job_get_active_pods c job =
     filter (\<lambda>p. pod_is_active p \<and> job_reference job \<in> set (md_owner_references (pod_metadata p)))
       (hm_values (jc_pod_store c))"

text \<open>The three counters of \<open>calculate_status\<close>; a pod without status is reported and not counted.\<close>

fun count_phases :: "pod list \<Rightarrow> u32 \<times> u32 \<times> u32 \<Rightarrow> u32 \<times> u32 \<times> u32" where
  "count_phases [] n = n"
| "count_phases (p # ps) (active, failed, succeeded) = count_phases ps
     (case pod_status p of
        None \<Rightarrow> (active, failed, succeeded)
      | Some status \<Rightarrow> (case pst_phase status of
            Failed \<Rightarrow> (active, failed + 1, succeeded)
          | Succeeded \<Rightarrow> (active, failed, succeeded + 1)
          | _ \<Rightarrow> (active + 1, failed, succeeded)))"

definition job_calculate_status :: "job_controller \<Rightarrow> gpu_job \<Rightarrow> gpu_job_status outcome" where
  "job_calculate_status c job = (case count_phases (job_get_pods c job) (0, 0, 0) of
     (active, failed, succeeded) \<Rightarrow> (case gj_status job of
         None \<Rightarrow> Inl (Panic (''job '' @ job_name job @ '' should have status''))
       | Some status \<Rightarrow>
           Inr (status\<lparr>gst_active := active, gst_failed := failed, gst_succeeded := succeeded\<rparr>)))"

definition job_get_pod_to_delete :: "job_controller \<Rightarrow> gpu_job \<Rightarrow> string outcome" where
  "job_get_pod_to_delete c job = pick_pod_to_delete (job_get_active_pods c job)"

definition job_post_status :: "'w api \<Rightarrow> gpu_job \<Rightarrow> ('w, unit) io" where
  "job_post_status api job = io_bind (api_send api (put_object (KGpuJob job))) (\<lambda>_. io_return ())"

definition job_create_pod :: "'w api \<Rightarrow> gpu_job \<Rightarrow> ('w, unit) io" where
  "job_create_pod api job =
     io_bind (io_lift (get_job_status job)) (\<lambda>status.
     io_bind (io_lift (ok_or (Err ''GpuJob has no pod template'') (gst_template status))) (\<lambda>template.
     send_pod api \<lparr>pod_metadata = pt_metadata template, pod_spec = pt_spec template, pod_status = None\<rparr>))"

section \<open>Reconciliation\<close>

text \<open>The subtraction is on \<open>u32\<close>.\<close>

definition want_active :: "gpu_job \<Rightarrow> gpu_job_status \<Rightarrow> u32" where
  "want_active job status =
     min (gs_completions (gj_spec job) - gst_succeeded status) (gs_parallelism (gj_spec job))"

definition job_reconcile :: "'w api \<Rightarrow> job_controller \<Rightarrow> gpu_job \<Rightarrow> ('w, unit) io" where
  "job_reconcile api c job =
     io_bind (io_lift (ok_or (Err ''GpuJob has no status'') (gj_status job))) (\<lambda>status.
       case cmp (gst_active status) (want_active job status) of
         OrdLess \<Rightarrow> job_create_pod api job
       | OrdGreater \<Rightarrow> io_bind (io_lift (job_get_pod_to_delete c job)) (delete_pod api)
       | OrdEqual \<Rightarrow> io_return ())"

definition update_gpujob :: "'w api \<Rightarrow> job_controller \<Rightarrow> gpu_job \<Rightarrow> ('w, unit) io" where
  "update_gpujob api c job =
     io_bind (io_lift (job_calculate_status c job)) (\<lambda>new_status.
     io_bind (io_lift (ok_or (Err (''GpuJob '' @ job_name job @ '' has no status'')) (gj_status job)))
       (\<lambda>status. if new_status \<noteq> status then job_post_status api (job\<lparr>gj_status := Some new_status\<rparr>)
                  else io_return ()))"

definition job_handle_pod_change :: "'w api \<Rightarrow> job_controller \<Rightarrow> pod \<Rightarrow> ('w, unit) io" where
  "job_handle_pod_change api c p =
     (case job_resolve_owner c (md_owner_references (pod_metadata p)) of
        Some owner \<Rightarrow> update_gpujob api c owner
      | None \<Rightarrow> io_return ())"

definition job_resync_job :: "'w api \<Rightarrow> job_controller \<Rightarrow> ('w, unit) io" where
  "job_resync_job api c = update_all (update_gpujob api c) (hm_values (jc_job_store c))"

definition job_resync_pod :: "'w api \<Rightarrow> job_controller \<Rightarrow> ('w, unit) io" where
  "job_resync_pod api c =
     resync_owners (\<lambda>p. job_resolve_owner c (md_owner_references (pod_metadata p)))
       job_name (update_gpujob api c) [] (hm_values (jc_pod_store c))"

section \<open>Building the image of a new job\<close>

text \<open>
  The operations of the build on the world: the download of a file (the status, and the bytes if they
  arrive), the creation of a directory and of an empty file, the writing of a file, and the start of
  a docker command in a directory, whose exit status the code does not look at.
\<close>

record 'w build_ops =
  bo_fetch :: "string \<Rightarrow> ('w, nat \<times> string outcome) io"
  bo_create_dir_all :: "string \<Rightarrow> ('w, unit) io"
  bo_create_file :: "string \<Rightarrow> ('w, unit) io"
  bo_write_file :: "string \<Rightarrow> string \<Rightarrow> ('w, unit) io"
  bo_docker :: "string \<Rightarrow> string list \<Rightarrow> ('w, unit) io"

record server_config =
  gsc_username :: string
  gsc_password :: string

abbreviation nl :: string where
  "nl \<equiv> [CHR 0x0A]"

definition path_join :: "string \<Rightarrow> string \<Rightarrow> string" where
  "path_join a b = (if starts_with b ''/'' then b else a @ ''/'' @ b)"

definition job_dir :: "gpu_job \<Rightarrow> string" where
  "job_dir job = path_join ''/tmp/minik8s/job'' (job_name job)"

definition fetch_code :: "'w build_ops \<Rightarrow> gpu_job \<Rightarrow> ('w, unit) io" where
  "fetch_code ops job =
     io_bind (io_lift (get_job_filename job)) (\<lambda>filename.
     io_bind (bo_fetch ops (''/api/v1/tmp/'' @ filename)) (\<lambda>(status, content).
     if 400 \<le> status \<and> status < 600 then io_fail (Err (''Error get file '' @ filename))
     else io_bind (bo_create_dir_all ops (job_dir job)) (\<lambda>_.
          io_bind (bo_create_file ops (path_join (job_dir job) filename)) (\<lambda>_.
          io_bind (io_lift content) (bo_write_file ops (path_join (job_dir job) filename))))))"

definition slurm_script :: "gpu_job \<Rightarrow> string" where
  "slurm_script job =
     (let slurm_config = gc_slurm_config (gs_gpu_config (gj_spec job)) in
      ''#!/bin/bash'' @ nl @ nl @
      ''#SBATCH --job-name='' @ job_name job @ nl @
      ''#SBATCH --partition='' @ sl_partition slurm_config @ nl @
      ''#SBATCH --output=%j.out'' @ nl @
      ''#SBATCH --error=%j.err'' @ nl @
      ''#SBATCH -N '' @ show_u32 (sl_total_core_number slurm_config) @ nl @
      ''#SBATCH --ntasks-per-node='' @ show_u32 (sl_ntasks_per_node slurm_config) @ nl @
      ''#SBATCH --cpus-per-task='' @ show_u32 (sl_cpus_per_task slurm_config) @ nl @
      ''#SBATCH --gres='' @ sl_gres slurm_config @ nl @
      (case sl_scripts slurm_config of
         None \<Rightarrow> [] | Some scripts \<Rightarrow> concat (map (\<lambda>script. script @ nl) scripts)))"

definition gen_config_file :: "'w build_ops \<Rightarrow> gpu_job \<Rightarrow> ('w, unit) io" where
  "gen_config_file ops job =
     (let config_path = path_join (job_dir job) (job_name job @ ''.slurm'') in
      io_bind (bo_create_dir_all ops (job_dir job)) (\<lambda>_.
      io_bind (bo_create_file ops config_path) (\<lambda>_.
      bo_write_file ops config_path (slurm_script job))))"

definition docker_file :: "server_config \<Rightarrow> gpu_job \<Rightarrow> string \<Rightarrow> string" where
  "docker_file cfg job code_file_name =
     ''FROM minik8s.xyz/gpu_server:latest'' @ nl @
     ''COPY . /code/'' @ nl @
     ''ENV USERNAME='' @ gsc_username cfg @ '' PASSWORD='' @ gsc_password cfg @
       '' JOB_NAME='' @ job_name job @ nl @
     ''ENV CODE_FILE_NAME='' @ code_file_name @
       '' COMPILE_SCRIPT='' @ gc_compile_scripts (gs_gpu_config (gj_spec job)) @ nl"

definition gen_docker_file :: "'w build_ops \<Rightarrow> server_config \<Rightarrow> gpu_job \<Rightarrow> ('w, unit) io" where
  "gen_docker_file ops cfg job =
     (let docker_file_path = path_join (job_dir job) ''Dockerfile'' in
      io_bind (io_lift (get_job_filename job)) (\<lambda>code_file_name.
      io_bind (bo_create_file ops docker_file_path) (\<lambda>_.
      bo_write_file ops docker_file_path (docker_file cfg job code_file_name))))"

definition prepare_file :: "'w build_ops \<Rightarrow> server_config \<Rightarrow> gpu_job \<Rightarrow> ('w, unit) io" where
  "prepare_file ops cfg job =
     io_bind (fetch_code ops job) (\<lambda>_. io_bind (gen_config_file ops job) (\<lambda>_. gen_docker_file ops cfg job))"

definition image_tag :: "gpu_job \<Rightarrow> string" where
  "image_tag job = ''minik8s.xyz/'' @ job_name job"

definition build_image :: "'w build_ops \<Rightarrow> gpu_job \<Rightarrow> ('w, string) io" where
  "build_image ops job =
     io_bind (bo_docker ops (job_dir job) [''build'', ''-t'', image_tag job, ''.'']) (\<lambda>_.
     io_bind (bo_docker ops (job_dir job) [''push'', image_tag job]) (\<lambda>_. io_return (image_tag job)))"

definition job_pod_template :: "gpu_job \<Rightarrow> string \<Rightarrow> pod_template_spec" where
  "job_pod_template job image_name =
     \<lparr>pt_metadata = metadata_default\<lparr>md_name := job_name job, md_owner_references := [job_reference job]\<rparr>,
      pt_spec = pod_spec_default
        \<lparr>ps_containers := [container_default\<lparr>co_name := job_name job, co_image := image_name,
            co_image_pull_policy := Some PullIfNotPresent\<rparr>],
         ps_restart_policy := RestartNever\<rparr>\<rparr>"

definition create_pod_template ::
    "'w api \<Rightarrow> 'w build_ops \<Rightarrow> server_config \<Rightarrow> gpu_job \<Rightarrow> ('w, unit) io" where
  "create_pod_template api ops cfg job =
     io_bind (prepare_file ops cfg job) (\<lambda>_.
     io_bind (build_image ops job) (\<lambda>image_name.
     io_bind (io_lift (get_job_status job)) (\<lambda>status.
     job_post_status api (job\<lparr>gj_status :=
       Some (status\<lparr>gst_template := Some (job_pod_template job image_name)\<rparr>)\<rparr>))))"

section \<open>The select loop\<close>

datatype job_event =
    JobEvent "gpu_job notification"
  | JobPodEvent "pod notification"
  | JobResync
  | JobPodResync

definition job_turn ::
    "'w api \<Rightarrow> 'w build_ops \<Rightarrow> server_config \<Rightarrow> job_controller \<Rightarrow> job_event \<Rightarrow> ('w, unit) io" where
  "job_turn api ops cfg c ev = (case ev of
       JobEvent (NAdd job) \<Rightarrow> io_bind (io_try (create_pod_template api ops cfg job)) (\<lambda>_. io_return ())
     | JobEvent (NUpdate _ job) \<Rightarrow> io_bind (io_try (job_reconcile api c job)) (\<lambda>_. io_return ())
     | JobEvent (NDelete job) \<Rightarrow>
         io_bind (io_try (job_reconcile api c (job\<lparr>gj_spec := (gj_spec job)\<lparr>gs_parallelism := 0\<rparr>\<rparr>)))
           (\<lambda>_. io_return ())
     | JobPodEvent (NAdd p) \<Rightarrow> io_bind (io_try (job_handle_pod_change api c p)) (\<lambda>_. io_return ())
     | JobPodEvent (NUpdate _ p) \<Rightarrow> io_bind (io_try (job_handle_pod_change api c p)) (\<lambda>_. io_return ())
     | JobPodEvent (NDelete p) \<Rightarrow> io_bind (io_try (job_handle_pod_change api c p)) (\<lambda>_. io_return ())
     | JobResync \<Rightarrow> job_resync_job api c
     | JobPodResync \<Rightarrow> job_resync_pod api c)"

section \<open>Facts\<close>

definition pods_in :: "(pod_phase \<Rightarrow> bool) \<Rightarrow> pod list \<Rightarrow> nat" where
  "pods_in P ps = length (filter (\<lambda>p. case pod_status p of None \<Rightarrow> False | Some s \<Rightarrow> P (pst_phase s)) ps)"

lemma pods_in_simps:
  "pods_in P [] = 0"
  "pods_in P (p # ps) = (case pod_status p of None \<Rightarrow> pods_in P ps
     | Some s \<Rightarrow> if P (pst_phase s) then Suc (pods_in P ps) else pods_in P ps)"
  by (auto simp: pods_in_def split: option.splits)

lemma pods_in_le: "pods_in P ps \<le> length ps"
  by (simp add: pods_in_def)

lemma count_phases_pods_in:
  "count_phases ps (a, f, s) =
     (a + of_nat (pods_in (\<lambda>p. p \<noteq> Failed \<and> p \<noteq> Succeeded) ps),
      f + of_nat (pods_in (\<lambda>p. p = Failed) ps), s + of_nat (pods_in (\<lambda>p. p = Succeeded) ps))"
  by (induction ps arbitrary: a f s) (auto simp: pods_in_simps split: option.splits pod_phase.splits)

lemma job_create_pod_logs:
  "logs (job_create_pod (logged api) job) (case gj_status job of None \<Rightarrow> []
     | Some s \<Rightarrow> (case gst_template s of None \<Rightarrow> []
       | Some t \<Rightarrow> [post_pod \<lparr>pod_metadata = pt_metadata t, pod_spec = pt_spec t, pod_status = None\<rparr>]))"
  by (cases "gj_status job")
    (auto simp: job_create_pod_def get_job_status_def send_pod_def split: option.splits intro!: logs_rules)

lemma job_reconcile_logs:
  "logs (job_reconcile (logged api) c job) (case gj_status job of None \<Rightarrow> []
     | Some s \<Rightarrow>
        if gst_active s < want_active job s
        then (case gst_template s of None \<Rightarrow> []
              | Some t \<Rightarrow> [post_pod \<lparr>pod_metadata = pt_metadata t, pod_spec = pt_spec t, pod_status = None\<rparr>])
        else if gst_active s = want_active job s then []
        else (case job_get_pod_to_delete c job of Inl _ \<Rightarrow> [] | Inr n \<Rightarrow> [delete_pod_request n]))"
proof (cases "gj_status job")
  case (Some s)
  then show ?thesis
    using job_create_pod_logs [of api job]
    by (auto simp: job_reconcile_def delete_pod_def cmp_def split: sum.splits intro!: logs_rules)
qed (simp add: job_reconcile_def logs_rules)

lemma job_get_pods_status [simp]: "job_get_pods c (job\<lparr>gj_status := x\<rparr>) = job_get_pods c job"
  by (simp add: job_get_pods_def job_reference_def object_reference_of_def name_of_def metadata_of_def kind_of_def)

lemma want_active_exact:
  assumes "gst_succeeded status \<le> gs_completions (gj_spec job)"
  shows "unat (want_active job status) =
    min (unat (gs_completions (gj_spec job)) - unat (gst_succeeded status)) (unat (gs_parallelism (gj_spec job)))"
  using assms by (simp add: want_active_def min_def word_le_nat_alt unat_sub)

section \<open>Properties\<close>


text \<open>
  Once more pods succeeded than completions are asked for, the subtraction wraps around: the job
  wants its full parallelism again, and a reconciliation with no active pod posts another pod.
\<close>

theorem job_overshoot_restarts:
  assumes "gj_status job = Some status" and "gst_template status = Some template"
    and "gs_completions (gj_spec job) < gst_succeeded status"
    and "unat (gst_succeeded status) + unat (gs_parallelism (gj_spec job)) \<le>
           2 ^ 32 + unat (gs_completions (gj_spec job))"
    and "gst_active status = 0" and "0 < gs_parallelism (gj_spec job)"
  shows "want_active job status = gs_parallelism (gj_spec job) \<and>
    fst (snd (job_reconcile (logged api) c job (l, w))) =
      l @ [post_pod \<lparr>pod_metadata = pt_metadata template, pod_spec = pt_spec template, pod_status = None\<rparr>]"
proof -
  let ?d = "gs_completions (gj_spec job) - gst_succeeded status"
  have "unat ?d = unat (gs_completions (gj_spec job)) + 2 ^ 32 - unat (gst_succeeded status)"
    using assms(3) by (simp add: unat_sub_if_size word_le_nat_alt word_less_nat_alt word_size)
  then have "gs_parallelism (gj_spec job) \<le> ?d"
    using assms(4) by (simp add: word_le_nat_alt)
  then have want: "want_active job status = gs_parallelism (gj_spec job)"
    by (simp add: want_active_def min_def)
  obtain r l' w' where run: "job_reconcile (logged api) c job (l, w) = (r, (l', w'))"
    by (metis prod.exhaust)
  from logsD [OF job_reconcile_logs run] run want show ?thesis using assms by simp
qed

text \<open>
  The status of a job counts the pods it owns by phase, every owned pod with a status once, and
  keeps the file name and the template.
\<close>

theorem job_status_counts:
  assumes "job_calculate_status c job = Inr status" and "length (jc_pod_store c) < 2 ^ 32"
  shows "unat (gst_failed status) = pods_in (\<lambda>p. p = Failed) (job_get_pods c job) \<and>
    unat (gst_succeeded status) = pods_in (\<lambda>p. p = Succeeded) (job_get_pods c job) \<and>
    unat (gst_active status) = length (job_get_active_pods c job) \<and>
    (\<exists>old. gj_status job = Some old \<and> gst_template status = gst_template old \<and>
       gst_filename status = gst_filename old)"
proof -
  let ?ps = "job_get_pods c job"
  have "length ?ps \<le> length (jc_pod_store c)"
    using length_filter_le [of _ "hm_values (jc_pod_store c)"] by (simp add: job_get_pods_def hm_values_def)
  then have small: "pods_in P ?ps < 2 ^ 32" for P
    using pods_in_le [of P ?ps] assms(2) by simp
  have u: "unat (of_nat (pods_in P ?ps) :: u32) = pods_in P ?ps" for P
    using small [of P] by (simp add: unat_of_nat take_bit_nat_eq_self)
  have active: "pods_in (\<lambda>p. p \<noteq> Failed \<and> p \<noteq> Succeeded) ?ps = length (job_get_active_pods c job)"
  proof -
    have "(case pod_status p of None \<Rightarrow> False | Some s \<Rightarrow> pst_phase s \<noteq> Failed \<and> pst_phase s \<noteq> Succeeded)
        \<longleftrightarrow> pod_is_active p" for p
      by (cases "pod_status p"; cases "pst_phase (the (pod_status p))") (auto simp: pod_is_active_def)
    then show ?thesis
      by (simp add: pods_in_def job_get_pods_def job_get_active_pods_def conj_commute)
  qed
  show ?thesis
    using assms(1) by (auto simp: job_calculate_status_def count_phases_pods_in u active [symmetric] split: option.splits)
qed

text \<open>
  The pods made from the template of a job are the job's: every pod that carries the template's
  owner references is counted by the job, and resolves to it when it is in the store under its key.
\<close>

theorem job_pods_are_owned:
  assumes "md_owner_references (pod_metadata p) = md_owner_references (pt_metadata (job_pod_template job img))"
  shows "(p \<in> set (hm_values (jc_pod_store c)) \<longleftrightarrow> p \<in> set (job_get_pods c job)) \<and>
    job_resolve_owner c (md_owner_references (pod_metadata p)) = hm_get (jc_job_store c) (uri_of (KGpuJob job))"
proof -
  have refs: "md_owner_references (pod_metadata p) = [\<lparr>or_kind = ''GpuJob'', or_name = job_name job\<rparr>]"
    by (simp add: assms job_pod_template_def job_reference_def object_reference_of_def kind_of_def
        name_of_def metadata_of_def job_name_def metadata_default_def)
  have "uri_of (KGpuJob job) = ''/api/v1/gpujobs/'' @ job_name job"
    by (simp add: uri_of_def prefix_of_directory directory_def name_of_def metadata_of_def job_name_def)
  then show ?thesis
    by (simp add: refs job_get_pods_def job_resolve_owner_def resolve_owner_def job_reference_def
        object_reference_of_def kind_of_def name_of_def metadata_of_def job_name_def)
qed

text \<open>
  The retry limit of a job has no effect: whatever the limit and however many pods failed, a
  reconciliation sends the same requests.
\<close>

theorem job_back_off_ignored:
  assumes "gj_status job = Some status"
  shows "fst (snd (job_reconcile (logged api) c
            (job\<lparr>gj_spec := (gj_spec job)\<lparr>gs_back_off_limit := limit\<rparr>,
                 gj_status := Some (status\<lparr>gst_failed := failed\<rparr>)\<rparr>) (l, w))) =
         fst (snd (job_reconcile (logged api) c job (l, w)))"
proof -
  let ?job = "job\<lparr>gj_spec := (gj_spec job)\<lparr>gs_back_off_limit := limit\<rparr>,
                  gj_status := Some (status\<lparr>gst_failed := failed\<rparr>)\<rparr>"
  obtain r l' w' where run: "job_reconcile (logged api) c job (l, w) = (r, (l', w'))"
    by (metis prod.exhaust)
  obtain r1 l1 w1 where run1: "job_reconcile (logged api) c ?job (l, w) = (r1, (l1, w1))"
    by (metis prod.exhaust)
  have same: "want_active ?job (status\<lparr>gst_failed := failed\<rparr>) = want_active job status"
    "job_get_pod_to_delete c ?job = job_get_pod_to_delete c job"
    by (simp_all add: want_active_def job_get_pod_to_delete_def job_get_active_pods_def job_reference_def
        object_reference_of_def kind_of_def name_of_def metadata_of_def)
  from logsD [OF job_reconcile_logs run] logsD [OF job_reconcile_logs run1] run run1 show ?thesis
    using assms same by simp
qed

section \<open>Witnesses\<close>

definition sample_job_status :: gpu_job_status where
  "sample_job_status = \<lparr>gst_active = 0, gst_failed = 1, gst_succeeded = 2, gst_filename = Some ''a.zip'',
     gst_template = Some \<lparr>pt_metadata = metadata_default, pt_spec = pod_spec_default\<rparr>\<rparr>"

definition sample_job :: "u32 \<Rightarrow> gpu_job" where
  "sample_job completions = \<lparr>gj_metadata = metadata_default\<lparr>md_name := ''mat''\<rparr>,
     gj_spec = \<lparr>gs_gpu_config = \<lparr>gc_slurm_config = \<lparr>sl_partition = ''p'', sl_total_core_number = 1,
          sl_ntasks_per_node = 1, sl_cpus_per_task = 1, sl_gres = ''gpu:1'', sl_scripts = None\<rparr>,
          gc_compile_scripts = ''make''\<rparr>,
        gs_completions = completions, gs_parallelism = 2, gs_back_off_limit = 6\<rparr>,
     gj_status = Some sample_job_status\<rparr>"

abbreviation sample_jc :: job_controller where
  "sample_jc \<equiv> \<lparr>jc_job_store = [], jc_pod_store = []\<rparr>"

abbreviation quiet_api :: "unit api" where
  "quiet_api \<equiv> \<lambda>r w. (Reply 200 None None, w)"


theorem job_overshoot_restarts_witness:
  "want_active (sample_job 1) sample_job_status = 2 \<and>
   fst (snd (job_reconcile (logged quiet_api) sample_jc (sample_job 1) ([], ()))) =
     [post_pod \<lparr>pod_metadata = metadata_default, pod_spec = pod_spec_default, pod_status = None\<rparr>]"
  using job_overshoot_restarts [of "sample_job 1" sample_job_status
      "\<lparr>pt_metadata = metadata_default, pt_spec = pod_spec_default\<rparr>" quiet_api sample_jc "[]" "()"]
  by (simp add: sample_job_def sample_job_status_def)

theorem job_status_counts_witness:
  "\<exists>status. job_calculate_status sample_jc (sample_job 1) = Inr status \<and> unat (gst_failed status) = 0"
proof -
  obtain status where s: "job_calculate_status sample_jc (sample_job 1) = Inr status"
    by (simp add: job_calculate_status_def sample_job_def job_get_pods_def hm_values_def)
  from job_status_counts [OF s] s show ?thesis
    by (simp add: job_get_pods_def hm_values_def pods_in_def)
qed

theorem job_pods_are_owned_witness:
  "job_resolve_owner \<lparr>jc_job_store = [(''/api/v1/gpujobs/mat'', sample_job 1)], jc_pod_store = []\<rparr>
     [\<lparr>or_kind = ''GpuJob'', or_name = ''mat''\<rparr>] = Some (sample_job 1)"
  using job_pods_are_owned [of "\<lparr>pod_metadata = metadata_default\<lparr>md_owner_references :=
      [\<lparr>or_kind = ''GpuJob'', or_name = ''mat''\<rparr>]\<rparr>, pod_spec = pod_spec_default, pod_status = None\<rparr>"
      "sample_job 1" "''x''" "\<lparr>jc_job_store = [(''/api/v1/gpujobs/mat'', sample_job 1)], jc_pod_store = []\<rparr>"]
  by (simp add: job_pod_template_def job_reference_def object_reference_of_def kind_of_def name_of_def
      metadata_of_def metadata_default_def sample_job_def uri_of_def prefix_of_directory directory_def)

theorem job_back_off_ignored_witness:
  "fst (snd (job_reconcile (logged quiet_api) sample_jc
      ((sample_job 3)\<lparr>gj_spec := (gj_spec (sample_job 3))\<lparr>gs_back_off_limit := 0\<rparr>,
         gj_status := Some (sample_job_status\<lparr>gst_failed := 100\<rparr>)\<rparr>) ([], ()))) =
   fst (snd (job_reconcile (logged quiet_api) sample_jc (sample_job 3) ([], ())))"
  by (rule job_back_off_ignored) (simp add: sample_job_def)

end
