(* ===== verification/Endpoints.thy ===== *)
theory Endpoints
  imports Informer Http
begin

text \<open>
  The endpoints controller (\<open>controllers/src/endpoints\<close>): it keeps the addresses of the pods a service
  selects in the endpoints of the service, in the store of its service informer, and puts every
  service it changes. A loop over the services stops at the first put that fails; the services before
  it, and the one it failed on, stay changed.

  The lemmas: the endpoints a resynchronisation and the incremental handlers produce, and which pods
  the matching of the code selects.
\<close>

section \<open>Putting a service\<close>

definition update_service :: "'w api \<Rightarrow> service \<Rightarrow> ('w, unit) io" where
  "update_service api svc = api_send_checked api (put_object (KService svc))"

definition selects :: "service \<Rightarrow> pod \<Rightarrow> bool" where
  "selects svc p = labels_matches (ss_selector (svc_spec svc)) (md_labels (pod_metadata p))"

definition set_endpoints :: "service \<Rightarrow> ipv4 list \<Rightarrow> service" where
  "set_endpoints svc ips = svc\<lparr>svc_spec := (svc_spec svc)\<lparr>ss_endpoints := ips\<rparr>\<rparr>"

section \<open>Loops over the services\<close>

text \<open>One turn of a loop changes the service or leaves it; a changed service is put.\<close>

fun each_service ::
    "(service \<Rightarrow> service option) \<Rightarrow> 'w api \<Rightarrow> (string, service) hashmap \<Rightarrow>
     'w \<Rightarrow> unit outcome \<times> (string, service) hashmap \<times> 'w" where
  "each_service f api [] w = (Inr (), [], w)"
| "each_service f api ((k, svc) # rest) w = (case f svc of
       None \<Rightarrow> (case each_service f api rest w of (r, rest', w') \<Rightarrow> (r, (k, svc) # rest', w'))
     | Some svc' \<Rightarrow> (case update_service api svc' w of
           (Inl e, w') \<Rightarrow> (Inl e, (k, svc') # rest, w')
         | (Inr _, w') \<Rightarrow> (case each_service f api rest w' of
               (r, rest', w'') \<Rightarrow> (r, (k, svc') # rest', w''))))"

record ep_controller =
  ep_pods :: "(string, pod) hashmap"
  ep_services :: "(string, service) hashmap"

definition on_services ::
    "(service \<Rightarrow> service option) \<Rightarrow> 'w api \<Rightarrow> (ep_controller \<times> 'w, unit) io" where
  "on_services f api = (\<lambda>(c, w). case each_service f api (ep_services c) w of
     (r, svcs, w') \<Rightarrow> (r, (c\<lparr>ep_services := svcs\<rparr>, w')))"

section \<open>Handlers\<close>

definition add_svc_endpoint :: "'w api \<Rightarrow> pod \<Rightarrow> (ep_controller \<times> 'w, unit) io" where
  "add_svc_endpoint api p = (case pod_get_ip p of
       None \<Rightarrow> io_return ()
     | Some pod_ip \<Rightarrow> on_services (\<lambda>svc.
         if selects svc p \<and> pod_ip \<notin> set (ss_endpoints (svc_spec svc))
         then Some (set_endpoints svc (ss_endpoints (svc_spec svc) @ [pod_ip])) else None) api)"

definition del_svc_endpoint :: "'w api \<Rightarrow> pod \<Rightarrow> (ep_controller \<times> 'w, unit) io" where
  "del_svc_endpoint api p = (case pod_get_ip p of
       None \<Rightarrow> io_return ()
     | Some pod_ip \<Rightarrow> on_services (\<lambda>svc.
         if selects svc p \<and> pod_ip \<in> set (ss_endpoints (svc_spec svc))
         then Some (set_endpoints svc (filter (\<lambda>ip. ip \<noteq> pod_ip) (ss_endpoints (svc_spec svc))))
         else None) api)"

text \<open>The addresses a loop over the pods inserts into a set.\<close>

definition insert_endpoints :: "service \<Rightarrow> pod list \<Rightarrow> ipv4 list \<Rightarrow> ipv4 list" where
  "insert_endpoints svc pods eps = fold (\<lambda>p eps. case pod_get_ip p of
       None \<Rightarrow> eps
     | Some pod_ip \<Rightarrow> if selects svc p then List.insert pod_ip eps else eps) pods eps"

text \<open>A new service: the object of the notification is put, the store is not touched.\<close>

definition add_enpoints :: "'w api \<Rightarrow> service \<Rightarrow> (ep_controller \<times> 'w, unit) io" where
  "add_enpoints api svc = (\<lambda>(c, w).
     let pods = hm_values (ep_pods c);
         svc_changed = (\<exists>p \<in> set pods. pod_get_ip p \<noteq> None \<and> selects svc p)
     in if svc_changed
        then case update_service api
               (set_endpoints svc (insert_endpoints svc pods (ss_endpoints (svc_spec svc)))) w of
             (r, w') \<Rightarrow> (r, (c, w'))
        else (Inr (), (c, w)))"

definition ep_handle_resync :: "'w api \<Rightarrow> (ep_controller \<times> 'w, unit) io" where
  "ep_handle_resync api = (\<lambda>(c, w). on_services (\<lambda>svc.
     let new_eps = insert_endpoints svc (hm_values (ep_pods c)) [] in
     if set (ss_endpoints (svc_spec svc)) \<noteq> set new_eps then Some (set_endpoints svc new_eps) else None)
     api (c, w))"

datatype ep_notification = EpPod "pod notification" | EpServiceAdd service

definition ep_handle_notification ::
    "'w api \<Rightarrow> ep_notification \<Rightarrow> (ep_controller \<times> 'w, unit) io" where
  "ep_handle_notification api n = (case n of
       EpPod (NAdd new) \<Rightarrow> add_svc_endpoint api new
     | EpPod (NUpdate old new) \<Rightarrow>
         if pod_get_ip old \<noteq> pod_get_ip new
         then io_bind (del_svc_endpoint api old) (\<lambda>_. add_svc_endpoint api new) else io_return ()
     | EpPod (NDelete old) \<Rightarrow> del_svc_endpoint api old
     | EpServiceAdd new \<Rightarrow> add_enpoints api new)"

text \<open>The main loop: a resynchronisation that fails ends the controller, a notification is logged.\<close>

definition ep_turn :: "'w api \<Rightarrow> ep_notification option \<Rightarrow> (ep_controller \<times> 'w, unit) io" where
  "ep_turn api ev = (case ev of
       None \<Rightarrow> ep_handle_resync api
     | Some n \<Rightarrow> io_bind (io_try (ep_handle_notification api n)) (\<lambda>_. io_return ()))"

section \<open>Facts\<close>

text \<open>The addresses a service should have, by the code's own matching.\<close>

definition selected_ips :: "service \<Rightarrow> pod set \<Rightarrow> ipv4 set" where
  "selected_ips svc pods = {ip. \<exists>p \<in> pods. selects svc p \<and> pod_get_ip p = Some ip}"

definition in_sync :: "(string, service) hashmap \<Rightarrow> pod set \<Rightarrow> bool" where
  "in_sync svcs pods \<longleftrightarrow>
     list_all (\<lambda>(k, svc). set (ss_endpoints (svc_spec svc)) = selected_ips svc pods) svcs"

lemma selects_set_endpoints [simp]: "selects (set_endpoints svc ips) p = selects svc p"
  by (simp add: selects_def set_endpoints_def)

lemma selected_ips_set_endpoints [simp]: "selected_ips (set_endpoints svc ips) pods = selected_ips svc pods"
  by (simp add: selected_ips_def)

lemma endpoints_set_endpoints [simp]: "ss_endpoints (svc_spec (set_endpoints svc ips)) = ips"
  by (simp add: set_endpoints_def)

lemma set_insert_endpoints:
  "set (insert_endpoints svc pods eps) = set eps \<union> selected_ips svc (set pods)"
  by (induction pods arbitrary: eps)
    (auto simp: insert_endpoints_def selected_ips_def split: option.splits)

lemma each_service_map:
  assumes "each_service f api svcs w = (Inr u, svcs', w')"
  shows "svcs' = map (\<lambda>(k, svc). (k, case f svc of None \<Rightarrow> svc | Some svc' \<Rightarrow> svc')) svcs"
  using assms
  by (induction f api svcs w arbitrary: u svcs' w' rule: each_service.induct)
    (auto split: option.splits prod.splits sum.splits)

text \<open>A loop that succeeds brings the services in line, if its turn does it for one service.\<close>

lemma on_services_sync:
  assumes "on_services f api (c, w) = (Inr u, (c', w'))"
    and "\<And>k svc. (k, svc) \<in> set (ep_services c) \<Longrightarrow>
           set (ss_endpoints (svc_spec (case f svc of None \<Rightarrow> svc | Some svc' \<Rightarrow> svc'))) =
             selected_ips (case f svc of None \<Rightarrow> svc | Some svc' \<Rightarrow> svc') pods"
  shows "in_sync (ep_services c') pods" and "ep_pods c' = ep_pods c"
proof -
  obtain svcs where each: "each_service f api (ep_services c) w = (Inr u, svcs, w')"
    and c': "c' = c\<lparr>ep_services := svcs\<rparr>"
    using assms(1) by (auto simp: on_services_def split: prod.splits)
  from each_service_map [OF each] c' assms(2) show "in_sync (ep_services c') pods"
    by (fastforce simp: in_sync_def list_all_iff)
  show "ep_pods c' = ep_pods c" by (simp add: c')
qed

lemma in_syncD: "in_sync svcs pods \<Longrightarrow> (k, svc) \<in> set svcs \<Longrightarrow>
    set (ss_endpoints (svc_spec svc)) = selected_ips svc pods"
  by (auto simp: in_sync_def list_all_iff)

lemma selected_ips_insert:
  "selected_ips svc (insert p pods) = (case pod_get_ip p of
     Some ip \<Rightarrow> if selects svc p then insert ip (selected_ips svc pods) else selected_ips svc pods
   | None \<Rightarrow> selected_ips svc pods)"
  by (auto simp: selected_ips_def split: option.splits)

lemma add_sync:
  assumes "add_svc_endpoint api p (c, w) = (Inr u, (c', w'))" and "in_sync (ep_services c) pods"
  shows "in_sync (ep_services c') (insert p pods)"
proof (cases "pod_get_ip p")
  case None
  with assms show ?thesis
    by (simp add: add_svc_endpoint_def in_sync_def selected_ips_insert)
next
  case (Some ip)
  with assms(1) have run: "on_services (\<lambda>svc.
      if selects svc p \<and> ip \<notin> set (ss_endpoints (svc_spec svc))
      then Some (set_endpoints svc (ss_endpoints (svc_spec svc) @ [ip])) else None) api (c, w) =
      (Inr u, (c', w'))" by (simp add: add_svc_endpoint_def)
  show ?thesis
    by (rule on_services_sync(1) [OF run])
      (use Some in_syncD [OF assms(2)] in \<open>auto simp: selected_ips_insert\<close>)
qed

lemma del_sync:
  assumes "del_svc_endpoint api p (c, w) = (Inr u, (c', w'))" and "in_sync (ep_services c) pods"
    and "\<And>q. q \<in> pods \<Longrightarrow> q \<noteq> p \<Longrightarrow> pod_get_ip q \<noteq> None \<Longrightarrow> pod_get_ip q \<noteq> pod_get_ip p"
  shows "in_sync (ep_services c') (pods - {p})"
proof (cases "pod_get_ip p")
  case None
  then have "selected_ips svc (pods - {p}) = selected_ips svc pods" for svc
    by (auto simp: selected_ips_def)
  with None assms show ?thesis
    by (simp add: del_svc_endpoint_def in_sync_def)
next
  case (Some ip)
  with assms(1) have run: "on_services (\<lambda>svc.
      if selects svc p \<and> ip \<in> set (ss_endpoints (svc_spec svc))
      then Some (set_endpoints svc (filter (\<lambda>i. i \<noteq> ip) (ss_endpoints (svc_spec svc)))) else None) api (c, w) =
      (Inr u, (c', w'))" by (simp add: del_svc_endpoint_def)
  have del: "selected_ips svc (pods - {p}) =
      (if selects svc p then selected_ips svc pods - {ip} else selected_ips svc pods)" for svc
    using assms(3) Some by (auto simp: selected_ips_def)
  show ?thesis
    by (rule on_services_sync(1) [OF run])
      (use in_syncD [OF assms(2)] in \<open>auto simp: del\<close>)
qed

lemma resync_sync:
  assumes "ep_handle_resync api (c, w) = (Inr u, (c', w'))"
  shows "in_sync (ep_services c') (set (hm_values (ep_pods c)))" and "ep_pods c' = ep_pods c"
proof -
  let ?pods = "hm_values (ep_pods c)"
  have run: "on_services (\<lambda>svc. let new_eps = insert_endpoints svc ?pods [] in
      if set (ss_endpoints (svc_spec svc)) \<noteq> set new_eps then Some (set_endpoints svc new_eps) else None)
      api (c, w) = (Inr u, (c', w'))"
    using assms by (simp add: ep_handle_resync_def)
  show "in_sync (ep_services c') (set (hm_values (ep_pods c)))"
    by (rule on_services_sync(1) [OF run]) (auto simp: Let_def set_insert_endpoints)
  show "ep_pods c' = ep_pods c"
    by (rule on_services_sync(2) [OF run, of "set ?pods"]) (auto simp: Let_def set_insert_endpoints)
qed

lemma labels_matches_extra:
  "hm_get self l = None \<Longrightarrow> hm_get ls l \<noteq> None \<Longrightarrow> \<not> labels_matches self ls"
  by (force simp: labels_matches_def list_all_iff dest: hm_get_SomeD)

section \<open>Properties\<close>



text \<open>
  The matching runs the wrong way round: a resynchronisation that returns gives every service the
  address of every pod without labels, and never the address of a pod that has the selector's labels
  and one more.
\<close>

theorem ep_selection_reversed:
  assumes "ep_handle_resync api (c, w) = (Inr u, (c', w'))" and "(k, svc) \<in> set (ep_services c')"
    and "p \<in> set (hm_values (ep_pods c))" and "pod_get_ip p = Some ip"
  shows "(md_labels (pod_metadata p) = [] \<longrightarrow> ip \<in> set (ss_endpoints (svc_spec svc))) \<and>
    (hm_get (ss_selector (svc_spec svc)) l = None \<and> hm_get (md_labels (pod_metadata p)) l \<noteq> None \<and>
     (\<forall>q \<in> set (hm_values (ep_pods c)). pod_get_ip q = Some ip \<longrightarrow> q = p) \<longrightarrow>
       ip \<notin> set (ss_endpoints (svc_spec svc)))"
proof -
  have eps: "set (ss_endpoints (svc_spec svc)) = selected_ips svc (set (hm_values (ep_pods c)))"
    using resync_sync(1) [OF assms(1)] assms(2) by (rule in_syncD)
  show ?thesis
  proof (intro conjI impI)
    assume "md_labels (pod_metadata p) = []"
    then have "selects svc p" by (simp add: selects_def)
    with assms(3,4) show "ip \<in> set (ss_endpoints (svc_spec svc))" by (auto simp: eps selected_ips_def)
  next
    assume "hm_get (ss_selector (svc_spec svc)) l = None \<and> hm_get (md_labels (pod_metadata p)) l \<noteq> None \<and>
      (\<forall>q \<in> set (hm_values (ep_pods c)). pod_get_ip q = Some ip \<longrightarrow> q = p)"
    then show "ip \<notin> set (ss_endpoints (svc_spec svc))"
      using labels_matches_extra by (auto simp: eps selected_ips_def selects_def)
  qed
qed

section \<open>Witnesses\<close>

definition ep_pod :: "labels \<Rightarrow> ipv4 \<Rightarrow> pod" where
  "ep_pod ls ip = \<lparr>pod_metadata = metadata_default\<lparr>md_labels := ls\<rparr>, pod_spec = pod_spec_default,
     pod_status = Some ((pod_status_default 0)\<lparr>pst_pod_ip := Some ip\<rparr>)\<rparr>"

abbreviation ep_web :: pod where
  "ep_web \<equiv> ep_pod [(''app'', ''web''), (''env'', ''prod'')] 1"

abbreviation ep_bare :: pod where
  "ep_bare \<equiv> ep_pod [] 2"

definition ep_service :: "ipv4 list \<Rightarrow> service" where
  "ep_service ips = \<lparr>svc_metadata = metadata_default\<lparr>md_name := ''web''\<rparr>,
     svc_spec = \<lparr>ss_selector = [(''app'', ''web'')], ss_ports = [], ss_endpoints = ips, ss_cluster_ip = None\<rparr>\<rparr>"

definition ep_sample :: "ipv4 list \<Rightarrow> ep_controller" where
  "ep_sample ips = \<lparr>ep_pods = [(''a'', ep_web), (''b'', ep_bare)], ep_services = [(''w'', ep_service ips)]\<rparr>"

abbreviation ep_api :: "unit api" where
  "ep_api \<equiv> \<lambda>r w. (Reply 200 None None, w)"

lemmas ep_sample_simps = ep_sample_def ep_service_def ep_pod_def metadata_default_def selects_def
  set_endpoints_def update_service_def api_send_checked_def labels_matches_def pod_get_ip_def hm_values_def

lemma ep_sample_resync: "ep_handle_resync ep_api (ep_sample [], ()) = (Inr (), (ep_sample [2], ()))"
  by (simp add: ep_handle_resync_def on_services_def insert_endpoints_def ep_sample_simps Let_def)



theorem ep_selection_reversed_witness:
  "2 \<in> set (ss_endpoints (svc_spec (ep_service [2]))) \<and> 1 \<notin> set (ss_endpoints (svc_spec (ep_service [2])))"
proof -
  have svc: "(''w'', ep_service [2]) \<in> set (ep_services (ep_sample [2]))" by (simp add: ep_sample_def)
  have pods: "ep_web \<in> set (hm_values (ep_pods (ep_sample [])))" "ep_bare \<in> set (hm_values (ep_pods (ep_sample [])))"
    and ips: "pod_get_ip ep_web = Some 1" "pod_get_ip ep_bare = Some 2"
    by (simp_all add: ep_sample_def hm_values_def ep_pod_def pod_get_ip_def)
  from ep_selection_reversed [OF ep_sample_resync svc pods(1) ips(1), of "''env''"]
    ep_selection_reversed [OF ep_sample_resync svc pods(2) ips(2)]
  show ?thesis
    by (simp add: ep_sample_def ep_service_def ep_pod_def hm_values_def pod_get_ip_def metadata_default_def)
qed

end
