(* ===== verification/ApiStore.thy ===== *)
theory ApiStore
  imports Objects
begin

text \<open>
  How the API server keeps its objects (\<open>api_server/src/handler/utils.rs\<close>, \<open>api_server/src/etcd.rs\<close>):
  every object is stored in etcd as JSON under its uri. The etcd client and the JSON library are
  parameters, a record of the operations the code uses; the locale \<open>etcd\<close> says what their
  documentation promises. The locale \<open>object_store\<close> is what the handlers rely on, and \<open>etcd_put\<close>,
  \<open>etcd_get_object\<close>, \<open>etcd_delete\<close> and \<open>etcd_get_objects_by_prefix\<close> provide it.
\<close>

section \<open>Error replies\<close>

record err_response =
  er_msg :: string
  er_cause :: "string option"
  er_status :: nat

definition err_new :: "string \<Rightarrow> string option \<Rightarrow> err_response" where
  "err_new msg cause = \<lparr>er_msg = msg, er_cause = cause, er_status = 500\<rparr>"

definition err_not_found :: "string \<Rightarrow> string option \<Rightarrow> err_response" where
  "err_not_found msg cause = \<lparr>er_msg = msg, er_cause = cause, er_status = 404\<rparr>"

definition err_bad_request :: "string \<Rightarrow> string option \<Rightarrow> err_response" where
  "err_bad_request msg cause = \<lparr>er_msg = msg, er_cause = cause, er_status = 400\<rparr>"

text \<open>The error of the database is not forwarded to the client.\<close>

record etcd_failure =
  ef_msg :: string
  ef_cause :: "string option"

definition etcd_error :: "etcd_failure \<Rightarrow> err_response" where
  "etcd_error err = err_new ''Etcd Error'' None"

text \<open>
  A handler ends with a value, with an error reply, or it panics; \<open>must\<close> is the \<open>?\<close> of the handlers,
  and \<open>api_err\<close> their \<open>return Err(ErrResponse::new(..))\<close>.
\<close>

datatype api_fault = ApiErr err_response | ApiPanic string

definition must :: "('w, err_response, 'a) eio \<Rightarrow> ('w, api_fault, 'a) eio" where
  "must m = io_map_err ApiErr m"

definition api_err :: "string \<Rightarrow> string option \<Rightarrow> ('w, api_fault, 'a) eio" where
  "api_err msg cause = io_fail (ApiErr (err_new msg cause))"

section \<open>The etcd client\<close>

text \<open>
  Keys and values are text, as everything the server writes; where the code finds bytes that are not
  UTF-8 it gives the reply of a failed request.
\<close>

record 'w backend =
  be_client :: "('w, string, unit) eio"
  be_put :: "string \<Rightarrow> string \<Rightarrow> ('w, string, unit) eio"
  be_get :: "string \<Rightarrow> ('w, string, (string \<times> string) list) eio"
  be_get_prefix :: "string \<Rightarrow> ('w, string, (string \<times> string) list) eio"
  be_delete :: "string \<Rightarrow> ('w, string, nat) eio"
  be_to_json :: "kube_object \<Rightarrow> string option"
  be_from_json :: "string \<Rightarrow> kube_object option"

definition get_client :: "'w backend \<Rightarrow> ('w, err_response, unit) eio" where
  "get_client be = io_map_err (\<lambda>e. err_new ''Failed to get etcd Client'' None) (be_client be)"

definition client_put :: "'w backend \<Rightarrow> string \<Rightarrow> kube_object \<Rightarrow> ('w, etcd_failure, unit) eio" where
  "client_put be key val =
     io_bind (io_lift (ok_or \<lparr>ef_msg = ''Failed to serialize'', ef_cause = Some ''serde''\<rparr> (be_to_json be val)))
       (\<lambda>value. io_map_err (\<lambda>e. \<lparr>ef_msg = ''Failed to put'', ef_cause = Some e\<rparr>) (be_put be key value))"

definition client_get :: "'w backend \<Rightarrow> string \<Rightarrow> ('w, etcd_failure, (string \<times> string) list) eio" where
  "client_get be key = io_map_err (\<lambda>e. \<lparr>ef_msg = ''Failed to get'', ef_cause = Some e\<rparr>) (be_get be key)"

definition client_get_prefix :: "'w backend \<Rightarrow> string \<Rightarrow> ('w, etcd_failure, (string \<times> string) list) eio" where
  "client_get_prefix be key =
     io_map_err (\<lambda>e. \<lparr>ef_msg = ''Failed to get'', ef_cause = Some e\<rparr>) (be_get_prefix be key)"

definition client_delete :: "'w backend \<Rightarrow> string \<Rightarrow> ('w, etcd_failure, nat) eio" where
  "client_delete be key =
     io_map_err (\<lambda>e. \<lparr>ef_msg = ''Failed to delete'', ef_cause = Some e\<rparr>) (be_delete be key)"

definition etcd_put :: "'w backend \<Rightarrow> kube_object \<Rightarrow> ('w, err_response, unit) eio" where
  "etcd_put be val =
     io_bind (get_client be) (\<lambda>_. io_map_err etcd_error (client_put be (uri_of val) val))"

definition etcd_get :: "'w backend \<Rightarrow> string \<Rightarrow> ('w, err_response, (string \<times> string) list) eio" where
  "etcd_get be key = io_bind (get_client be) (\<lambda>_. io_map_err etcd_error (client_get be key))"

definition etcd_delete :: "'w backend \<Rightarrow> string \<Rightarrow> ('w, err_response, unit) eio" where
  "etcd_delete be key =
     io_bind (get_client be) (\<lambda>_.
     io_bind (io_map_err etcd_error (client_delete be key)) (\<lambda>deleted.
     if deleted > 0 then io_return () else io_fail (err_not_found (key @ '' not found'') None)))"

definition get_value_str :: "(string \<times> string) list \<Rightarrow> err_response + string" where
  "get_value_str kvs = (case kvs of
       [] \<Rightarrow> Inl (err_not_found ''value doesn't exist'' None)
     | (k, v) # _ \<Rightarrow> Inr v)"

definition decode_object :: "'w backend \<Rightarrow> string \<Rightarrow> err_response + kube_object" where
  "decode_object be s = ok_or (err_new ''failed to deserialize'' (Some ''serde'')) (be_from_json be s)"

definition etcd_get_object ::
    "'w backend \<Rightarrow> string \<Rightarrow> string option \<Rightarrow> ('w, err_response, kube_object) eio" where
  "etcd_get_object be uri kind =
     io_bind (etcd_get be uri) (\<lambda>kvs.
     io_bind (io_lift (get_value_str kvs)) (\<lambda>s.
     io_bind (io_lift (decode_object be s)) (\<lambda>obj.
     case kind of
       Some kind \<Rightarrow> if eq_ignore_ascii_case (kind_of obj) kind then io_return obj
                    else io_fail (err_new ''get object type error'' None)
     | None \<Rightarrow> io_return obj)))"

text \<open>Without a kind nothing is collected.\<close>

fun collect_objects ::
    "'w backend \<Rightarrow> string option \<Rightarrow> (string \<times> string) list \<Rightarrow> err_response + kube_object list" where
  "collect_objects be kind [] = Inr []"
| "collect_objects be kind ((k, v) # kvs) = (case decode_object be v of
       Inl e \<Rightarrow> Inl e
     | Inr obj \<Rightarrow> (case kind of
         None \<Rightarrow> collect_objects be kind kvs
       | Some kd \<Rightarrow>
           if eq_ignore_ascii_case (kind_of obj) kd
           then (case collect_objects be kind kvs of Inl e \<Rightarrow> Inl e | Inr objs \<Rightarrow> Inr (obj # objs))
           else Inl (err_new ''There are some errors with the kind of objects''
                  (Some (''expected: '' @ kd @ '', found: '' @ kind_of obj)))))"

definition etcd_get_objects_by_prefix ::
    "'w backend \<Rightarrow> string \<Rightarrow> string option \<Rightarrow> ('w, err_response, kube_object list) eio" where
  "etcd_get_objects_by_prefix be prefix kind =
     io_bind (get_client be) (\<lambda>_.
     io_bind (io_map_err etcd_error (client_get_prefix be prefix)) (\<lambda>kvs.
     io_lift (collect_objects be kind kvs)))"

text \<open>The operations on the client unfolded, with the one error they all give.\<close>

lemma etcd_error_eq: "etcd_error err = err_new ''Etcd Error'' None"
  by (simp add: etcd_error_def)

lemma etcd_put_unfold: "etcd_put be val =
     io_bind (get_client be) (\<lambda>_.
     io_bind (io_lift (ok_or (err_new ''Etcd Error'' None) (be_to_json be val))) (\<lambda>value.
     io_map_err (\<lambda>_. err_new ''Etcd Error'' None) (be_put be (uri_of val) value)))"
  by (cases "be_to_json be val")
    (simp_all add: etcd_put_def client_put_def io_map_err_map_err io_map_err_bind etcd_error_eq)

lemma etcd_get_unfold: "etcd_get be key =
     io_bind (get_client be) (\<lambda>_. io_map_err (\<lambda>_. err_new ''Etcd Error'' None) (be_get be key))"
  by (simp add: etcd_get_def client_get_def io_map_err_map_err etcd_error_eq)

lemma etcd_delete_unfold: "etcd_delete be key =
     io_bind (get_client be) (\<lambda>_.
     io_bind (io_map_err (\<lambda>_. err_new ''Etcd Error'' None) (be_delete be key)) (\<lambda>deleted.
     if deleted > 0 then io_return () else io_fail (err_not_found (key @ '' not found'') None)))"
  by (simp add: etcd_delete_def client_delete_def io_map_err_map_err etcd_error_eq)

lemma etcd_list_unfold: "etcd_get_objects_by_prefix be prefix kind =
     io_bind (get_client be) (\<lambda>_.
     io_bind (io_map_err (\<lambda>_. err_new ''Etcd Error'' None) (be_get_prefix be prefix)) (\<lambda>kvs.
     io_lift (collect_objects be kind kvs)))"
  by (simp add: etcd_get_objects_by_prefix_def client_get_prefix_def io_map_err_map_err etcd_error_eq)

section \<open>The contract of etcd\<close>

text \<open>
  A request that succeeds has its effect; a put or a delete that fails may have had it, or not; a read
  changes nothing and returns what is stored, in the order of the keys. JSON written from an object
  reads back as the object.
\<close>

locale etcd =
  fixes be :: "'w backend" and contents :: "'w \<Rightarrow> string \<rightharpoonup> string"
  assumes client_reads: "be_client be w = (rc, w') \<Longrightarrow> contents w' = contents w"
    and put_ok: "be_put be k v w = (Inr u, w') \<Longrightarrow> contents w' = (contents w)(k \<mapsto> v)"
    and put_failed: "be_put be k v w = (Inl e, w') \<Longrightarrow>
          contents w' = contents w \<or> contents w' = (contents w)(k \<mapsto> v)"
    and get_reads: "be_get be k w = (rg, w') \<Longrightarrow> contents w' = contents w"
    and get_ok: "be_get be k w = (Inr kvs, w') \<Longrightarrow>
          kvs = (case contents w k of None \<Rightarrow> [] | Some v \<Rightarrow> [(k, v)])"
    and get_prefix_reads: "be_get_prefix be p w = (rp, w') \<Longrightarrow> contents w' = contents w"
    and get_prefix_ok: "be_get_prefix be p w = (Inr kvs, w') \<Longrightarrow>
          distinct (map fst kvs) \<and> set kvs = {(k, v). contents w k = Some v \<and> starts_with k p}"
    and delete_ok: "be_delete be k w = (Inr n, w') \<Longrightarrow>
          contents w' = (contents w)(k := None) \<and> (n > 0 \<longleftrightarrow> contents w k \<noteq> None)"
    and delete_failed: "be_delete be k w = (Inl e, w') \<Longrightarrow>
          contents w' = contents w \<or> contents w' = (contents w)(k := None)"
    and json: "be_to_json be x = Some s \<Longrightarrow> be_from_json be s = Some x"

section \<open>What the handlers rely on\<close>

text \<open>
  \<open>view\<close> is the object under each key. The store is sound when the object under a key has the key as
  its uri.
\<close>

definition sound_view :: "(string \<rightharpoonup> kube_object) \<Rightarrow> bool" where
  "sound_view m \<longleftrightarrow> (\<forall>k x. m k = Some x \<longrightarrow> uri_of x = k)"

locale object_store =
  fixes view :: "'w \<Rightarrow> string \<rightharpoonup> kube_object" and sound :: "'w \<Rightarrow> bool"
    and put :: "kube_object \<Rightarrow> ('w, err_response, unit) eio"
    and get :: "string \<Rightarrow> string option \<Rightarrow> ('w, err_response, kube_object) eio"
    and del :: "string \<Rightarrow> ('w, err_response, unit) eio"
    and list_all_of :: "string \<Rightarrow> string option \<Rightarrow> ('w, err_response, kube_object list) eio"
  assumes sound_uri: "sound w \<Longrightarrow> sound_view (view w)"
    and put_sound: "preserves sound (put x)"
    and put_view: "put x w = (rp, w') \<Longrightarrow> sound w \<Longrightarrow> (case rp of
          Inr _ \<Rightarrow> view w' = (view w)(uri_of x \<mapsto> x)
        | Inl _ \<Rightarrow> view w' = view w \<or> view w' = (view w)(uri_of x \<mapsto> x))"
    and get_sound: "preserves sound (get k kd)"
    and get_view: "get k kd w = (rg, w') \<Longrightarrow> sound w \<Longrightarrow> view w' = view w \<and> (case rg of
          Inr x \<Rightarrow> view w k = Some x \<and> (case kd of None \<Rightarrow> True | Some kd \<Rightarrow> eq_ignore_ascii_case (kind_of x) kd)
        | Inl _ \<Rightarrow> True)"
    and del_sound: "preserves sound (del k)"
    and del_view: "del k w = (rd, w') \<Longrightarrow> sound w \<Longrightarrow> (case rd of
          Inr _ \<Rightarrow> view w k \<noteq> None \<and> view w' = (view w)(k := None)
        | Inl _ \<Rightarrow> view w' = view w \<or> view w' = (view w)(k := None))"
    and list_sound: "preserves sound (list_all_of p kd)"
    and list_view: "list_all_of p (Some kind) w = (rl, w') \<Longrightarrow> sound w \<Longrightarrow> view w' = view w \<and> (case rl of
          Inr xs \<Rightarrow> distinct xs \<and> set xs = {x. view w (uri_of x) = Some x \<and> starts_with (uri_of x) p}
        | Inl _ \<Rightarrow> True)"
begin

lemma put_then_get:
  assumes "put x w = (Inr u, w1)" and "sound w" and "get (uri_of x) kd w1 = (Inr y, w2)"
  shows "y = x"
  using put_view [OF assms(1,2)] get_view [OF assms(3) preservesD [OF put_sound assms(2,1)]] by simp

lemma put_in_list:
  assumes "put x w = (Inr u, w1)" and "sound w" and "starts_with (uri_of x) p"
    and "list_all_of p (Some kd) w1 = (Inr xs, w2)"
  shows "x \<in> set xs"
  using put_view [OF assms(1,2)] assms(3) list_view [OF assms(4) preservesD [OF put_sound assms(2,1)]]
  by simp

lemma del_then_get:
  assumes "del k w = (Inr u, w1)" and "sound w"
  shows "get k kd w1 \<noteq> (Inr y, w2)"
proof
  assume "get k kd w1 = (Inr y, w2)"
  from get_view [OF this preservesD [OF del_sound assms(2,1)]] del_view [OF assms] show False by simp
qed

end

text \<open>The view of the contents through the JSON parser.\<close>

definition stored_objects :: "'w backend \<Rightarrow> (string \<rightharpoonup> string) \<Rightarrow> string \<rightharpoonup> kube_object" where
  "stored_objects be m k = Option.bind (m k) (be_from_json be)"

definition well_stored :: "'w backend \<Rightarrow> (string \<rightharpoonup> string) \<Rightarrow> bool" where
  "well_stored be m \<longleftrightarrow> (\<forall>k s. m k = Some s \<longrightarrow> (\<exists>x. be_from_json be s = Some x \<and> uri_of x = k))"

lemma stored_objects_upd:
  "be_from_json be s = Some x \<Longrightarrow> stored_objects be (m(k \<mapsto> s)) = (stored_objects be m)(k \<mapsto> x)"
  "stored_objects be (m(k := None)) = (stored_objects be m)(k := None)"
  by (auto simp: stored_objects_def fun_eq_iff)

lemma well_stored_upd:
  "well_stored be m \<Longrightarrow> be_from_json be s = Some x \<Longrightarrow> uri_of x = k \<Longrightarrow> well_stored be (m(k \<mapsto> s))"
  "well_stored be m \<Longrightarrow> well_stored be (m(k := None))"
  by (auto simp: well_stored_def)

context etcd
begin

abbreviation view :: "'w \<Rightarrow> string \<rightharpoonup> kube_object" where
  "view w \<equiv> stored_objects be (contents w)"

abbreviation sound :: "'w \<Rightarrow> bool" where
  "sound w \<equiv> well_stored be (contents w)"

lemma get_client_contents: "get_client be w = (r, w') \<Longrightarrow> contents w' = contents w"
  unfolding get_client_def by (erule io_map_errE) (rule client_reads, assumption)+

lemma etcd_put_contents:
  assumes "etcd_put be x w = (r, w')"
  shows "(\<exists>e. r = Inl e) \<and> contents w' = contents w \<or>
    (\<exists>s. be_from_json be s = Some x \<and> contents w' = (contents w)(uri_of x \<mapsto> s))"
  using assms unfolding etcd_put_unfold
proof (cases rule: io_bindE)
  case (1 e)
  then show ?thesis by (simp add: get_client_contents)
next
  case (2 u w1)
  then have w1: "contents w1 = contents w" by (simp add: get_client_contents)
  show ?thesis
  proof (cases "be_to_json be x")
    case None
    with 2 w1 show ?thesis by auto
  next
    case (Some s)
    with 2(2) have "io_map_err (\<lambda>_. err_new ''Etcd Error'' None) (be_put be (uri_of x) s) w1 = (r, w')" by simp
    then show ?thesis
      using json [OF Some] w1 by (cases rule: io_map_errE) (auto dest!: put_ok put_failed)
  qed
qed

lemma etcd_get_contents:
  assumes "etcd_get be k w = (r, w')"
  shows "contents w' = contents w \<and> (\<forall>kvs. r = Inr kvs \<longrightarrow>
    kvs = (case contents w k of None \<Rightarrow> [] | Some v \<Rightarrow> [(k, v)]))"
  using assms unfolding etcd_get_unfold
proof (cases rule: io_bindE)
  case (1 e)
  then show ?thesis by (simp add: get_client_contents)
next
  case (2 u w1)
  then have "contents w1 = contents w" by (simp add: get_client_contents)
  with 2(2) show ?thesis
    by (cases rule: io_map_errE) (auto simp: get_reads dest: get_ok)
qed

lemma etcd_delete_contents:
  assumes "etcd_delete be k w = (r, w')"
  shows "case r of Inr _ \<Rightarrow> contents w k \<noteq> None \<and> contents w' = (contents w)(k := None)
    | Inl _ \<Rightarrow> contents w' = contents w \<or> contents w' = (contents w)(k := None)"
  using assms unfolding etcd_delete_unfold
proof (cases rule: io_bindE)
  case (1 e)
  then show ?thesis by (simp add: get_client_contents)
next
  case (2 u w1)
  then have w1: "contents w1 = contents w" by (simp add: get_client_contents)
  from 2(2) show ?thesis
  proof (cases rule: io_bindE)
    case (1 e)
    from 1(1) show ?thesis
      using 1(2) w1 by (cases rule: io_map_errE) (auto dest!: delete_failed)
  next
    case (2 n w2)
    from 2(1) have "contents w2 = (contents w)(k := None) \<and> (n > 0 \<longleftrightarrow> contents w k \<noteq> None)"
      using w1 by (cases rule: io_map_errE) (auto dest!: delete_ok)
    with 2(2) show ?thesis by (auto split: if_splits)
  qed
qed

lemma etcd_get_object_view:
  assumes "etcd_get_object be k kd w = (r, w')"
  shows "contents w' = contents w \<and> (\<forall>x. r = Inr x \<longrightarrow> view w k = Some x \<and>
    (case kd of None \<Rightarrow> True | Some kd \<Rightarrow> eq_ignore_ascii_case (kind_of x) kd))"
  using assms unfolding etcd_get_object_def
proof (cases rule: io_bindE)
  case (1 e)
  then show ?thesis using etcd_get_contents by blast
next
  case (2 kvs w1)
  from etcd_get_contents [OF 2(1)] have w1: "contents w1 = contents w"
    and kvs: "kvs = (case contents w k of None \<Rightarrow> [] | Some v \<Rightarrow> [(k, v)])" by simp_all
  show ?thesis
  proof (cases "contents w k")
    case None
    with 2(2) kvs w1 show ?thesis by (auto simp: get_value_str_def)
  next
    case (Some s)
    with 2(2) kvs w1 show ?thesis
      by (cases "be_from_json be s"; cases kd)
        (auto simp: get_value_str_def decode_object_def stored_objects_def split: if_splits)
  qed
qed

lemma collect_objects_Inr:
  assumes "collect_objects be (Some kd) kvs = Inr xs"
  shows "list_all2 (\<lambda>(k, s) x. be_from_json be s = Some x \<and> eq_ignore_ascii_case (kind_of x) kd) kvs xs"
  using assms
  by (induction kvs arbitrary: xs)
    (auto simp: decode_object_def ok_or_def split: sum.splits if_splits option.splits)

lemma etcd_list_contents:
  assumes "etcd_get_objects_by_prefix be p (Some kd) w = (r, w')"
  shows "contents w' = contents w \<and> (\<forall>xs. r = Inr xs \<longrightarrow> (\<exists>kvs. distinct (map fst kvs) \<and>
    set kvs = {(k, v). contents w k = Some v \<and> starts_with k p} \<and> collect_objects be (Some kd) kvs = Inr xs))"
  using assms unfolding etcd_list_unfold
proof (cases rule: io_bindE)
  case (1 e)
  then show ?thesis by (simp add: get_client_contents)
next
  case (2 u w1)
  then have w1: "contents w1 = contents w" by (simp add: get_client_contents)
  from 2(2) show ?thesis
  proof (cases rule: io_bindE)
    case (1 e)
    from 1(1) show ?thesis
      using 1(2) w1 by (cases rule: io_map_errE) (auto dest: get_prefix_reads)
  next
    case (2 kvs w2)
    from 2(1) have "be_get_prefix be p w1 = (Inr kvs, w2)" by (cases rule: io_map_errE) auto
    from get_prefix_ok [OF this] get_prefix_reads [OF this] w1 2(2) show ?thesis
      by (intro conjI allI impI exI [of _ kvs]) simp_all
  qed
qed

lemma etcd_list_reads:
  assumes "etcd_get_objects_by_prefix be p kd w = (r, w')"
  shows "contents w' = contents w"
  using assms unfolding etcd_list_unfold
  by (auto elim!: io_bindE io_map_errE dest!: get_client_contents get_prefix_reads)

text \<open>In a sound store the values of a prefix are the objects under it, each once.\<close>

lemma collected_objects:
  assumes sound: "sound w" and kvs: "distinct (map fst kvs)" "set kvs = {(k, v). contents w k = Some v \<and> starts_with k p}"
    and col: "collect_objects be (Some kd) kvs = Inr xs"
  shows "distinct xs \<and> set xs = {x. view w (uri_of x) = Some x \<and> starts_with (uri_of x) p}"
proof -
  have all: "list_all2 (\<lambda>(k, s) x. be_from_json be s = Some x \<and> eq_ignore_ascii_case (kind_of x) kd) kvs xs"
    by (rule collect_objects_Inr [OF col])
  then have len: "length kvs = length xs" by (rule list_all2_lengthD)
  have each: "contents w (fst (kvs ! i)) = Some (snd (kvs ! i)) \<and> starts_with (fst (kvs ! i)) p \<and>
      be_from_json be (snd (kvs ! i)) = Some (xs ! i) \<and> uri_of (xs ! i) = fst (kvs ! i)" if i: "i < length xs" for i
  proof -
    have "kvs ! i \<in> set kvs" using i len by simp
    with kvs(2) have c: "contents w (fst (kvs ! i)) = Some (snd (kvs ! i)) \<and> starts_with (fst (kvs ! i)) p" by auto
    have j: "be_from_json be (snd (kvs ! i)) = Some (xs ! i)"
      using list_all2_nthD2 [OF all i] by (auto split: prod.splits)
    with c sound have "uri_of (xs ! i) = fst (kvs ! i)" by (fastforce simp: well_stored_def)
    with c j show ?thesis by simp
  qed
  have uris: "map uri_of xs = map fst kvs"
    using len each by (intro nth_equalityI) simp_all
  have "x \<in> set xs \<longleftrightarrow> view w (uri_of x) = Some x \<and> starts_with (uri_of x) p" for x
  proof
    assume "x \<in> set xs"
    then obtain i where "i < length xs" "xs ! i = x" by (auto simp: in_set_conv_nth)
    with each [of i] show "view w (uri_of x) = Some x \<and> starts_with (uri_of x) p"
      by (simp add: stored_objects_def)
  next
    assume v: "view w (uri_of x) = Some x \<and> starts_with (uri_of x) p"
    then obtain s where s: "contents w (uri_of x) = Some s" "be_from_json be s = Some x"
      by (auto simp: stored_objects_def bind_eq_Some_conv)
    with v kvs(2) have "(uri_of x, s) \<in> set kvs" by simp
    then obtain i where i: "i < length kvs" "kvs ! i = (uri_of x, s)" by (auto simp: in_set_conv_nth)
    with each [of i] len have "be_from_json be s = Some (xs ! i)" by simp
    with s(2) have "xs ! i = x" by simp
    with i len show "x \<in> set xs" by auto
  qed
  then have "set xs = {x. view w (uri_of x) = Some x \<and> starts_with (uri_of x) p}" by blast
  moreover have "distinct xs"
    using kvs(1) unfolding uris [symmetric] by (simp add: distinct_map)
  ultimately show ?thesis by simp
qed

end

text \<open>The code's operations on etcd are an object store.\<close>

sublocale etcd \<subseteq> store: object_store "\<lambda>w. stored_objects be (contents w)" "\<lambda>w. well_stored be (contents w)"
  "etcd_put be" "etcd_get_object be" "etcd_delete be" "etcd_get_objects_by_prefix be"
proof
  show "sound_view (view w)" if "sound w" for w
    using that by (fastforce simp: sound_view_def well_stored_def stored_objects_def bind_eq_Some_conv)
  show "preserves sound (etcd_put be x)" for x
    unfolding preserves_def using etcd_put_contents by (metis well_stored_upd(1))
  show "preserves sound (etcd_get_object be k kd)" for k kd
    unfolding preserves_def using etcd_get_object_view by metis
  show "preserves sound (etcd_delete be k)" for k
    unfolding preserves_def by (auto dest!: etcd_delete_contents split: sum.splits simp: well_stored_upd)
  show "preserves sound (etcd_get_objects_by_prefix be p kd)" for p kd
    unfolding preserves_def using etcd_list_reads by metis
  show "case r of Inl _ \<Rightarrow> view w' = view w \<or> view w' = (view w)(uri_of x \<mapsto> x)
      | Inr _ \<Rightarrow> view w' = (view w)(uri_of x \<mapsto> x)"
    if "etcd_put be x w = (r, w')" and "sound w" for x w r w'
    using etcd_put_contents [OF that(1)] by (auto simp: stored_objects_upd split: sum.splits)
  show "view w' = view w \<and> (case r of Inl _ \<Rightarrow> True | Inr x \<Rightarrow> view w k = Some x \<and>
      (case kd of None \<Rightarrow> True | Some kd \<Rightarrow> eq_ignore_ascii_case (kind_of x) kd))"
    if "etcd_get_object be k kd w = (r, w')" and "sound w" for k kd w r w'
    using etcd_get_object_view [OF that(1)] by (auto split: sum.splits)
  show "case r of Inl _ \<Rightarrow> view w' = view w \<or> view w' = (view w)(k := None)
      | Inr _ \<Rightarrow> view w k \<noteq> None \<and> view w' = (view w)(k := None)"
    if "etcd_delete be k w = (r, w')" and "sound w" for k w r w'
  proof -
    have "view w k \<noteq> None" if "contents w k \<noteq> None"
      using that \<open>sound w\<close> by (fastforce simp: well_stored_def stored_objects_def)
    then show ?thesis
      using etcd_delete_contents [OF that(1)] by (auto simp: stored_objects_upd split: sum.splits)
  qed
  show "view w' = view w \<and> (case r of Inl _ \<Rightarrow> True
      | Inr xs \<Rightarrow> distinct xs \<and> set xs = {x. view w (uri_of x) = Some x \<and> starts_with (uri_of x) p})"
    if "etcd_get_objects_by_prefix be p (Some kd) w = (r, w')" and "sound w" for p kd w r w'
    using etcd_list_contents [OF that(1)] collected_objects [OF that(2)] by (auto split: sum.splits)
qed

section \<open>An etcd in memory\<close>

text \<open>
  A reference instance of the contract, for concrete runs: the contents are a hash map beside the rest
  of the world, no request fails, and the JSON of an object is looked up in a table.
\<close>

type_synonym 'p memory = "(string, string) hashmap \<times> 'p"

definition mem_backend :: "(string \<times> kube_object) list \<Rightarrow> 'p memory backend" where
  "mem_backend table = \<lparr>
     be_client = io_return (),
     be_put = (\<lambda>k v (m, p). (Inr (), (hm_insert k v m, p))),
     be_get = (\<lambda>k (m, p). (Inr (case hm_get m k of None \<Rightarrow> [] | Some v \<Rightarrow> [(k, v)]), (m, p))),
     be_get_prefix = (\<lambda>pre (m, p). (Inr (filter (\<lambda>(k, v). starts_with k pre) (AList.clearjunk m)), (m, p))),
     be_delete = (\<lambda>k (m, p). (Inr (if hm_get m k = None then 0 else 1), (hm_remove k m, p))),
     be_to_json = (\<lambda>x. map_option fst (List.find (\<lambda>(s, y). y = x) table)),
     be_from_json = (\<lambda>s. map_of table s)\<rparr>"

definition mem_contents :: "'p memory \<Rightarrow> string \<rightharpoonup> string" where
  "mem_contents w = hm_get (fst w)"

lemma mem_etcd:
  assumes "distinct (map fst table)"
  shows "etcd (mem_backend table) mem_contents"
proof
  show "be_from_json (mem_backend table) s = Some x" if "be_to_json (mem_backend table) x = Some s" for x s
  proof -
    have "\<exists>y. List.find (\<lambda>(s, y). y = x) table = Some (s, y)"
      using that by (auto simp: mem_backend_def)
    then have "(s, x) \<in> set table" by (auto simp: find_Some_iff in_set_conv_nth)
    with assms show ?thesis by (simp add: mem_backend_def)
  qed
  show "distinct (map fst kvs) \<and> set kvs = {(k, v). mem_contents w k = Some v \<and> starts_with k p}"
    if "be_get_prefix (mem_backend table) p w = (Inr kvs, w')" for p kvs and w w' :: "'a memory"
  proof -
    have kvs: "kvs = filter (\<lambda>(k, v). starts_with k p) (AList.clearjunk (fst w))"
      using that by (auto simp: mem_backend_def split: prod.splits)
    have "mem_contents w k = Some v \<longleftrightarrow> (k, v) \<in> set (AList.clearjunk (fst w))" for k v
      using map_of_eq_Some_iff [of "AList.clearjunk (fst w)" k v]
      by (simp add: mem_contents_def hm_get_def map_of_clearjunk distinct_clearjunk)
    then show ?thesis by (auto simp: kvs distinct_clearjunk distinct_map_filter)
  qed
qed (auto simp: mem_backend_def mem_contents_def split: if_splits prod.splits)

text \<open>A table that spells two objects.\<close>

definition stored_pod :: kube_object where
  "stored_pod = KPod \<lparr>pod_metadata = metadata_default\<lparr>md_name := ''web''\<rparr>, pod_spec = pod_spec_default,
     pod_status = Some (pod_status_default 0)\<rparr>"

definition stored_node :: kube_object where
  "stored_node = KNode \<lparr>node_metadata = metadata_default\<lparr>md_name := ''n1''\<rparr>,
     node_status = node_status_default\<rparr>"

definition sample_table :: "(string \<times> kube_object) list" where
  "sample_table = [(''pod web'', stored_pod), (''node n1'', stored_node)]"

interpretation mem: etcd "mem_backend sample_table" mem_contents
  by (rule mem_etcd) (simp add: sample_table_def)

end
