(* ===== verification/ApiMetrics.thy ===== *)
theory ApiMetrics
  imports ApiStore Http F64
begin

text \<open>
  The metrics of the API server (\<open>api_server/src/handler/metrics.rs\<close>): pod and function metrics
  queried from Prometheus, and the scrape targets of its configuration file. The Prometheus client,
  the file, the YAML library and the reload request are parameters, a record of the operations.

  The lemmas: what the usage table holds after a query, and what adding and removing a target change.
\<close>

section \<open>Results of queries\<close>

datatype json =
    JNull
  | JBool bool
  | JInt int
  | JFloat f64
  | JString string
  | JArray "json list"
  | JObject "(string \<times> json) list"

fun json_as_f64 :: "json \<Rightarrow> f64 option" where
  "json_as_f64 (JInt n) = Some (f64_of_int n)"
| "json_as_f64 (JFloat x) = Some x"
| "json_as_f64 _ = None"

fun json_as_str :: "json \<Rightarrow> string option" where
  "json_as_str (JString s) = Some s"
| "json_as_str _ = None"

record vector_result =
  vr_labels :: "(string, string) hashmap"
  vr_value :: "json list"

datatype response_data = PVector "vector_result list" | PMatrix | PScalar | PString

text \<open>\<open>build().unwrap()\<close> panics, a request that fails is an error reply.\<close>

datatype prom_error = BuildError string | DataSourceError string

section \<open>The configuration of Prometheus\<close>

record prom_static_config =
  psc_targets :: "string list"

record prom_scrape_config =
  psr_job_name :: string
  psr_scrape_interval :: "string option"
  psr_static_configs :: "prom_static_config list"

record prom_global_config =
  pg_scrape_interval :: "string option"
  pg_external_labels :: "(string, string) hashmap"

record prom_config =
  pc_global :: prom_global_config
  pc_scrape_configs :: "prom_scrape_config list"

record 'w prometheus =
  pr_query :: "string \<Rightarrow> ('w, prom_error, response_data) eio"
  pr_read_file :: "('w, string, string) eio"
  pr_write_file :: "string \<Rightarrow> ('w, string, unit) eio"
  pr_from_yaml :: "string \<Rightarrow> prom_config option"
  pr_to_yaml :: "prom_config \<Rightarrow> string option"
  pr_reload :: "('w, string, string option) eio"

definition read_config :: "'w prometheus \<Rightarrow> ('w, err_response, prom_config) eio" where
  "read_config pr =
     io_bind (io_map_err (\<lambda>_. err_new ''Failed to read metrics server config file'' None) (pr_read_file pr))
       (\<lambda>file. io_lift (ok_or (err_new ''Failed to parse metrics server config file'' None) (pr_from_yaml pr file)))"

definition write_config :: "'w prometheus \<Rightarrow> prom_config \<Rightarrow> ('w, err_response, unit) eio" where
  "write_config pr config =
     io_bind (io_lift (ok_or (err_new ''Failed to serialize metrics server config'' None) (pr_to_yaml pr config)))
       (\<lambda>contents. io_map_err (\<lambda>_. err_new ''Failed to write metrics server config'' None)
          (pr_write_file pr contents))"

text \<open>A reply whose text cannot be read counts as success, as one without text does.\<close>

definition reload_config :: "'w prometheus \<Rightarrow> ('w, err_response, unit) eio" where
  "reload_config pr =
     io_bind (io_map_err (\<lambda>e. err_new ''Failed to reload metrics server config'' (Some e)) (pr_reload pr))
       (\<lambda>text. case text of
          Some t \<Rightarrow> if t \<noteq> [] then io_fail (err_new ''Failed to reload metrics server config'' (Some t))
                    else io_return ()
        | None \<Rightarrow> io_return ())"

text \<open>
  \<open>find_update P f\<close> changes the first element with \<open>P\<close>, as \<open>iter_mut().find(..)\<close> does; \<open>None\<close> is
  the panic of \<open>static_configs[0]\<close>.
\<close>

fun update_first :: "('a \<Rightarrow> bool) \<Rightarrow> ('a \<Rightarrow> 'a option) \<Rightarrow> 'a list \<Rightarrow> 'a list option" where
  "update_first P f [] = Some []"
| "update_first P f (x # xs) =
     (if P x then map_option (\<lambda>y. y # xs) (f x) else map_option ((#) x) (update_first P f xs))"

definition push_target :: "string \<Rightarrow> prom_scrape_config \<Rightarrow> prom_scrape_config option" where
  "push_target target config = (case psr_static_configs config of
       [] \<Rightarrow> None
     | s # ss \<Rightarrow> Some (if target \<in> set (psc_targets s) then config
         else config\<lparr>psr_static_configs := s\<lparr>psc_targets := psc_targets s @ [target]\<rparr> # ss\<rparr>))"

definition drop_target :: "string \<Rightarrow> prom_scrape_config \<Rightarrow> prom_scrape_config option" where
  "drop_target target config = (case psr_static_configs config of
       [] \<Rightarrow> None
     | s # ss \<Rightarrow> Some (config\<lparr>psr_static_configs := s\<lparr>psc_targets := remove1 target (psc_targets s)\<rparr> # ss\<rparr>))"

definition add_job_target :: "string \<Rightarrow> string \<Rightarrow> prom_config \<Rightarrow> prom_config option" where
  "add_job_target job target config =
     (if list_ex (\<lambda>c. psr_job_name c = job) (pc_scrape_configs config)
      then map_option (\<lambda>cs. config\<lparr>pc_scrape_configs := cs\<rparr>)
             (update_first (\<lambda>c. psr_job_name c = job) (push_target target) (pc_scrape_configs config))
      else Some (config\<lparr>pc_scrape_configs := pc_scrape_configs config @
             [\<lparr>psr_job_name = job, psr_scrape_interval = Some ''15s'',
               psr_static_configs = [\<lparr>psc_targets = [target]\<rparr>]\<rparr>]\<rparr>))"

definition remove_job_target :: "string \<Rightarrow> string \<Rightarrow> prom_config \<Rightarrow> prom_config option" where
  "remove_job_target job target config =
     map_option (\<lambda>cs. config\<lparr>pc_scrape_configs := cs\<rparr>)
       (update_first (\<lambda>c. psr_job_name c = job) (drop_target target) (pc_scrape_configs config))"

definition index_out_of_bounds :: api_fault where
  "index_out_of_bounds = ApiPanic ''index out of bounds''"

definition add_scrape_target :: "'w prometheus \<Rightarrow> string \<Rightarrow> string \<Rightarrow> ('w, api_fault, unit) eio" where
  "add_scrape_target pr job target =
     io_bind (must (read_config pr)) (\<lambda>config.
     io_bind (io_lift (ok_or index_out_of_bounds (add_job_target job target config))) (\<lambda>config.
     io_bind (must (write_config pr config)) (\<lambda>_.
     must (reload_config pr))))"

definition remove_scrape_target :: "'w prometheus \<Rightarrow> string \<Rightarrow> string \<Rightarrow> ('w, api_fault, unit) eio" where
  "remove_scrape_target pr job target =
     io_bind (must (read_config pr)) (\<lambda>config.
     io_bind (io_lift (ok_or index_out_of_bounds (remove_job_target job target config))) (\<lambda>config.
     io_bind (must (write_config pr config)) (\<lambda>_.
     must (reload_config pr))))"

section \<open>The handlers\<close>

type_synonym response = "string option \<times> reply_data option"

definition add_target :: "'w prometheus \<Rightarrow> (string, string) hashmap \<Rightarrow> ('w, api_fault, response) eio" where
  "add_target pr payload = (case (hm_get payload ''job'', hm_get payload ''target'') of
       (Some job, Some target) \<Rightarrow>
         io_bind (add_scrape_target pr job target) (\<lambda>_. io_return (Some ''target added'', None))
     | _ \<Rightarrow> api_err ''Failed to add target'' (Some ''Missing job or target''))"

definition remove_target :: "'w prometheus \<Rightarrow> (string, string) hashmap \<Rightarrow> ('w, api_fault, response) eio" where
  "remove_target pr payload = (case (hm_get payload ''job'', hm_get payload ''target'') of
       (Some job, Some target) \<Rightarrow>
         io_bind (remove_scrape_target pr job target) (\<lambda>_. io_return (Some ''target removed'', None))
     | _ \<Rightarrow> api_err ''Failed to remove target'' (Some ''Missing job or target''))"

definition get_names :: "(string, string) hashmap \<Rightarrow> (string \<times> string) option" where
  "get_names labels =
     (case (hm_get labels ''container_label_minik8s_container_name'',
            hm_get labels ''container_label_minik8s_pod_name'') of
        (Some container_name, Some pod_name) \<Rightarrow> Some (container_name, pod_name)
      | _ \<Rightarrow> None)"

definition unwrap_instant_value :: "json list \<Rightarrow> err_response + f64 \<times> f64" where
  "unwrap_instant_value value = (case value of
       [t, v] \<Rightarrow> (case (json_as_f64 t, json_as_str v) of
           (Some timestamp, Some value) \<Rightarrow> (case parse_f64 value of
               Some value \<Rightarrow> Inr (timestamp, value)
             | None \<Rightarrow> Inl (err_new ''Failed to parse metrics response'' (Some ''Failed to parse value as f64'')))
         | _ \<Rightarrow> Inl (err_new ''Failed to parse metrics response'' (Some ''Expecting pair of f64 and string'')))
     | _ \<Rightarrow> Inl (err_new ''Failed to parse metrics response'' (Some ''Expecting array of length 2'')))"

definition get_selector_str :: "labels \<Rightarrow> string" where
  "get_selector_str selector =
     (if selector = [] then []
      else join '','' (map (\<lambda>(k, v). ''container_label_'' @ k @ ''='' @ [CHR 0x22] @ v @ [CHR 0x22]) selector) @ '','')"

definition unwrap_vector_result :: "('w, prom_error, response_data) eio \<Rightarrow> ('w, api_fault, vector_result list) eio" where
  "unwrap_vector_result m =
     io_bind (io_map_err (\<lambda>e. case e of
         BuildError e \<Rightarrow> ApiPanic e
       | DataSourceError e \<Rightarrow> ApiErr (err_new ''Failed to get metrics from metrics server'' (Some e))) m)
       (\<lambda>d. case d of
          PVector result \<Rightarrow> io_return result
        | _ \<Rightarrow> api_err ''Failed to get metrics from metrics server'' (Some ''Expecting vector result''))"

definition cpu_query :: "string \<Rightarrow> string" where
  "cpu_query selector_str =
     ''sum(rate(container_cpu_usage_seconds_total{'' @ selector_str @
     ''container_label_minik8s_container_type='' @ [CHR 0x22] @ ''container'' @ [CHR 0x22] @
     ''}[1m])) by(container_label_minik8s_container_name, container_label_minik8s_pod_name)''"

definition memory_query :: "string \<Rightarrow> string" where
  "memory_query selector_str =
     ''container_memory_working_set_bytes{'' @ selector_str @
     ''container_label_minik8s_container_type='' @ [CHR 0x22] @ ''container'' @ [CHR 0x22] @ ''}''"

definition function_query :: "string \<Rightarrow> string" where
  "function_query func_name =
     ''idelta(function_requests_total{function='' @ [CHR 0x22] @ func_name @ [CHR 0x22] @ ''}[1m])''"

text \<open>The table of the containers of each pod; \<open>note_usage\<close> creates the entries that are missing.\<close>

type_synonym usage_table = "(string, (string, container_metrics) hashmap) hashmap"

definition note_usage :: "resource \<Rightarrow> string \<Rightarrow> string \<Rightarrow> i64 \<Rightarrow> usage_table \<Rightarrow> usage_table" where
  "note_usage r container_name pod_name v pods =
     (let containers = case_option hm_empty id (hm_get pods pod_name);
          c = case_option \<lparr>cm_name = container_name, cm_usage = hm_empty\<rparr> id (hm_get containers container_name)
      in hm_insert pod_name
           (hm_insert container_name (c\<lparr>cm_usage := hm_insert r v (cm_usage c)\<rparr>) containers) pods)"

fun note_samples ::
    "resource \<Rightarrow> (f64 \<Rightarrow> i64) \<Rightarrow> vector_result list \<Rightarrow> usage_table \<Rightarrow> err_response + usage_table" where
  "note_samples r conv [] pods = Inr pods"
| "note_samples r conv (x # xs) pods = (case get_names (vr_labels x) of
       None \<Rightarrow> note_samples r conv xs pods
     | Some (container_name, pod_name) \<Rightarrow> (case unwrap_instant_value (vr_value x) of
         Inl e \<Rightarrow> Inl e
       | Inr (_, value) \<Rightarrow> note_samples r conv xs (note_usage r container_name pod_name (conv value) pods)))"

definition to_milli_cpu :: "f64 \<Rightarrow> i64" where
  "to_milli_cpu value = f64_as_i64 (f64_mul value (f64_of_int 1000))"

definition pod_metrics_of :: "time \<Rightarrow> usage_table \<Rightarrow> pod_metrics list" where
  "pod_metrics_of now pods = map (\<lambda>(pod_name, containers).
     \<lparr>pms_name = pod_name, pms_timestamp = now, pms_window = 60, pms_containers = hm_values containers\<rparr>) pods"

definition parse_selector :: "string option \<Rightarrow> err_response + labels" where
  "parse_selector selector = (case selector of
       None \<Rightarrow> Inr hm_empty
     | Some s \<Rightarrow> (case labels_try_from s of
         Inl _ \<Rightarrow> Inl (err_new ''Failed to get metrics'' (Some ''Failed to parse selector''))
       | Inr ls \<Rightarrow> Inr ls))"

definition list_pods :: "'w prometheus \<Rightarrow> time \<Rightarrow> string option \<Rightarrow> ('w, api_fault, response) eio" where
  "list_pods pr now selector =
     io_bind (must (io_lift (parse_selector selector))) (\<lambda>selector.
     io_bind (unwrap_vector_result (pr_query pr (cpu_query (get_selector_str selector)))) (\<lambda>containers.
     io_bind (must (io_lift (note_samples CPU to_milli_cpu containers hm_empty))) (\<lambda>pods.
     io_bind (unwrap_vector_result (pr_query pr (memory_query (get_selector_str selector)))) (\<lambda>containers.
     io_bind (must (io_lift (note_samples Memory f64_as_i64 containers pods))) (\<lambda>pods.
     io_return (None, Some (DPodMetrics (pod_metrics_of now pods))))))))"

definition get_function :: "'w prometheus \<Rightarrow> time \<Rightarrow> string \<Rightarrow> ('w, api_fault, response) eio" where
  "get_function pr now func_name =
     io_bind (unwrap_vector_result (pr_query pr (function_query func_name))) (\<lambda>metrics.
     case metrics of
       [] \<Rightarrow> api_err ''Failed to get metrics'' (Some ''No metrics found'')
     | m # _ \<Rightarrow>
         io_bind (must (io_lift (unwrap_instant_value (vr_value m)))) (\<lambda>(_, value).
         io_return (None, Some (DFunctionMetric
           \<lparr>fm_name = func_name, fm_timestamp = now, fm_value = f64_as_i64 value\<rparr>))))"

section \<open>The usage table\<close>

text \<open>
  The value of a resource in the table, the samples of one container among the results of a query,
  and the tables the handlers build: distinct keys, each container under its own name.
\<close>

definition usage_of :: "usage_table \<Rightarrow> string \<Rightarrow> string \<Rightarrow> resource \<Rightarrow> i64 option" where
  "usage_of pods p c r =
     Option.bind (hm_get pods p) (\<lambda>cs. Option.bind (hm_get cs c) (\<lambda>m. hm_get (cm_usage m) r))"

definition sample_of :: "string \<Rightarrow> string \<Rightarrow> vector_result \<Rightarrow> f64 option" where
  "sample_of p c x = (if get_names (vr_labels x) = Some (c, p)
     then (case unwrap_instant_value (vr_value x) of Inl _ \<Rightarrow> None | Inr (_, v) \<Rightarrow> Some v) else None)"

fun last_sample :: "string \<Rightarrow> string \<Rightarrow> vector_result list \<Rightarrow> f64 option" where
  "last_sample p c [] = None"
| "last_sample p c (x # xs) = (case last_sample p c xs of Some v \<Rightarrow> Some v | None \<Rightarrow> sample_of p c x)"

definition table_wf :: "usage_table \<Rightarrow> bool" where
  "table_wf pods \<longleftrightarrow> hm_wf pods \<and>
     (\<forall>p cs. (p, cs) \<in> set pods \<longrightarrow> hm_wf cs \<and> (\<forall>c m. (c, m) \<in> set cs \<longrightarrow> cm_name m = c))"

lemma table_wf_get:
  assumes "table_wf pods" and "hm_get pods p = Some cs"
  shows "hm_wf cs" and "hm_get cs c = Some m \<Longrightarrow> cm_name m = c"
proof -
  from assms have in_pods: "(p, cs) \<in> set pods" and wf: "table_wf pods" by (simp_all add: hm_get_SomeD)
  then show "hm_wf cs" by (auto simp: table_wf_def)
  show "cm_name m = c" if "hm_get cs c = Some m"
    using in_pods wf hm_get_SomeD [OF that] by (auto simp: table_wf_def)
qed

lemma hm_insert_set: "(k', v') \<in> set (hm_insert k v m) \<Longrightarrow> (k', v') = (k, v) \<or> (k', v') \<in> set m"
  unfolding hm_insert_def by (induction m) (auto split: if_splits)

lemma table_wf_insert:
  assumes "table_wf pods" and "hm_wf cs" and "\<forall>c m. (c, m) \<in> set cs \<longrightarrow> cm_name m = c"
  shows "table_wf (hm_insert p cs pods)"
  using assms hm_insert_set [of _ _ p cs pods] unfolding table_wf_def by (auto simp: hm_wf_insert) blast+

lemma note_usage_wf:
  assumes "table_wf pods"
  shows "table_wf (note_usage r c p v pods)"
proof -
  let ?cs = "case_option hm_empty id (hm_get pods p)"
  let ?m = "case_option \<lparr>cm_name = c, cm_usage = hm_empty\<rparr> id (hm_get ?cs c)"
  let ?new = "hm_insert c (?m\<lparr>cm_usage := hm_insert r v (cm_usage ?m)\<rparr>) ?cs"
  have cs: "hm_wf ?cs" "\<And>c' m. (c', m) \<in> set ?cs \<Longrightarrow> cm_name m = c'"
    using assms by (auto simp: table_wf_def hm_empty_def hm_wf_def dest!: hm_get_SomeD split: option.splits)
  then have "cm_name ?m = c" by (auto dest: hm_get_SomeD split: option.split)
  then have new: "hm_wf ?new" "\<And>c' m. (c', m) \<in> set ?new \<Longrightarrow> cm_name m = c'"
    using cs by (auto dest!: hm_insert_set)
  have "note_usage r c p v pods = hm_insert p ?new pods"
    by (simp add: note_usage_def Let_def)
  with table_wf_insert [OF assms new(1)] new(2) show ?thesis by (simp only:) blast
qed

lemma usage_of_note_usage:
  "usage_of (note_usage r c p v pods) p' c' r' =
     (if p' = p \<and> c' = c \<and> r' = r then Some v else usage_of pods p' c' r')"
  by (auto simp: usage_of_def note_usage_def Let_def split: option.splits)

lemma hm_get_note_usage:
  "(\<exists>cs m. hm_get (note_usage r c p v pods) p' = Some cs \<and> hm_get cs c' = Some m) \<longleftrightarrow>
     p' = p \<and> c' = c \<or> (\<exists>cs m. hm_get pods p' = Some cs \<and> hm_get cs c' = Some m)"
  by (auto simp: note_usage_def Let_def split: option.splits)

lemma note_samples_wf:
  "note_samples r conv xs pods = Inr pods' \<Longrightarrow> table_wf pods \<Longrightarrow> table_wf pods'"
  by (induction r conv xs pods rule: note_samples.induct)
    (auto simp: note_usage_wf split: option.splits prod.splits sum.splits)

lemma usage_of_note_samples:
  assumes "note_samples r conv xs pods = Inr pods'"
  shows "usage_of pods' p c r' = (if r' = r
    then (case last_sample p c xs of None \<Rightarrow> usage_of pods p c r | Some v \<Rightarrow> Some (conv v))
    else usage_of pods p c r')"
  using assms
proof (induction xs arbitrary: pods)
  case Nil
  then show ?case by simp
next
  case (Cons x xs)
  show ?case
  proof (cases "get_names (vr_labels x)")
    case None
    with Cons show ?thesis by (auto simp: sample_of_def split: option.splits)
  next
    case (Some n)
    obtain c1 p1 where n: "n = (c1, p1)" by (cases n)
    with Some Cons.prems obtain t v where tv: "unwrap_instant_value (vr_value x) = Inr (t, v)"
      and rest: "note_samples r conv xs (note_usage r c1 p1 (conv v) pods) = Inr pods'"
      by (auto split: sum.splits)
    from Cons.IH [OF rest] Some n tv show ?thesis
      by (auto simp: sample_of_def usage_of_note_usage split: option.split)
  qed
qed

lemma listed_note_samples:
  assumes "note_samples r conv xs pods = Inr pods'"
  shows "(\<exists>cs m. hm_get pods' p = Some cs \<and> hm_get cs c = Some m) \<longleftrightarrow>
    last_sample p c xs \<noteq> None \<or> (\<exists>cs m. hm_get pods p = Some cs \<and> hm_get cs c = Some m)"
  using assms
proof (induction xs arbitrary: pods)
  case Nil
  then show ?case by simp
next
  case (Cons x xs)
  show ?case
  proof (cases "get_names (vr_labels x)")
    case None
    with Cons show ?thesis by (auto simp: sample_of_def split: option.splits)
  next
    case (Some n)
    obtain c1 p1 where n: "n = (c1, p1)" by (cases n)
    with Some Cons.prems obtain t v where tv: "unwrap_instant_value (vr_value x) = Inr (t, v)"
      and rest: "note_samples r conv xs (note_usage r c1 p1 (conv v) pods) = Inr pods'"
      by (auto split: sum.splits)
    have "last_sample p c (x # xs) \<noteq> None \<longleftrightarrow> last_sample p c xs \<noteq> None \<or> (p = p1 \<and> c = c1)"
      using Some n tv by (auto simp: sample_of_def split: option.splits)
    with Cons.IH [OF rest] show ?thesis by (simp only: hm_get_note_usage) blast
  qed
qed

lemma usage_of_empty [simp]: "usage_of hm_empty p c r = None"
  by (simp add: usage_of_def)

lemma container_usage:
  assumes wf: "table_wf pods" and pm: "pm \<in> set (pod_metrics_of now pods)" and c: "c \<in> set (pms_containers pm)"
  shows "hm_get (cm_usage c) r = usage_of pods (pms_name pm) (cm_name c) r"
proof -
  obtain p cs where pods: "(p, cs) \<in> set pods" and "pms_name pm = p" "pms_containers pm = hm_values cs"
    using pm by (auto simp: pod_metrics_of_def)
  moreover from this c obtain k where k: "(k, c) \<in> set cs" by (auto simp: hm_values_def)
  ultimately show ?thesis
    using wf by (auto simp: usage_of_def table_wf_def hm_get_iff [THEN iffD2])
qed

lemma listed_container:
  assumes wf: "table_wf pods" and "hm_get pods p = Some cs" and "hm_get cs c = Some m"
  shows "\<exists>pm \<in> set (pod_metrics_of now pods). pms_name pm = p \<and> (\<exists>m \<in> set (pms_containers pm). cm_name m = c)"
proof -
  have "(p, cs) \<in> set pods" and "(c, m) \<in> set cs" using assms by (simp_all add: hm_get_SomeD)
  moreover from this wf have "cm_name m = c" by (auto simp: table_wf_def)
  ultimately show ?thesis by (force simp: pod_metrics_of_def hm_values_def)
qed


section \<open>Scrape targets\<close>

text \<open>The targets of a job: those of the first static configuration of the first job of that name.\<close>

definition job_targets :: "prom_config \<Rightarrow> string \<Rightarrow> string list option" where
  "job_targets config job = (case List.find (\<lambda>c. psr_job_name c = job) (pc_scrape_configs config) of
       None \<Rightarrow> None
     | Some c \<Rightarrow> (case psr_static_configs c of [] \<Rightarrow> None | s # _ \<Rightarrow> Some (psc_targets s)))"

lemma find_update_first:
  assumes "update_first (\<lambda>c. psr_job_name c = job) f xs = Some ys"
    and "\<And>x y. f x = Some y \<Longrightarrow> psr_job_name y = psr_job_name x"
  shows "List.find (\<lambda>c. psr_job_name c = job') ys = (if job' = job
    then Option.bind (List.find (\<lambda>c. psr_job_name c = job) xs) f
    else List.find (\<lambda>c. psr_job_name c = job') xs)"
  using assms(1)
proof (induction xs arbitrary: ys)
  case (Cons x xs)
  then show ?case by (auto split: if_splits dest: assms(2))
qed simp

lemma update_first_find:
  "update_first P f xs = Some ys \<Longrightarrow> List.find P xs = Some x \<Longrightarrow> f x \<noteq> None"
  by (induction xs arbitrary: ys) (auto split: if_splits)

lemma find_not_ex: "\<not> list_ex P xs \<Longrightarrow> List.find P xs = None"
  by (induction xs) auto

lemma find_append: "List.find P (xs @ ys) = (case List.find P xs of Some x \<Rightarrow> Some x | None \<Rightarrow> List.find P ys)"
  by (induction xs) auto

lemma find_ex: "list_ex P xs \<Longrightarrow> \<exists>x. List.find P xs = Some x"
  by (induction xs) auto

lemma push_target_simps:
  "push_target t c = Some d \<Longrightarrow> psr_job_name d = psr_job_name c"
  "drop_target t c = Some d \<Longrightarrow> psr_job_name d = psr_job_name c"
  by (auto simp: push_target_def drop_target_def split: list.splits)

definition with_target :: "string \<Rightarrow> string list option \<Rightarrow> string list" where
  "with_target t ts = (case ts of None \<Rightarrow> [t] | Some ts \<Rightarrow> if t \<in> set ts then ts else ts @ [t])"

lemma job_targets_add:
  assumes "add_job_target job t config = Some config'"
  shows "job_targets config' = (job_targets config)(job \<mapsto> with_target t (job_targets config job))"
proof (cases "list_ex (\<lambda>c. psr_job_name c = job) (pc_scrape_configs config)")
  case False
  with assms show ?thesis
    by (auto simp: add_job_target_def job_targets_def with_target_def fun_eq_iff find_not_ex find_append
        split: option.splits)
next
  case True
  with assms obtain cs where up: "update_first (\<lambda>c. psr_job_name c = job) (push_target t) (pc_scrape_configs config) = Some cs"
    and config': "config' = config\<lparr>pc_scrape_configs := cs\<rparr>" by (auto simp: add_job_target_def)
  from find_ex [OF True] obtain c where c: "List.find (\<lambda>c. psr_job_name c = job) (pc_scrape_configs config) = Some c" ..
  obtain d where d: "push_target t c = Some d" using update_first_find [OF up c] by auto
  show ?thesis
    using find_update_first [OF up push_target_simps(1)] c d
    by (auto simp: config' job_targets_def with_target_def fun_eq_iff push_target_def split: list.splits if_splits)
qed

lemma job_targets_remove:
  assumes "remove_job_target job t config = Some config'"
  shows "job_targets config' = (job_targets config)(job := map_option (remove1 t) (job_targets config job))"
proof -
  from assms obtain cs where up: "update_first (\<lambda>c. psr_job_name c = job) (drop_target t) (pc_scrape_configs config) = Some cs"
    and config': "config' = config\<lparr>pc_scrape_configs := cs\<rparr>" by (auto simp: remove_job_target_def)
  show ?thesis
    using find_update_first [OF up push_target_simps(2)] update_first_find [OF up]
    by (auto simp: config' job_targets_def fun_eq_iff drop_target_def split: list.splits option.splits)
qed

text \<open>The targets of the jobs in the text of a configuration.\<close>

definition file_targets :: "'w prometheus \<Rightarrow> string \<Rightarrow> string \<Rightarrow> string list option" where
  "file_targets pr s = (case pr_from_yaml pr s of None \<Rightarrow> Map.empty | Some c \<Rightarrow> job_targets c)"

text \<open>
  What the code relies on: reading gives the contents of the file and changes nothing, a write that
  succeeds replaces them, reloading leaves the file alone, and YAML reads back what it wrote.
\<close>

locale scrape_file =
  fixes pr :: "'w prometheus" and conf :: "'w \<Rightarrow> string"
  assumes read_file: "pr_read_file pr w = (r, w') \<Longrightarrow> conf w' = conf w \<and> (\<forall>s. r = Inr s \<longrightarrow> s = conf w)"
    and write_file: "pr_write_file pr s w = (Inr u, w') \<Longrightarrow> conf w' = s"
    and reload_file: "pr_reload pr w = (q, w') \<Longrightarrow> conf w' = conf w"
    and yaml: "pr_to_yaml pr c = Some s \<Longrightarrow> pr_from_yaml pr s = Some c"
begin

abbreviation targets :: "'w \<Rightarrow> string \<Rightarrow> string list option" where
  "targets w \<equiv> file_targets pr (conf w)"

lemma read_config_file:
  "read_config pr w = (Inr c, w') \<Longrightarrow> conf w' = conf w \<and> pr_from_yaml pr (conf w) = Some c"
  unfolding read_config_def
  by (elim io_bind_InrE io_map_errE) (auto dest!: read_file)

lemma write_config_file:
  "write_config pr c w = (Inr u, w') \<Longrightarrow> pr_from_yaml pr (conf w') = Some c"
  unfolding write_config_def
  by (elim io_bind_InrE io_map_errE) (auto dest!: write_file simp: yaml)

lemma reload_config_file: "reload_config pr w = (r, w') \<Longrightarrow> conf w' = conf w"
  unfolding reload_config_def
  by (elim io_bindE io_map_errE) (auto dest!: reload_file split: option.splits if_splits)

lemma rewrite_config:
  assumes "io_bind (must (read_config pr)) (\<lambda>c. io_bind (io_lift (ok_or index_out_of_bounds (f c)))
    (\<lambda>c. io_bind (must (write_config pr c)) (\<lambda>_. must (reload_config pr)))) w = (Inr u, w')"
  obtains c c' where "pr_from_yaml pr (conf w) = Some c" "f c = Some c'" "pr_from_yaml pr (conf w') = Some c'"
  using assms unfolding must_def
  by (elim io_bind_InrE io_map_errE) (auto dest!: read_config_file write_config_file reload_config_file)

lemma targets_added:
  assumes "add_scrape_target pr job t w = (Inr u, w')"
  shows "targets w' = (targets w)(job \<mapsto> with_target t (targets w job))"
  using assms unfolding add_scrape_target_def
  by (elim rewrite_config) (simp add: file_targets_def job_targets_add)

lemma targets_removed:
  assumes "remove_scrape_target pr job t w = (Inr u, w')"
  shows "targets w' = (targets w)(job := map_option (remove1 t) (targets w job))"
  using assms unfolding remove_scrape_target_def
  by (elim rewrite_config) (simp add: file_targets_def job_targets_remove)

text \<open>Removing a target that was just added, and was not there, gives the old targets back.\<close>

lemma targets_restored:
  assumes "add_scrape_target pr job t w = (Inr u, w1)" and "conf w2 = conf w1"
    and "remove_scrape_target pr job t w2 = (Inr v, w3)"
    and "\<forall>ts. targets w job = Some ts \<longrightarrow> t \<notin> set ts"
  shows "targets w3 = (targets w)(job \<mapsto> case_option [] id (targets w job))"
  using targets_added [OF assms(1)] targets_removed [OF assms(3)] assms(2,4)
  by (auto simp: with_target_def remove1_append split: option.splits)

end

text \<open>A reference instance: the file is the second half of the world, YAML a table.\<close>

definition mem_prometheus ::
    "(string \<times> prom_config) list \<Rightarrow> (string \<Rightarrow> response_data) \<Rightarrow> string memory prometheus" where
  "mem_prometheus table answers = \<lparr>
     pr_query = (\<lambda>q w. (Inr (answers q), w)),
     pr_read_file = (\<lambda>(m, s). (Inr s, (m, s))),
     pr_write_file = (\<lambda>s (m, _). (Inr (), (m, s))),
     pr_from_yaml = map_of table,
     pr_to_yaml = (\<lambda>c. map_option fst (List.find (\<lambda>(s, d). d = c) table)),
     pr_reload = io_return (Some [])\<rparr>"

lemma mem_scrape_file:
  assumes "distinct (map fst table)"
  shows "scrape_file (mem_prometheus table answers) snd"
proof
  show "pr_from_yaml (mem_prometheus table answers) s = Some c"
    if "pr_to_yaml (mem_prometheus table answers) c = Some s" for c s
  proof -
    have "\<exists>d. List.find (\<lambda>(s, d). d = c) table = Some (s, d)"
      using that by (auto simp: mem_prometheus_def)
    then have "(s, c) \<in> set table" by (auto simp: find_Some_iff in_set_conv_nth)
    with assms show ?thesis by (simp add: mem_prometheus_def)
  qed
qed (auto simp: mem_prometheus_def split: prod.splits)

definition cadvisor_config :: "string list \<Rightarrow> prom_config" where
  "cadvisor_config targets = \<lparr>
     pc_global = \<lparr>pg_scrape_interval = None, pg_external_labels = hm_empty\<rparr>,
     pc_scrape_configs = [\<lparr>psr_job_name = ''cadvisor'', psr_scrape_interval = Some ''15s'',
       psr_static_configs = [\<lparr>psc_targets = targets\<rparr>]\<rparr>]\<rparr>"

definition config_table :: "(string \<times> prom_config) list" where
  "config_table = [(''none'', cadvisor_config []), (''one'', cadvisor_config [''10.0.0.1:8090''])]"

definition no_answers :: "string \<Rightarrow> response_data" where
  "no_answers q = PVector []"

interpretation memf: scrape_file "mem_prometheus config_table no_answers" snd
  by (rule mem_scrape_file) (simp add: config_table_def)

text \<open>A run of \<open>list_pods\<close>: two cores and 4096 bytes in the one container of a pod.\<close>

definition sample_result :: "string \<Rightarrow> vector_result" where
  "sample_result value = \<lparr>
     vr_labels = [(''container_label_minik8s_container_name'', ''nginx''),
                  (''container_label_minik8s_pod_name'', ''web'')],
     vr_value = [JInt 7, JString value]\<rparr>"

definition sample_answers :: "string \<Rightarrow> response_data" where
  "sample_answers q = PVector [sample_result (if q = cpu_query [] then ''2'' else ''4096'')]"

definition sample_pod_metrics :: "pod_metrics list" where
  "sample_pod_metrics = [\<lparr>pms_name = ''web'', pms_timestamp = 9, pms_window = 60,
     pms_containers = [\<lparr>cm_name = ''nginx'', cm_usage = [(CPU, 2000), (Memory, 4096)]\<rparr>]\<rparr>]"

lemma sample_queries:
  "pr_query (mem_prometheus config_table sample_answers) (cpu_query []) w = (Inr (PVector [sample_result ''2'']), w)"
  "pr_query (mem_prometheus config_table sample_answers) (memory_query []) w = (Inr (PVector [sample_result ''4096'']), w)"
  by (simp_all add: mem_prometheus_def sample_answers_def cpu_query_def memory_query_def)

lemma parse_f64_int:
  assumes "s \<noteq> []" and "list_all is_digit s" and "digits_value s < 2 ^ 53"
    and "to_lowercase s \<notin> {''inf'', ''infinity'', ''nan''}" and "split_sign s = (1, s)"
  shows "parse_f64 s = Some (Fin (of_nat (digits_value s)))"
proof -
  have tw: "takeWhile is_digit s = s" and dw: "dropWhile is_digit s = []"
    using assms(2) by (simp_all add: list_all_iff takeWhile_eq_all_conv dropWhile_eq_Nil_conv)
  then have "parse_decimal s = Some (of_nat (digits_value s))"
    using assms(1) by (simp add: parse_decimal_def parse_exponent_def scale10_def Let_def tw dw)
  moreover have "f64_round (of_nat (digits_value s)) = Fin (of_nat (digits_value s))"
    using f64_of_int_exact [of "int (digits_value s)"] assms(3) by (simp add: f64_of_int_def)
  ultimately show ?thesis using assms(4,5) by (simp add: parse_f64_def)
qed

lemma sample_values:
  "unwrap_instant_value (vr_value (sample_result ''2'')) = Inr (f64_of_int 7, Fin 2)"
  "unwrap_instant_value (vr_value (sample_result ''4096'')) = Inr (f64_of_int 7, Fin 4096)"
  by (simp_all add: unwrap_instant_value_def sample_result_def parse_f64_int is_digit_def digits_value_def
      to_lowercase_def char_to_lower_def split_sign_def)

lemma sample_conversions: "to_milli_cpu (Fin 2) = 2000" "f64_as_i64 (Fin 4096) = 4096"
proof -
  have "f64_round 2000 = Fin 2000" "f64_of_int 1000 = Fin 1000"
    using f64_of_int_exact [of 2000] f64_of_int_exact [of 1000] by (simp_all add: f64_of_int_def)
  then show "to_milli_cpu (Fin 2) = 2000" "f64_as_i64 (Fin 4096) = 4096"
    by (simp_all add: to_milli_cpu_def)
qed

lemma sample_names: "get_names (vr_labels (sample_result v)) = Some (''nginx'', ''web'')"
  by (simp add: get_names_def sample_result_def)

lemma sample_list_pods:
  "list_pods (mem_prometheus config_table sample_answers) 9 None w =
     (Inr (None, Some (DPodMetrics sample_pod_metrics)), w)"
  by (simp add: list_pods_def parse_selector_def must_def get_selector_str_def hm_empty_def
      unwrap_vector_result_def io_bind_def io_map_err_def sample_queries sample_names sample_values
      sample_conversions note_usage_def pod_metrics_of_def sample_pod_metrics_def hm_values_def hm_insert_def)


end
