(* ===== verification/ApiHandlers.thy ===== *)
theory ApiHandlers
  imports ApiMetrics Informer
begin

text \<open>
  The handlers of the API server (\<open>api_server/src/handler\<close>), one definition per handler. The state is
  the pool of service addresses and the world of etcd and of Prometheus. The random draws, the new
  uuids, the clock and what the other processes do while a handler sleeps are the argument \<open>env\<close>;
  \<open>ex_forward\<close> is a request passed on to a kubelet, which answers, or an error reply when it does not.

  What they keep and what they store is in the theory \<open>ApiFacts\<close>.
\<close>

section \<open>State, environment and results\<close>

record 'w server =
  sv_ip_pool :: "ipv4 list"
  sv_world :: 'w

record 'w externals =
  ex_be :: "'w backend"
  ex_pr :: "'w prometheus"
  ex_forward :: "string \<Rightarrow> 'w \<Rightarrow> api_reply \<times> 'w"

record 'w env =
  ev_uuid :: uuid
  ev_uuid2 :: uuid
  ev_now :: time
  ev_chars :: string
  ev_hosts :: "nat \<Rightarrow> string"
  ev_octets :: "(nat \<times> nat \<times> nat) list"
  ev_sleep :: "'w \<Rightarrow> 'w"

type_synonym ('w, 'a) handler = "('w server, api_fault, 'a) eio"

text \<open>An operation on the world, and its result as a value (no \<open>?\<close> after it).\<close>

definition in_world :: "('w, 'e, 'a) eio \<Rightarrow> ('w server, 'e, 'a) eio" where
  "in_world m s = (case m (sv_world s) of (r, w) \<Rightarrow> (r, s\<lparr>sv_world := w\<rparr>))"

definition attempt :: "('s, 'e, 'a) eio \<Rightarrow> ('s, 'f, 'e + 'a) eio" where
  "attempt m s = (case m s of (r, s') \<Rightarrow> (Inr r, s'))"

definition fetch :: "'w externals \<Rightarrow> string \<Rightarrow> string \<Rightarrow> ('w, kube_object) handler" where
  "fetch ex uri kind = must (in_world (etcd_get_object (ex_be ex) uri (Some kind)))"

definition try_fetch :: "'w externals \<Rightarrow> string \<Rightarrow> string \<Rightarrow> ('w, err_response + kube_object) handler" where
  "try_fetch ex uri kind = attempt (in_world (etcd_get_object (ex_be ex) uri (Some kind)))"

definition enumerate_kind :: "'w externals \<Rightarrow> string \<Rightarrow> string \<Rightarrow> ('w, kube_object list) handler" where
  "enumerate_kind ex prefix kind = must (in_world (etcd_get_objects_by_prefix (ex_be ex) prefix (Some kind)))"

definition store_object :: "'w externals \<Rightarrow> kube_object \<Rightarrow> ('w, unit) handler" where
  "store_object ex x = must (in_world (etcd_put (ex_be ex) x))"

definition erase :: "'w externals \<Rightarrow> string \<Rightarrow> ('w, unit) handler" where
  "erase ex uri = must (in_world (etcd_delete (ex_be ex) uri))"

definition done_msg :: "string \<Rightarrow> ('w, response) handler" where
  "done_msg msg = io_return (Some msg, None)"

definition expecting :: "string \<Rightarrow> string \<Rightarrow> kube_object \<Rightarrow> ('w, response) handler" where
  "expecting msg kind payload = api_err msg (Some (''Expecting '' @ kind @ '', got '' @ kind_of payload))"

text \<open>What the handlers \<open>get\<close>, \<open>list\<close> and \<open>delete\<close> of the kinds have in common.\<close>

definition get_named :: "'w externals \<Rightarrow> string \<Rightarrow> string \<Rightarrow> ('w, response) handler" where
  "get_named ex uri kind = io_bind (fetch ex uri kind) (\<lambda>x. io_return (None, Some (DObject x)))"

definition list_kind :: "'w externals \<Rightarrow> string \<Rightarrow> string \<Rightarrow> ('w, response) handler" where
  "list_kind ex prefix kind = io_bind (enumerate_kind ex prefix kind) (\<lambda>xs. io_return (None, Some (DObjects xs)))"

definition delete_named :: "'w externals \<Rightarrow> string \<Rightarrow> string \<Rightarrow> ('w, response) handler" where
  "delete_named ex uri msg = io_bind (erase ex uri) (\<lambda>_. done_msg msg)"

section \<open>Random names and addresses\<close>

text \<open>\<open>ev_chars\<close> are the five alphanumeric characters drawn, \<open>ev_hosts\<close> those of each host.\<close>

definition unique_name :: "'w env \<Rightarrow> string \<Rightarrow> string" where
  "unique_name env name = name @ ''-'' @ to_lowercase (ev_chars env)"

definition gen_rand_host :: "string \<Rightarrow> string" where
  "gen_rand_host chars = to_lowercase chars @ ''.minik8s.com''"

definition service_ip :: "nat \<times> nat \<times> nat \<Rightarrow> ipv4" where
  "service_ip = (\<lambda>(a, b, c). of_nat (172 * 16777216 + a * 65536 + b * 256 + c))"

text \<open>The loop draws until an address is free; it does not end when the draws run out: \<open>None\<close>.\<close>

fun gen_service_ip :: "(nat \<times> nat \<times> nat) list \<Rightarrow> ipv4 list \<Rightarrow> (ipv4 \<times> ipv4 list) option" where
  "gen_service_ip [] pool = None"
| "gen_service_ip (d # ds) pool =
     (let ip = service_ip d
      in if ip \<notin> set pool then Some (ip, ip # pool) else gen_service_ip ds pool)"

definition no_address_left :: api_fault where
  "no_address_left = ApiPanic ''gen_service_ip does not return''"

definition draw_service_ip :: "'w env \<Rightarrow> ('w, ipv4) handler" where
  "draw_service_ip env s = (case gen_service_ip (ev_octets env) (sv_ip_pool s) of
       None \<Rightarrow> (Inl no_address_left, s)
     | Some (ip, pool) \<Rightarrow> (Inr ip, s\<lparr>sv_ip_pool := pool\<rparr>))"

section \<open>File names\<close>

text \<open>
  \<open>Path::file_name\<close>, \<open>file_stem\<close>, \<open>extension\<close> and \<open>PathBuf::set_extension\<close>: the name is split at
  its last dot, unless the dot is its first character.
\<close>

definition path_file_name :: "string \<Rightarrow> string option" where
  "path_file_name p = (case rev (filter (\<lambda>c. c \<noteq> [] \<and> c \<noteq> ''.'') (split_on (CHR ''/'') p)) of
       [] \<Rightarrow> None
     | c # _ \<Rightarrow> if c = ''..'' then None else Some c)"

text \<open>The part before the last dot, if there is one.\<close>

definition before_dot :: "string \<Rightarrow> string option" where
  "before_dot name = (case dropWhile (\<lambda>c. c \<noteq> CHR ''.'') (rev name) of
       [] \<Rightarrow> None
     | [_] \<Rightarrow> None
     | _ # t \<Rightarrow> Some (rev t))"

definition file_stem :: "string \<Rightarrow> string" where
  "file_stem name = case_option name id (before_dot name)"

definition file_extension :: "string \<Rightarrow> string option" where
  "file_extension name = (case before_dot name of
       None \<Rightarrow> None | Some stem \<Rightarrow> Some (drop (length stem + 1) name))"

definition set_extension :: "string \<Rightarrow> string \<Rightarrow> string" where
  "set_extension name ext = file_stem name @ (if ext = [] then [] else ''.'' @ ext)"

definition unique_filename :: "string \<Rightarrow> string \<Rightarrow> string" where
  "unique_filename chars filename =
     (let name = path_file_name filename;
          new_filename = (case name of None \<Rightarrow> [] | Some n \<Rightarrow> file_stem n) @ chars
      in case Option.bind name file_extension of
           None \<Rightarrow> new_filename
         | Some ext \<Rightarrow> set_extension new_filename ext)"

text \<open>A field of a form: its name, the name of its file, its text, and the saving of its bytes.\<close>

record 'w form_field =
  ff_name :: "string option"
  ff_file_name :: "string option"
  ff_text :: "string option"
  ff_save :: "string \<Rightarrow> ('w, string, unit) eio"

definition stream_to_tmp_file :: "'w env \<Rightarrow> string \<Rightarrow> 'w form_field \<Rightarrow> ('w, string) handler" where
  "stream_to_tmp_file env original_filename field =
     (let fname = unique_filename (ev_chars env) original_filename
      in io_bind (must (in_world (io_map_err (\<lambda>e. err_new e None) (ff_save field fname))))
           (\<lambda>_. io_return fname))"

definition decode_field_json :: "'w externals \<Rightarrow> 'w form_field \<Rightarrow> ('w, kube_object) handler" where
  "decode_field_json ex field =
     io_bind (io_lift (ok_or (ApiErr (err_bad_request ''Invalid field'' None)) (ff_text field))) (\<lambda>s.
     io_lift (ok_or (ApiErr (err_bad_request ''Failed to deserialize'' None)) (be_from_json (ex_be ex) s)))"

definition store_code_file :: "'w env \<Rightarrow> 'w form_field \<Rightarrow> ('w, string) handler" where
  "store_code_file env field =
     (let original_filename = case_option [] id (ff_file_name field)
      in if \<not> ends_with original_filename ''.zip''
         then io_fail (ApiErr (err_bad_request ''Please upload a zip file'' None))
         else stream_to_tmp_file env original_filename field)"

text \<open>The fields of a form in their order; one that cannot be read panics.\<close>

fun read_form ::
    "'w externals \<Rightarrow> 'w env \<Rightarrow> string \<Rightarrow> (string + 'w form_field) list \<Rightarrow>
     kube_object option \<Rightarrow> string option \<Rightarrow> ('w, kube_object option \<times> string option) handler" where
  "read_form ex env tag [] payload filename = io_return (payload, filename)"
| "read_form ex env tag (Inl e # fs) payload filename = io_fail (ApiPanic e)"
| "read_form ex env tag (Inr field # fs) payload filename =
     (let name = case_option [] id (ff_name field)
      in if name = tag then
           io_bind (decode_field_json ex field) (\<lambda>x. read_form ex env tag fs (Some x) filename)
         else if name = ''code'' then
           io_bind (store_code_file env field) (\<lambda>f. read_form ex env tag fs payload (Some f))
         else read_form ex env tag fs payload filename)"

section \<open>Pods\<close>

definition created_pod :: "'w env \<Rightarrow> pod \<Rightarrow> pod" where
  "created_pod env p =
     (let status = case_option (pod_status_default (ev_now env)) id (pod_status p)
      in p\<lparr>pod_metadata := (pod_metadata p)\<lparr>md_uid := Some (ev_uuid env),
             md_name := unique_name env (md_name (pod_metadata p))\<rparr>,
           pod_status := Some (status\<lparr>pst_phase := Pending\<rparr>)\<rparr>)"

definition api_pod_create :: "'w externals \<Rightarrow> 'w env \<Rightarrow> kube_object \<Rightarrow> ('w, response) handler" where
  "api_pod_create ex env payload = (case payload of
       KPod p \<Rightarrow>
         (let pod = created_pod env p
          in io_bind (store_object ex (KPod pod)) (\<lambda>_.
             done_msg (''pod/'' @ md_name (pod_metadata pod) @ '' created'')))
     | _ \<Rightarrow> expecting ''Error creating pod'' ''pod kind'' payload)"

definition api_pod_get :: "'w externals \<Rightarrow> string \<Rightarrow> ('w, response) handler" where
  "api_pod_get ex name = get_named ex (''/api/v1/pods/'' @ name) ''pod''"

definition api_pod_replace :: "'w externals \<Rightarrow> string \<Rightarrow> kube_object \<Rightarrow> ('w, response) handler" where
  "api_pod_replace ex name payload =
     io_bind (fetch ex (''/api/v1/pods/'' @ name) ''pod'') (\<lambda>_. case payload of
       KPod _ \<Rightarrow> io_bind (store_object ex payload) (\<lambda>_. done_msg (''pod/'' @ name @ '' replaced''))
     | _ \<Rightarrow> expecting ''Error replacing pod'' ''pod kind'' payload)"

definition api_pod_delete :: "'w externals \<Rightarrow> string \<Rightarrow> ('w, response) handler" where
  "api_pod_delete ex name = delete_named ex (''/api/v1/pods/'' @ name) (''pod/'' @ name @ '' deleted'')"

definition api_pod_list :: "'w externals \<Rightarrow> ('w, response) handler" where
  "api_pod_list ex = list_kind ex ''/api/v1/pods'' ''pod''"

section \<open>Bindings\<close>

definition bound :: "node \<Rightarrow> string \<Rightarrow> pod \<Rightarrow> pod option" where
  "bound node target p = map_option (\<lambda>status. p\<lparr>
       pod_spec := (pod_spec p)\<lparr>ps_node_name := Some target\<rparr>,
       pod_status := Some (status\<lparr>
         pst_conditions := hm_insert PodScheduled True (pst_conditions status),
         pst_host_ip := hm_get (ns_addresses (node_status node)) InternalIP\<rparr>)\<rparr>) (pod_status p)"

definition api_bind :: "'w externals \<Rightarrow> kube_object \<Rightarrow> ('w, response) handler" where
  "api_bind ex payload = (case payload of
       KBinding b \<Rightarrow>
         (let target = or_name (bd_target b) in
          io_bind (fetch ex (''/api/v1/nodes/'' @ target) ''node'') (\<lambda>x. case x of
            KNode node \<Rightarrow>
              io_bind (fetch ex (''/api/v1/pods/'' @ md_name (bd_metadata b)) ''pod'') (\<lambda>y. case y of
                KPod p \<Rightarrow>
                  io_bind (io_lift (ok_or (ApiPanic ''Pod should have a status'') (bound node target p))) (\<lambda>p.
                  io_bind (store_object ex (KPod p)) (\<lambda>_.
                  io_bind (store_object ex payload) (\<lambda>_.
                  done_msg ''bind successfully'')))
              | _ \<Rightarrow> api_err ''bind error'' (Some (''the kind of object: '' @ kind_of y @ '', which is not pod'')))
          | _ \<Rightarrow> expecting ''bind error'' ''bind target to be node kind'' x))
     | _ \<Rightarrow> api_err ''bind error'' (Some (''the kind of payload: '' @ kind_of payload @ '', which is not binding'')))"

section \<open>Replica sets\<close>

definition api_rs_create :: "'w externals \<Rightarrow> 'w env \<Rightarrow> kube_object \<Rightarrow> ('w, response) handler" where
  "api_rs_create ex env payload = (case payload of
       KReplicaSet rs \<Rightarrow>
         (let name = md_name (rs_metadata rs) in
          io_bind (try_fetch ex (uri_of payload) ''replicaset'') (\<lambda>r.
          if is_ok r
          then api_err ''Error creating replica set'' (Some (''Replica set '' @ name @ '' already exists''))
          else io_bind (store_object ex (KReplicaSet (rs\<lparr>
                   rs_metadata := (rs_metadata rs)\<lparr>md_uid := Some (ev_uuid env)\<rparr>,
                   rs_status := Some replica_set_status_default\<rparr>))) (\<lambda>_.
               done_msg (''replicaset/'' @ name @ '' created''))))
     | _ \<Rightarrow> expecting ''Error creating replicaset'' ''replicaset kind'' payload)"

definition api_rs_get :: "'w externals \<Rightarrow> string \<Rightarrow> ('w, response) handler" where
  "api_rs_get ex name = get_named ex (''/api/v1/replicasets/'' @ name) ''replicaset''"

definition api_rs_delete :: "'w externals \<Rightarrow> string \<Rightarrow> ('w, response) handler" where
  "api_rs_delete ex name =
     delete_named ex (''/api/v1/replicasets/'' @ name) (''replicaset/'' @ name @ '' deleted'')"

definition api_rs_update :: "'w externals \<Rightarrow> string \<Rightarrow> kube_object \<Rightarrow> ('w, response) handler" where
  "api_rs_update ex name payload = (case payload of
       KReplicaSet _ \<Rightarrow>
         io_bind (store_object ex payload) (\<lambda>_. done_msg (''replicaset/'' @ name @ '' updated''))
     | _ \<Rightarrow> expecting ''Error updating replicaset'' ''replicaset kind'' payload)"

definition api_rs_patch :: "'w externals \<Rightarrow> string \<Rightarrow> kube_object \<Rightarrow> ('w, response) handler" where
  "api_rs_patch ex name payload =
     io_bind (fetch ex (''/api/v1/replicasets/'' @ name) ''replicaset'') (\<lambda>object.
     case (payload, object) of
       (KReplicaSet payload_rs, KReplicaSet rs) \<Rightarrow>
         io_bind (store_object ex (KReplicaSet (rs\<lparr>rs_spec := rs_spec payload_rs\<rparr>))) (\<lambda>_.
         done_msg (''replicaset/'' @ name @ '' patched''))
     | _ \<Rightarrow> expecting ''Error patching replicaset'' ''replicaset kind'' payload)"

definition api_rs_list :: "'w externals \<Rightarrow> ('w, response) handler" where
  "api_rs_list ex = list_kind ex ''/api/v1/replicasets'' ''replicaset''"

section \<open>Horizontal pod autoscalers\<close>

definition api_hpa_create :: "'w externals \<Rightarrow> 'w env \<Rightarrow> kube_object \<Rightarrow> ('w, response) handler" where
  "api_hpa_create ex env payload = (case payload of
       KHorizontalPodAutoscaler hpa \<Rightarrow>
         (let name = md_name (hpa_metadata hpa);
              ref = hs_scale_target_ref (hpa_spec hpa);
              target_kind = to_lowercase (or_kind ref);
              failed = (\<lambda>cause. api_err ''Error creating horizontal pod autoscaler'' (Some cause)) in
          io_bind (try_fetch ex (uri_of payload) ''horizontalpodautoscaler'') (\<lambda>r.
          if is_ok r then failed (''Horizontal pod autoscaler '' @ name @ '' already exists'')
          else io_bind (try_fetch ex (''/api/v1/'' @ target_kind @ ''s/'' @ or_name ref) target_kind) (\<lambda>target.
            case target of
              Inl _ \<Rightarrow> failed (''Scale target '' @ or_name ref @ '' not found'')
            | Inr (KReplicaSet rs) \<Rightarrow>
                io_bind (io_lift (ok_or (ApiPanic ''unwrap of None'') (rs_status rs))) (\<lambda>status.
                io_bind (store_object ex (KHorizontalPodAutoscaler (hpa\<lparr>
                    hpa_metadata := (hpa_metadata hpa)\<lparr>md_uid := Some (ev_uuid env)\<rparr>,
                    hpa_status := Some \<lparr>hst_desired_replicas = rss_replicas status,
                      hst_current_replicas = rss_replicas status, hst_last_scale_time = None\<rparr>\<rparr>))) (\<lambda>_.
                done_msg (''horizontalpodautoscaler/'' @ name @ '' created'')))
            | Inr _ \<Rightarrow> failed (''Target '' @ or_name ref @ '' is not scalable''))))
     | _ \<Rightarrow> expecting ''Error creating horizontalpodautoscaler'' ''horizontal pod autoscaler kind'' payload)"

definition api_hpa_get :: "'w externals \<Rightarrow> string \<Rightarrow> ('w, response) handler" where
  "api_hpa_get ex name =
     get_named ex (''/api/v1/horizontalpodautoscalers/'' @ name) ''horizontalpodautoscaler''"

definition api_hpa_delete :: "'w externals \<Rightarrow> string \<Rightarrow> ('w, response) handler" where
  "api_hpa_delete ex name = delete_named ex (''/api/v1/horizontalpodautoscalers/'' @ name)
     (''horizontalpodautoscaler/'' @ name @ '' deleted'')"

definition api_hpa_update :: "'w externals \<Rightarrow> string \<Rightarrow> kube_object \<Rightarrow> ('w, response) handler" where
  "api_hpa_update ex name payload =
     io_bind (fetch ex (''/api/v1/horizontalpodautoscalers/'' @ name) ''horizontalpodautoscaler'') (\<lambda>_.
     case payload of
       KHorizontalPodAutoscaler _ \<Rightarrow>
         io_bind (store_object ex payload) (\<lambda>_. done_msg (''horizontalpodautoscaler/'' @ name @ '' updated''))
     | _ \<Rightarrow> expecting ''Error updating horizontal pod autoscaler'' ''horizontal pod autoscaler kind'' payload)"

definition api_hpa_patch :: "'w externals \<Rightarrow> string \<Rightarrow> kube_object \<Rightarrow> ('w, response) handler" where
  "api_hpa_patch ex name payload =
     io_bind (fetch ex (''/api/v1/horizontalpodautoscalers/'' @ name) ''horizontalpodautoscaler'') (\<lambda>object.
     case (payload, object) of
       (KHorizontalPodAutoscaler payload_hpa, KHorizontalPodAutoscaler hpa) \<Rightarrow>
         io_bind (store_object ex (KHorizontalPodAutoscaler (hpa\<lparr>hpa_spec := hpa_spec payload_hpa\<rparr>))) (\<lambda>_.
         done_msg (''horizontalpodautoscaler/'' @ name @ '' patched''))
     | _ \<Rightarrow> expecting ''Error patching horizontal pod autoscaler'' ''horizontal pod autoscaler kind'' payload)"

definition api_hpa_list :: "'w externals \<Rightarrow> ('w, response) handler" where
  "api_hpa_list ex = list_kind ex ''/api/v1/horizontalpodautoscalers'' ''horizontalpodautoscaler''"

section \<open>Services\<close>

text \<open>An address the client chose is checked against the pool, not added to it.\<close>

definition assign_cluster_ip :: "'w env \<Rightarrow> service \<Rightarrow> ('w, service) handler" where
  "assign_cluster_ip env svc = (case ss_cluster_ip (svc_spec svc) of
       Some ip \<Rightarrow> (\<lambda>s. if ip \<in> set (sv_ip_pool s)
         then (Inl (ApiErr (err_new ''ClusterIp exists, try assign a new ClusterIP'' None)), s)
         else (Inr svc, s))
     | None \<Rightarrow> io_bind (draw_service_ip env) (\<lambda>ip.
         io_return (svc\<lparr>svc_spec := (svc_spec svc)\<lparr>ss_cluster_ip := Some ip\<rparr>\<rparr>)))"

definition api_service_create :: "'w externals \<Rightarrow> 'w env \<Rightarrow> kube_object \<Rightarrow> ('w, response) handler" where
  "api_service_create ex env payload = (case payload of
       KService svc \<Rightarrow>
         io_bind (assign_cluster_ip env
             (svc\<lparr>svc_metadata := (svc_metadata svc)\<lparr>md_uid := Some (ev_uuid env)\<rparr>\<rparr>)) (\<lambda>svc.
         io_bind (store_object ex (KService svc)) (\<lambda>_.
         done_msg (''service/'' @ md_name (svc_metadata svc) @ '' created'')))
     | _ \<Rightarrow> expecting ''Error creating service'' ''service'' payload)"

definition api_service_update :: "'w externals \<Rightarrow> kube_object \<Rightarrow> ('w, response) handler" where
  "api_service_update ex payload = (case payload of
       KService _ \<Rightarrow>
         io_bind (store_object ex payload) (\<lambda>_. done_msg (''service/'' @ name_of payload @ '' updated''))
     | _ \<Rightarrow> expecting ''Error creating service'' ''service'' payload)"

definition api_service_list :: "'w externals \<Rightarrow> ('w, response) handler" where
  "api_service_list ex = list_kind ex ''/api/v1/services'' ''service''"

definition api_service_get :: "'w externals \<Rightarrow> string \<Rightarrow> ('w, response) handler" where
  "api_service_get ex name = get_named ex (''/api/v1/services/'' @ name) ''service''"

definition api_service_delete :: "'w externals \<Rightarrow> string \<Rightarrow> ('w, response) handler" where
  "api_service_delete ex name =
     delete_named ex (''/api/v1/services/'' @ name) (''services/'' @ name @ '' deleted'')"

section \<open>Ingresses\<close>

text \<open>Each rule without a host takes a random one; the first bad host is an error.\<close>

fun assign_hosts ::
    "(nat \<Rightarrow> string) \<Rightarrow> nat \<Rightarrow> ingress_rule list \<Rightarrow> err_response + ingress_rule list" where
  "assign_hosts hosts i [] = Inr []"
| "assign_hosts hosts i (rule # rules) = (case ir_host rule of
       Some host \<Rightarrow>
         if \<not> ends_with host ''.minik8s.com''
         then Inl (err_new (''Error host '' @ host @ ''. Host should ends with .minik8s.com'') None)
         else (case assign_hosts hosts i rules of Inl e \<Rightarrow> Inl e | Inr rs \<Rightarrow> Inr (rule # rs))
     | None \<Rightarrow> (case assign_hosts hosts (i + 1) rules of
           Inl e \<Rightarrow> Inl e
         | Inr rs \<Rightarrow> Inr (rule\<lparr>ir_host := Some (gen_rand_host (hosts i))\<rparr> # rs)))"

definition api_ingress_create :: "'w externals \<Rightarrow> 'w env \<Rightarrow> kube_object \<Rightarrow> ('w, response) handler" where
  "api_ingress_create ex env payload = (case payload of
       KIngress ing \<Rightarrow>
         io_bind (must (io_lift (assign_hosts (ev_hosts env) 0 (ing_rules ing)))) (\<lambda>rules.
         io_bind (store_object ex (KIngress (ing\<lparr>
             ing_metadata := (ing_metadata ing)\<lparr>md_uid := Some (ev_uuid env)\<rparr>, ing_rules := rules\<rparr>))) (\<lambda>_.
         done_msg (''ingress/'' @ name_of payload @ '' created'')))
     | _ \<Rightarrow> expecting ''Error creating ingress'' ''ingress'' payload)"

definition api_ingress_update :: "'w externals \<Rightarrow> kube_object \<Rightarrow> ('w, response) handler" where
  "api_ingress_update ex payload = (case payload of
       KIngress _ \<Rightarrow>
         io_bind (store_object ex payload) (\<lambda>_. done_msg (''ingress/'' @ name_of payload @ '' updated''))
     | _ \<Rightarrow> expecting ''Error creating ingress'' ''ingress'' payload)"

definition api_ingress_list :: "'w externals \<Rightarrow> ('w, response) handler" where
  "api_ingress_list ex = list_kind ex ''/api/v1/ingresses'' ''ingress''"

definition api_ingress_get :: "'w externals \<Rightarrow> string \<Rightarrow> ('w, response) handler" where
  "api_ingress_get ex name = get_named ex (''/api/v1/ingresses/'' @ name) ''ingress''"

definition api_ingress_delete :: "'w externals \<Rightarrow> string \<Rightarrow> ('w, response) handler" where
  "api_ingress_delete ex name =
     delete_named ex (''/api/v1/ingresses/'' @ name) (''ingresses/'' @ name @ '' deleted'')"

section \<open>Nodes\<close>

definition api_node_list :: "'w externals \<Rightarrow> ('w, response) handler" where
  "api_node_list ex = list_kind ex ''/api/v1/nodes'' ''node''"

definition api_node_get :: "'w externals \<Rightarrow> string \<Rightarrow> ('w, response) handler" where
  "api_node_get ex name = get_named ex (''/api/v1/nodes/'' @ name) ''node''"

definition cadvisor_target :: "string \<Rightarrow> string" where
  "cadvisor_target internal_ip = internal_ip @ '':8090''"

text \<open>A node that is there keeps its metadata; a new one becomes a scrape target.\<close>

definition registered_node ::
    "'w externals \<Rightarrow> 'w env \<Rightarrow> err_response + kube_object \<Rightarrow> node \<Rightarrow> ('w, node) handler" where
  "registered_node ex env old_node n = (case old_node of
       Inr (KNode old_node) \<Rightarrow> io_return (n\<lparr>node_metadata := node_metadata old_node\<rparr>)
     | _ \<Rightarrow>
         (let n = n\<lparr>node_metadata := (node_metadata n)\<lparr>md_uid := Some (ev_uuid env)\<rparr>\<rparr>
          in case hm_get (ns_addresses (node_status n)) InternalIP of
               Some internal_ip \<Rightarrow>
                 io_bind (in_world (add_scrape_target (ex_pr ex) ''cadvisor'' (cadvisor_target internal_ip)))
                   (\<lambda>_. io_return n)
             | None \<Rightarrow> io_return n))"

definition api_node_update :: "'w externals \<Rightarrow> 'w env \<Rightarrow> string \<Rightarrow> kube_object \<Rightarrow> ('w, response) handler" where
  "api_node_update ex env name payload = (case payload of
       KNode n \<Rightarrow>
         io_bind (try_fetch ex (''/api/v1/nodes/'' @ name) ''node'') (\<lambda>old_node.
         io_bind (registered_node ex env old_node n) (\<lambda>n.
         io_bind (store_object ex (KNode n)) (\<lambda>_.
         io_return (Some (''node/'' @ name @ '' updated''), Some (DObject (KNode n))))))
     | _ \<Rightarrow> expecting ''Error updating node'' ''node kind'' payload)"

definition unregister_node :: "'w externals \<Rightarrow> kube_object \<Rightarrow> ('w, unit) handler" where
  "unregister_node ex x = (case x of
       KNode n \<Rightarrow> (case hm_get (ns_addresses (node_status n)) InternalIP of
           Some internal_ip \<Rightarrow>
             in_world (remove_scrape_target (ex_pr ex) ''cadvisor'' (cadvisor_target internal_ip))
         | None \<Rightarrow> io_return ())
     | _ \<Rightarrow> io_return ())"

definition api_node_delete :: "'w externals \<Rightarrow> string \<Rightarrow> ('w, response) handler" where
  "api_node_delete ex name =
     io_bind (fetch ex (''/api/v1/nodes/'' @ name) ''node'') (\<lambda>x.
     io_bind (erase ex (''/api/v1/nodes/'' @ name)) (\<lambda>_.
     io_bind (unregister_node ex x) (\<lambda>_.
     done_msg (''node/'' @ name @ '' deleted''))))"

definition api_node_patch :: "'w externals \<Rightarrow> string \<Rightarrow> kube_object \<Rightarrow> ('w, response) handler" where
  "api_node_patch ex name payload =
     io_bind (fetch ex (''/api/v1/nodes/'' @ name) ''node'') (\<lambda>object.
     case (payload, object) of
       (KNode payload_node, KNode n) \<Rightarrow>
         io_bind (store_object ex (KNode (n\<lparr>node_metadata :=
             (node_metadata n)\<lparr>md_labels := md_labels (node_metadata payload_node)\<rparr>\<rparr>))) (\<lambda>_.
         done_msg (''node/'' @ name @ '' patched''))
     | _ \<Rightarrow> expecting ''Error patching node'' ''node kind'' payload)"

section \<open>GPU jobs\<close>

definition api_job_create ::
    "'w externals \<Rightarrow> 'w env \<Rightarrow> (string + 'w form_field) list \<Rightarrow> ('w, response) handler" where
  "api_job_create ex env form =
     io_bind (read_form ex env ''gpujob'' form None None) (\<lambda>(gpu_job, filename).
     io_bind (io_lift (ok_or (ApiErr (err_bad_request ''Job field is not presented'' None)) gpu_job)) (\<lambda>gpu_job.
     io_bind (io_lift (ok_or (ApiErr (err_bad_request ''Code field is not presented'' None)) filename)) (\<lambda>filename.
     case gpu_job of
       KGpuJob job \<Rightarrow>
         (let name = md_name (gj_metadata job) in
          io_bind (try_fetch ex (uri_of gpu_job) ''gpujob'') (\<lambda>r.
          if is_ok r then api_err ''Error creating gpu job'' (Some (''Gpu job '' @ name @ '' already exists''))
          else io_bind (store_object ex (KGpuJob (job\<lparr>
                   gj_metadata := (gj_metadata job)\<lparr>md_uid := Some (ev_uuid env)\<rparr>,
                   gj_status := Some (gpu_job_status_default\<lparr>gst_filename := Some filename\<rparr>)\<rparr>))) (\<lambda>_.
               done_msg (''gpujob/'' @ name @ '' created''))))
     | _ \<Rightarrow> expecting ''Error creating gpujob'' ''gpujob kind'' gpu_job)))"

definition api_job_get :: "'w externals \<Rightarrow> string \<Rightarrow> ('w, response) handler" where
  "api_job_get ex name = get_named ex (''/api/v1/gpujobs/'' @ name) ''gpujob''"

definition api_job_delete :: "'w externals \<Rightarrow> string \<Rightarrow> ('w, response) handler" where
  "api_job_delete ex name =
     delete_named ex (''/api/v1/gpujobs/'' @ name) (''gpujob/'' @ name @ '' deleted'')"

definition api_job_update :: "'w externals \<Rightarrow> string \<Rightarrow> kube_object \<Rightarrow> ('w, response) handler" where
  "api_job_update ex name payload = (case payload of
       KGpuJob _ \<Rightarrow> io_bind (store_object ex payload) (\<lambda>_. done_msg (''gpujob/'' @ name @ '' updated''))
     | _ \<Rightarrow> expecting ''Error updating gpujob'' ''gpujob kind'' payload)"

definition api_job_patch :: "'w externals \<Rightarrow> string \<Rightarrow> kube_object \<Rightarrow> ('w, response) handler" where
  "api_job_patch ex name payload =
     io_bind (fetch ex (''/api/v1/gpujobs/'' @ name) ''gpujob'') (\<lambda>object.
     case (payload, object) of
       (KGpuJob payload_job, KGpuJob job) \<Rightarrow>
         io_bind (store_object ex (KGpuJob (job\<lparr>gj_spec := gj_spec payload_job\<rparr>))) (\<lambda>_.
         done_msg (''gpujob/'' @ name @ '' patched''))
     | _ \<Rightarrow> expecting ''Error patching gpujob'' ''gpujob kind'' payload)"

definition api_job_list :: "'w externals \<Rightarrow> ('w, response) handler" where
  "api_job_list ex = list_kind ex ''/api/v1/gpujobs'' ''gpujob''"

section \<open>Functions\<close>

definition service_from_function :: "uuid \<Rightarrow> string \<Rightarrow> string \<Rightarrow> ipv4 \<Rightarrow> service" where
  "service_from_function uid name func_name cluster_ip = \<lparr>
     svc_metadata = \<lparr>md_name = name, md_uid = Some uid, md_labels = hm_empty,
       md_owner_references = [\<lparr>or_kind = ''function'', or_name = func_name\<rparr>]\<rparr>,
     svc_spec = \<lparr>ss_selector = [(''function'', func_name)],
       ss_ports = [\<lparr>sp_port = 80, sp_target_port = 80\<rparr>], ss_endpoints = [], ss_cluster_ip = Some cluster_ip\<rparr>\<rparr>"

definition function_init :: "uuid \<Rightarrow> string \<Rightarrow> string \<Rightarrow> func \<Rightarrow> func" where
  "function_init uid svc_name filename f =
     (let name = md_name (fn_metadata f) in
      f\<lparr>fn_metadata := (fn_metadata f)\<lparr>md_uid := Some uid, md_labels := hm_insert ''function'' name hm_empty\<rparr>,
        fn_status := Some \<lparr>fst_service_ref = svc_name, fst_filename = filename,
          fst_host = name @ ''.func.minik8s.com'', fst_image = None\<rparr>\<rparr>)"

text \<open>Whether a fetched function has its image; without a status the handler panics.\<close>

definition image_ready :: "kube_object \<Rightarrow> api_fault + bool" where
  "image_ready x = (case x of
       KFunction f \<Rightarrow> (case fn_status f of
           None \<Rightarrow> Inl (ApiPanic ''unwrap of None'') | Some status \<Rightarrow> Inr (fst_image status \<noteq> None))
     | _ \<Rightarrow> Inr False)"

definition sleep :: "'w env \<Rightarrow> ('w, unit) handler" where
  "sleep env s = (Inr (), s\<lparr>sv_world := ev_sleep env (sv_world s)\<rparr>)"

text \<open>\<open>left\<close> is \<open>60 - i\<close>: the polls that may follow this one.\<close>

fun await_image :: "'w externals \<Rightarrow> 'w env \<Rightarrow> kube_object \<Rightarrow> nat \<Rightarrow> ('w, unit) handler" where
  "await_image ex env payload left =
     io_bind (fetch ex (uri_of payload) (kind_of payload)) (\<lambda>x.
     io_bind (io_lift (image_ready x)) (\<lambda>ready.
     if ready then io_return ()
     else io_bind (sleep env) (\<lambda>_. case left of
         0 \<Rightarrow> api_err (''Image creation for function '' @ name_of payload @ '' timed out'') None
       | Suc n \<Rightarrow> await_image ex env payload n)))"

declare await_image.simps [simp del]

definition api_function_create ::
    "'w externals \<Rightarrow> 'w env \<Rightarrow> (string + 'w form_field) list \<Rightarrow> ('w, response) handler" where
  "api_function_create ex env form =
     io_bind (read_form ex env ''function'' form None None) (\<lambda>(payload, filename).
     io_bind (io_lift (ok_or (ApiErr (err_bad_request ''Function field is not presented'' None)) payload)) (\<lambda>payload.
     io_bind (io_lift (ok_or (ApiErr (err_bad_request ''Code field is not presented'' None)) filename)) (\<lambda>filename.
     case payload of
       KFunction f \<Rightarrow>
         (let name = md_name (fn_metadata f);
              svc_name = unique_name env (''func-'' @ name) in
          io_bind (draw_service_ip env) (\<lambda>ip.
          let service = KService (service_from_function (ev_uuid env) svc_name name ip) in
          io_bind (store_object ex service) (\<lambda>_.
          let payload = KFunction (function_init (ev_uuid2 env) (uri_of service) filename f) in
          io_bind (store_object ex payload) (\<lambda>_.
          io_bind (await_image ex env payload 60) (\<lambda>_.
          done_msg (''function/'' @ name @ '' created''))))))
     | _ \<Rightarrow> expecting ''Error creating function'' ''function kind'' payload)))"

definition api_function_get :: "'w externals \<Rightarrow> string \<Rightarrow> ('w, response) handler" where
  "api_function_get ex name = get_named ex (''/api/v1/functions/'' @ name) ''function''"

definition api_function_list :: "'w externals \<Rightarrow> ('w, response) handler" where
  "api_function_list ex = list_kind ex ''/api/v1/functions'' ''function''"

definition api_function_update :: "'w externals \<Rightarrow> kube_object \<Rightarrow> ('w, response) handler" where
  "api_function_update ex payload = (case payload of
       KFunction _ \<Rightarrow>
         io_bind (store_object ex payload) (\<lambda>_. done_msg (''functions/'' @ name_of payload @ '' updated''))
     | _ \<Rightarrow> expecting ''Error creating function'' ''function'' payload)"

text \<open>An error of a dependent object is logged only.\<close>

definition erase_quietly :: "'w externals \<Rightarrow> string \<Rightarrow> ('w, unit) handler" where
  "erase_quietly ex uri = io_bind (attempt (in_world (etcd_delete (ex_be ex) uri))) (\<lambda>_. io_return ())"

definition api_function_delete :: "'w externals \<Rightarrow> string \<Rightarrow> ('w, response) handler" where
  "api_function_delete ex name =
     io_bind (fetch ex (''/api/v1/functions/'' @ name) ''function'') (\<lambda>x.
     io_bind (case x of
         KFunction f \<Rightarrow>
           io_bind (case fn_status f of
               Some status \<Rightarrow> erase_quietly ex (fst_service_ref status) | None \<Rightarrow> io_return ()) (\<lambda>_.
           io_bind (erase_quietly ex (''/api/v1/replicasets/'' @ name)) (\<lambda>_.
           erase_quietly ex (''/api/v1/horizontalpodautoscalers/'' @ name)))
       | _ \<Rightarrow> io_return ()) (\<lambda>_.
     delete_named ex (''/api/v1/functions/'' @ name) (''functions/'' @ name @ '' deleted'')))"

section \<open>Workflows\<close>

text \<open>Only the functions and the next states of the tasks are checked.\<close>

fun validate_states ::
    "'w externals \<Rightarrow> (string, workflow_state) hashmap \<Rightarrow> (string \<times> workflow_state) list \<Rightarrow> ('w server, string, unit) eio" where
  "validate_states ex states [] = io_return ()"
| "validate_states ex states ((_, Choice rules d) # rest) = validate_states ex states rest"
| "validate_states ex states ((_, Task resource next) # rest) =
     io_bind (attempt (in_world (etcd_get_object (ex_be ex) (''/api/v1/functions/'' @ resource) (Some ''function''))))
       (\<lambda>r. if \<not> is_ok r then io_fail (''Function '' @ resource @ '' does not exist'')
            else case next of
              Some n \<Rightarrow>
                if hm_get states n = None then io_fail (''State '' @ n @ '' does not exist'')
                else validate_states ex states rest
            | None \<Rightarrow> validate_states ex states rest)"

definition validate_workflow :: "'w externals \<Rightarrow> workflow \<Rightarrow> ('w, unit) handler" where
  "validate_workflow ex flow =
     io_map_err (\<lambda>e. ApiErr (err_new (''Error validating workflow, caused by: '' @ e) None))
       (validate_states ex (wf_states flow) (wf_states flow))"

definition api_workflow_create :: "'w externals \<Rightarrow> 'w env \<Rightarrow> kube_object \<Rightarrow> ('w, response) handler" where
  "api_workflow_create ex env payload = (case payload of
       KWorkflow flow \<Rightarrow>
         (let flow = flow\<lparr>wf_metadata := (wf_metadata flow)\<lparr>md_uid := Some (ev_uuid env)\<rparr>\<rparr> in
          io_bind (validate_workflow ex flow) (\<lambda>_.
          io_bind (store_object ex (KWorkflow flow)) (\<lambda>_.
          done_msg (''workflow/'' @ md_name (wf_metadata flow) @ '' created''))))
     | _ \<Rightarrow> expecting ''Error creating workflow'' ''workflow'' payload)"

definition api_workflow_update :: "'w externals \<Rightarrow> kube_object \<Rightarrow> ('w, response) handler" where
  "api_workflow_update ex payload = (case payload of
       KWorkflow flow \<Rightarrow>
         io_bind (validate_workflow ex flow) (\<lambda>_.
         io_bind (store_object ex payload) (\<lambda>_.
         done_msg (''workflow/'' @ md_name (wf_metadata flow) @ '' updated'')))
     | _ \<Rightarrow> expecting ''Error creating workflow'' ''workflow'' payload)"

definition api_workflow_get :: "'w externals \<Rightarrow> string \<Rightarrow> ('w, response) handler" where
  "api_workflow_get ex name = get_named ex (''/api/v1/workflows/'' @ name) ''workflow''"

definition api_workflow_delete :: "'w externals \<Rightarrow> string \<Rightarrow> ('w, response) handler" where
  "api_workflow_delete ex name =
     delete_named ex (''/api/v1/workflows/'' @ name) (''workflows/'' @ name @ '' deleted'')"

definition api_workflow_list :: "'w externals \<Rightarrow> ('w, response) handler" where
  "api_workflow_list ex = list_kind ex ''/api/v1/workflows'' ''workflow''"

section \<open>Requests passed on to a kubelet\<close>

text \<open>The body of an error, sent with status 200, or the uri the request is sent on to.\<close>

datatype proxied = ErrorBody err_response | ForwardTo string

definition get_pod_node :: "'w externals \<Rightarrow> pod \<Rightarrow> ('w, node option) handler" where
  "get_pod_node ex p = (case ps_node_name (pod_spec p) of
       None \<Rightarrow> io_return None
     | Some node_name \<Rightarrow>
         io_bind (try_fetch ex (''/api/v1/nodes/'' @ node_name) ''node'') (\<lambda>r. case r of
           Inr (KNode n) \<Rightarrow> io_return (Some n) | _ \<Rightarrow> io_return None))"

definition rkubelet_addr :: "node option \<Rightarrow> string" where
  "rkubelet_addr n =
     (case Option.bind n node_internal_ip of Some ip \<Rightarrow> ip | None \<Rightarrow> ''127.0.0.1'') @ '':'' @
     show_u16 (case n of Some n \<Rightarrow> ns_kubelet_port (node_status n) | None \<Rightarrow> kc_port kubelet_config_default)"

definition pod_node_rkubelet_addr :: "'w externals \<Rightarrow> string \<Rightarrow> ('w, string option) handler" where
  "pod_node_rkubelet_addr ex pod_name =
     io_bind (try_fetch ex (''/api/v1/pods/'' @ pod_name) ''pod'') (\<lambda>r. case r of
       Inr (KPod p) \<Rightarrow> io_bind (get_pod_node ex p) (\<lambda>n. io_return (Some (rkubelet_addr n)))
     | _ \<Rightarrow> io_return None)"

definition proxy_to_rkubelet :: "'w externals \<Rightarrow> string \<Rightarrow> string \<Rightarrow> ('w, proxied) handler" where
  "proxy_to_rkubelet ex path_query pod_name =
     io_bind (pod_node_rkubelet_addr ex pod_name) (\<lambda>addr. io_return (case addr of
       Some addr \<Rightarrow> ForwardTo (''http://'' @ addr @ path_query)
     | None \<Rightarrow> ErrorBody (err_new ''Pod not found'' None)))"

definition pod_of :: "kube_object \<Rightarrow> pod option" where
  "pod_of x = (case x of KPod p \<Rightarrow> Some p | _ \<Rightarrow> None)"

definition finished_pods :: "string \<Rightarrow> kube_object list \<Rightarrow> pod list" where
  "finished_pods job_name objects = filter (\<lambda>p. pod_is_succeeded p \<and>
       \<lparr>or_kind = ''GpuJob'', or_name = job_name\<rparr> \<in> set (md_owner_references (pod_metadata p)))
     (List.map_filter pod_of objects)"

definition api_job_logs :: "'w externals \<Rightarrow> string \<Rightarrow> ('w, proxied) handler" where
  "api_job_logs ex job_name =
     io_bind (try_fetch ex (''/api/v1/gpujobs/'' @ job_name) ''gpujob'') (\<lambda>r.
     if \<not> is_ok r then io_return (ErrorBody (err_new (''Job '' @ job_name @ '' dosen't exist'') None))
     else io_bind (attempt (enumerate_kind ex ''/api/v1/pods'' ''pod'')) (\<lambda>r. case r of
         Inl _ \<Rightarrow> io_return (ErrorBody (err_new ''Pods not found'' None))
       | Inr objects \<Rightarrow> (case finished_pods job_name objects of
           [] \<Rightarrow> io_return (ErrorBody (err_new (''Job '' @ job_name @ '' is not completed'') None))
         | p # _ \<Rightarrow> (let pod_name = md_name (pod_metadata p) in
             proxy_to_rkubelet ex (''/api/v1/pods/'' @ pod_name @ ''/logs'') pod_name))))"

section \<open>Watching\<close>

text \<open>What etcd sends on a watch, and what the server makes of it until the first error.\<close>

datatype etcd_event = EvPut string string | EvDelete string | EvWithoutKv

datatype watch_message = WatchFailed string | WatchCanceled | WatchEvents "etcd_event list"

definition watch_event_of :: "'w backend \<Rightarrow> etcd_event \<Rightarrow> string + kube_object watch_event" where
  "watch_event_of be ev = (case ev of
       EvWithoutKv \<Rightarrow> Inl ''Failed to get etcd kv''
     | EvDelete key \<Rightarrow> Inr (WDelete key)
     | EvPut key v \<Rightarrow> (case be_from_json be v of None \<Rightarrow> Inl ''serde'' | Some x \<Rightarrow> Inr (WPut key x)))"

fun forward_events ::
    "'w backend \<Rightarrow> etcd_event list \<Rightarrow> kube_object watch_event list \<times> bool" where
  "forward_events be [] = ([], True)"
| "forward_events be (ev # evs) = (case watch_event_of be ev of
       Inl _ \<Rightarrow> ([], False)
     | Inr msg \<Rightarrow> (case forward_events be evs of (msgs, ok) \<Rightarrow> (msg # msgs, ok)))"

fun forward_watch :: "'w backend \<Rightarrow> watch_message list \<Rightarrow> kube_object watch_event list" where
  "forward_watch be [] = []"
| "forward_watch be (WatchFailed e # ms) = []"
| "forward_watch be (WatchCanceled # ms) = []"
| "forward_watch be (WatchEvents evs # ms) = (case forward_events be evs of
       (msgs, ok) \<Rightarrow> msgs @ (if ok then forward_watch be ms else []))"

end
