(* ===== verification/ApiFacts.thy ===== *)
theory ApiFacts
  imports ApiHandlers
begin

text \<open>
  What the handlers of the API server keep and what they do to the store, under the contracts of
  etcd and of the Prometheus file. The locale \<open>api_world\<close> joins the two contracts: etcd and the file
  do not share their contents.
\<close>

section \<open>Lifting to the state of the server\<close>

lemma preserves_Pair [preserves_rules]: "preserves I (Pair r)"
  by (simp add: preserves_def)

lemma preserves_in_world: "preserves I m \<Longrightarrow> preserves (\<lambda>s. I (sv_world s)) (in_world m)"
  unfolding preserves_def in_world_def by (auto split: prod.splits)

lemma preserves_attempt [preserves_rules]: "preserves I m \<Longrightarrow> preserves I (attempt m)"
  unfolding preserves_def attempt_def by (auto split: prod.splits)

lemma preserves_must [preserves_rules]: "preserves I m \<Longrightarrow> preserves I (must m)"
  unfolding must_def by (rule preserves_map_err)

lemma preserves_api_err [preserves_rules]: "preserves I (api_err msg cause)"
  unfolding api_err_def by (rule preserves_fail)

lemma preserves_done_msg [preserves_rules]: "preserves I (done_msg msg)"
  unfolding done_msg_def by (rule preserves_return)

lemma preserves_expecting [preserves_rules]: "preserves I (expecting msg kind payload)"
  unfolding expecting_def by (rule preserves_api_err)

text \<open>The addresses in use are no part of the world.\<close>

lemma preserves_draw_service_ip [preserves_rules]: "preserves (\<lambda>s. I (sv_world s)) (draw_service_ip env)"
  by (auto simp: preserves_def draw_service_ip_def split: option.splits)

lemma preserves_assign_cluster_ip [preserves_rules]: "preserves (\<lambda>s. I (sv_world s)) (assign_cluster_ip env svc)"
proof (cases "ss_cluster_ip (svc_spec svc)")
  case None
  then show ?thesis by (auto simp: assign_cluster_ip_def intro!: preserves_rules)
next
  case (Some ip)
  then show ?thesis by (auto simp: assign_cluster_ip_def preserves_def)
qed

text \<open>What the other processes do during a sleep, and the saving of an uploaded file, keep \<open>I\<close>.\<close>

definition env_keeps :: "('w \<Rightarrow> bool) \<Rightarrow> 'w env \<Rightarrow> bool" where
  "env_keeps I env \<longleftrightarrow> (\<forall>w. I w \<longrightarrow> I (ev_sleep env w))"

definition form_keeps :: "('w \<Rightarrow> bool) \<Rightarrow> (string + 'w form_field) list \<Rightarrow> bool" where
  "form_keeps I form \<longleftrightarrow> (\<forall>f n. Inr f \<in> set form \<longrightarrow> preserves I (ff_save f n))"

lemma preserves_sleep: "env_keeps I env \<Longrightarrow> preserves (\<lambda>s. I (sv_world s)) (sleep env)"
  by (simp add: env_keeps_def preserves_def sleep_def)

lemma preserves_read_form:
  assumes "form_keeps I form"
  shows "preserves (\<lambda>s. I (sv_world s)) (read_form ex env tag form payload filename)"
  using assms
proof (induction ex env tag form payload filename rule: read_form.induct)
  case (1 ex env tag payload filename)
  then show ?case by (simp only: read_form.simps preserves_return)
next
  case (2 ex env tag e fs payload filename)
  then show ?case by (simp only: read_form.simps preserves_fail)
next
  case (3 ex env tag f fs payload filename)
  have rest: "form_keeps I fs" and save: "\<And>n. preserves I (ff_save f n)"
    using "3.prems" by (auto simp: form_keeps_def)
  have "preserves (\<lambda>s. I (sv_world s)) (store_code_file env f)"
    unfolding store_code_file_def stream_to_tmp_file_def Let_def
    by (auto intro!: preserves_rules preserves_in_world [where I = I] save)
  moreover have "preserves (\<lambda>s. I (sv_world s)) (decode_field_json ex f)"
    unfolding decode_field_json_def by (intro preserves_rules)
  ultimately show ?case
    using 3 rest by (auto simp: Let_def intro!: preserves_rules)
qed

section \<open>The world of the server\<close>

locale api_world =
  etcd "ex_be ex" contents + scrape_file "ex_pr ex" conf
  for ex :: "'w externals" and contents :: "'w \<Rightarrow> string \<rightharpoonup> string" and conf :: "'w \<Rightarrow> string" +
  assumes kubelet_apart: "ex_forward ex uri w = (reply, w') \<Longrightarrow> contents w' = contents w"
    and prometheus_apart:
      "preserves (\<lambda>w. contents w = m) (pr_read_file (ex_pr ex))"
      "preserves (\<lambda>w. contents w = m) (pr_write_file (ex_pr ex) text1)"
      "preserves (\<lambda>w. contents w = m) (pr_reload (ex_pr ex))"
      "preserves (\<lambda>w. contents w = m) (pr_query (ex_pr ex) query)"
    and etcd_apart:
      "preserves (\<lambda>w. conf w = text2) (be_client (ex_be ex))"
      "preserves (\<lambda>w. conf w = text2) (be_put (ex_be ex) k v)"
      "preserves (\<lambda>w. conf w = text2) (be_get (ex_be ex) k)"
      "preserves (\<lambda>w. conf w = text2) (be_get_prefix (ex_be ex) k)"
      "preserves (\<lambda>w. conf w = text2) (be_delete (ex_be ex) k)"
begin

abbreviation objects :: "'w server \<Rightarrow> string \<rightharpoonup> kube_object" where
  "objects s \<equiv> stored_objects (ex_be ex) (contents (sv_world s))"

abbreviation sound_server :: "'w server \<Rightarrow> bool" where
  "sound_server s \<equiv> well_stored (ex_be ex) (contents (sv_world s))"

lemma preserves_contents:
  assumes "\<And>m. preserves (\<lambda>w. contents w = m) op"
  shows "preserves (\<lambda>w. well_stored (ex_be ex) (contents w)) op"
  using assms unfolding preserves_def by metis

lemma scrape_target_apart:
  "preserves (\<lambda>w. contents w = m) (add_scrape_target (ex_pr ex) job t)"
  "preserves (\<lambda>w. contents w = m) (remove_scrape_target (ex_pr ex) job t)"
  unfolding add_scrape_target_def remove_scrape_target_def read_config_def write_config_def reload_config_def
  by (auto intro!: preserves_rules prometheus_apart split: option.split)

lemma metrics_apart:
  "preserves (\<lambda>w. contents w = m) (list_pods (ex_pr ex) now selector)"
  "preserves (\<lambda>w. contents w = m) (get_function (ex_pr ex) now name)"
  unfolding list_pods_def get_function_def unwrap_vector_result_def
  by (auto intro!: preserves_rules prometheus_apart split: response_data.split list.split)

subsection \<open>The store operations of the handlers\<close>

lemma operations_sound [preserves_rules]:
  "preserves sound_server (fetch ex uri kind)"
  "preserves sound_server (try_fetch ex uri kind)"
  "preserves sound_server (enumerate_kind ex uri kind)"
  "preserves sound_server (store_object ex x)"
  "preserves sound_server (erase ex uri)"
  "preserves sound_server (erase_quietly ex uri)"
  "preserves sound_server (in_world (etcd_get_object (ex_be ex) uri kd))"
  unfolding fetch_def try_fetch_def enumerate_kind_def store_object_def erase_def erase_quietly_def
  by (intro preserves_rules preserves_in_world [where I = "\<lambda>w. well_stored (ex_be ex) (contents w)"]
      store.put_sound store.get_sound store.del_sound store.list_sound)+

text \<open>None of them touches the file of Prometheus.\<close>

lemma etcd_operations_conf:
  "preserves (\<lambda>w. conf w = t) (etcd_put (ex_be ex) x)"
  "preserves (\<lambda>w. conf w = t) (etcd_get_object (ex_be ex) uri kd)"
  "preserves (\<lambda>w. conf w = t) (etcd_delete (ex_be ex) uri)"
  unfolding etcd_put_unfold etcd_get_object_def etcd_get_unfold etcd_delete_unfold get_client_def
  by (auto intro!: preserves_rules etcd_apart split: option.split)

lemma operations_conf:
  "preserves (\<lambda>s. conf (sv_world s) = t) (fetch ex uri kind)"
  "preserves (\<lambda>s. conf (sv_world s) = t) (try_fetch ex uri kind)"
  "preserves (\<lambda>s. conf (sv_world s) = t) (store_object ex x)"
  "preserves (\<lambda>s. conf (sv_world s) = t) (erase ex uri)"
  unfolding fetch_def try_fetch_def store_object_def erase_def
  by (intro preserves_rules preserves_in_world [where I = "\<lambda>w. conf w = t"] etcd_operations_conf)+

lemma generic_sound [preserves_rules]:
  "preserves sound_server (get_named ex uri kind)"
  "preserves sound_server (list_kind ex uri kind)"
  "preserves sound_server (delete_named ex uri msg)"
  unfolding get_named_def list_kind_def delete_named_def by (intro preserves_rules)+

lemma targets_sound [preserves_rules]:
  "preserves sound_server (in_world (add_scrape_target (ex_pr ex) job t))"
  "preserves sound_server (in_world (remove_scrape_target (ex_pr ex) job t))"
  by (intro preserves_in_world [where I = "\<lambda>w. well_stored (ex_be ex) (contents w)"]
      preserves_contents scrape_target_apart)+

subsection \<open>Every handler keeps the store sound\<close>

lemma pod_handlers_sound [preserves_rules]:
  "preserves sound_server (api_pod_create ex env payload)"
  "preserves sound_server (api_pod_get ex name)"
  "preserves sound_server (api_pod_replace ex name payload)"
  "preserves sound_server (api_pod_delete ex name)"
  "preserves sound_server (api_pod_list ex)"
  unfolding api_pod_create_def api_pod_get_def api_pod_replace_def api_pod_delete_def api_pod_list_def Let_def
  by (auto intro!: preserves_rules split: kube_object.split)

lemma bind_sound [preserves_rules]: "preserves sound_server (api_bind ex payload)"
  unfolding api_bind_def Let_def by (auto intro!: preserves_rules split: kube_object.split)

lemma rs_handlers_sound [preserves_rules]:
  "preserves sound_server (api_rs_create ex env payload)"
  "preserves sound_server (api_rs_get ex name)"
  "preserves sound_server (api_rs_delete ex name)"
  "preserves sound_server (api_rs_update ex name payload)"
  "preserves sound_server (api_rs_patch ex name payload)"
  "preserves sound_server (api_rs_list ex)"
  unfolding api_rs_create_def api_rs_get_def api_rs_delete_def api_rs_update_def api_rs_patch_def
    api_rs_list_def Let_def
  by (auto intro!: preserves_rules split: kube_object.split)

lemma hpa_handlers_sound [preserves_rules]:
  "preserves sound_server (api_hpa_create ex env payload)"
  "preserves sound_server (api_hpa_get ex name)"
  "preserves sound_server (api_hpa_delete ex name)"
  "preserves sound_server (api_hpa_update ex name payload)"
  "preserves sound_server (api_hpa_patch ex name payload)"
  "preserves sound_server (api_hpa_list ex)"
  unfolding api_hpa_create_def api_hpa_get_def api_hpa_delete_def api_hpa_update_def api_hpa_patch_def
    api_hpa_list_def Let_def
  by (auto intro!: preserves_rules split: kube_object.split sum.split)

lemma service_handlers_sound [preserves_rules]:
  "preserves sound_server (api_service_create ex env payload)"
  "preserves sound_server (api_service_update ex payload)"
  "preserves sound_server (api_service_list ex)"
  "preserves sound_server (api_service_get ex name)"
  "preserves sound_server (api_service_delete ex name)"
  unfolding api_service_create_def api_service_update_def api_service_list_def api_service_get_def
    api_service_delete_def Let_def
  by (auto intro!: preserves_rules split: kube_object.split)

lemma ingress_handlers_sound [preserves_rules]:
  "preserves sound_server (api_ingress_create ex env payload)"
  "preserves sound_server (api_ingress_update ex payload)"
  "preserves sound_server (api_ingress_list ex)"
  "preserves sound_server (api_ingress_get ex name)"
  "preserves sound_server (api_ingress_delete ex name)"
  unfolding api_ingress_create_def api_ingress_update_def api_ingress_list_def api_ingress_get_def
    api_ingress_delete_def Let_def
  by (auto intro!: preserves_rules split: kube_object.split)

lemma node_handlers_sound [preserves_rules]:
  "preserves sound_server (api_node_list ex)"
  "preserves sound_server (api_node_get ex name)"
  "preserves sound_server (api_node_update ex env name payload)"
  "preserves sound_server (api_node_delete ex name)"
  "preserves sound_server (api_node_patch ex name payload)"
  unfolding api_node_list_def api_node_get_def api_node_update_def api_node_delete_def api_node_patch_def
    registered_node_def unregister_node_def Let_def
  by (auto intro!: preserves_rules split: kube_object.split sum.split option.split)

lemma job_handlers_sound [preserves_rules]:
  "preserves sound_server (api_job_get ex name)"
  "preserves sound_server (api_job_delete ex name)"
  "preserves sound_server (api_job_update ex name payload)"
  "preserves sound_server (api_job_patch ex name payload)"
  "preserves sound_server (api_job_list ex)"
  unfolding api_job_get_def api_job_delete_def api_job_update_def api_job_patch_def api_job_list_def Let_def
  by (auto intro!: preserves_rules split: kube_object.split)

lemma validate_sound [preserves_rules]: "preserves sound_server (validate_workflow ex flow)"
proof -
  have "preserves sound_server (validate_states ex states rest)" for states rest
  proof (induction rest)
    case (Cons x rest)
    then show ?case
      by (cases x; cases "snd x") (auto intro!: preserves_rules split: option.split)
  qed (simp only: validate_states.simps preserves_return)
  then show ?thesis unfolding validate_workflow_def by (intro preserves_rules)
qed

lemma workflow_handlers_sound [preserves_rules]:
  "preserves sound_server (api_workflow_create ex env payload)"
  "preserves sound_server (api_workflow_update ex payload)"
  "preserves sound_server (api_workflow_get ex name)"
  "preserves sound_server (api_workflow_delete ex name)"
  "preserves sound_server (api_workflow_list ex)"
  unfolding api_workflow_create_def api_workflow_update_def api_workflow_get_def api_workflow_delete_def
    api_workflow_list_def Let_def
  by (auto intro!: preserves_rules split: kube_object.split)

lemma function_handlers_sound [preserves_rules]:
  "preserves sound_server (api_function_get ex name)"
  "preserves sound_server (api_function_list ex)"
  "preserves sound_server (api_function_update ex payload)"
  "preserves sound_server (api_function_delete ex name)"
  unfolding api_function_get_def api_function_list_def api_function_update_def api_function_delete_def
  by (auto intro!: preserves_rules split: kube_object.split option.split)

lemma metrics_handlers_sound [preserves_rules]:
  "preserves sound_server (in_world (list_pods (ex_pr ex) now selector))"
  "preserves sound_server (in_world (get_function (ex_pr ex) now name))"
  "preserves sound_server (in_world (add_target (ex_pr ex) m))"
  "preserves sound_server (in_world (remove_target (ex_pr ex) m))"
proof -
  have targets: "preserves (\<lambda>w. contents w = c) (add_target (ex_pr ex) m)"
    "preserves (\<lambda>w. contents w = c) (remove_target (ex_pr ex) m)" for c
    unfolding add_target_def remove_target_def
    by (auto intro!: preserves_rules scrape_target_apart split: option.split)
  show "preserves sound_server (in_world (list_pods (ex_pr ex) now selector))"
    "preserves sound_server (in_world (get_function (ex_pr ex) now name))"
    "preserves sound_server (in_world (add_target (ex_pr ex) m))"
    "preserves sound_server (in_world (remove_target (ex_pr ex) m))"
    by (intro preserves_in_world [where I = "\<lambda>w. well_stored (ex_be ex) (contents w)"]
      preserves_contents metrics_apart targets)+
qed

lemma await_image_sound:
  assumes "env_keeps (\<lambda>w. well_stored (ex_be ex) (contents w)) env"
  shows "preserves sound_server (await_image ex env payload left)"
proof (induction left)
  case 0
  then show ?case
    by (subst await_image.simps) (auto intro!: preserves_rules preserves_sleep assms)
next
  case (Suc left)
  then show ?case
    by (subst await_image.simps) (auto intro!: preserves_rules preserves_sleep assms)
qed

lemma form_handlers_sound:
  assumes "form_keeps (\<lambda>w. well_stored (ex_be ex) (contents w)) form"
  shows "preserves sound_server (api_job_create ex env form)"
    and "env_keeps (\<lambda>w. well_stored (ex_be ex) (contents w)) env \<Longrightarrow>
      preserves sound_server (api_function_create ex env form)"
proof -
  note form = preserves_read_form [OF assms]
  show "preserves sound_server (api_job_create ex env form)"
    unfolding api_job_create_def Let_def
    by (auto intro!: preserves_rules form split: kube_object.split)
  show "preserves sound_server (api_function_create ex env form)"
    if env: "env_keeps (\<lambda>w. well_stored (ex_be ex) (contents w)) env"
    unfolding api_function_create_def Let_def
    by (auto intro!: preserves_rules form await_image_sound [OF env] split: kube_object.split)
qed

lemma proxies_sound [preserves_rules]:
  "preserves sound_server (proxy_to_rkubelet ex path_query pod_name)"
  "preserves sound_server (api_job_logs ex job_name)"
proof -
  show proxy: "preserves sound_server (proxy_to_rkubelet ex path_query pod_name)" for path_query pod_name
    unfolding proxy_to_rkubelet_def pod_node_rkubelet_addr_def get_pod_node_def
    by (auto intro!: preserves_rules split: kube_object.split sum.split option.split)
  show "preserves sound_server (api_job_logs ex job_name)"
    unfolding api_job_logs_def Let_def
    by (auto intro!: preserves_rules proxy split: sum.split list.split)
qed

subsection \<open>What the store operations do\<close>

text \<open>Runs that succeed, in a sound state. None touches the pool of addresses or the scrape targets.\<close>

lemma in_world_run:
  "in_world m s = (r, s') \<longleftrightarrow> (\<exists>w'. m (sv_world s) = (r, w') \<and> s' = s\<lparr>sv_world := w'\<rparr>)"
  by (auto simp: in_world_def split: prod.splits)

lemma must_run: "must m s = (Inr a, s') \<longleftrightarrow> m s = (Inr a, s')"
  by (auto simp: must_def io_map_err_def split: prod.splits sum.splits)

lemma fetch_run:
  assumes "fetch ex uri kind s = (Inr x, s')" and "sound_server s"
  shows "objects s' = objects s" and "objects s uri = Some x" and "eq_ignore_ascii_case (kind_of x) kind"
    and "sv_ip_pool s' = sv_ip_pool s" and "sound_server s'"
  using assms store.get_view preservesD [OF operations_sound(1) assms(2,1)]
  by (fastforce simp: fetch_def must_run in_world_run)+

lemma fetch_keeps:
  assumes "fetch ex uri kind s = (r, s')" and "sound_server s"
  shows "objects s' = objects s"
  using assms store.get_view
  by (auto simp: fetch_def must_def in_world_def io_map_err_def split: prod.splits sum.splits)

lemma sound_objects: "sound_server s \<Longrightarrow> objects s k = Some x \<Longrightarrow> uri_of x = k"
  using store.sound_uri by (auto simp: sound_view_def)

lemma store_object_run:
  assumes "store_object ex x s = (Inr u, s')" and "sound_server s"
  shows "objects s' = (objects s)(uri_of x \<mapsto> x)" and "sv_ip_pool s' = sv_ip_pool s" and "sound_server s'"
  using assms store.put_view preservesD [OF operations_sound(4) assms(2,1)]
  by (fastforce simp: store_object_def must_run in_world_run)+

lemma erase_run:
  assumes "erase ex uri s = (Inr u, s')" and "sound_server s"
  shows "objects s' = (objects s)(uri := None)" and "objects s uri \<noteq> None"
    and "sv_ip_pool s' = sv_ip_pool s" and "sound_server s'"
  using assms store.del_view preservesD [OF operations_sound(5) assms(2,1)]
  by (fastforce simp: erase_def must_run in_world_run)+

lemma enumerate_run:
  assumes "enumerate_kind ex p kind s = (Inr xs, s')" and "sound_server s"
  shows "objects s' = objects s" and "distinct xs"
    and "set xs = {x. objects s (uri_of x) = Some x \<and> starts_with (uri_of x) p}"
  using assms store.list_view by (fastforce simp: enumerate_kind_def must_run in_world_run)+

lemma try_fetch_run:
  assumes "try_fetch ex uri kind s = (r, s')" and "sound_server s"
  shows "\<exists>q. r = Inr q \<and> (\<forall>x. q = Inr x \<longrightarrow> objects s uri = Some x \<and> eq_ignore_ascii_case (kind_of x) kind)"
    and "objects s' = objects s" and "sv_ip_pool s' = sv_ip_pool s" and "sound_server s'"
  using assms store.get_view preservesD [OF operations_sound(2) assms(2,1)]
  by (fastforce simp: try_fetch_def attempt_def in_world_def split: prod.splits)+

end

end
