(* ===== verification/ApiServer.thy ===== *)
theory ApiServer
  imports ApiFacts
begin

text \<open>
  The routes of the API server (\<open>api_server/src/main.rs\<close>) and its replies. \<open>serve\<close> answers a request;
  with the environments of the requests to come beside the state, \<open>api_server\<close> is an \<open>api\<close> as the
  clients of the cluster use it. Of a path the decoded segments count. What axum does itself is
  documented behaviour: 404 without a route, 405 for a method without a handler, and a rejection of
  a body the handler cannot take. The file server under \<open>/tmp\<close> is not modelled; a request for a web socket
  that comes without an upgrade is refused.
\<close>

section \<open>Routes\<close>

datatype 'w request_body =
    NoBody
  | JsonBody kube_object
  | JsonMap "(string, string) hashmap"
  | FormBody "(string + 'w form_field) list"

datatype 'w routed =
    NoRoute
  | NoMethod
  | Rejected nat string
  | Run "('w, response) handler"
  | PassOn "('w, proxied) handler"
  | Watch string
  | ExecIn string string

definition on_json :: "'w request_body \<Rightarrow> (kube_object \<Rightarrow> ('w, response) handler) \<Rightarrow> 'w routed" where
  "on_json body f = (case body of JsonBody x \<Rightarrow> Run (f x)
     | NoBody \<Rightarrow> Rejected 415 ''Expected request with Content-Type: application/json''
     | _ \<Rightarrow> Rejected 422 ''not an object'')"

definition on_map ::
    "'w request_body \<Rightarrow> ((string, string) hashmap \<Rightarrow> ('w, response) handler) \<Rightarrow> 'w routed" where
  "on_map body f = (case body of JsonMap m \<Rightarrow> Run (f m)
     | NoBody \<Rightarrow> Rejected 415 ''Expected request with Content-Type: application/json''
     | _ \<Rightarrow> Rejected 422 ''not a map'')"

definition on_form ::
    "'w request_body \<Rightarrow> ((string + 'w form_field) list \<Rightarrow> ('w, response) handler) \<Rightarrow> 'w routed" where
  "on_form body f = (case body of FormBody fs \<Rightarrow> Run (f fs) | _ \<Rightarrow> Rejected 400 ''Invalid boundary for multipart/form-data request'')"

definition pod_collection :: "'w externals \<Rightarrow> 'w env \<Rightarrow> http_method \<Rightarrow> 'w request_body \<Rightarrow> 'w routed" where
  "pod_collection ex env m body = (case m of
       GET \<Rightarrow> Run (api_pod_list ex) | POST \<Rightarrow> on_json body (api_pod_create ex env) | _ \<Rightarrow> NoMethod)"

definition pod_item :: "'w externals \<Rightarrow> http_method \<Rightarrow> string \<Rightarrow> 'w request_body \<Rightarrow> 'w routed" where
  "pod_item ex m name body = (case m of
       GET \<Rightarrow> Run (api_pod_get ex name) | PUT \<Rightarrow> on_json body (api_pod_replace ex name)
     | DELETE \<Rightarrow> Run (api_pod_delete ex name) | _ \<Rightarrow> NoMethod)"

definition pod_logs :: "'w externals \<Rightarrow> http_method \<Rightarrow> string \<Rightarrow> string \<Rightarrow> 'w routed" where
  "pod_logs ex m path_query name =
     (if m = GET then PassOn (proxy_to_rkubelet ex path_query name) else NoMethod)"

definition rs_collection :: "'w externals \<Rightarrow> 'w env \<Rightarrow> http_method \<Rightarrow> 'w request_body \<Rightarrow> 'w routed" where
  "rs_collection ex env m body = (case m of
       GET \<Rightarrow> Run (api_rs_list ex) | POST \<Rightarrow> on_json body (api_rs_create ex env) | _ \<Rightarrow> NoMethod)"

definition rs_item :: "'w externals \<Rightarrow> http_method \<Rightarrow> string \<Rightarrow> 'w request_body \<Rightarrow> 'w routed" where
  "rs_item ex m name body = (case m of
       GET \<Rightarrow> Run (api_rs_get ex name) | PUT \<Rightarrow> on_json body (api_rs_update ex name)
     | PATCH \<Rightarrow> on_json body (api_rs_patch ex name) | DELETE \<Rightarrow> Run (api_rs_delete ex name) | _ \<Rightarrow> NoMethod)"

definition service_collection :: "'w externals \<Rightarrow> 'w env \<Rightarrow> http_method \<Rightarrow> 'w request_body \<Rightarrow> 'w routed" where
  "service_collection ex env m body = (case m of
       GET \<Rightarrow> Run (api_service_list ex) | POST \<Rightarrow> on_json body (api_service_create ex env) | _ \<Rightarrow> NoMethod)"

definition service_item :: "'w externals \<Rightarrow> http_method \<Rightarrow> string \<Rightarrow> 'w request_body \<Rightarrow> 'w routed" where
  "service_item ex m name body = (case m of
       GET \<Rightarrow> Run (api_service_get ex name) | PUT \<Rightarrow> on_json body (api_service_update ex)
     | DELETE \<Rightarrow> Run (api_service_delete ex name) | _ \<Rightarrow> NoMethod)"

definition hpa_collection :: "'w externals \<Rightarrow> 'w env \<Rightarrow> http_method \<Rightarrow> 'w request_body \<Rightarrow> 'w routed" where
  "hpa_collection ex env m body = (case m of
       GET \<Rightarrow> Run (api_hpa_list ex) | POST \<Rightarrow> on_json body (api_hpa_create ex env) | _ \<Rightarrow> NoMethod)"

definition hpa_item :: "'w externals \<Rightarrow> http_method \<Rightarrow> string \<Rightarrow> 'w request_body \<Rightarrow> 'w routed" where
  "hpa_item ex m name body = (case m of
       GET \<Rightarrow> Run (api_hpa_get ex name) | PUT \<Rightarrow> on_json body (api_hpa_update ex name)
     | PATCH \<Rightarrow> on_json body (api_hpa_patch ex name) | DELETE \<Rightarrow> Run (api_hpa_delete ex name) | _ \<Rightarrow> NoMethod)"

definition ingress_collection :: "'w externals \<Rightarrow> 'w env \<Rightarrow> http_method \<Rightarrow> 'w request_body \<Rightarrow> 'w routed" where
  "ingress_collection ex env m body = (case m of
       GET \<Rightarrow> Run (api_ingress_list ex) | POST \<Rightarrow> on_json body (api_ingress_create ex env) | _ \<Rightarrow> NoMethod)"

definition ingress_item :: "'w externals \<Rightarrow> http_method \<Rightarrow> string \<Rightarrow> 'w request_body \<Rightarrow> 'w routed" where
  "ingress_item ex m name body = (case m of
       GET \<Rightarrow> Run (api_ingress_get ex name) | PUT \<Rightarrow> on_json body (api_ingress_update ex)
     | DELETE \<Rightarrow> Run (api_ingress_delete ex name) | _ \<Rightarrow> NoMethod)"

definition job_collection :: "'w externals \<Rightarrow> 'w env \<Rightarrow> http_method \<Rightarrow> 'w request_body \<Rightarrow> 'w routed" where
  "job_collection ex env m body = (case m of
       GET \<Rightarrow> Run (api_job_list ex) | POST \<Rightarrow> on_form body (api_job_create ex env) | _ \<Rightarrow> NoMethod)"

definition job_item :: "'w externals \<Rightarrow> http_method \<Rightarrow> string \<Rightarrow> 'w request_body \<Rightarrow> 'w routed" where
  "job_item ex m name body = (case m of
       GET \<Rightarrow> Run (api_job_get ex name) | PUT \<Rightarrow> on_json body (api_job_update ex name)
     | PATCH \<Rightarrow> on_json body (api_job_patch ex name) | DELETE \<Rightarrow> Run (api_job_delete ex name) | _ \<Rightarrow> NoMethod)"

definition node_item :: "'w externals \<Rightarrow> 'w env \<Rightarrow> http_method \<Rightarrow> string \<Rightarrow> 'w request_body \<Rightarrow> 'w routed" where
  "node_item ex env m name body = (case m of
       GET \<Rightarrow> Run (api_node_get ex name) | PUT \<Rightarrow> on_json body (api_node_update ex env name)
     | PATCH \<Rightarrow> on_json body (api_node_patch ex name) | DELETE \<Rightarrow> Run (api_node_delete ex name) | _ \<Rightarrow> NoMethod)"

definition function_collection :: "'w externals \<Rightarrow> 'w env \<Rightarrow> http_method \<Rightarrow> 'w request_body \<Rightarrow> 'w routed" where
  "function_collection ex env m body = (case m of
       GET \<Rightarrow> Run (api_function_list ex) | POST \<Rightarrow> on_form body (api_function_create ex env) | _ \<Rightarrow> NoMethod)"

definition function_item :: "'w externals \<Rightarrow> http_method \<Rightarrow> string \<Rightarrow> 'w request_body \<Rightarrow> 'w routed" where
  "function_item ex m name body = (case m of
       GET \<Rightarrow> Run (api_function_get ex name) | PUT \<Rightarrow> on_json body (api_function_update ex)
     | DELETE \<Rightarrow> Run (api_function_delete ex name) | _ \<Rightarrow> NoMethod)"

definition workflow_collection :: "'w externals \<Rightarrow> 'w env \<Rightarrow> http_method \<Rightarrow> 'w request_body \<Rightarrow> 'w routed" where
  "workflow_collection ex env m body = (case m of
       GET \<Rightarrow> Run (api_workflow_list ex) | POST \<Rightarrow> on_json body (api_workflow_create ex env) | _ \<Rightarrow> NoMethod)"

definition workflow_item :: "'w externals \<Rightarrow> http_method \<Rightarrow> string \<Rightarrow> 'w request_body \<Rightarrow> 'w routed" where
  "workflow_item ex m name body = (case m of
       GET \<Rightarrow> Run (api_workflow_get ex name) | PUT \<Rightarrow> on_json body (api_workflow_update ex)
     | DELETE \<Rightarrow> Run (api_workflow_delete ex name) | _ \<Rightarrow> NoMethod)"

definition metrics_targets :: "'w externals \<Rightarrow> http_method \<Rightarrow> 'w request_body \<Rightarrow> 'w routed" where
  "metrics_targets ex m body = (case m of
       POST \<Rightarrow> on_map body (\<lambda>p. in_world (add_target (ex_pr ex) p))
     | DELETE \<Rightarrow> on_map body (\<lambda>p. in_world (remove_target (ex_pr ex) p)) | _ \<Rightarrow> NoMethod)"

text \<open>The kinds one can watch as a whole; of functions also one by its name.\<close>

definition watched_kinds :: "string list" where
  "watched_kinds = [''nodes'', ''pods'', ''replicasets'', ''services'', ''ingresses'',
     ''horizontalpodautoscalers'', ''gpujobs'', ''functions'']"

definition only_get :: "http_method \<Rightarrow> 'w routed \<Rightarrow> 'w routed" where
  "only_get m r = (if m = GET then r else NoMethod)"

text \<open>Paths with three or five segments.\<close>

lemma segment_cases:
  assumes "\<And>a b c. P (f a b c)" and "\<And>a b c d e. P (g a b c d e)" and "P z"
  shows "P (case segs of [a, b, c] \<Rightarrow> f a b c | [a, b, c, d, e] \<Rightarrow> g a b c d e | _ \<Rightarrow> z)"
  using assms by (simp split: list.split)

text \<open>The routes with one, two and more segments after \<open>/api/v1\<close>; a parameter is not empty.\<close>

definition route_collection ::
    "'w externals \<Rightarrow> 'w env \<Rightarrow> http_method \<Rightarrow> string \<Rightarrow> 'w request_body \<Rightarrow> 'w routed" where
  "route_collection ex env m kind body =
     (if kind = ''pods'' then pod_collection ex env m body
      else if kind = ''replicasets'' then rs_collection ex env m body
      else if kind = ''services'' then service_collection ex env m body
      else if kind = ''ingresses'' then ingress_collection ex env m body
      else if kind = ''horizontalpodautoscalers'' then hpa_collection ex env m body
      else if kind = ''nodes'' then only_get m (Run (api_node_list ex))
      else if kind = ''gpujobs'' then job_collection ex env m body
      else if kind = ''functions'' then function_collection ex env m body
      else if kind = ''workflows'' then workflow_collection ex env m body
      else if kind = ''bindings'' then (if m = POST then on_json body (api_bind ex) else NoMethod)
      else NoRoute)"

definition route_item ::
    "'w externals \<Rightarrow> 'w env \<Rightarrow> http_method \<Rightarrow> string \<Rightarrow> string \<Rightarrow> string option \<Rightarrow> 'w request_body \<Rightarrow> 'w routed" where
  "route_item ex env m kind name selector body =
     (if name = [] then NoRoute
      else if kind = ''pods'' then pod_item ex m name body
      else if kind = ''replicasets'' then rs_item ex m name body
      else if kind = ''services'' then service_item ex m name body
      else if kind = ''ingresses'' then ingress_item ex m name body
      else if kind = ''horizontalpodautoscalers'' then hpa_item ex m name body
      else if kind = ''nodes'' then node_item ex env m name body
      else if kind = ''gpujobs'' then job_item ex m name body
      else if kind = ''functions'' then function_item ex m name body
      else if kind = ''workflows'' then workflow_item ex m name body
      else if kind = ''watch'' then
        (if name \<in> set watched_kinds then only_get m (Watch (''/api/v1/'' @ name)) else NoRoute)
      else if kind = ''metrics'' \<and> name = ''pods'' then
        only_get m (Run (in_world (list_pods (ex_pr ex) (ev_now env) selector)))
      else if kind = ''metrics'' \<and> name = ''targets'' then metrics_targets ex m body
      else NoRoute)"

definition route_container :: "'w externals \<Rightarrow> http_method \<Rightarrow> string \<Rightarrow> string \<Rightarrow> string \<Rightarrow> string \<Rightarrow> 'w routed" where
  "route_container ex m path_query name container_name e =
     (if name = [] \<or> container_name = [] then NoRoute
      else if e = ''logs'' then pod_logs ex m path_query name
      else if e = ''exec'' then only_get m (ExecIn path_query name)
      else NoRoute)"

definition route_deep ::
    "'w externals \<Rightarrow> 'w env \<Rightarrow> http_method \<Rightarrow> string \<Rightarrow> string list \<Rightarrow> 'w routed" where
  "route_deep ex env m path_query segs = (case segs of
       [a, b, c] \<Rightarrow>
         (if a = ''pods'' \<and> b \<noteq> [] \<and> c = ''logs'' then pod_logs ex m path_query b
          else if a = ''gpujobs'' \<and> b \<noteq> [] \<and> c = ''logs'' then only_get m (PassOn (api_job_logs ex b))
          else if a = ''watch'' \<and> b = ''functions'' \<and> c \<noteq> [] then only_get m (Watch (''/api/v1/functions/'' @ c))
          else if a = ''metrics'' \<and> b = ''functions'' \<and> c \<noteq> [] then
            only_get m (Run (in_world (get_function (ex_pr ex) (ev_now env) c)))
          else NoRoute)
     | [a, b, c, d, e] \<Rightarrow>
         (if a = ''pods'' \<and> c = ''containers'' then route_container ex m path_query b d e else NoRoute)
     | _ \<Rightarrow> NoRoute)"

definition route ::
    "'w externals \<Rightarrow> 'w env \<Rightarrow> http_method \<Rightarrow> string \<Rightarrow> string option \<Rightarrow> 'w request_body \<Rightarrow> 'w routed" where
  "route ex env m path selector body = (case split_on (CHR ''/'') path of
       r # a # v # segs \<Rightarrow>
         (if r \<noteq> [] \<or> a \<noteq> ''api'' \<or> v \<noteq> ''v1'' then NoRoute
          else case segs of
            [kind] \<Rightarrow> route_collection ex env m kind body
          | [kind, name] \<Rightarrow> route_item ex env m kind name selector body
          | _ \<Rightarrow> route_deep ex env m path segs)
     | _ \<Rightarrow> NoRoute)"

section \<open>Replies\<close>

text \<open>An error reply carries its status and its message; a panic ends the connection.\<close>

definition reply_of :: "api_fault + response \<Rightarrow> api_reply" where
  "reply_of r = (case r of
       Inr (msg, d) \<Rightarrow> Reply 200 msg d
     | Inl (ApiErr e) \<Rightarrow> Reply (er_status e) (Some (er_msg e)) None
     | Inl (ApiPanic p) \<Rightarrow> SendError p)"

definition respond :: "'w externals \<Rightarrow> 'w routed \<Rightarrow> 'w server \<Rightarrow> api_reply \<times> 'w server" where
  "respond ex r s = (case r of
       NoRoute \<Rightarrow> (BadBody 404 [], s)
     | NoMethod \<Rightarrow> (BadBody 405 [], s)
     | Rejected status e \<Rightarrow> (BadBody status e, s)
     | Watch prefix \<Rightarrow> (BadBody 400 ''Connection header did not include upgrade'', s)
     | ExecIn path_query pod_name \<Rightarrow> (BadBody 400 ''Connection header did not include upgrade'', s)
     | Run h \<Rightarrow> (case h s of (q, s') \<Rightarrow> (reply_of q, s'))
     | PassOn h \<Rightarrow> (case h s of
           (Inr (ErrorBody e), s') \<Rightarrow> (Reply 200 (Some (er_msg e)) None, s')
         | (Inr (ForwardTo uri), s') \<Rightarrow> (case ex_forward ex uri (sv_world s') of
             (reply, w) \<Rightarrow> (reply, s'\<lparr>sv_world := w\<rparr>))
         | (Inl (ApiErr e), s') \<Rightarrow> (Reply (er_status e) (Some (er_msg e)) None, s')
         | (Inl (ApiPanic p), s') \<Rightarrow> (SendError p, s')))"

definition handle_request ::
    "'w externals \<Rightarrow> 'w env \<Rightarrow> http_method \<Rightarrow> string \<Rightarrow> string option \<Rightarrow> 'w request_body \<Rightarrow>
     'w server \<Rightarrow> api_reply \<times> 'w server" where
  "handle_request ex env m path selector body = respond ex (route ex env m path selector body)"

text \<open>The requests of the clients: at most a query \<open>?selector=\<close>, and one object as the body.\<close>

definition query_start :: string where
  "query_start = ''?selector=''"

definition split_query :: "string \<Rightarrow> string \<times> string option" where
  "split_query p = (case dropWhile (\<lambda>c. c \<noteq> CHR ''?'') p of
       [] \<Rightarrow> (p, None)
     | q \<Rightarrow> (takeWhile (\<lambda>c. c \<noteq> CHR ''?'') p,
            if starts_with q query_start then Some (drop (length query_start) q) else None))"

definition serve :: "'w externals \<Rightarrow> 'w env \<Rightarrow> 'w server api" where
  "serve ex env r = (case split_query (rq_path r) of (path, selector) \<Rightarrow>
     handle_request ex env (rq_method r) path selector
       (case rq_body r of None \<Rightarrow> NoBody | Some x \<Rightarrow> JsonBody x))"

text \<open>The server with the environments of its coming requests.\<close>

definition api_server :: "'w externals \<Rightarrow> ('w server \<times> (nat \<Rightarrow> 'w env)) api" where
  "api_server ex r = (\<lambda>(s, envs). case serve ex (envs 0) r s of
     (reply, s') \<Rightarrow> (reply, (s', \<lambda>i. envs (Suc i))))"

section \<open>The world of the server in memory\<close>

definition mem_externals ::
    "(string \<times> kube_object) list \<Rightarrow> (string \<times> prom_config) list \<Rightarrow> string memory externals" where
  "mem_externals table configs = \<lparr>ex_be = mem_backend table, ex_pr = mem_prometheus configs no_answers,
     ex_forward = (\<lambda>uri w. (BadBody 200 uri, w))\<rparr>"

lemma mem_simps [simp]:
  "be_client (ex_be (mem_externals table configs)) = io_return ()"
  "be_put (ex_be (mem_externals table configs)) k v (m, f) = (Inr (), (hm_insert k v m, f))"
  "be_get (ex_be (mem_externals table configs)) k (m, f) =
     (Inr (case hm_get m k of None \<Rightarrow> [] | Some v \<Rightarrow> [(k, v)]), (m, f))"
  "be_get_prefix (ex_be (mem_externals table configs)) pre (m, f) =
     (Inr (filter (\<lambda>(k, v). starts_with k pre) (AList.clearjunk m)), (m, f))"
  "be_delete (ex_be (mem_externals table configs)) k (m, f) =
     (Inr (if hm_get m k = None then 0 else 1), (hm_remove k m, f))"
  "be_to_json (ex_be (mem_externals table configs)) x = map_option fst (List.find (\<lambda>(s, y). y = x) table)"
  "be_from_json (ex_be (mem_externals table configs)) t = map_of table t"
  by (simp_all add: mem_externals_def mem_backend_def)

lemma mem_put:
  assumes "map_option fst (List.find (\<lambda>(s, y). y = x) table) = Some js"
  shows "etcd_put (ex_be (mem_externals table configs)) x (m, f) = (Inr (), (hm_insert (uri_of x) js m, f))"
proof -
  have "be_to_json (ex_be (mem_externals table configs)) x = Some js" using assms by simp
  then show ?thesis by (simp only: etcd_put_unfold get_client_def ok_or_simps) (simp add: io_bind_def io_map_err_def)
qed

lemma mem_get:
  assumes "hm_get m uri = Some js" and "map_of table js = Some x" and "eq_ignore_ascii_case (kind_of x) kind"
  shows "etcd_get_object (ex_be (mem_externals table configs)) uri (Some kind) (m, f) = (Inr x, (m, f))"
  using assms
  by (simp add: etcd_get_object_def etcd_get_unfold get_client_def get_value_str_def decode_object_def
      io_bind_def io_map_err_def)

lemma mem_get_none:
  assumes "hm_get m uri = None"
  shows "etcd_get_object (ex_be (mem_externals table configs)) uri kind (m, f) =
    (Inl (err_not_found ''value doesn't exist'' None), (m, f))"
  using assms
  by (simp add: etcd_get_object_def etcd_get_unfold get_client_def get_value_str_def io_bind_def io_map_err_def)

lemma mem_delete:
  assumes "hm_get m uri = Some js"
  shows "etcd_delete (ex_be (mem_externals table configs)) uri (m, f) = (Inr (), (hm_remove uri m, f))"
  using assms by (simp add: etcd_delete_unfold get_client_def io_bind_def io_map_err_def)

lemma mem_api_world:
  assumes "distinct (map fst table)" and "distinct (map fst configs)"
  shows "api_world (mem_externals table configs) mem_contents snd"
proof (rule api_world.intro)
  show "etcd (ex_be (mem_externals table configs)) mem_contents"
    using mem_etcd [OF assms(1)] by (simp add: mem_externals_def)
  show "scrape_file (ex_pr (mem_externals table configs)) snd"
    using mem_scrape_file [OF assms(2)] by (simp add: mem_externals_def)
  show "api_world_axioms (mem_externals table configs) mem_contents snd"
    by unfold_locales
      (auto simp: mem_externals_def mem_backend_def mem_prometheus_def mem_contents_def preserves_def)
qed

interpretation mems: api_world "mem_externals sample_table config_table" mem_contents snd
  by (rule mem_api_world) (simp_all add: sample_table_def config_table_def)

section \<open>Every request keeps the store sound\<close>

context api_world
begin

lemma run_sound:
  assumes "preserves sound_server h" and "sound_server s"
  shows "sound_server (snd (respond ex (Run h) s))"
  using preservesD [OF assms] by (auto simp: respond_def split: prod.splits)

definition routed_sound :: "'w routed \<Rightarrow> bool" where
  "routed_sound r \<longleftrightarrow> (case r of Run h \<Rightarrow> preserves sound_server h
     | PassOn h \<Rightarrow> preserves sound_server h | _ \<Rightarrow> True)"

lemma respond_sound:
  assumes "routed_sound r" and "sound_server s" and "respond ex r s = (reply, s')"
  shows "sound_server s'"
proof (cases r)
  case (Run h)
  with assms show ?thesis
    by (auto simp: respond_def routed_sound_def dest: preservesD split: prod.splits)
next
  case (PassOn h)
  with assms show ?thesis
    by (auto simp: respond_def routed_sound_def kubelet_apart dest: preservesD
        split: prod.splits sum.splits proxied.splits api_fault.splits)
qed (use assms in \<open>simp_all add: respond_def\<close>)

lemma routed_sound_intros:
  "preserves sound_server h \<Longrightarrow> routed_sound (Run h)"
  "preserves sound_server p \<Longrightarrow> routed_sound (PassOn p)"
  "routed_sound NoRoute" "routed_sound NoMethod" "routed_sound (Rejected st e)" "routed_sound (Watch pre)"
  "routed_sound (ExecIn pq name)"
  "(\<And>x. preserves sound_server (f x)) \<Longrightarrow> routed_sound (on_json body f)"
  "(\<And>x. preserves sound_server (g x)) \<Longrightarrow> routed_sound (on_map body g)"
  "routed_sound q \<Longrightarrow> routed_sound (only_get m q)"
  by (simp_all add: routed_sound_def on_json_def on_map_def only_get_def split: request_body.split)

lemma on_form_sound:
  "(\<And>form. body = FormBody form \<Longrightarrow> preserves sound_server (f form)) \<Longrightarrow> routed_sound (on_form body f)"
  by (simp add: routed_sound_def on_form_def split: request_body.split)

lemma route_sound:
  assumes env: "env_keeps (\<lambda>w. well_stored (ex_be ex) (contents w)) env"
    and form: "\<And>form. body = FormBody form \<Longrightarrow> form_keeps (\<lambda>w. well_stored (ex_be ex) (contents w)) form"
  shows "routed_sound (route ex env m path selector body)"
proof -
  note intros = routed_sound_intros preserves_rules
  have coll: "routed_sound (route_collection ex env m kind body)" for kind
    unfolding route_collection_def pod_collection_def rs_collection_def service_collection_def
      ingress_collection_def hpa_collection_def job_collection_def function_collection_def
      workflow_collection_def
    by (auto intro!: intros on_form_sound form_handlers_sound form env split: http_method.split)
  have item: "routed_sound (route_item ex env m kind name selector body)" for kind name
    unfolding route_item_def pod_item_def rs_item_def service_item_def ingress_item_def hpa_item_def
      job_item_def function_item_def workflow_item_def node_item_def metrics_targets_def
    by (auto intro!: intros split: http_method.split)
  have inner: "routed_sound (route_container ex m path b d e)" for b d e
    unfolding route_container_def pod_logs_def by (auto intro!: intros)
  have deep: "routed_sound (route_deep ex env m path segs)" for segs
    unfolding route_deep_def pod_logs_def
    by (rule segment_cases [where P = routed_sound]) (auto intro!: intros inner)
  show ?thesis
    unfolding route_def by (auto intro!: intros coll item deep split: list.split)
qed

lemma directory_of_prefix:
  "starts_with (uri_of x) (''/api/v1/'' @ directory y) \<longleftrightarrow> directory x = directory y"
proof
  assume "starts_with (uri_of x) (''/api/v1/'' @ directory y)"
  then have "kind_of x = kind_of y"
    by (intro directory_prefix_kind) (simp add: prefix_of_directory)
  then show "directory x = directory y"
    by (cases x; cases y) (simp_all add: kind_of_def directory_def)
next
  assume "directory x = directory y"
  then show "starts_with (uri_of x) (''/api/v1/'' @ directory y)"
    by (simp add: uri_of_def prefix_of_directory starts_with_def)
qed

lemma list_kind_run:
  assumes "list_kind ex (''/api/v1/'' @ directory y) kind s = (Inr (msg, d), s')" and "sound_server s"
  shows "objects s' = objects s \<and> (\<exists>xs. d = Some (DObjects xs) \<and> distinct xs \<and>
    set xs = {x. objects s (uri_of x) = Some x \<and> directory x = directory y})"
proof -
  from assms(1) obtain xs s1 where run: "enumerate_kind ex (''/api/v1/'' @ directory y) kind s = (Inr xs, s1)"
    and res: "d = Some (DObjects xs)" "s' = s1"
    unfolding list_kind_def by (elim io_bind_InrE) simp
  from enumerate_run [OF run assms(2)] res show ?thesis by (simp only: directory_of_prefix) blast
qed

end

text \<open>
  C2. Store: whatever the request, its body and the replies of etcd and Prometheus are, the server
  leaves the store sound: every stored text is the JSON of an object, under the uri of the object.
\<close>

theorem server_keeps_store_sound:
  assumes "api_world ex contents conf"
    and "env_keeps (\<lambda>w. well_stored (ex_be ex) (contents w)) env"
    and "\<And>form. body = FormBody form \<Longrightarrow> form_keeps (\<lambda>w. well_stored (ex_be ex) (contents w)) form"
    and "well_stored (ex_be ex) (contents (sv_world s))"
    and "handle_request ex env m path selector body s = (reply, s')"
  shows "well_stored (ex_be ex) (contents (sv_world s'))"
  using api_world.respond_sound [OF assms(1) api_world.route_sound [OF assms(1,2,3)] assms(4)] assms(5)
  by (simp add: handle_request_def)

definition sample_env :: "'w env" where
  "sample_env = \<lparr>ev_uuid = 1, ev_uuid2 = 2, ev_now = 0, ev_chars = ''aB3dE'', ev_hosts = (\<lambda>_. ''aB3dE''),
     ev_octets = [(16, 0, 1), (16, 0, 2)], ev_sleep = id\<rparr>"

definition sample_ingress :: "string \<Rightarrow> kube_object" where
  "sample_ingress host = KIngress \<lparr>
     ing_metadata = metadata_default\<lparr>md_name := ''web'', md_uid := Some 1\<rparr>,
     ing_rules = [\<lparr>ir_host = Some host, ir_paths = []\<rparr>]\<rparr>"

definition empty_server :: "string memory server" where
  "empty_server = \<lparr>sv_ip_pool = [], sv_world = (hm_empty, ''none'')\<rparr>"

lemma empty_server_sound: "well_stored be (mem_contents (sv_world empty_server))"
  by (simp add: well_stored_def mem_contents_def empty_server_def)

lemma route_create_ingress:
  "route ex env POST ''/api/v1/ingresses'' None (JsonBody x) = Run (api_ingress_create ex env x)"
  by (simp add: route_def route_collection_def ingress_collection_def on_json_def)

lemma uri_of_sample_ingress: "uri_of (sample_ingress h) = ''/api/v1/ingresses/web''"
  by (simp add: uri_of_def prefix_of_directory directory_def sample_ingress_def name_of_def metadata_of_def)

lemma create_ingress_run:
  "handle_request (mem_externals [(''ingress'', sample_ingress ''a.minik8s.com'')] config_table) sample_env POST
     ''/api/v1/ingresses'' None (JsonBody (sample_ingress ''a.minik8s.com'')) empty_server =
   (Reply 200 (Some ''ingress/web created'') None,
    empty_server\<lparr>sv_world := ([(''/api/v1/ingresses/web'', ''ingress'')], ''none'')\<rparr>)"
proof -
  let ?ex = "mem_externals [(''ingress'', sample_ingress ''a.minik8s.com'')] config_table"
  have put: "store_object ?ex (sample_ingress ''a.minik8s.com'') empty_server =
      (Inr (), empty_server\<lparr>sv_world := ([(''/api/v1/ingresses/web'', ''ingress'')], ''none'')\<rparr>)"
    by (simp add: store_object_def must_def in_world_def io_map_err_def empty_server_def mem_put
        uri_of_sample_ingress hm_insert_def hm_empty_def)
  have "api_ingress_create ?ex sample_env (sample_ingress ''a.minik8s.com'') =
      io_bind (store_object ?ex (sample_ingress ''a.minik8s.com'')) (\<lambda>_. done_msg ''ingress/web created'')"
    by (simp add: api_ingress_create_def sample_ingress_def sample_env_def must_def ends_with_def
        name_of_def metadata_of_def metadata_default_def)
  with put show ?thesis
    by (simp add: handle_request_def route_create_ingress respond_def io_bind_def done_msg_def reply_of_def)
qed

theorem server_keeps_store_sound_witness:
  "well_stored (ex_be (mem_externals [(''ingress'', sample_ingress ''a.minik8s.com'')] config_table))
     (mem_contents ([(''/api/v1/ingresses/web'', ''ingress'')], ''none''))"
proof -
  have "api_world (mem_externals [(''ingress'', sample_ingress ''a.minik8s.com'')] config_table) mem_contents snd"
    by (rule mem_api_world) (simp_all add: config_table_def)
  from server_keeps_store_sound [OF this _ _ empty_server_sound create_ingress_run] show ?thesis
    by (simp add: env_keeps_def sample_env_def empty_server_def)
qed

end
