(* ===== verification/ApiProperties.thy ===== *)
theory ApiProperties
  imports ApiServer
begin

text \<open>
  What the requests to the API server do to the store and to the scrape targets, under the contracts
  of etcd and of the Prometheus file.
\<close>

section \<open>Listing\<close>

text \<open>The kinds with a route that lists them: all but the bindings.\<close>

definition listed_kind :: "kube_object \<Rightarrow> bool" where
  "listed_kind x \<longleftrightarrow> directory x \<noteq> ''bindings''"

lemma route_list:
  assumes "listed_kind y"
  obtains kind where "route ex env GET (''/api/v1/'' @ directory y) selector body =
    Run (list_kind ex (''/api/v1/'' @ directory y) kind)"
  using assms
  by (cases y)
    (auto simp: route_def directory_def listed_kind_def route_collection_def only_get_def
      pod_collection_def api_pod_list_def rs_collection_def api_rs_list_def service_collection_def
      api_service_list_def ingress_collection_def api_ingress_list_def hpa_collection_def api_hpa_list_def
      api_node_list_def job_collection_def api_job_list_def function_collection_def api_function_list_def
      workflow_collection_def api_workflow_list_def)

text \<open>
  Listing: a list of objects in the reply to a GET of a kind's directory holds exactly the stored
  objects of that kind, each once, and the request changes no object.
\<close>

theorem listing_exact:
  assumes world: "api_world ex contents conf" and sound: "well_stored (ex_be ex) (contents (sv_world s))"
    and kind: "listed_kind y"
    and run: "handle_request ex env GET (''/api/v1/'' @ directory y) selector body s =
      (Reply status msg (Some (DObjects xs)), s')"
  shows "distinct xs \<and>
    set xs = {x. stored_objects (ex_be ex) (contents (sv_world s)) (uri_of x) = Some x \<and> kind_of x = kind_of y} \<and>
    stored_objects (ex_be ex) (contents (sv_world s')) = stored_objects (ex_be ex) (contents (sv_world s))"
proof -
  obtain kind where "route ex env GET (''/api/v1/'' @ directory y) selector body =
      Run (list_kind ex (''/api/v1/'' @ directory y) kind)"
    using route_list [OF \<open>listed_kind y\<close>] .
  with run have "list_kind ex (''/api/v1/'' @ directory y) kind s = (Inr (msg, Some (DObjects xs)), s')"
    by (auto simp: handle_request_def respond_def reply_of_def split: prod.splits sum.splits api_fault.splits)
  from api_world.list_kind_run [OF world this sound] show ?thesis by (simp add: directory_eq_iff)
qed

definition two_objects :: "string memory server" where
  "two_objects = \<lparr>sv_ip_pool = [],
     sv_world = ([(''/api/v1/pods/web'', ''pod web''), (''/api/v1/nodes/n1'', ''node n1'')], ''none'')\<rparr>"

definition sample_world :: "string memory externals" where
  "sample_world = mem_externals sample_table config_table"

lemma sample_api_world: "api_world sample_world mem_contents snd"
  unfolding sample_world_def by (rule mem_api_world) (simp_all add: sample_table_def config_table_def)

lemma sample_uris: "uri_of stored_pod = ''/api/v1/pods/web''" "uri_of stored_node = ''/api/v1/nodes/n1''"
  by (simp_all add: uri_of_def prefix_of_directory directory_def stored_pod_def stored_node_def name_of_def metadata_of_def)

lemma sample_json [simp]:
  "be_from_json (ex_be sample_world) ''pod web'' = Some stored_pod"
  "be_from_json (ex_be sample_world) ''node n1'' = Some stored_node"
  by (simp_all add: sample_world_def sample_table_def)

lemma two_objects_sound: "well_stored (ex_be sample_world) (mem_contents (sv_world two_objects))"
  by (auto simp: well_stored_def mem_contents_def two_objects_def sample_uris)

lemma list_nodes_run:
  "handle_request sample_world sample_env GET (''/api/v1/'' @ directory stored_node) None NoBody two_objects =
     (Reply 200 None (Some (DObjects [stored_node])), two_objects)"
proof -
  have "etcd_get_objects_by_prefix (ex_be sample_world) ''/api/v1/nodes'' (Some ''node'') (sv_world two_objects) =
      (Inr [stored_node], sv_world two_objects)"
    by (simp add: etcd_list_unfold get_client_def io_bind_def io_map_err_def decode_object_def
        two_objects_def starts_with_def sample_world_def sample_table_def)
      (simp add: stored_node_def kind_of_def eq_ignore_ascii_case_def to_lowercase_def char_to_lower_def char_of_eq_iff)
  then show ?thesis
    by (simp add: handle_request_def route_def route_collection_def only_get_def api_node_list_def
        list_kind_def enumerate_kind_def must_def in_world_def io_map_err_def io_bind_def respond_def
        reply_of_def directory_def stored_node_def two_objects_def)
qed

theorem listing_exact_witness:
  "set [stored_node] = {x. stored_objects (ex_be sample_world) (mem_contents (sv_world two_objects)) (uri_of x) = Some x \<and>
     kind_of x = ''Node''}"
proof -
  have "listed_kind stored_node" "kind_of stored_node = ''Node''"
    by (simp_all add: listed_kind_def directory_def stored_node_def kind_of_def)
  with listing_exact [OF sample_api_world two_objects_sound _ list_nodes_run] show ?thesis by simp
qed

section \<open>Replacing, patching and deleting\<close>

text \<open>Runs of the store operations, lifted out of the contract.\<close>

lemmas store_runs = api_world.fetch_run api_world.store_object_run api_world.erase_run

lemma must_not_fetch:
  assumes "api_world ex contents conf" and "well_stored (ex_be ex) (contents (sv_world s))"
    and "stored_objects (ex_be ex) (contents (sv_world s)) uri = None"
    and "io_bind (fetch ex uri kind) f s = (r, s')"
  shows "(\<exists>e. r = Inl e) \<and>
    stored_objects (ex_be ex) (contents (sv_world s')) = stored_objects (ex_be ex) (contents (sv_world s))"
  using assms(4)
proof (cases rule: io_bindE)
  case (1 e)
  from api_world.fetch_keeps [OF assms(1) 1(1) assms(2)] 1(2) show ?thesis by simp
next
  case (2 x s1)
  from api_world.fetch_run(2) [OF assms(1) 2(1) assms(2)] assms(3) show ?thesis by simp
qed

text \<open>
  PUT after DELETE: a PUT of a pod or of an autoscaler whose name is not stored fails and changes
  nothing, so a controller that is late does not bring the object back; a PUT of a replica set
  that succeeds stores it again.
\<close>

theorem put_after_delete:
  assumes world: "api_world ex contents conf" and sound: "well_stored (ex_be ex) (contents (sv_world s))"
    and gone: "stored_objects (ex_be ex) (contents (sv_world s)) (''/api/v1/'' @ directory x @ ''/'' @ name) = None"
  shows "(case x of
       KPod _ \<Rightarrow> (case api_pod_replace ex name x s of (r, s') \<Rightarrow> (\<exists>e. r = Inl e) \<and>
         stored_objects (ex_be ex) (contents (sv_world s')) = stored_objects (ex_be ex) (contents (sv_world s)))
     | KHorizontalPodAutoscaler _ \<Rightarrow> (case api_hpa_update ex name x s of (r, s') \<Rightarrow> (\<exists>e. r = Inl e) \<and>
         stored_objects (ex_be ex) (contents (sv_world s')) = stored_objects (ex_be ex) (contents (sv_world s)))
     | KReplicaSet _ \<Rightarrow> (case api_rs_update ex name x s of (r, s') \<Rightarrow> \<forall>ok. r = Inr ok \<longrightarrow>
         stored_objects (ex_be ex) (contents (sv_world s')) =
           (stored_objects (ex_be ex) (contents (sv_world s)))(uri_of x \<mapsto> x))
     | _ \<Rightarrow> True)"
proof (cases x)
  case (KPod p)
  with gone have "stored_objects (ex_be ex) (contents (sv_world s)) (''/api/v1/pods/'' @ name) = None"
    by (simp add: directory_def)
  from must_not_fetch [OF world sound this] show ?thesis
    by (simp only: KPod api_pod_replace_def kube_object.case split: prod.split) blast
next
  case (KHorizontalPodAutoscaler h)
  with gone have "stored_objects (ex_be ex) (contents (sv_world s)) (''/api/v1/horizontalpodautoscalers/'' @ name) = None"
    by (simp add: directory_def)
  from must_not_fetch [OF world sound this] show ?thesis
    by (simp only: KHorizontalPodAutoscaler api_hpa_update_def kube_object.case split: prod.split) blast
next
  case (KReplicaSet rs)
  then show ?thesis
    using api_world.store_object_run(1) [OF world _ sound]
    by (auto simp: api_rs_update_def done_msg_def io_bind_def split: prod.splits sum.splits)
qed simp_all

theorem put_after_delete_witness:
  "\<exists>e. fst (api_pod_replace sample_world ''web'' stored_pod empty_server) = Inl e"
proof -
  have "stored_objects (ex_be sample_world) (mem_contents (sv_world empty_server))
      (''/api/v1/'' @ directory stored_pod @ ''/'' @ ''web'') = None"
    by (simp add: stored_objects_def mem_contents_def empty_server_def)
  from put_after_delete [OF sample_api_world empty_server_sound this] show ?thesis
    by (cases "api_pod_replace sample_world ''web'' stored_pod empty_server") (simp add: stored_pod_def)
qed

text \<open>What PATCH takes from the payload: the spec, of a node the labels.\<close>

definition patched :: "kube_object \<Rightarrow> kube_object \<Rightarrow> kube_object option" where
  "patched payload old = (case (payload, old) of
       (KReplicaSet a, KReplicaSet b) \<Rightarrow> Some (KReplicaSet (b\<lparr>rs_spec := rs_spec a\<rparr>))
     | (KHorizontalPodAutoscaler a, KHorizontalPodAutoscaler b) \<Rightarrow>
         Some (KHorizontalPodAutoscaler (b\<lparr>hpa_spec := hpa_spec a\<rparr>))
     | (KGpuJob a, KGpuJob b) \<Rightarrow> Some (KGpuJob (b\<lparr>gj_spec := gj_spec a\<rparr>))
     | (KNode a, KNode b) \<Rightarrow> Some (KNode (b\<lparr>node_metadata := (node_metadata b)\<lparr>md_labels := md_labels (node_metadata a)\<rparr>\<rparr>))
     | _ \<Rightarrow> None)"

definition api_patch :: "'w externals \<Rightarrow> string \<Rightarrow> kube_object \<Rightarrow> ('w, response) handler" where
  "api_patch ex name payload = (case payload of
       KReplicaSet _ \<Rightarrow> api_rs_patch ex name payload
     | KHorizontalPodAutoscaler _ \<Rightarrow> api_hpa_patch ex name payload
     | KGpuJob _ \<Rightarrow> api_job_patch ex name payload
     | KNode _ \<Rightarrow> api_node_patch ex name payload
     | _ \<Rightarrow> expecting [] [] payload)"

lemma patch_steps:
  assumes "api_patch ex name payload s = (Inr r, s')"
  obtains kind old new s1 msg where "fetch ex (''/api/v1/'' @ directory payload @ ''/'' @ name) kind s = (Inr old, s1)"
    and "patched payload old = Some new" and "store_object ex new s1 = (Inr (), s')"
  using assms
  by (cases payload)
    (auto simp: api_patch_def api_rs_patch_def api_hpa_patch_def api_job_patch_def api_node_patch_def
      expecting_def api_err_def done_msg_def patched_def directory_def elim!: io_bind_InrE
      split: kube_object.splits)

lemma uri_of_patched: "patched payload old = Some new \<Longrightarrow> uri_of new = uri_of old"
  by (auto simp: patched_def uri_of_def prefix_of_directory directory_def name_of_def metadata_of_def
      split: kube_object.splits)

text \<open>
  C9. PATCH: a patch that succeeds had an object under its path, and leaves that object there with
  only the spec of the payload (of a node, only the labels): metadata, status and all other objects
  are as before.
\<close>

theorem patch_changes_spec:
  assumes world: "api_world ex contents conf" and sound: "well_stored (ex_be ex) (contents (sv_world s))"
    and run: "api_patch ex name payload s = (Inr r, s')"
  defines "path \<equiv> ''/api/v1/'' @ directory payload @ ''/'' @ name"
  shows "\<exists>old new. stored_objects (ex_be ex) (contents (sv_world s)) path = Some old \<and> patched payload old = Some new \<and>
    stored_objects (ex_be ex) (contents (sv_world s')) =
      (stored_objects (ex_be ex) (contents (sv_world s)))(path \<mapsto> new)"
proof -
  obtain kind old new s1 where f: "fetch ex path kind s = (Inr old, s1)" and p: "patched payload old = Some new"
    and st: "store_object ex new s1 = (Inr (), s')"
    using patch_steps [OF run] unfolding path_def by metis
  note fetched = api_world.fetch_run [OF world f sound]
  have "uri_of old = path"
    using api_world.sound_objects [OF world sound fetched(2)] .
  with api_world.store_object_run(1) [OF world st fetched(5)] fetched(1,2) p uri_of_patched [OF p]
  show ?thesis by auto
qed

definition labelled_node :: kube_object where
  "labelled_node = KNode \<lparr>node_metadata = metadata_default\<lparr>md_name := ''n1'', md_labels := [(''gpu'', ''yes'')]\<rparr>,
     node_status = node_status_default\<rparr>"

definition node_world :: "string memory externals" where
  "node_world = mem_externals [(''plain'', stored_node), (''gpu'', labelled_node)] config_table"

definition one_node :: "string \<Rightarrow> string memory server" where
  "one_node js = \<lparr>sv_ip_pool = [], sv_world = ([(''/api/v1/nodes/n1'', js)], ''none'')\<rparr>"

lemma node_world: "api_world node_world mem_contents snd"
  unfolding node_world_def by (rule mem_api_world) (simp_all add: config_table_def)

lemma node_uris: "uri_of labelled_node = ''/api/v1/nodes/n1''" "stored_node \<noteq> labelled_node"
  by (simp_all add: uri_of_def prefix_of_directory directory_def labelled_node_def stored_node_def name_of_def
      metadata_of_def metadata_default_def hm_empty_def)

lemma one_node_sound: "well_stored (ex_be node_world) (mem_contents (sv_world (one_node ''plain'')))"
  by (simp add: well_stored_def mem_contents_def one_node_def node_world_def sample_uris)

lemma patch_node_run:
  "api_patch node_world ''n1'' labelled_node (one_node ''plain'') =
     (Inr (Some ''node/n1 patched'', None), one_node ''gpu'')"
proof -
  have get: "fetch node_world ''/api/v1/nodes/n1'' ''node'' (one_node ''plain'') = (Inr stored_node, one_node ''plain'')"
    unfolding fetch_def must_def in_world_def io_map_err_def node_world_def one_node_def
    by (simp add: mem_get [where js = "''plain''" and x = stored_node])
      (simp add: mem_get [where js = "''plain''" and x = stored_node] stored_node_def kind_of_def
        eq_ignore_ascii_case_def to_lowercase_def char_to_lower_def char_of_eq_iff)
  have put: "store_object node_world labelled_node (one_node ''plain'') = (Inr (), one_node ''gpu'')"
    unfolding store_object_def must_def in_world_def io_map_err_def node_world_def one_node_def
    by (simp add: mem_put [where js = "''gpu''"] node_uris hm_insert_def)
  obtain n where n: "labelled_node = KNode n" by (simp add: labelled_node_def)
  obtain old where old: "stored_node = KNode old" by (simp add: stored_node_def)
  let ?new = "KNode (old\<lparr>node_metadata := (node_metadata old)\<lparr>md_labels := md_labels (node_metadata n)\<rparr>\<rparr>)"
  have "?new = labelled_node"
    using n old by (auto simp: labelled_node_def stored_node_def)
  with put have "store_object node_world ?new (one_node ''plain'') = (Inr (), one_node ''gpu'')" by (simp only:)
  with get show ?thesis
    unfolding n old by (simp add: api_patch_def api_node_patch_def io_bind_def done_msg_def)
qed

theorem patch_changes_spec_witness:
  "stored_objects (ex_be node_world) (mem_contents (sv_world (one_node ''gpu''))) ''/api/v1/nodes/n1'' =
     patched labelled_node stored_node"
proof -
  have "stored_objects (ex_be node_world) (mem_contents (sv_world (one_node ''plain''))) ''/api/v1/nodes/n1'' = Some stored_node"
    by (simp add: stored_objects_def mem_contents_def one_node_def node_world_def)
  moreover have "''/api/v1/'' @ directory labelled_node @ ''/'' @ ''n1'' = ''/api/v1/nodes/n1''"
    by (simp add: labelled_node_def directory_def)
  ultimately show ?thesis
    using patch_changes_spec [OF node_world one_node_sound patch_node_run] by auto
qed

section \<open>Service addresses\<close>

text \<open>Octets as the code draws them: \<open>gen_range(16..32)\<close> and two bytes.\<close>

definition valid_octets :: "nat \<times> nat \<times> nat \<Rightarrow> bool" where
  "valid_octets = (\<lambda>(a, b, c). 16 \<le> a \<and> a < 32 \<and> b < 256 \<and> c < 256)"

lemma service_ip_range:
  assumes "valid_octets d"
  shows "drop_bit 20 (service_ip d) = 2753"
proof -
  obtain a b c where d: "d = (a, b, c)" by (cases d)
  with assms have abc: "16 \<le> a" "a < 32" "b < 256" "c < 256" by (simp_all add: valid_octets_def)
  let ?n = "172 * 16777216 + a * 65536 + b * 256 + c"
  have small: "?n mod 2 ^ LENGTH(32) = ?n" and div: "?n div 2 ^ 20 = 2753" using abc by simp_all
  have "unat (service_ip d) = ?n"
    by (simp only: d service_ip_def prod.case unat_of_nat take_bit_eq_mod small)
  then have "drop_bit 20 (unat (service_ip d)) = 2753"
    by (simp only: drop_bit_eq_div div)
  then have "unat (drop_bit 20 (service_ip d)) = 2753"
    by (simp only: unat_drop_bit_eq)
  then have "unat (drop_bit 20 (service_ip d)) = unat (2753 :: ipv4)" by simp
  then show ?thesis by (rule unsigned_word_eqI)
qed

lemma gen_service_ip_Some:
  "gen_service_ip ds pool = Some (ip, pool') \<Longrightarrow>
     ip \<notin> set pool \<and> pool' = ip # pool \<and> ip \<in> service_ip ` set ds"
  by (induction ds pool rule: gen_service_ip.induct) (auto simp: Let_def split: if_splits)

lemma gen_service_ip_None: "gen_service_ip ds pool = None \<longleftrightarrow> service_ip ` set ds \<subseteq> set pool"
  by (induction ds pool rule: gen_service_ip.induct) (auto simp: Let_def)

text \<open>
  C23. Service addresses: the loop that draws an address returns once it has drawn more different
  addresses than are in use, with a free address of 172.16.0.0/12, which it marks as used.
\<close>

theorem gen_service_ip_returns:
  assumes draws: "list_all valid_octets ds" and more: "card (set pool) < card (service_ip ` set ds)"
  shows "\<exists>ip. gen_service_ip ds pool = Some (ip, ip # pool) \<and> ip \<notin> set pool \<and> drop_bit 20 ip = 2753"
proof -
  have "\<not> service_ip ` set ds \<subseteq> set pool"
    using more card_mono [of "set pool" "service_ip ` set ds"] by auto
  then obtain ip pool' where "gen_service_ip ds pool = Some (ip, pool')"
    using gen_service_ip_None by (metis not_Some_eq surj_pair)
  with gen_service_ip_Some [OF this] draws service_ip_range show ?thesis
    by (auto simp: list_all_iff)
qed

theorem gen_service_ip_returns_witness:
  "\<exists>ip. gen_service_ip [(16, 0, 1), (16, 0, 1), (31, 255, 255)] [service_ip (16, 0, 1)] =
     Some (ip, [ip, service_ip (16, 0, 1)]) \<and> drop_bit 20 ip = 2753"
proof -
  have "card (service_ip ` set [(16, 0, 1), (16, 0, 1), (31, 255, 255)]) = 2"
    by (simp add: service_ip_def)
  with gen_service_ip_returns [of "[(16, 0, 1), (16, 0, 1), (31, 255, 255)]" "[service_ip (16, 0, 1)]"]
  show ?thesis by (auto simp: valid_octets_def)
qed

text \<open>
  C24. Creating a service: the stored service is the payload with a new uid and a cluster address that
  is not in the pool; an address the server chose is added to the pool, one the client chose is
  not, so it can be handed out again.
\<close>

theorem service_create_address:
  assumes world: "api_world ex contents conf" and sound: "well_stored (ex_be ex) (contents (sv_world s))"
    and run: "api_service_create ex env (KService svc) s = (Inr r, s')"
  shows "\<exists>ip. ip \<notin> set (sv_ip_pool s) \<and>
    stored_objects (ex_be ex) (contents (sv_world s')) =
      (stored_objects (ex_be ex) (contents (sv_world s)))(uri_of (KService svc) \<mapsto> KService (svc\<lparr>
        svc_metadata := (svc_metadata svc)\<lparr>md_uid := Some (ev_uuid env)\<rparr>,
        svc_spec := (svc_spec svc)\<lparr>ss_cluster_ip := Some ip\<rparr>\<rparr>)) \<and>
    (case ss_cluster_ip (svc_spec svc) of
       Some chosen \<Rightarrow> ip = chosen \<and> sv_ip_pool s' = sv_ip_pool s
     | None \<Rightarrow> sv_ip_pool s' = ip # sv_ip_pool s)"
proof -
  let ?svc = "svc\<lparr>svc_metadata := (svc_metadata svc)\<lparr>md_uid := Some (ev_uuid env)\<rparr>\<rparr>"
  obtain svc1 s1 where a: "assign_cluster_ip env ?svc s = (Inr svc1, s1)"
    and st: "store_object ex (KService svc1) s1 = (Inr (), s')"
    using run by (auto simp: api_service_create_def elim!: io_bind_InrE simp: done_msg_def)
  obtain ip where ip: "ip \<notin> set (sv_ip_pool s)" "sv_world s1 = sv_world s"
      "svc1 = ?svc\<lparr>svc_spec := (svc_spec svc)\<lparr>ss_cluster_ip := Some ip\<rparr>\<rparr>"
      "case ss_cluster_ip (svc_spec svc) of Some chosen \<Rightarrow> ip = chosen \<and> sv_ip_pool s1 = sv_ip_pool s
       | None \<Rightarrow> sv_ip_pool s1 = ip # sv_ip_pool s"
    using a by (auto simp: assign_cluster_ip_def draw_service_ip_def io_bind_def dest!: gen_service_ip_Some
        split: option.splits if_splits)
  have "uri_of (KService svc1) = uri_of (KService svc)"
    by (simp add: ip(3) uri_of_def prefix_of_directory directory_def name_of_def metadata_of_def)
  with api_world.store_object_run [OF world st] sound ip show ?thesis
    by (intro exI [of _ ip]) (auto split: option.splits)
qed

definition plain_service :: service where
  "plain_service = \<lparr>svc_metadata = metadata_default\<lparr>md_name := ''web''\<rparr>,
     svc_spec = \<lparr>ss_selector = hm_empty, ss_ports = [], ss_endpoints = [], ss_cluster_ip = None\<rparr>\<rparr>"

definition created_service :: service where
  "created_service = \<lparr>svc_metadata = metadata_default\<lparr>md_name := ''web'', md_uid := Some 1\<rparr>,
     svc_spec = \<lparr>ss_selector = hm_empty, ss_ports = [], ss_endpoints = [],
       ss_cluster_ip = Some (service_ip (16, 0, 1))\<rparr>\<rparr>"

definition service_world :: "string memory externals" where
  "service_world = mem_externals [(''svc'', KService created_service)] config_table"

lemma service_world: "api_world service_world mem_contents snd"
  unfolding service_world_def by (rule mem_api_world) (simp_all add: config_table_def)

lemma sample_env_uuid [simp]: "ev_uuid sample_env = 1"
  by (simp add: sample_env_def)

lemma service_create_run:
  "api_service_create service_world sample_env (KService plain_service) empty_server =
     (Inr (Some ''service/web created'', None), \<lparr>sv_ip_pool = [service_ip (16, 0, 1)],
        sv_world = ([(''/api/v1/services/web'', ''svc'')], ''none'')\<rparr>)"
proof -
  have uri: "uri_of (KService created_service) = ''/api/v1/services/web''"
    by (simp add: uri_of_def prefix_of_directory directory_def name_of_def metadata_of_def created_service_def)
  have put: "etcd_put (ex_be service_world) (KService created_service) (hm_empty, ''none'') =
      (Inr (), ([(''/api/v1/services/web'', ''svc'')], ''none''))"
    by (simp add: service_world_def mem_put [where js = "''svc''"] uri hm_insert_def hm_empty_def)
  let ?plain = "plain_service\<lparr>svc_metadata := (svc_metadata plain_service)\<lparr>md_uid := Some 1\<rparr>\<rparr>"
  let ?s1 = "empty_server\<lparr>sv_ip_pool := [service_ip (16, 0, 1)]\<rparr>"
  have draw: "draw_service_ip sample_env empty_server = (Inr (service_ip (16, 0, 1)), ?s1)"
    by (simp add: draw_service_ip_def sample_env_def empty_server_def Let_def)
  have created: "?plain\<lparr>svc_spec := (svc_spec ?plain)\<lparr>ss_cluster_ip := Some (service_ip (16, 0, 1))\<rparr>\<rparr> = created_service"
    "ss_cluster_ip (svc_spec ?plain) = None" "md_name (svc_metadata created_service) = ''web''"
    by (simp_all add: plain_service_def created_service_def)
  then have assign: "assign_cluster_ip sample_env ?plain empty_server = (Inr created_service, ?s1)"
    by (simp only: assign_cluster_ip_def option.case io_bind_def draw prod.case sum.case io_return_apply)
  have put: "store_object service_world (KService created_service) ?s1 = (Inr (), \<lparr>sv_ip_pool = [service_ip (16, 0, 1)],
      sv_world = ([(''/api/v1/services/web'', ''svc'')], ''none'')\<rparr>)"
    using put by (simp add: store_object_def must_def in_world_def io_map_err_def empty_server_def)
  show ?thesis
    by (simp add: api_service_create_def io_bind_def assign put done_msg_def created(3) del: One_nat_def)
qed

theorem service_create_address_witness:
  "\<exists>ip. ip \<notin> {} \<and> stored_objects (ex_be service_world)
     (mem_contents ([(''/api/v1/services/web'', ''svc'')], ''none'')) (uri_of (KService plain_service)) =
     Some (KService (plain_service\<lparr>svc_metadata := (svc_metadata plain_service)\<lparr>md_uid := Some 1\<rparr>,
        svc_spec := (svc_spec plain_service)\<lparr>ss_cluster_ip := Some ip\<rparr>\<rparr>))"
  using service_create_address [OF service_world empty_server_sound service_create_run]
  by (auto simp: sample_env_def)

section \<open>Scrape targets of nodes\<close>

lemma fetch_conf:
  assumes "api_world ex contents conf"
  shows "try_fetch ex uri kind s = (r, s') \<Longrightarrow> conf (sv_world s') = conf (sv_world s)"
    and "fetch ex uri kind s = (q, s') \<Longrightarrow> conf (sv_world s') = conf (sv_world s)"
    and "store_object ex x s = (p, s') \<Longrightarrow> conf (sv_world s') = conf (sv_world s)"
    and "erase ex uri s = (p, s') \<Longrightarrow> conf (sv_world s') = conf (sv_world s)"
  using preservesD [OF api_world.operations_conf(2) [OF assms] refl]
    preservesD [OF api_world.operations_conf(1) [OF assms] refl]
    preservesD [OF api_world.operations_conf(3) [OF assms] refl]
    preservesD [OF api_world.operations_conf(4) [OF assms] refl]
  by simp_all

lemma node_uri: "uri_of (KNode n) = ''/api/v1/nodes/'' @ md_name (node_metadata n)"
  by (simp add: uri_of_def prefix_of_directory directory_def name_of_def metadata_of_def)

text \<open>The two requests as steps: what is stored, and the change of the targets.\<close>

lemma node_update_steps:
  assumes world: "api_world ex contents conf" and sound: "well_stored (ex_be ex) (contents (sv_world s))"
    and new: "stored_objects (ex_be ex) (contents (sv_world s)) (uri_of (KNode n)) = None"
    and update: "api_node_update ex env (md_name (node_metadata n)) (KNode n) s = (Inr r, s1)"
  obtains n1 s2 s3 where "node_status n1 = node_status n" "conf (sv_world s2) = conf (sv_world s)"
    "conf (sv_world s1) = conf (sv_world s3)" "well_stored (ex_be ex) (contents (sv_world s1))"
    "stored_objects (ex_be ex) (contents (sv_world s1)) (uri_of (KNode n)) = Some (KNode n1)"
    "case hm_get (ns_addresses (node_status n)) InternalIP of None \<Rightarrow> s3 = s2
     | Some ip \<Rightarrow> in_world (add_scrape_target (ex_pr ex) ''cadvisor'' (cadvisor_target ip)) s2 = (Inr (), s3)"
proof -
  let ?uri = "''/api/v1/nodes/'' @ md_name (node_metadata n)"
  obtain q s2 n1 s3 where f: "try_fetch ex ?uri ''node'' s = (Inr q, s2)"
    and reg: "registered_node ex env q n s2 = (Inr n1, s3)" and st: "store_object ex (KNode n1) s3 = (Inr (), s1)"
    using update by (auto simp: api_node_update_def elim!: io_bind_InrE)
  note tf = api_world.try_fetch_run [OF world f sound]
  obtain e where q: "q = Inl e"
    using tf(1) new by (cases q) (auto simp: node_uri)
  let ?n1 = "n\<lparr>node_metadata := (node_metadata n)\<lparr>md_uid := Some (ev_uuid env)\<rparr>\<rparr>"
  have n1: "n1 = ?n1" and add: "case hm_get (ns_addresses (node_status n)) InternalIP of None \<Rightarrow> s3 = s2
     | Some ip \<Rightarrow> in_world (add_scrape_target (ex_pr ex) ''cadvisor'' (cadvisor_target ip)) s2 = (Inr (), s3)"
    using reg q by (auto simp: registered_node_def Let_def elim!: io_bind_InrE split: option.splits)
  have "preserves (\<lambda>s. well_stored (ex_be ex) (contents (sv_world s))) (registered_node ex env q n)"
    using api_world.targets_sound [OF world] unfolding registered_node_def Let_def
    by (auto intro!: preserves_rules split: kube_object.split sum.split option.split)
  then have s3: "well_stored (ex_be ex) (contents (sv_world s3))" using tf(4) reg by (rule preservesD)
  note stored = api_world.store_object_run [OF world st s3]
  have "uri_of (KNode n1) = uri_of (KNode n)" by (simp add: n1 node_uri)
  with stored fetch_conf(1) [OF world f] fetch_conf(3) [OF world st] n1 add show ?thesis
    by (intro that [of n1 s2 s3]) simp_all
qed

lemma node_delete_steps:
  assumes world: "api_world ex contents conf" and sound: "well_stored (ex_be ex) (contents (sv_world s))"
    and stored: "stored_objects (ex_be ex) (contents (sv_world s)) (''/api/v1/nodes/'' @ name) = Some (KNode n)"
    and delete: "api_node_delete ex name s = (Inr r, s1)"
  obtains s2 where "conf (sv_world s2) = conf (sv_world s)"
    "case hm_get (ns_addresses (node_status n)) InternalIP of None \<Rightarrow> s1 = s2
     | Some ip \<Rightarrow> in_world (remove_scrape_target (ex_pr ex) ''cadvisor'' (cadvisor_target ip)) s2 = (Inr (), s1)"
proof -
  let ?uri = "''/api/v1/nodes/'' @ name"
  obtain x s3 s2 where f: "fetch ex ?uri ''node'' s = (Inr x, s3)" and er: "erase ex ?uri s3 = (Inr (), s2)"
    and un: "unregister_node ex x s2 = (Inr (), s1)"
    using delete by (auto simp: api_node_delete_def done_msg_def elim!: io_bind_InrE)
  have "x = KNode n" using api_world.fetch_run(2) [OF world f sound] stored by simp
  with un fetch_conf(2) [OF world f] fetch_conf(4) [OF world er] show ?thesis
    by (intro that [of s2]) (auto simp: unregister_node_def split: option.splits)
qed


definition kubelet_node :: "uuid option \<Rightarrow> node" where
  "kubelet_node uid = \<lparr>node_metadata = metadata_default\<lparr>md_name := ''n1'', md_uid := uid\<rparr>,
     node_status = node_status_default\<lparr>ns_addresses := [(InternalIP, ''10.0.0.1'')]\<rparr>\<rparr>"

definition kubelet_world :: "string memory externals" where
  "kubelet_world = mem_externals [(''node'', KNode (kubelet_node (Some 1)))] config_table"

definition registered_server :: "string memory server" where
  "registered_server = \<lparr>sv_ip_pool = [], sv_world = ([(''/api/v1/nodes/n1'', ''node'')], ''one'')\<rparr>"

lemma kubelet_world: "api_world kubelet_world mem_contents snd"
  unfolding kubelet_world_def by (rule mem_api_world) (simp_all add: config_table_def)

lemma kubelet_targets:
  "add_scrape_target (ex_pr kubelet_world) ''cadvisor'' (cadvisor_target ''10.0.0.1'') (m, ''none'') = (Inr (), (m, ''one''))"
  "remove_scrape_target (ex_pr kubelet_world) ''cadvisor'' (cadvisor_target ''10.0.0.1'') (m, ''one'') = (Inr (), (m, ''none''))"
  by (simp_all add: add_scrape_target_def remove_scrape_target_def read_config_def write_config_def
      reload_config_def must_def io_bind_def io_map_err_def kubelet_world_def mem_externals_def
      mem_prometheus_def config_table_def cadvisor_config_def add_job_target_def remove_job_target_def
      push_target_def drop_target_def cadvisor_target_def)

lemma kubelet_node_update:
  "api_node_update kubelet_world sample_env ''n1'' (KNode (kubelet_node None)) empty_server =
     (Inr (Some ''node/n1 updated'', Some (DObject (KNode (kubelet_node (Some 1))))), registered_server)"
proof -
  have get: "try_fetch kubelet_world ''/api/v1/nodes/n1'' ''node'' empty_server =
      (Inr (Inl (err_not_found ''value doesn't exist'' None)), empty_server)"
    by (simp add: try_fetch_def attempt_def in_world_def kubelet_world_def empty_server_def mem_get_none)
  let ?s1 = "empty_server\<lparr>sv_world := (hm_empty, ''one'')\<rparr>"
  have uid: "(kubelet_node None)\<lparr>node_metadata := (node_metadata (kubelet_node None))\<lparr>md_uid := Some 1\<rparr>\<rparr> =
      kubelet_node (Some 1)" "hm_get (ns_addresses (node_status (kubelet_node u))) InternalIP = Some ''10.0.0.1''" for u
    by (simp_all add: kubelet_node_def)
  have reg: "registered_node kubelet_world sample_env (Inl e) (kubelet_node None) empty_server =
      (Inr (kubelet_node (Some 1)), ?s1)" for e
    by (simp add: registered_node_def uid io_bind_def in_world_def empty_server_def kubelet_targets)
  have put: "store_object kubelet_world (KNode (kubelet_node (Some 1))) ?s1 = (Inr (), registered_server)"
    by (simp add: store_object_def must_def in_world_def io_map_err_def kubelet_world_def registered_server_def
        empty_server_def mem_put [where js = "''node''"] node_uri hm_insert_def hm_empty_def)
      (simp add: kubelet_node_def)
  show ?thesis
    by (simp add: api_node_update_def io_bind_def get reg put)
qed

lemma kubelet_node_delete:
  "api_node_delete kubelet_world ''n1'' registered_server = (Inr (Some ''node/n1 deleted'', None), empty_server)"
proof -
  have get: "fetch kubelet_world ''/api/v1/nodes/n1'' ''node'' registered_server =
      (Inr (KNode (kubelet_node (Some 1))), registered_server)"
    by (simp add: fetch_def must_def in_world_def io_map_err_def kubelet_world_def registered_server_def
        mem_get [where js = "''node''" and x = "KNode (kubelet_node (Some 1))"] kind_of_def
        eq_ignore_ascii_case_def to_lowercase_def char_to_lower_def char_of_eq_iff)
  let ?s1 = "registered_server\<lparr>sv_world := (hm_empty, ''one'')\<rparr>"
  have del: "erase kubelet_world ''/api/v1/nodes/n1'' registered_server = (Inr (), ?s1)"
    by (simp add: erase_def must_def in_world_def io_map_err_def kubelet_world_def registered_server_def
        mem_delete hm_remove_def hm_empty_def)
  have un: "unregister_node kubelet_world (KNode (kubelet_node (Some 1))) ?s1 = (Inr (), empty_server)"
    by (simp add: unregister_node_def kubelet_node_def in_world_def kubelet_targets registered_server_def empty_server_def)
  show ?thesis
    by (simp add: api_node_delete_def io_bind_def get del un done_msg_def)
qed


section \<open>Names of uploaded files\<close>

lemma before_dot_single:
  assumes "CHR ''.'' \<notin> set ext" and "stem \<noteq> []"
  shows "before_dot (stem @ ''.'' @ ext) = Some stem"
proof -
  have "dropWhile (\<lambda>c. c \<noteq> CHR ''.'') (rev ext @ CHR ''.'' # rev stem) = CHR ''.'' # rev stem"
    using assms(1) by (induction ext rule: rev_induct) auto
  moreover obtain c t where "rev stem = c # t" using assms(2) by (cases "rev stem") auto
  ultimately show ?thesis
    by (simp add: before_dot_def)
qed

lemma before_dot_none: "CHR ''.'' \<notin> set name \<Longrightarrow> before_dot name = None"
  by (simp add: before_dot_def dropWhile_eq_Nil_conv [THEN iffD2] list.case_eq_if)

lemma path_file_name_simple:
  assumes "CHR ''/'' \<notin> set name" and "name \<noteq> []" and "name \<noteq> ''.''" and "name \<noteq> ''..''"
  shows "path_file_name name = Some name"
  using assms by (simp add: path_file_name_def split_on_no_sep)

text \<open>
  Uploaded files: for a zip file whose name has no other dot, the five random characters end up
  before the extension; if the rest of the name has a dot of its own, everything after it, the random
  characters included, is replaced by the extension, so every upload gets the same name.
\<close>

theorem unique_filename_zip:
  assumes "CHR ''/'' \<notin> set stem" and "CHR ''.'' \<notin> set stem" and "stem \<noteq> []"
    and "CHR ''/'' \<notin> set rest" and "CHR ''.'' \<notin> set rest" and "CHR ''.'' \<notin> set chars"
  shows "unique_filename chars (stem @ ''.zip'') = stem @ chars @ ''.zip'' \<and>
    unique_filename chars (stem @ ''.'' @ rest @ ''.zip'') = stem @ ''.zip''"
proof
  have zip: "CHR ''.'' \<notin> set ''zip''" by simp
  have "path_file_name (stem @ ''.zip'') = Some (stem @ ''.zip'')"
    using assms by (intro path_file_name_simple) (auto simp: Cons_eq_append_conv append_eq_Cons_conv)
  moreover have "before_dot (stem @ chars) = None" using assms by (intro before_dot_none) simp
  ultimately show "unique_filename chars (stem @ ''.zip'') = stem @ chars @ ''.zip''"
    using before_dot_single [OF zip, of stem] assms(3)
    by (simp add: unique_filename_def file_stem_def file_extension_def set_extension_def)
  have "path_file_name ((stem @ ''.'' @ rest) @ ''.zip'') = Some ((stem @ ''.'' @ rest) @ ''.zip'')"
    using assms by (intro path_file_name_simple) (auto simp: Cons_eq_append_conv append_eq_Cons_conv)
  moreover have "before_dot ((stem @ ''.'' @ rest) @ ''.zip'') = Some (stem @ ''.'' @ rest)"
    using before_dot_single [OF zip, of "stem @ ''.'' @ rest"] by simp
  moreover have "before_dot (stem @ ''.'' @ rest @ chars) = Some stem"
    using assms by (intro before_dot_single) auto
  ultimately show "unique_filename chars (stem @ ''.'' @ rest @ ''.zip'') = stem @ ''.zip''"
    by (simp add: unique_filename_def file_stem_def file_extension_def set_extension_def)
qed

theorem unique_filename_zip_witness:
  "unique_filename ''aB3dE'' ''my.app.zip'' = ''my.zip'' \<and> unique_filename ''xYzzy'' ''my.app.zip'' = ''my.zip''"
  using unique_filename_zip [of "''my''" "''app''" "''aB3dE''"] unique_filename_zip [of "''my''" "''app''" "''xYzzy''"]
  by simp

end
