(* ===== verification/ApiErrors.thy ===== *)
theory ApiErrors
  imports ApiServer
begin

text \<open>
  How the handlers of the API server fail. \<open>fails_in E m\<close>: every failure of \<open>m\<close> is in \<open>E\<close>, whatever
  the replies of etcd, of Prometheus and of the file system are; no contract is assumed.
\<close>

definition fails_in :: "('e \<Rightarrow> bool) \<Rightarrow> ('s, 'e, 'a) eio \<Rightarrow> bool" where
  "fails_in E m \<longleftrightarrow> (\<forall>s e s'. m s = (Inl e, s') \<longrightarrow> E e)"

named_theorems fails_rules "how the operations of the monad fail"

lemma fails_inD: "fails_in E m \<Longrightarrow> m s = (Inl e, s') \<Longrightarrow> E e"
  unfolding fails_in_def by blast

lemma fails_return [fails_rules]: "fails_in E (io_return a)"
  and fails_fail [fails_rules]: "E e \<Longrightarrow> fails_in E (io_fail e)"
  and fails_lift [fails_rules]: "(\<And>e. r = Inl e \<Longrightarrow> E e) \<Longrightarrow> fails_in E (io_lift r)"
  and fails_Pair [fails_rules]: "(\<And>e. r = Inl e \<Longrightarrow> E e) \<Longrightarrow> fails_in E (Pair r)"
  and fails_attempt [fails_rules]: "fails_in E (attempt m)"
  by (auto simp: fails_in_def attempt_def split: prod.splits)

lemma fails_bind [fails_rules]:
  "fails_in E m \<Longrightarrow> (\<And>a. fails_in E (f a)) \<Longrightarrow> fails_in E (io_bind m f)"
  unfolding fails_in_def by (blast elim: io_bindE)

lemma fails_map_err: "(\<And>e. E (f e)) \<Longrightarrow> fails_in E (io_map_err f m)"
  unfolding fails_in_def by (blast elim: io_map_errE)

lemma fails_map_err_from: "fails_in D m \<Longrightarrow> (\<And>e. D e \<Longrightarrow> E (f e)) \<Longrightarrow> fails_in E (io_map_err f m)"
  unfolding fails_in_def by (blast elim: io_map_errE)

lemma fails_in_world: "fails_in E m \<Longrightarrow> fails_in E (in_world m)"
  unfolding fails_in_def in_world_def by (auto split: prod.splits)

lemma ok_or_Inl_iff [simp]: "ok_or e x = Inl e' \<longleftrightarrow> x = None \<and> e' = e"
  by (cases x) auto

text \<open>The statuses of error replies.\<close>

definition error_status :: "err_response \<Rightarrow> bool" where
  "error_status e \<longleftrightarrow> er_status e \<in> {400, 404, 500}"

definition known_fault :: "api_fault \<Rightarrow> bool" where
  "known_fault f = (case f of ApiErr e \<Rightarrow> error_status e | ApiPanic _ \<Rightarrow> True)"

lemma error_status_simps [simp]:
  "error_status (err_new msg cause)" "error_status (err_not_found msg cause)"
  "error_status (err_bad_request msg cause)" "error_status (etcd_error failure)"
  "known_fault (ApiErr err) = error_status err" "known_fault (ApiPanic p)"
  by (simp_all add: error_status_def err_new_def err_not_found_def err_bad_request_def etcd_error_def known_fault_def)

lemma fails_api_err [fails_rules]: "fails_in known_fault (api_err msg cause)"
  and fails_done [fails_rules]: "fails_in E (done_msg msg)"
  and fails_expecting [fails_rules]: "fails_in known_fault (expecting msg kind payload)"
  by (auto simp: expecting_def api_err_def done_msg_def intro: fails_rules)

lemma fails_must: "fails_in error_status m \<Longrightarrow> fails_in known_fault (must m)"
  unfolding must_def by (erule fails_map_err_from) simp

subsection \<open>etcd\<close>

lemma collect_objects_fails: "collect_objects be kind kvs = Inl e \<Longrightarrow> error_status e"
  by (induction be kind kvs rule: collect_objects.induct)
    (auto simp: decode_object_def ok_or_def split: option.splits sum.splits if_splits)

lemma etcd_fails [fails_rules]:
  "fails_in error_status (etcd_put be x)"
  "fails_in error_status (etcd_get_object be uri kind)"
  "fails_in error_status (etcd_delete be uri)"
  "fails_in error_status (etcd_get_objects_by_prefix be uri kind)"
  unfolding etcd_put_unfold etcd_get_object_def etcd_get_unfold etcd_delete_unfold etcd_list_unfold
    get_client_def get_value_str_def decode_object_def ok_or_def
  by (auto intro!: fails_rules fails_map_err split: option.splits list.splits dest: collect_objects_fails)

lemma operations_fail [fails_rules]:
  "fails_in known_fault (fetch ex uri kind)"
  "fails_in known_fault (try_fetch ex uri kind)"
  "fails_in known_fault (enumerate_kind ex uri kind)"
  "fails_in known_fault (store_object ex x)"
  "fails_in known_fault (erase ex uri)"
  "fails_in known_fault (erase_quietly ex uri)"
  unfolding fetch_def try_fetch_def enumerate_kind_def store_object_def erase_def erase_quietly_def
  by (intro fails_rules fails_must fails_in_world)+

lemma generic_fails [fails_rules]:
  "fails_in known_fault (get_named ex uri kind)"
  "fails_in known_fault (list_kind ex uri kind)"
  "fails_in known_fault (delete_named ex uri msg)"
  unfolding get_named_def list_kind_def delete_named_def by (intro fails_rules)+

subsection \<open>Metrics and files\<close>

lemma note_samples_fails: "note_samples r conv xs pods = Inl e \<Longrightarrow> error_status e"
  by (induction r conv xs pods rule: note_samples.induct)
    (auto simp: unwrap_instant_value_def split: option.splits sum.splits prod.splits list.splits)

lemma metrics_fail [fails_rules]:
  "fails_in known_fault (list_pods pr now selector)"
  "fails_in known_fault (get_function pr now name)"
  "fails_in known_fault (add_scrape_target pr job t)"
  "fails_in known_fault (remove_scrape_target pr job t)"
  unfolding list_pods_def get_function_def add_scrape_target_def remove_scrape_target_def
    read_config_def write_config_def reload_config_def unwrap_vector_result_def parse_selector_def
    unwrap_instant_value_def index_out_of_bounds_def
  by (auto intro!: fails_rules fails_map_err fails_must dest: note_samples_fails
      split: option.splits sum.splits prom_error.splits response_data.splits list.splits)

lemma targets_fail [fails_rules]:
  "fails_in known_fault (add_target pr m)"
  "fails_in known_fault (remove_target pr m)"
  unfolding add_target_def remove_target_def by (auto intro!: fails_rules split: option.splits)

lemma draw_service_ip_fails [fails_rules]: "fails_in known_fault (draw_service_ip env)"
  by (auto simp: fails_in_def draw_service_ip_def no_address_left_def split: option.splits)

lemma assign_cluster_ip_fails [fails_rules]: "fails_in known_fault (assign_cluster_ip env svc)"
proof (cases "ss_cluster_ip (svc_spec svc)")
  case None
  then show ?thesis by (auto simp: assign_cluster_ip_def intro!: fails_rules)
next
  case (Some ip)
  then show ?thesis by (auto simp: assign_cluster_ip_def fails_in_def)
qed

lemma read_form_fails [fails_rules]: "fails_in known_fault (read_form ex env tag form payload filename)"
proof (induction ex env tag form payload filename rule: read_form.induct)
  case (1 ex env tag payload filename)
  then show ?case by (simp only: read_form.simps fails_return)
next
  case (2 ex env tag e fs payload filename)
  then show ?case by (auto intro: fails_rules simp del: io_fail_apply)
next
  case (3 ex env tag f fs payload filename)
  have "fails_in known_fault (store_code_file env f)"
    unfolding store_code_file_def stream_to_tmp_file_def Let_def
    by (auto intro!: fails_rules fails_must fails_in_world fails_map_err)
  moreover have "fails_in known_fault (decode_field_json ex f)"
    unfolding decode_field_json_def ok_or_def by (auto intro!: fails_rules split: option.splits)
  ultimately show ?case using 3 by (auto simp: Let_def intro!: fails_rules)
qed

lemma await_image_fails [fails_rules]: "fails_in known_fault (await_image ex env payload left)"
proof (induction left)
  case 0
  then show ?case
    by (subst await_image.simps)
      (auto intro!: fails_rules simp: image_ready_def fails_in_def [of _ "sleep env"] sleep_def
        split: kube_object.splits option.splits)
next
  case (Suc left)
  then show ?case
    by (subst await_image.simps)
      (auto intro!: fails_rules simp: image_ready_def fails_in_def [of _ "sleep env"] sleep_def
        split: kube_object.splits option.splits)
qed

subsection \<open>The handlers\<close>

lemma pod_handlers_fail [fails_rules]:
  "fails_in known_fault (api_pod_create ex env payload)"
  "fails_in known_fault (api_pod_get ex name)"
  "fails_in known_fault (api_pod_replace ex name payload)"
  "fails_in known_fault (api_pod_delete ex name)"
  "fails_in known_fault (api_pod_list ex)"
  unfolding api_pod_create_def api_pod_get_def api_pod_replace_def api_pod_delete_def api_pod_list_def Let_def
  by (auto intro!: fails_rules split: kube_object.split)

lemma bind_fails [fails_rules]: "fails_in known_fault (api_bind ex payload)"
  unfolding api_bind_def Let_def by (auto intro!: fails_rules split: kube_object.split)

lemma rs_handlers_fail [fails_rules]:
  "fails_in known_fault (api_rs_create ex env payload)"
  "fails_in known_fault (api_rs_get ex name)"
  "fails_in known_fault (api_rs_delete ex name)"
  "fails_in known_fault (api_rs_update ex name payload)"
  "fails_in known_fault (api_rs_patch ex name payload)"
  "fails_in known_fault (api_rs_list ex)"
  unfolding api_rs_create_def api_rs_get_def api_rs_delete_def api_rs_update_def api_rs_patch_def
    api_rs_list_def Let_def
  by (auto intro!: fails_rules split: kube_object.split)

lemma hpa_handlers_fail [fails_rules]:
  "fails_in known_fault (api_hpa_create ex env payload)"
  "fails_in known_fault (api_hpa_get ex name)"
  "fails_in known_fault (api_hpa_delete ex name)"
  "fails_in known_fault (api_hpa_update ex name payload)"
  "fails_in known_fault (api_hpa_patch ex name payload)"
  "fails_in known_fault (api_hpa_list ex)"
  unfolding api_hpa_create_def api_hpa_get_def api_hpa_delete_def api_hpa_update_def api_hpa_patch_def
    api_hpa_list_def Let_def
  by (auto intro!: fails_rules split: kube_object.split sum.split)

lemma service_handlers_fail [fails_rules]:
  "fails_in known_fault (api_service_create ex env payload)"
  "fails_in known_fault (api_service_update ex payload)"
  "fails_in known_fault (api_service_list ex)"
  "fails_in known_fault (api_service_get ex name)"
  "fails_in known_fault (api_service_delete ex name)"
  unfolding api_service_create_def api_service_update_def api_service_list_def api_service_get_def
    api_service_delete_def Let_def
  by (auto intro!: fails_rules split: kube_object.split)

lemma assign_hosts_fails: "assign_hosts hosts i rules = Inl e \<Longrightarrow> error_status e"
  by (induction hosts i rules rule: assign_hosts.induct) (auto split: option.splits sum.splits if_splits)

lemma ingress_handlers_fail [fails_rules]:
  "fails_in known_fault (api_ingress_create ex env payload)"
  "fails_in known_fault (api_ingress_update ex payload)"
  "fails_in known_fault (api_ingress_list ex)"
  "fails_in known_fault (api_ingress_get ex name)"
  "fails_in known_fault (api_ingress_delete ex name)"
  unfolding api_ingress_create_def api_ingress_update_def api_ingress_list_def api_ingress_get_def
    api_ingress_delete_def Let_def
  by (auto intro!: fails_rules fails_must dest: assign_hosts_fails split: kube_object.split)

lemma node_handlers_fail [fails_rules]:
  "fails_in known_fault (api_node_list ex)"
  "fails_in known_fault (api_node_get ex name)"
  "fails_in known_fault (api_node_update ex env name payload)"
  "fails_in known_fault (api_node_delete ex name)"
  "fails_in known_fault (api_node_patch ex name payload)"
  unfolding api_node_list_def api_node_get_def api_node_update_def api_node_delete_def api_node_patch_def
    registered_node_def unregister_node_def Let_def
  by (auto intro!: fails_rules fails_in_world split: kube_object.split sum.split option.split)

lemma job_handlers_fail [fails_rules]:
  "fails_in known_fault (api_job_create ex env form)"
  "fails_in known_fault (api_job_get ex name)"
  "fails_in known_fault (api_job_delete ex name)"
  "fails_in known_fault (api_job_update ex name payload)"
  "fails_in known_fault (api_job_patch ex name payload)"
  "fails_in known_fault (api_job_list ex)"
  unfolding api_job_create_def api_job_get_def api_job_delete_def api_job_update_def api_job_patch_def
    api_job_list_def Let_def
  by (auto intro!: fails_rules split: kube_object.split)

lemma function_handlers_fail [fails_rules]:
  "fails_in known_fault (api_function_create ex env form)"
  "fails_in known_fault (api_function_get ex name)"
  "fails_in known_fault (api_function_list ex)"
  "fails_in known_fault (api_function_update ex payload)"
  "fails_in known_fault (api_function_delete ex name)"
  unfolding api_function_create_def api_function_get_def api_function_list_def api_function_update_def
    api_function_delete_def Let_def
  by (auto intro!: fails_rules split: kube_object.split option.split)

lemma workflow_handlers_fail [fails_rules]:
  "fails_in known_fault (api_workflow_create ex env payload)"
  "fails_in known_fault (api_workflow_update ex payload)"
  "fails_in known_fault (api_workflow_get ex name)"
  "fails_in known_fault (api_workflow_delete ex name)"
  "fails_in known_fault (api_workflow_list ex)"
proof -
  have [fails_rules]: "fails_in known_fault (validate_workflow ex flow)" for flow
    unfolding validate_workflow_def by (rule fails_map_err) simp
  show "fails_in known_fault (api_workflow_create ex env payload)"
    "fails_in known_fault (api_workflow_update ex payload)"
    "fails_in known_fault (api_workflow_get ex name)"
    "fails_in known_fault (api_workflow_delete ex name)"
    "fails_in known_fault (api_workflow_list ex)"
    unfolding api_workflow_create_def api_workflow_update_def api_workflow_get_def api_workflow_delete_def
      api_workflow_list_def Let_def
    by (auto intro!: fails_rules split: kube_object.split)
qed

lemma proxies_never_fail [fails_rules]:
  "fails_in E (proxy_to_rkubelet ex path_query pod_name)"
  "fails_in E (api_job_logs ex job_name)"
proof -
  have tf: "fails_in E (try_fetch ex u k)" for u k
    unfolding try_fetch_def by (rule fails_attempt)
  show proxy: "fails_in E (proxy_to_rkubelet ex path_query pod_name)" for path_query pod_name
    unfolding proxy_to_rkubelet_def pod_node_rkubelet_addr_def get_pod_node_def
    by (auto intro!: fails_rules tf split: kube_object.split sum.split option.split)
  show "fails_in E (api_job_logs ex job_name)"
    unfolding api_job_logs_def Let_def
    by (auto intro!: fails_rules proxy tf split: sum.split list.split)
qed

section \<open>Replies\<close>

definition routed_fails :: "'w routed \<Rightarrow> bool" where
  "routed_fails r \<longleftrightarrow> (case r of Run h \<Rightarrow> fails_in known_fault h | PassOn h \<Rightarrow> fails_in (\<lambda>_. False) h
     | Rejected status e \<Rightarrow> status \<in> {400, 415, 422} | _ \<Rightarrow> True)"

lemma routed_fails_intros:
  "fails_in known_fault h \<Longrightarrow> routed_fails (Run h)"
  "fails_in (\<lambda>_. False) p \<Longrightarrow> routed_fails (PassOn p)"
  "routed_fails NoRoute" "routed_fails NoMethod" "routed_fails (Watch pre)"
  "routed_fails (ExecIn pq name)"
  "(\<And>x. fails_in known_fault (f x)) \<Longrightarrow> routed_fails (on_json body f)"
  "(\<And>x. fails_in known_fault (g x)) \<Longrightarrow> routed_fails (on_map body g)"
  "(\<And>x. fails_in known_fault (k x)) \<Longrightarrow> routed_fails (on_form body k)"
  "routed_fails q \<Longrightarrow> routed_fails (only_get m q)"
  by (simp_all add: routed_fails_def on_json_def on_map_def on_form_def only_get_def split: request_body.split)

lemma route_fails: "routed_fails (route ex env m path selector body)"
proof -
  note intros = routed_fails_intros fails_rules fails_in_world
  have coll: "routed_fails (route_collection ex env m kind body)" for kind
    unfolding route_collection_def pod_collection_def rs_collection_def service_collection_def
      ingress_collection_def hpa_collection_def job_collection_def function_collection_def
      workflow_collection_def
    by (auto intro!: intros split: http_method.split)
  have item: "routed_fails (route_item ex env m kind name selector body)" for kind name
    unfolding route_item_def pod_item_def rs_item_def service_item_def ingress_item_def hpa_item_def
      job_item_def function_item_def workflow_item_def node_item_def metrics_targets_def
    by (auto intro!: intros split: http_method.split)
  have inner: "routed_fails (route_container ex m path b d e)" for b d e
    unfolding route_container_def pod_logs_def by (auto intro!: intros)
  have deep: "routed_fails (route_deep ex env m path segs)" for segs
    unfolding route_deep_def pod_logs_def
    by (rule segment_cases [where P = routed_fails]) (auto intro!: intros inner)
  show ?thesis
    unfolding route_def by (auto intro!: intros coll item deep split: list.split)
qed



end
