(* ===== verification/ReplicaSetController.thy ===== *)
theory ReplicaSetController
  imports Workload
begin

text \<open>
  The replica set controller (\<open>controllers/src/replica_set/controller.rs\<close>). Its state is the two stores
  its informers keep; it only reads them. Every event of the select loop is a handler that runs
  against the API server.

  The lemmas: the exact requests of every handler, and what the calculated status counts.
\<close>

section \<open>State and helpers\<close>

record rs_controller =
  rsc_rs_store :: "(string, replica_set) hashmap"
  rsc_pod_store :: "(string, pod) hashmap"

definition rs_resolve_owner :: "rs_controller \<Rightarrow> object_reference list \<Rightarrow> replica_set option" where
  "rs_resolve_owner c refs = resolve_owner ''ReplicaSet'' ''/api/v1/replicasets/'' (rsc_rs_store c) refs"

definition rs_get_pods :: "rs_controller \<Rightarrow> replica_set \<Rightarrow> pod list" where
  "rs_get_pods c rs = filter (\<lambda>p. labels_matches (md_labels (pod_metadata p)) (rsp_selector (rs_spec rs)))
     (hm_values (rsc_pod_store c))"

definition rs_calculate_status :: "rs_controller \<Rightarrow> replica_set \<Rightarrow> replica_set_status" where
  "rs_calculate_status c rs =
     (let pods = rs_get_pods c rs in
      \<lparr>rss_replicas = of_nat (length pods),
       rss_ready_replicas = sum_list (map (\<lambda>p. if pod_is_ready p then 1 else 0) pods)\<rparr>)"

definition rs_get_pod_to_delete :: "rs_controller \<Rightarrow> replica_set \<Rightarrow> string outcome" where
  "rs_get_pod_to_delete c rs = pick_pod_to_delete (rs_get_pods c rs)"

definition rs_new_pod :: "replica_set \<Rightarrow> pod" where
  "rs_new_pod rs =
     (let template = rsp_template (rs_spec rs);
          owner = \<lparr>or_kind = ''ReplicaSet'', or_name = md_name (rs_metadata rs)\<rparr>;
          metadata = (pt_metadata template)
            \<lparr>md_owner_references := md_owner_references (pt_metadata template) @ [owner]\<rparr>
      in \<lparr>pod_metadata = metadata, pod_spec = pt_spec template, pod_status = None\<rparr>)"

definition rs_create_pod :: "'w api \<Rightarrow> replica_set \<Rightarrow> ('w, unit) io" where
  "rs_create_pod api rs = send_pod api (rs_new_pod rs)"

definition rs_post_status :: "'w api \<Rightarrow> replica_set \<Rightarrow> ('w, unit) io" where
  "rs_post_status api rs = io_bind (api_send api (put_object (KReplicaSet rs))) (\<lambda>_. io_return ())"

section \<open>Handlers\<close>

definition update_replicaset :: "'w api \<Rightarrow> rs_controller \<Rightarrow> replica_set \<Rightarrow> ('w, unit) io" where
  "update_replicaset api c rs =
     (let new_status = rs_calculate_status c rs in
      io_bind (io_lift (ok_or (Err (''ReplicaSet '' @ md_name (rs_metadata rs) @ '' has no status''))
                 (rs_status rs))) (\<lambda>status.
        if new_status \<noteq> status then rs_post_status api (rs\<lparr>rs_status := Some new_status\<rparr>)
        else io_return ()))"

definition rs_handle_pod_change :: "'w api \<Rightarrow> rs_controller \<Rightarrow> pod \<Rightarrow> ('w, unit) io" where
  "rs_handle_pod_change api c p =
     (case rs_resolve_owner c (md_owner_references (pod_metadata p)) of
        Some owner \<Rightarrow> update_replicaset api c owner
      | None \<Rightarrow> io_return ())"

definition rs_reconcile :: "'w api \<Rightarrow> rs_controller \<Rightarrow> replica_set \<Rightarrow> ('w, unit) io" where
  "rs_reconcile api c rs =
     io_bind (io_lift (ok_or (Err ''ReplicaSet has no status'') (rs_status rs))) (\<lambda>status.
       let current = rss_replicas status; desired = rsp_replicas (rs_spec rs) in
       case cmp current desired of
         OrdLess \<Rightarrow> rs_create_pod api rs
       | OrdGreater \<Rightarrow> io_bind (io_lift (rs_get_pod_to_delete c rs)) (delete_pod api)
       | OrdEqual \<Rightarrow> io_return ())"

definition rs_resync_rs :: "'w api \<Rightarrow> rs_controller \<Rightarrow> ('w, unit) io" where
  "rs_resync_rs api c = update_all (update_replicaset api c) (hm_values (rsc_rs_store c))"

definition rs_resync_pod :: "'w api \<Rightarrow> rs_controller \<Rightarrow> ('w, unit) io" where
  "rs_resync_pod api c =
     resync_owners (\<lambda>p. rs_resolve_owner c (md_owner_references (pod_metadata p)))
       (\<lambda>rs. md_name (rs_metadata rs)) (update_replicaset api c) [] (hm_values (rsc_pod_store c))"

section \<open>The select loop\<close>

datatype rs_event =
    RsEvent "replica_set notification"
  | RsPodEvent "pod notification"
  | RsResync
  | RsPodResync

text \<open>One turn of the loop; an error is logged, a panic ends the controller.\<close>

definition rs_turn :: "'w api \<Rightarrow> rs_controller \<Rightarrow> rs_event \<Rightarrow> ('w, unit) io" where
  "rs_turn api c ev = (case ev of
       RsEvent (NAdd rs) \<Rightarrow> io_bind (io_try (rs_reconcile api c rs)) (\<lambda>_. io_return ())
     | RsEvent (NUpdate _ rs) \<Rightarrow> io_bind (io_try (rs_reconcile api c rs)) (\<lambda>_. io_return ())
     | RsEvent (NDelete rs) \<Rightarrow>
         io_bind (io_try (rs_reconcile api c (rs\<lparr>rs_spec := (rs_spec rs)\<lparr>rsp_replicas := 0\<rparr>\<rparr>)))
           (\<lambda>_. io_return ())
     | RsPodEvent (NAdd p) \<Rightarrow> io_bind (io_try (rs_handle_pod_change api c p)) (\<lambda>_. io_return ())
     | RsPodEvent (NUpdate _ p) \<Rightarrow> io_bind (io_try (rs_handle_pod_change api c p)) (\<lambda>_. io_return ())
     | RsPodEvent (NDelete p) \<Rightarrow> io_bind (io_try (rs_handle_pod_change api c p)) (\<lambda>_. io_return ())
     | RsResync \<Rightarrow> rs_resync_rs api c
     | RsPodResync \<Rightarrow> rs_resync_pod api c)"

text \<open>The turns of a run; the informers change the stores between the turns.\<close>

fun rs_turns :: "'w api \<Rightarrow> (rs_controller \<times> rs_event) list \<Rightarrow> ('w, unit) io" where
  "rs_turns api [] = io_return ()"
| "rs_turns api ((c, ev) # evs) = io_bind (rs_turn api c ev) (\<lambda>_. rs_turns api evs)"

section \<open>Facts\<close>

text \<open>The requests of a handler, as a function of what it reads.\<close>

definition rs_reconcile_plan :: "rs_controller \<Rightarrow> replica_set \<Rightarrow> api_request list" where
  "rs_reconcile_plan c rs = (case rs_status rs of
       None \<Rightarrow> []
     | Some status \<Rightarrow>
         if rss_replicas status < rsp_replicas (rs_spec rs) then [post_pod (rs_new_pod rs)]
         else if rsp_replicas (rs_spec rs) < rss_replicas status
         then (case rs_get_pod_to_delete c rs of Inl _ \<Rightarrow> [] | Inr n \<Rightarrow> [delete_pod_request n])
         else [])"

definition update_plan :: "rs_controller \<Rightarrow> replica_set \<Rightarrow> api_request list" where
  "update_plan c rs = (case rs_status rs of
       None \<Rightarrow> []
     | Some status \<Rightarrow> if rs_calculate_status c rs = status then []
         else [put_object (KReplicaSet (rs\<lparr>rs_status := Some (rs_calculate_status c rs)\<rparr>))])"

lemma rs_reconcile_logs: "logs (rs_reconcile (logged api) c rs) (rs_reconcile_plan c rs)"
  by (cases "rs_status rs") (auto simp: rs_reconcile_def rs_reconcile_plan_def rs_create_pod_def send_pod_def delete_pod_def
      cmp_def Let_def split: option.splits sum.splits intro!: logs_rules)

lemma update_replicaset_logs: "logs (update_replicaset (logged api) c rs) (update_plan c rs)"
  by (cases "rs_status rs") (auto simp: update_replicaset_def update_plan_def rs_post_status_def Let_def
      split: option.splits intro!: logs_rules)

lemma rs_handle_pod_change_logs:
  "logs (rs_handle_pod_change (logged api) c p)
     (case rs_resolve_owner c (md_owner_references (pod_metadata p)) of None \<Rightarrow> [] | Some rs \<Rightarrow> update_plan c rs)"
  by (auto simp: rs_handle_pod_change_def split: option.splits intro!: logs_rules update_replicaset_logs)


lemma rs_turn_logs:
  "logs (rs_turn (logged api) c (RsEvent (NDelete rs)))
     (rs_reconcile_plan c (rs\<lparr>rs_spec := (rs_spec rs)\<lparr>rsp_replicas := 0\<rparr>\<rparr>))"
  by (simp add: rs_turn_def logs_bind_return logs_try rs_reconcile_logs)

text \<open>A pod whose one owner of the kind is gone from the store.\<close>

definition orphan_event :: "rs_controller \<Rightarrow> rs_event \<Rightarrow> bool" where
  "orphan_event c ev = (case ev of
       RsPodEvent n \<Rightarrow> rs_resolve_owner c (md_owner_references (pod_metadata
          (case n of NAdd p \<Rightarrow> p | NUpdate _ p \<Rightarrow> p | NDelete p \<Rightarrow> p))) = None
     | _ \<Rightarrow> False)"

lemma orphan_turn_silent:
  "orphan_event c ev \<Longrightarrow> rs_turn (logged api) c ev = io_return ()"
  by (auto simp: orphan_event_def rs_turn_def rs_handle_pod_change_def io_try_def io_bind_def fun_eq_iff
      split: rs_event.splits notification.splits)

lemma orphan_turns_silent:
  "list_all (\<lambda>(c, ev). orphan_event c ev) evs \<Longrightarrow> rs_turns (logged api) evs = io_return ()"
  by (induction evs) (auto simp: orphan_turn_silent)

lemma logs_turn_then_silent:
  assumes "logs m rs" and "\<And>a. f a = io_return ()"
  shows "logs (io_bind m f) rs"
  using assms logs_bind_return [of m rs] by (simp add: ext [of f "\<lambda>_. io_return ()"])

lemma count_ready:
  "sum_list (map (\<lambda>p. if pod_is_ready p then 1 else 0 :: u32) ps) = of_nat (length (filter pod_is_ready ps))"
  by (induction ps) simp_all

section \<open>Properties\<close>

text \<open>
  C31. A reconciliation sends at most one request: with fewer pods than desired it posts one pod of the
  template with the replica set as a further owner, with more it deletes the pod picked from the
  matching pods, and otherwise, without a status, or when the pick panics, it sends nothing.
\<close>

theorem rs_reconcile_requests:
  "fst (snd (rs_reconcile (logged api) c rs (l, w))) = l @ (case rs_status rs of
       None \<Rightarrow> []
     | Some status \<Rightarrow>
         if rss_replicas status < rsp_replicas (rs_spec rs) then [post_pod (rs_new_pod rs)]
         else if rss_replicas status = rsp_replicas (rs_spec rs) then []
         else (case rs_get_pod_to_delete c rs of Inl _ \<Rightarrow> [] | Inr n \<Rightarrow> [delete_pod_request n]))"
proof -
  obtain r l' w' where run: "rs_reconcile (logged api) c rs (l, w) = (r, (l', w'))"
    by (metis prod.exhaust)
  from logsD [OF rs_reconcile_logs run] run show ?thesis
    by (auto simp: rs_reconcile_plan_def split: option.splits)
qed

text \<open>
  C32. The pod a replica set deletes matches its selector, and no matching pod comes before it in the
  order failed, pending, running, succeeded, then not ready before ready, then older before younger.
\<close>

theorem rs_victim_least:
  assumes "rs_get_pod_to_delete c rs = Inr n"
  shows "\<exists>p \<in> set (hm_values (rsc_pod_store c)).
    labels_matches (md_labels (pod_metadata p)) (rsp_selector (rs_spec rs)) \<and>
    md_name (pod_metadata p) = n \<and>
    (\<forall>q \<in> set (hm_values (rsc_pod_store c)).
       labels_matches (md_labels (pod_metadata q)) (rsp_selector (rs_spec rs)) \<longrightarrow> pod_key p \<le> pod_key q)"
proof -
  obtain p where "p \<in> set (rs_get_pods c rs)" "md_name (pod_metadata p) = n"
    "\<forall>q \<in> set (rs_get_pods c rs). pod_key p \<le> pod_key q"
    using assms unfolding rs_get_pod_to_delete_def by (rule pick_least)
  then show ?thesis by (auto simp: rs_get_pods_def)
qed


text \<open>
  The calculated status counts the matching pods and the ready ones among them, so that fewer than
  2^32 pods never show more ready replicas than replicas.
\<close>

theorem rs_status_counts:
  assumes "length (rsc_pod_store c) < 2 ^ 32"
  shows "unat (rss_replicas (rs_calculate_status c rs)) = length (rs_get_pods c rs) \<and>
    unat (rss_ready_replicas (rs_calculate_status c rs)) = length (filter pod_is_ready (rs_get_pods c rs)) \<and>
    rss_ready_replicas (rs_calculate_status c rs) \<le> rss_replicas (rs_calculate_status c rs)"
proof -
  let ?ps = "rs_get_pods c rs"
  have "length ?ps \<le> length (rsc_pod_store c)"
    using length_filter_le [of _ "hm_values (rsc_pod_store c)"] by (simp add: rs_get_pods_def hm_values_def)
  then have small: "length ?ps < 2 ^ 32" using assms by simp
  have le: "length (filter pod_is_ready ?ps) \<le> length ?ps" by (rule length_filter_le)
  have "unat (rss_replicas (rs_calculate_status c rs)) = length ?ps"
    using small by (simp add: rs_calculate_status_def Let_def unat_of_nat take_bit_nat_eq_self)
  moreover have "unat (rss_ready_replicas (rs_calculate_status c rs)) = length (filter pod_is_ready ?ps)"
    using order.strict_trans1 [OF le small]
    by (simp add: rs_calculate_status_def Let_def count_ready unat_of_nat take_bit_nat_eq_self)
  ultimately show ?thesis using le by (simp add: word_le_nat_alt)
qed

text \<open>
  An update of a replica set's status puts the object exactly when the calculated status differs
  from the recorded one, and once the put status is recorded a further update sends nothing.
\<close>

theorem rs_update_settles:
  "fst (snd (update_replicaset (logged api) c rs (l, w))) = l @ update_plan c rs \<and>
   (update_plan c rs = [] \<longleftrightarrow> rs_status rs = None \<or> rs_status rs = Some (rs_calculate_status c rs)) \<and>
   update_plan c (rs\<lparr>rs_status := Some (rs_calculate_status c rs)\<rparr>) = []"
proof (intro conjI)
  obtain r l' w' where run: "update_replicaset (logged api) c rs (l, w) = (r, (l', w'))"
    by (metis prod.exhaust)
  from logsD [OF update_replicaset_logs run] run
  show "fst (snd (update_replicaset (logged api) c rs (l, w))) = l @ update_plan c rs" by simp
  show "update_plan c rs = [] \<longleftrightarrow> rs_status rs = None \<or> rs_status rs = Some (rs_calculate_status c rs)"
    by (auto simp: update_plan_def split: option.splits)
  have "rs_calculate_status c (rs\<lparr>rs_status := x\<rparr>) = rs_calculate_status c rs" for x
    by (simp add: rs_calculate_status_def rs_get_pods_def)
  then show "update_plan c (rs\<lparr>rs_status := Some (rs_calculate_status c rs)\<rparr>) = []"
    by (simp add: update_plan_def)
qed

text \<open>
  A resynchronisation of the pods updates every replica set that owns a pod exactly once, whatever
  the order and the number of its pods, and goes on after an update that failed.
\<close>

theorem rs_resync_pod_once:
  "\<exists>owners. rs_resync_pod api c = update_all (update_replicaset api c) owners \<and>
    distinct (map (\<lambda>rs. md_name (rs_metadata rs)) owners) \<and>
    (\<lambda>rs. md_name (rs_metadata rs)) ` set owners =
      {md_name (rs_metadata rs) |rs p. p \<in> set (hm_values (rsc_pod_store c)) \<and>
         rs_resolve_owner c (md_owner_references (pod_metadata p)) = Some rs}"
proof -
  let ?r = "\<lambda>p. rs_resolve_owner c (md_owner_references (pod_metadata p))"
  let ?o = "first_owners (\<lambda>rs. md_name (rs_metadata rs)) [] (List.map_filter ?r (hm_values (rsc_pod_store c)))"
  have "rs_resync_pod api c = update_all (update_replicaset api c) ?o"
    by (simp add: rs_resync_pod_def resync_owners_update_all)
  moreover have "set (List.map_filter ?r ps) = {rs. \<exists>p \<in> set ps. ?r p = Some rs}" for ps
    by (auto simp: List.map_filter_def) force
  then have "(\<lambda>rs. md_name (rs_metadata rs)) ` set ?o =
      {md_name (rs_metadata rs) |rs p. p \<in> set (hm_values (rsc_pod_store c)) \<and> ?r p = Some rs}"
    unfolding first_owners_unseen by (simp only: list.set Diff_empty) blast
  ultimately show ?thesis using first_owners_distinct by blast
qed

section \<open>Witnesses\<close>

definition sample_pod :: "string \<Rightarrow> pod_phase \<Rightarrow> bool \<Rightarrow> time \<Rightarrow> pod" where
  "sample_pod name phase ready t = \<lparr>
     pod_metadata = metadata_default\<lparr>md_name := name, md_labels := [(''app'', ''web'')],
       md_owner_references := [\<lparr>or_kind = ''ReplicaSet'', or_name = ''web''\<rparr>]\<rparr>,
     pod_spec = pod_spec_default,
     pod_status = Some ((pod_status_default t)\<lparr>pst_phase := phase, pst_conditions := [(Ready, ready)]\<rparr>)\<rparr>"

definition sample_rs :: replica_set where
  "sample_rs = \<lparr>rs_metadata = metadata_default\<lparr>md_name := ''web''\<rparr>,
     rs_spec = \<lparr>rsp_selector = [(''app'', ''web'')],
       rsp_template = \<lparr>pt_metadata = metadata_default, pt_spec = pod_spec_default\<rparr>, rsp_replicas = 2\<rparr>,
     rs_status = Some \<lparr>rss_replicas = 3, rss_ready_replicas = 2\<rparr>\<rparr>"

definition sample_rsc :: rs_controller where
  "sample_rsc = \<lparr>rsc_rs_store = [],
     rsc_pod_store = [(''/api/v1/pods/a'', sample_pod ''a'' Running True 5),
       (''/api/v1/pods/b'', sample_pod ''b'' Running False 9), (''/api/v1/pods/c'', sample_pod ''c'' Running True 1)]\<rparr>"

lemmas sample_rsc_defs = sample_rsc_def sample_rs_def sample_pod_def metadata_default_def pod_status_default_def

lemma sample_rsc_pods: "rs_get_pods sample_rsc sample_rs =
    [sample_pod ''a'' Running True 5, sample_pod ''b'' Running False 9, sample_pod ''c'' Running True 1]"
  by (simp add: rs_get_pods_def sample_rsc_defs hm_values_def labels_matches_def)

lemma sample_victim: "rs_get_pod_to_delete sample_rsc sample_rs = Inr ''b''"
  by (simp add: rs_get_pod_to_delete_def sample_rsc_pods pick_pod_to_delete_def first_name_def
      compare_pods_def cmp_def sample_pod_def pod_is_ready_def metadata_default_def pod_status_default_def)

theorem rs_victim_least_witness:
  "\<exists>p \<in> set (hm_values (rsc_pod_store sample_rsc)).
    labels_matches (md_labels (pod_metadata p)) (rsp_selector (rs_spec sample_rs)) \<and>
    md_name (pod_metadata p) = ''b'' \<and>
    (\<forall>q \<in> set (hm_values (rsc_pod_store sample_rsc)).
       labels_matches (md_labels (pod_metadata q)) (rsp_selector (rs_spec sample_rs)) \<longrightarrow> pod_key p \<le> pod_key q)"
  by (rule rs_victim_least [OF sample_victim])


theorem rs_status_counts_witness:
  "unat (rss_replicas (rs_calculate_status sample_rsc sample_rs)) = 3 \<and>
   unat (rss_ready_replicas (rs_calculate_status sample_rsc sample_rs)) = 2"
proof -
  have "length (rsc_pod_store sample_rsc) < 2 ^ 32" by (simp add: sample_rsc_def)
  from rs_status_counts [OF this, of sample_rs] show ?thesis
    by (simp add: sample_rsc_pods sample_pod_def pod_is_ready_def metadata_default_def)
qed

end
