(* ===== verification/Scheduler.thy ===== *)
theory Scheduler
  imports Informer Http
begin

text \<open>
  The scheduler (\<open>scheduler/src\<close>): the cache of node states, the algorithm that picks a node, the
  binding of a pod, and the turns of its select loop. The stores of its informers are part of the
  cache; the clock is an argument where the code reads it.

  The lemmas: the node picked is a least loaded one of the feasible ones, what the counters of the
  cache count, and which events change the readiness the cache holds.
\<close>

section \<open>The cache\<close>

record node_state =
  nst_name :: string
  nst_labels :: labels
  nst_is_ready :: bool
  nst_pod_count :: u32

record cache =
  ca_pod_cache :: "(string, pod) hashmap"
  ca_node_cache :: "(string, node) hashmap"
  ca_node_states :: "(string, node_state) hashmap"

definition cache_new :: "(string, pod) hashmap \<Rightarrow> (string, node) hashmap \<Rightarrow> cache" where
  "cache_new pods nodes = \<lparr>ca_pod_cache = pods, ca_node_cache = nodes, ca_node_states = hm_empty\<rparr>"

definition node_name :: "node \<Rightarrow> string" where
  "node_name n = md_name (node_metadata n)"

definition calculate_node_state :: "time \<Rightarrow> cache \<Rightarrow> node \<Rightarrow> node_state" where
  "calculate_node_state now c n =
     \<lparr>nst_name = node_name n, nst_labels = md_labels (node_metadata n), nst_is_ready = node_is_ready now n,
      nst_pod_count = fold (\<lambda>p count. if ps_node_name (pod_spec p) = Some (node_name n)
                                        then count + 1 else count) (hm_values (ca_pod_cache c)) 0\<rparr>"

definition cache_refresh :: "time \<Rightarrow> cache \<Rightarrow> cache" where
  "cache_refresh now c = c\<lparr>ca_node_states :=
     fold (\<lambda>n. hm_insert (node_name n) (calculate_node_state now c n)) (hm_values (ca_node_cache c)) hm_empty\<rparr>"

definition cache_pod_add :: "string \<Rightarrow> cache \<Rightarrow> cache" where
  "cache_pod_add nm c = (case hm_get (ca_node_states c) nm of
       Some s \<Rightarrow> c\<lparr>ca_node_states := hm_insert nm (s\<lparr>nst_pod_count := nst_pod_count s + 1\<rparr>) (ca_node_states c)\<rparr>
     | None \<Rightarrow> c)"

definition cache_pod_delete :: "pod \<Rightarrow> cache \<Rightarrow> cache" where
  "cache_pod_delete p c = (case ps_node_name (pod_spec p) of
       None \<Rightarrow> c
     | Some nm \<Rightarrow> (case hm_get (ca_node_states c) nm of
         Some s \<Rightarrow> c\<lparr>ca_node_states := hm_insert nm (s\<lparr>nst_pod_count := nst_pod_count s - 1\<rparr>) (ca_node_states c)\<rparr>
       | None \<Rightarrow> c))"

definition cache_node_add :: "time \<Rightarrow> node \<Rightarrow> cache \<Rightarrow> cache" where
  "cache_node_add now n c = c\<lparr>ca_node_states := hm_insert (node_name n)
     \<lparr>nst_name = node_name n, nst_labels = md_labels (node_metadata n),
      nst_is_ready = node_is_ready now n, nst_pod_count = 0\<rparr> (ca_node_states c)\<rparr>"

definition cache_node_update :: "time \<Rightarrow> node \<Rightarrow> cache \<Rightarrow> cache" where
  "cache_node_update now n c =
     c\<lparr>ca_node_states := hm_insert (node_name n) (calculate_node_state now c n) (ca_node_states c)\<rparr>"

definition cache_node_delete :: "node \<Rightarrow> cache \<Rightarrow> cache" where
  "cache_node_delete n c = c\<lparr>ca_node_states := hm_remove (node_name n) (ca_node_states c)\<rparr>"

section \<open>The algorithm\<close>

definition is_better_than :: "node_state option \<Rightarrow> node_state option \<Rightarrow> bool" where
  "is_better_than node1 node2 = (case node1 of
       None \<Rightarrow> False
     | Some a \<Rightarrow> (case node2 of None \<Rightarrow> True | Some b \<Rightarrow> nst_pod_count a < nst_pod_count b))"

definition best_candidate :: "node_state list \<Rightarrow> node_state option \<Rightarrow> node_state option" where
  "best_candidate states candidate = fold (\<lambda>s candidate.
     if is_better_than (Some s) candidate then Some s else candidate) states candidate"

definition feasible :: "pod \<Rightarrow> node_state \<Rightarrow> bool" where
  "feasible p s \<longleftrightarrow> nst_is_ready s \<and> labels_matches (nst_labels s) (ps_node_selector (pod_spec p))"

definition simple :: "pod \<Rightarrow> cache \<Rightarrow> object_reference option" where
  "simple p c = map_option (\<lambda>s. \<lparr>or_kind = ''node'', or_name = nst_name s\<rparr>)
     (best_candidate (filter (feasible p) (hm_values (ca_node_states c))) None)"

definition dummy :: "pod \<Rightarrow> cache \<Rightarrow> object_reference option" where
  "dummy p c = Some \<lparr>or_kind = ''node'', or_name = ''localhost''\<rparr>"

section \<open>The scheduler\<close>

definition binding_request :: "pod \<Rightarrow> object_reference \<Rightarrow> api_request" where
  "binding_request p target = \<lparr>rq_method = POST, rq_path = ''/api/v1/bindings'',
     rq_body = Some (KBinding \<lparr>bd_metadata = pod_metadata p, bd_target = target\<rparr>)\<rparr>"

definition sched_bind :: "'w api \<Rightarrow> pod \<Rightarrow> object_reference \<Rightarrow> ('w, unit) io" where
  "sched_bind api p target = api_send_checked api (binding_request p target)"

text \<open>The algorithm is a parameter of the scheduler; \<open>main\<close> passes \<open>simple\<close>.\<close>

definition sched_pod_add ::
    "'w api \<Rightarrow> (pod \<Rightarrow> cache \<Rightarrow> object_reference option) \<Rightarrow> pod \<Rightarrow> (cache \<times> 'w, unit) io" where
  "sched_pod_add api algorithm p = (\<lambda>(c, w).
     if ps_node_name (pod_spec p) \<noteq> None then (Inr (), (c, w))
     else case algorithm p c of
        None \<Rightarrow> (Inr (), (c, w))
      | Some target \<Rightarrow> (case sched_bind api p target w of
            (Inr _, w') \<Rightarrow> (Inr (), (cache_pod_add (or_name target) c, w'))
          | (Inl _, w') \<Rightarrow> (Inr (), (c, w'))))"

definition sched_pod_change ::
    "'w api \<Rightarrow> (pod \<Rightarrow> cache \<Rightarrow> object_reference option) \<Rightarrow> pod notification \<Rightarrow> (cache \<times> 'w, unit) io" where
  "sched_pod_change api algorithm n = (case n of
       NAdd p \<Rightarrow> sched_pod_add api algorithm p
     | NUpdate _ _ \<Rightarrow> io_return ()
     | NDelete p \<Rightarrow> (\<lambda>(c, w). (Inr (), (cache_pod_delete p c, w))))"

definition sched_node_change :: "time \<Rightarrow> node notification \<Rightarrow> cache \<Rightarrow> cache" where
  "sched_node_change now n c = (case n of
       NAdd nd \<Rightarrow> cache_node_add now nd c
     | NUpdate _ nd \<Rightarrow> cache_node_update now nd c
     | NDelete nd \<Rightarrow> cache_node_delete nd c)"

text \<open>
  The resynchronisation of the pods sends every stored pod into the queue the scheduler itself reads
  (16 places). Nobody else reads it, so a send into the full queue never returns: \<open>None\<close>.
\<close>

definition pod_queue_capacity :: nat where
  "pod_queue_capacity = 16"

fun enqueue_pods :: "pod list \<Rightarrow> pod notification list \<Rightarrow> pod notification list option" where
  "enqueue_pods [] queue = Some queue"
| "enqueue_pods (p # ps) queue =
     (if length queue < pod_queue_capacity then enqueue_pods ps (queue @ [NAdd p]) else None)"

record scheduler =
  sch_cache :: cache
  sch_queue :: "pod notification list"

text \<open>One turn of the loop; a queue entry received by the turn is the head of the queue.\<close>

datatype sched_event =
    SPod
  | SNode "node notification"
  | SEnqueuePods
  | SRefreshCache

definition sched_turn ::
    "'w api \<Rightarrow> (pod \<Rightarrow> cache \<Rightarrow> object_reference option) \<Rightarrow> time \<Rightarrow> sched_event \<Rightarrow>
     scheduler \<times> 'w \<Rightarrow> (scheduler \<times> 'w) option" where
  "sched_turn api algorithm now ev = (\<lambda>(s, w). case ev of
       SPod \<Rightarrow> (case sch_queue s of
           [] \<Rightarrow> Some (s, w)
         | n # ns \<Rightarrow> (case sched_pod_change api algorithm n (sch_cache s, w) of
             (_, (c, w')) \<Rightarrow> Some (s\<lparr>sch_cache := c, sch_queue := ns\<rparr>, w')))
     | SNode n \<Rightarrow> Some (s\<lparr>sch_cache := sched_node_change now n (sch_cache s)\<rparr>, w)
     | SEnqueuePods \<Rightarrow> (case enqueue_pods (hm_values (ca_pod_cache (sch_cache s))) (sch_queue s) of
           None \<Rightarrow> None
         | Some queue \<Rightarrow> Some (s\<lparr>sch_queue := queue\<rparr>, w))
     | SRefreshCache \<Rightarrow> Some (s\<lparr>sch_cache := cache_refresh now (sch_cache s)\<rparr>, w))"

section \<open>Facts\<close>

subsection \<open>The pick\<close>

lemma best_candidate_step:
  "best_candidate (s # ss) cand =
     best_candidate ss (if is_better_than (Some s) cand then Some s else cand)"
  by (simp add: best_candidate_def)

lemma best_candidate_Some:
  "\<exists>b. best_candidate ss (Some a) = Some b \<and> b \<in> insert a (set ss) \<and>
     (\<forall>s \<in> insert a (set ss). nst_pod_count b \<le> nst_pod_count s)"
proof (induction ss arbitrary: a)
  case Nil
  then show ?case by (simp add: best_candidate_def)
next
  case (Cons s ss)
  let ?a = "if nst_pod_count s < nst_pod_count a then s else a"
  from Cons.IH [of ?a] obtain b where b: "best_candidate ss (Some ?a) = Some b" "b \<in> insert ?a (set ss)"
    "\<forall>s \<in> insert ?a (set ss). nst_pod_count b \<le> nst_pod_count s" by blast
  have "best_candidate (s # ss) (Some a) = best_candidate ss (Some ?a)"
    by (simp add: best_candidate_step is_better_than_def)
  moreover have "nst_pod_count ?a \<le> nst_pod_count s \<and> nst_pod_count ?a \<le> nst_pod_count a" by auto
  ultimately show ?case using b by (intro exI [of _ b]) (auto split: if_splits intro: order.trans)
qed

lemma best_candidate_None: "best_candidate ss None = None \<longleftrightarrow> ss = []"
  and best_candidate_least: "best_candidate ss None = Some b \<Longrightarrow>
     b \<in> set ss \<and> (\<forall>s \<in> set ss. nst_pod_count b \<le> nst_pod_count s)"
proof -
  show "best_candidate ss None = None \<longleftrightarrow> ss = []"
  proof (cases ss)
    case (Cons s ss')
    with best_candidate_Some [of ss' s] show ?thesis
      by (auto simp: best_candidate_step is_better_than_def)
  qed (simp add: best_candidate_def)
  show "best_candidate ss None = Some b \<Longrightarrow>
     b \<in> set ss \<and> (\<forall>s \<in> set ss. nst_pod_count b \<le> nst_pod_count s)"
  proof (cases ss)
    case (Cons s ss')
    with best_candidate_Some [of ss' s] show "best_candidate ss None = Some b \<Longrightarrow> ?thesis"
      by (auto simp: best_candidate_step is_better_than_def)
  qed (simp add: best_candidate_def)
qed

subsection \<open>Counting\<close>

definition pods_on :: "string \<Rightarrow> pod list \<Rightarrow> nat" where
  "pods_on nm ps = length (filter (\<lambda>p. pod_is_on_node p nm) ps)"

lemma is_on_node_iff: "pod_is_on_node p nm \<longleftrightarrow> ps_node_name (pod_spec p) = Some nm"
  by (auto simp: pod_is_on_node_def split: option.splits)

lemma calculate_count:
  "nst_pod_count (calculate_node_state now c n) = of_nat (pods_on (node_name n) (hm_values (ca_pod_cache c)))"
proof -
  have "fold (\<lambda>p count. if ps_node_name (pod_spec p) = Some nm then count + 1 else count) ps (k :: u32) =
      k + of_nat (pods_on nm ps)" for nm ps k
    by (induction ps arbitrary: k) (auto simp: pods_on_def is_on_node_iff)
  then show ?thesis by (simp add: calculate_node_state_def)
qed

text \<open>The states after a refresh: those of the nodes in the store, each under its name.\<close>

lemma refresh_states:
  "hm_get (ca_node_states (cache_refresh now c)) =
     map_of (rev (map (\<lambda>n. (node_name n, calculate_node_state now c n)) (hm_values (ca_node_cache c))))"
  unfolding cache_refresh_def by (simp add: hm.lookup_fold_insert_empty)

subsection \<open>Readiness\<close>

definition readiness :: "cache \<Rightarrow> string \<rightharpoonup> bool" where
  "readiness c nm = map_option nst_is_ready (hm_get (ca_node_states c) nm)"

lemma readiness_pod_add: "readiness (cache_pod_add nm c) = readiness c"
  by (rule ext) (auto simp: cache_pod_add_def readiness_def split: option.splits)

lemma readiness_pod_delete: "readiness (cache_pod_delete p c) = readiness c"
  by (rule ext) (auto simp: cache_pod_delete_def readiness_def split: option.splits)

lemma readiness_pod_change:
  "sched_pod_change api algorithm n (c, w) = (r, (c', w')) \<Longrightarrow> readiness c' = readiness c"
  by (auto simp: sched_pod_change_def sched_pod_add_def readiness_pod_add readiness_pod_delete
      split: notification.splits option.splits prod.splits sum.splits if_splits)

interpretation node: object_equality node_eq
  "\<lambda>n. hm_wf (md_labels (node_metadata n)) \<and> hm_wf (ns_addresses (node_status n))"
  by unfold_locales (simp add: node_eq_def metadata_eq_def node_status_eq_def hm_eq_refl)


lemma refresh_lookup:
  assumes "distinct (map node_name (hm_values (ca_node_cache c)))" and "n \<in> set (hm_values (ca_node_cache c))"
  shows "hm_get (ca_node_states (cache_refresh now c)) (node_name n) = Some (calculate_node_state now c n)"
proof -
  let ?l = "map (\<lambda>n. (node_name n, calculate_node_state now c n)) (hm_values (ca_node_cache c))"
  have "distinct (map fst (rev ?l))"
    using assms(1) by (simp add: rev_map [symmetric] o_def)
  then show ?thesis
    using assms(2) by (simp add: refresh_states map_of_eq_Some_iff)
qed

lemma enqueue_pods_iff:
  "enqueue_pods ps queue = (if ps = [] \<or> length queue + length ps \<le> pod_queue_capacity
     then Some (queue @ map NAdd ps) else None)"
  by (induction ps arbitrary: queue) auto

fun sched_turns ::
    "'w api \<Rightarrow> (pod \<Rightarrow> cache \<Rightarrow> object_reference option) \<Rightarrow> (time \<times> sched_event) list \<Rightarrow>
     scheduler \<times> 'w \<Rightarrow> (scheduler \<times> 'w) option" where
  "sched_turns api algorithm [] s = Some s"
| "sched_turns api algorithm ((now, ev) # evs) s = (case sched_turn api algorithm now ev s of
     None \<Rightarrow> None | Some s' \<Rightarrow> sched_turns api algorithm evs s')"

lemma sched_turn_readiness:
  assumes "sched_turn api algorithm now ev s = Some s'" and "ev = SPod \<or> ev = SEnqueuePods"
  shows "readiness (sch_cache (fst s')) = readiness (sch_cache (fst s))"
  using assms
  by (auto simp: sched_turn_def readiness_pod_change split: list.splits prod.splits option.splits)

section \<open>Properties\<close>

text \<open>
  C37. The algorithm finds no node exactly when no ready node has the labels the pod selects, and
  otherwise one with the fewest pods among those.
\<close>

theorem simple_least_loaded:
  "case simple p c of
     None \<Rightarrow> \<not> (\<exists>s \<in> set (hm_values (ca_node_states c)). feasible p s)
   | Some target \<Rightarrow> \<exists>s \<in> set (hm_values (ca_node_states c)). feasible p s \<and> or_name target = nst_name s \<and>
       (\<forall>t \<in> set (hm_values (ca_node_states c)). feasible p t \<longrightarrow> nst_pod_count s \<le> nst_pod_count t)"
proof (cases "best_candidate (filter (feasible p) (hm_values (ca_node_states c))) None")
  case None
  then show ?thesis by (auto simp: simple_def best_candidate_None filter_empty_conv best_candidate_def [of "[]"])
next
  case (Some b)
  from best_candidate_least [OF this] Some show ?thesis by (auto simp: simple_def)
qed

text \<open>
  C38. After a refresh, the state of every stored node counts the stored pods bound to it and holds its
  readiness at that time.
\<close>

theorem refresh_counts_bound_pods:
  assumes "distinct (map node_name (hm_values (ca_node_cache c)))" and "n \<in> set (hm_values (ca_node_cache c))"
    and "length (ca_pod_cache c) < 2 ^ 32"
  shows "\<exists>s. hm_get (ca_node_states (cache_refresh now c)) (node_name n) = Some s \<and>
    unat (nst_pod_count s) = card {i. i < length (ca_pod_cache c) \<and> pod_is_on_node (snd (ca_pod_cache c ! i)) (node_name n)} \<and>
    nst_is_ready s = node_is_ready now n"
proof -
  let ?s = "calculate_node_state now c n"
  have len: "pods_on nm (hm_values (ca_pod_cache c)) =
      card {i. i < length (ca_pod_cache c) \<and> pod_is_on_node (snd (ca_pod_cache c ! i)) nm}" for nm
    by (simp add: pods_on_def hm_values_def length_filter_conv_card) (metis (lifting) nth_map)
  have "pods_on (node_name n) (hm_values (ca_pod_cache c)) \<le> length (ca_pod_cache c)"
    using length_filter_le [of _ "hm_values (ca_pod_cache c)"] by (simp add: pods_on_def hm_values_def)
  then have "unat (nst_pod_count ?s) = pods_on (node_name n) (hm_values (ca_pod_cache c))"
    using assms(3) by (simp add: calculate_count unat_of_nat take_bit_nat_eq_self)
  then show ?thesis
    using refresh_lookup [OF assms(1,2), of now] len by (simp add: calculate_node_state_def)
qed

text \<open>
  A node that is added again starts with no pods, whatever pods are bound to it: the deletion of
  one of them then wraps its counter around to 2^32 - 1, and the algorithm prefers any other feasible
  node.
\<close>

theorem readded_node_count_wraps:
  assumes "ps_node_name (pod_spec p) = Some (node_name n)"
    and "cache_pod_delete p (cache_node_add now n c) = c'"
  shows "\<exists>s. hm_get (ca_node_states c') (node_name n) = Some s \<and> nst_name s = node_name n \<and>
    unat (nst_pod_count s) = 2 ^ 32 - 1"
  using assms
  by (auto simp: cache_node_add_def cache_pod_delete_def unsigned_minus_1_eq_mask mask_eq_exp_minus_1)

text \<open>
  A binding the API server rejects with an error message counts as made: the scheduler adds the
  pod to the node's counter, although the pod is not bound.
\<close>

theorem rejected_binding_counted:
  assumes "ps_node_name (pod_spec p) = None" and "algorithm p c = Some target"
    and "api (binding_request p target) w = (Reply status (Some msg) d, w')"
    and "400 \<le> status" and "status < 600" and "hm_get (ca_node_states c) (or_name target) = Some s"
  shows "\<exists>c'. sched_pod_add api algorithm p (c, w) = (Inr (), (c', w')) \<and>
    hm_get (ca_node_states c') (or_name target) = Some (s\<lparr>nst_pod_count := nst_pod_count s + 1\<rparr>)"
  using assms by (simp add: sched_pod_add_def sched_bind_def api_send_checked_def cache_pod_add_def)

text \<open>
  C39. A resynchronisation of the pods stops the scheduler for good exactly when the pods in the store
  do not fit into the free places of its own queue of 16.
\<close>

theorem enqueue_deadlock_iff:
  assumes "length (sch_queue s) \<le> 16"
  shows "sched_turn api algorithm now SEnqueuePods (s, w) = None \<longleftrightarrow>
    16 < length (sch_queue s) + length (ca_pod_cache (sch_cache s))"
  using assms
  by (auto simp: sched_turn_def enqueue_pods_iff pod_queue_capacity_def hm_values_def)

text \<open>
  Only node events and refreshes change the readiness the scheduler holds, whatever the time: a
  node that stopped sending heartbeats stays schedulable through all the pods that come.
\<close>

theorem readiness_frozen:
  assumes "sched_turns api algorithm evs (s, w) = Some (s', w')"
    and "list_all (\<lambda>(now, ev). ev = SPod \<or> ev = SEnqueuePods) evs"
  shows "readiness (sch_cache s') = readiness (sch_cache s)"
  using assms
proof (induction evs arbitrary: s w)
  case (Cons e evs)
  obtain now ev where e: "e = (now, ev)" by (cases e)
  with Cons.prems(1) obtain s1 w1 where t: "sched_turn api algorithm now ev (s, w) = Some (s1, w1)"
    and rest: "sched_turns api algorithm evs (s1, w1) = Some (s', w')"
    by (auto split: option.splits)
  from Cons.IH [OF rest] Cons.prems(2) e sched_turn_readiness [OF t] show ?case by simp
qed simp


section \<open>Witnesses\<close>

definition sample_node :: "time \<Rightarrow> node" where
  "sample_node beat = \<lparr>node_metadata = metadata_default\<lparr>md_name := ''n1''\<rparr>,
     node_status = node_status_default\<lparr>ns_last_heartbeat := beat\<rparr>\<rparr>"

definition bound_pod :: "string \<Rightarrow> string option \<Rightarrow> pod" where
  "bound_pod nm nd = \<lparr>pod_metadata = metadata_default\<lparr>md_name := nm\<rparr>,
     pod_spec = pod_spec_default\<lparr>ps_node_name := nd\<rparr>, pod_status = None\<rparr>"

definition sample_cache :: cache where
  "sample_cache = \<lparr>ca_pod_cache = [(''/api/v1/pods/a'', bound_pod ''a'' (Some ''n1'')),
        (''/api/v1/pods/b'', bound_pod ''b'' None)],
      ca_node_cache = [(''/api/v1/nodes/n1'', sample_node 0)],
      ca_node_states = [(''n1'', \<lparr>nst_name = ''n1'', nst_labels = [], nst_is_ready = True, nst_pod_count = 3\<rparr>),
        (''n2'', \<lparr>nst_name = ''n2'', nst_labels = [], nst_is_ready = True, nst_pod_count = 1\<rparr>)]\<rparr>"

abbreviation rejecting_api :: "unit api" where
  "rejecting_api \<equiv> \<lambda>r w. (Reply 404 (Some ''pod not found'') None, w)"

lemmas sample_simps = sample_cache_def sample_node_def bound_pod_def metadata_default_def
  pod_spec_default_def hm_empty_def hm_values_def node_name_def

lemma sample_simple: "simple (bound_pod ''b'' None) sample_cache = Some \<lparr>or_kind = ''node'', or_name = ''n2''\<rparr>"
  by (simp add: simple_def best_candidate_def feasible_def is_better_than_def sample_simps)

theorem simple_least_loaded_witness:
  "\<exists>s \<in> set (hm_values (ca_node_states sample_cache)). feasible (bound_pod ''b'' None) s \<and> nst_name s = ''n2'' \<and>
     nst_pod_count s \<le> 3"
  using simple_least_loaded [where p = "bound_pod ''b'' None" and c = sample_cache, unfolded sample_simple]
  by (auto simp: feasible_def sample_simps)

theorem refresh_counts_bound_pods_witness:
  "\<exists>s. hm_get (ca_node_states (cache_refresh 50000000000 sample_cache)) ''n1'' = Some s \<and>
     unat (nst_pod_count s) =
       card {i. i < length (ca_pod_cache sample_cache) \<and> pod_is_on_node (snd (ca_pod_cache sample_cache ! i)) ''n1''} \<and>
     \<not> nst_is_ready s"
proof -
  have "distinct (map node_name (hm_values (ca_node_cache sample_cache)))"
    and "sample_node 0 \<in> set (hm_values (ca_node_cache sample_cache))"
    and "length (ca_pod_cache sample_cache) < 2 ^ 32"
    by (simp_all add: sample_simps)
  from refresh_counts_bound_pods [OF this, of 50000000000] show ?thesis
    by (auto simp: node_name_def sample_node_def node_is_ready_def kubelet_config_default_def)
qed

theorem readded_node_count_wraps_witness:
  "\<exists>s. hm_get (ca_node_states (cache_pod_delete (bound_pod ''a'' (Some ''n1''))
      (cache_node_add 0 (sample_node 0) sample_cache))) ''n1'' = Some s \<and> unat (nst_pod_count s) = 4294967295"
proof -
  have "ps_node_name (pod_spec (bound_pod ''a'' (Some ''n1''))) = Some (node_name (sample_node 0))"
    by (simp add: sample_simps)
  from readded_node_count_wraps [OF this refl, of 0 sample_cache] show ?thesis
    by (auto simp: node_name_def sample_node_def)
qed

theorem rejected_binding_counted_witness:
  "\<exists>c'. sched_pod_add rejecting_api simple (bound_pod ''b'' None) (sample_cache, ()) = (Inr (), (c', ())) \<and>
     map_option nst_pod_count (hm_get (ca_node_states c') ''n2'') = Some 2"
proof -
  have "hm_get (ca_node_states sample_cache) (or_name \<lparr>or_kind = ''node'', or_name = ''n2''\<rparr>) =
      Some \<lparr>nst_name = ''n2'', nst_labels = [], nst_is_ready = True, nst_pod_count = 1\<rparr>"
    by (simp add: sample_cache_def)
  from rejected_binding_counted [where algorithm = simple and api = rejecting_api and w = "()" and w' = "()"
      and status = 404 and msg = "''pod not found''" and d = None, OF _ sample_simple _ _ _ this]
  show ?thesis by (auto simp: bound_pod_def)
qed

theorem enqueue_deadlock_iff_witness:
  "sched_turn rejecting_api simple 0 SEnqueuePods
     (\<lparr>sch_cache = sample_cache, sch_queue = replicate 15 (NDelete (bound_pod ''a'' None))\<rparr>, ()) = None"
  using enqueue_deadlock_iff [of "\<lparr>sch_cache = sample_cache, sch_queue = replicate 15 (NDelete (bound_pod ''a'' None))\<rparr>"]
  by (simp add: sample_cache_def)

theorem readiness_frozen_witness:
  "\<exists>s'. sched_turns rejecting_api simple [(10 ^ 15, SPod)]
      (\<lparr>sch_cache = sample_cache, sch_queue = [NAdd (bound_pod ''b'' None)]\<rparr>, ()) = Some (s', ()) \<and>
     readiness (sch_cache s') = readiness sample_cache"
proof -
  have "\<exists>s'. sched_turns rejecting_api simple [(10 ^ 15, SPod)]
      (\<lparr>sch_cache = sample_cache, sch_queue = [NAdd (bound_pod ''b'' None)]\<rparr>, ()) = Some (s', ())"
    by (cases "sched_pod_change rejecting_api simple (NAdd (bound_pod ''b'' None)) (sample_cache, ())")
      (auto simp: sched_turn_def)
  then obtain s' where run: "sched_turns rejecting_api simple [(10 ^ 15, SPod)]
      (\<lparr>sch_cache = sample_cache, sch_queue = [NAdd (bound_pod ''b'' None)]\<rparr>, ()) = Some (s', ())" ..
  from readiness_frozen [OF run] run show ?thesis by simp
qed


end
