(* ===== verification/Cluster.thy ===== *)
theory Cluster
  imports ApiProperties ApiErrors ReplicaSetController Scheduler
begin

text \<open>
  The components together: the API server as the \<open>api\<close> of its clients, and its store as the
  informers see it. The properties themselves are in the root theory.
\<close>

section \<open>Requests of the clients at the server\<close>

lemma split_query_plain: "CHR ''?'' \<notin> set p \<Longrightarrow> split_query p = (p, None)"
  by (simp add: split_query_def dropWhile_eq_Nil_conv [THEN iffD2] list.case_eq_if)

lemma serve_bindings:
  "serve ex env \<lparr>rq_method = POST, rq_path = ''/api/v1/bindings'', rq_body = Some x\<rparr> =
     respond ex (Run (api_bind ex x))"
  by (simp add: serve_def split_query_plain handle_request_def route_def route_collection_def on_json_def)

lemma serve_pods:
  "serve ex env \<lparr>rq_method = POST, rq_path = ''/api/v1/pods'', rq_body = Some x\<rparr> =
     respond ex (Run (api_pod_create ex env x))"
  by (simp add: serve_def split_query_plain handle_request_def route_def route_collection_def
      pod_collection_def on_json_def)

text \<open>A name that is one segment of a path.\<close>

definition path_name :: "string \<Rightarrow> bool" where
  "path_name name \<longleftrightarrow> name \<noteq> [] \<and> CHR ''/'' \<notin> set name \<and> CHR ''?'' \<notin> set name"

lemma serve_put_replicaset:
  assumes "path_name (md_name (rs_metadata rs))"
  shows "serve ex env (put_object (KReplicaSet rs)) =
    respond ex (Run (api_rs_update ex (md_name (rs_metadata rs)) (KReplicaSet rs)))"
proof -
  have uri: "uri_of (KReplicaSet rs) = ''/api/v1/replicasets/'' @ md_name (rs_metadata rs)"
    by (simp add: uri_of_def prefix_of_directory directory_def name_of_def metadata_of_def)
  from assms show ?thesis
    by (simp add: serve_def put_object_def uri split_query_plain path_name_def handle_request_def route_def
        split_on_no_sep route_item_def rs_item_def on_json_def)
qed

lemma serve_replicaset:
  assumes "path_name name"
  shows "serve ex env \<lparr>rq_method = GET, rq_path = ''/api/v1/replicasets/'' @ name, rq_body = None\<rparr> =
      respond ex (Run (api_rs_get ex name))"
    and "serve ex env \<lparr>rq_method = PATCH, rq_path = ''/api/v1/replicasets/'' @ name, rq_body = Some x\<rparr> =
      respond ex (Run (api_rs_patch ex name x))"
  using assms by (simp_all add: serve_def split_query_plain path_name_def handle_request_def route_def
      split_on_no_sep route_item_def rs_item_def on_json_def)

lemma serve_put_function:
  assumes "path_name (md_name (fn_metadata f))"
  shows "serve ex env (put_object (KFunction f)) = respond ex (Run (api_function_update ex (KFunction f)))"
proof -
  have uri: "uri_of (KFunction f) = ''/api/v1/functions/'' @ md_name (fn_metadata f)"
    by (simp add: uri_of_def prefix_of_directory directory_def name_of_def metadata_of_def)
  from assms show ?thesis
    by (simp add: serve_def put_object_def uri split_query_plain path_name_def handle_request_def route_def
        split_on_no_sep route_item_def function_item_def on_json_def)
qed

lemma respond_200:
  assumes "respond ex (Run h) s = (Reply 200 msg d, s')" and "fails_in known_fault h"
  shows "h s = (Inr (msg, d), s')"
proof -
  obtain r s1 where h: "h s = (r, s1)" by (cases "h s")
  show ?thesis
  proof (cases r)
    case (Inl e)
    with h have "known_fault e" using fails_inD [OF assms(2)] by blast
    with Inl h assms(1) show ?thesis
      by (cases e) (auto simp: respond_def reply_of_def error_status_def)
  next
    case (Inr a)
    with h assms(1) show ?thesis by (cases a) (simp add: respond_def reply_of_def)
  qed
qed

section \<open>Binding\<close>

lemma bound_props:
  assumes "bound node target p = Some q"
  shows "pod_is_on_node q target" and "pod_metadata q = pod_metadata p"
    and "\<exists>status. pod_status q = Some status \<and> hm_get (pst_conditions status) PodScheduled = Some True \<and>
      pst_host_ip status = hm_get (ns_addresses (node_status node)) InternalIP"
  using assms by (auto simp: bound_def pod_is_on_node_def)

lemma pod_uri: "uri_of (KPod p) = ''/api/v1/pods/'' @ md_name (pod_metadata p)"
  by (simp add: uri_of_def prefix_of_directory directory_def name_of_def metadata_of_def)

lemma bind_run:
  assumes world: "api_world ex contents conf" and sound: "well_stored (ex_be ex) (contents (sv_world s))"
    and run: "api_bind ex (KBinding b) s = (Inr r, s')"
  obtains node p q where
    "stored_objects (ex_be ex) (contents (sv_world s)) (''/api/v1/nodes/'' @ or_name (bd_target b)) = Some (KNode node)"
    "stored_objects (ex_be ex) (contents (sv_world s)) (''/api/v1/pods/'' @ md_name (bd_metadata b)) = Some (KPod p)"
    "bound node (or_name (bd_target b)) p = Some q"
    "stored_objects (ex_be ex) (contents (sv_world s')) = (stored_objects (ex_be ex) (contents (sv_world s)))
       (''/api/v1/pods/'' @ md_name (bd_metadata b) \<mapsto> KPod q, uri_of (KBinding b) \<mapsto> KBinding b)"
proof -
  obtain node s1 p s2 q s3 where
    f1: "fetch ex (''/api/v1/nodes/'' @ or_name (bd_target b)) ''node'' s = (Inr (KNode node), s1)"
    and f2: "fetch ex (''/api/v1/pods/'' @ md_name (bd_metadata b)) ''pod'' s1 = (Inr (KPod p), s2)"
    and q: "bound node (or_name (bd_target b)) p = Some q"
    and st1: "store_object ex (KPod q) s2 = (Inr (), s3)" and st2: "store_object ex (KBinding b) s3 = (Inr (), s')"
    using run
    by (auto simp: api_bind_def Let_def expecting_def api_err_def done_msg_def elim!: io_bind_InrE
        split: kube_object.splits)
  note r1 = api_world.fetch_run [OF world f1 sound]
  note r2 = api_world.fetch_run [OF world f2 r1(5)]
  note r3 = api_world.store_object_run [OF world st1 r2(5)]
  note r4 = api_world.store_object_run [OF world st2 r3(3)]
  have "uri_of (KPod p) = ''/api/v1/pods/'' @ md_name (bd_metadata b)"
    using api_world.sound_objects [OF world r1(5) r2(2)] .
  then have "uri_of (KPod q) = ''/api/v1/pods/'' @ md_name (bd_metadata b)"
    by (simp add: pod_uri bound_props(2) [OF q])
  with r1 r2 r3 r4 q show ?thesis by (intro that) auto
qed

section \<open>The store as an informer sees it\<close>

text \<open>
  A change of etcd: a key and its new value. A watch on a prefix delivers the changes of the keys with
  the prefix, in their order, in messages of any size.
\<close>

type_synonym change = "string \<times> string option"

definition apply_changes :: "change list \<Rightarrow> (string \<rightharpoonup> string) \<Rightarrow> (string \<rightharpoonup> string)" where
  "apply_changes cs m = fold (\<lambda>(k, v) m. m(k := v)) cs m"

definition event_of :: "change \<Rightarrow> etcd_event" where
  "event_of c = (case snd c of None \<Rightarrow> EvDelete (fst c) | Some v \<Rightarrow> EvPut (fst c) v)"

definition watched_changes :: "string \<Rightarrow> change list \<Rightarrow> change list" where
  "watched_changes prefix cs = filter (\<lambda>(k, v). starts_with k prefix) cs"

definition object_changes :: "'w backend \<Rightarrow> change list \<Rightarrow> bool" where
  "object_changes be cs \<longleftrightarrow>
     list_all (\<lambda>(k, v). case v of None \<Rightarrow> True | Some js \<Rightarrow> be_from_json be js \<noteq> None) cs"

definition watch_change :: "'w backend \<Rightarrow> change \<Rightarrow> kube_object watch_event" where
  "watch_change be c = (case snd c of None \<Rightarrow> WDelete (fst c) | Some v \<Rightarrow> WPut (fst c) (the (be_from_json be v)))"

lemma forward_events_ok:
  "object_changes be cs \<Longrightarrow> forward_events be (map event_of cs) = (map (watch_change be) cs, True)"
  by (induction cs)
    (auto simp: object_changes_def event_of_def watch_event_of_def watch_change_def split: option.splits)

lemma forward_watch_ok:
  "list_all (object_changes be) groups \<Longrightarrow>
     forward_watch be (map (\<lambda>g. WatchEvents (map event_of g)) groups) = map (watch_change be) (concat groups)"
  by (induction groups) (simp_all add: forward_events_ok)

lemma watched_texts:
  "(\<And>e. parse (pr e) = Some e) \<Longrightarrow> watched parse (map (\<lambda>e. TextMessage (pr e)) evs) = evs"
  by (induction evs) simp_all

definition under :: "string \<Rightarrow> (string \<rightharpoonup> 'a) \<Rightarrow> (string \<rightharpoonup> 'a)" where
  "under prefix m k = (if starts_with k prefix then m k else None)"

lemma changes_mirror:
  assumes "object_changes be cs"
  shows "fold apply_change (map (watch_change be) (watched_changes prefix cs)) (under prefix (stored_objects be m)) =
    under prefix (stored_objects be (apply_changes cs m))"
  using assms
proof (induction cs arbitrary: m)
  case Nil
  then show ?case by (simp add: watched_changes_def apply_changes_def)
next
  case (Cons c cs)
  obtain k v where c: "c = (k, v)" by (cases c)
  have rest: "object_changes be cs" using Cons.prems by (simp add: object_changes_def)
  show ?case
  proof (cases "starts_with k prefix")
    case True
    then have "apply_change (watch_change be c) (under prefix (stored_objects be m)) =
        under prefix (stored_objects be (m(k := v)))"
      using Cons.prems
      by (auto simp: c apply_change_def watch_change_def under_def stored_objects_def object_changes_def fun_eq_iff
          split: option.splits)
    with True Cons.IH [OF rest, of "m(k := v)"] show ?thesis
      by (simp add: watched_changes_def apply_changes_def c del: fun_upd_apply)
  next
    case False
    then have "under prefix (stored_objects be m) = under prefix (stored_objects be (m(k := v)))"
      by (auto simp: under_def stored_objects_def fun_eq_iff)
    with False Cons.IH [OF rest, of "m(k := v)"] show ?thesis
      by (simp add: watched_changes_def apply_changes_def c del: fun_upd_apply)
  qed
qed

lemma listing_map:
  assumes "set xs = {x. m (uri_of x) = Some x \<and> starts_with (uri_of x) prefix}"
    and "\<And>k x. m k = Some x \<Longrightarrow> uri_of x = k"
  shows "map_of (rev (map (\<lambda>x. (uri_of x, x)) xs)) = under prefix m"
proof
  fix k
  have "map_of (rev (map (\<lambda>x. (uri_of x, x)) xs)) k = Some x \<longleftrightarrow> under prefix m k = Some x" for x
  proof
    assume "map_of (rev (map (\<lambda>x. (uri_of x, x)) xs)) k = Some x"
    from map_of_SomeD [OF this] assms(1) show "under prefix m k = Some x" by (auto simp: under_def)
  next
    assume u: "under prefix m k = Some x"
    then have "m k = Some x" and "starts_with k prefix" by (auto simp: under_def split: if_splits)
    with assms have "x \<in> set xs" and "uri_of x = k" by auto
    then have "map_of (rev (map (\<lambda>x. (uri_of x, x)) xs)) k \<noteq> None"
      by (auto simp: map_of_eq_None_iff image_image)
    then obtain y where y: "map_of (rev (map (\<lambda>x. (uri_of x, x)) xs)) k = Some y" by auto
    from map_of_SomeD [OF y] assms(1) \<open>m k = Some x\<close> have "y = x" by auto
    with y show "map_of (rev (map (\<lambda>x. (uri_of x, x)) xs)) k = Some x" by simp
  qed
  then show "map_of (rev (map (\<lambda>x. (uri_of x, x)) xs)) k = under prefix m k"
    by (metis not_Some_eq)
qed

end
