(* ===== verification/KubeProxy.thy ===== *)
theory KubeProxy
  imports Objects Informer F64
begin

text \<open>
  The service proxy of a node (\<open>rkube_proxy\<close>): the tables of the services it has written to the nat
  table of the kernel (\<open>k8s_iptables.rs\<close>), and the handlers of its notifications (\<open>main.rs\<close>). The crate
  \<open>iptables\<close> and the random characters are the parameter \<open>iptables\<close>, whose contract is in \<open>NatTable\<close>.
\<close>

section \<open>The nat table\<close>

record 'w iptables =
  it_list_chains :: "string \<Rightarrow> ('w, string, string list) eio"
  it_exists :: "string \<Rightarrow> string \<Rightarrow> string \<Rightarrow> ('w, string, bool) eio"
  it_new_chain :: "string \<Rightarrow> string \<Rightarrow> ('w, string, unit) eio"
  it_flush_chain :: "string \<Rightarrow> string \<Rightarrow> ('w, string, unit) eio"
  it_delete_chain :: "string \<Rightarrow> string \<Rightarrow> ('w, string, unit) eio"
  it_append :: "string \<Rightarrow> string \<Rightarrow> string \<Rightarrow> ('w, string, unit) eio"
  it_append_unique :: "string \<Rightarrow> string \<Rightarrow> string \<Rightarrow> ('w, string, unit) eio"
  it_insert :: "string \<Rightarrow> string \<Rightarrow> string \<Rightarrow> nat \<Rightarrow> ('w, string, unit) eio"
  it_delete :: "string \<Rightarrow> string \<Rightarrow> string \<Rightarrow> ('w, string, unit) eio"
  it_sample :: "('w, fault, string) eio"

text \<open>\<open>unwrap\<close> and \<open>?\<close>.\<close>

abbreviation unwrap :: "('w, string, 'a) eio \<Rightarrow> ('w, 'a) io" where
  "unwrap \<equiv> io_map_err Panic"

definition char_to_upper :: "char \<Rightarrow> char" where
  "char_to_upper c = (let n = (of_char c :: nat) in
     if 97 \<le> n \<and> n \<le> 122 then char_of (n - 32) else c)"

definition unique_hash :: "'w iptables \<Rightarrow> ('w, string) io" where
  "unique_hash ipt = io_bind (it_sample ipt) (\<lambda>s. io_return (map char_to_upper s))"

section \<open>Rules\<close>

definition gen_svc_rule :: "string \<Rightarrow> ipv4 \<Rightarrow> u16 \<Rightarrow> string \<Rightarrow> string" where
  "gen_svc_rule svc_name cluster_ip port lb_chain =
     ''-d '' @ show_ipv4 cluster_ip @ '' -p tcp --dport '' @ show_u16 port @
     '' -m comment --comment \"'' @ svc_name @ ''\" -j '' @ lb_chain"

text \<open>
  \<open>f32\<close>: a positive number rounded to 24 bits, ties to even; \<open>{:.11}\<close> prints the binary value rounded to
  eleven decimals.
\<close>

definition f32_pos :: "rat \<Rightarrow> rat" where
  "f32_pos x = (let u = pow2 (max (exponent x - 23) (- 149)) in of_int (round_half_even (x / u)) * u)"

fun fixed_digits :: "nat \<Rightarrow> nat \<Rightarrow> string" where
  "fixed_digits 0 n = []"
| "fixed_digits (Suc k) n = fixed_digits k (n div 10) @ [char_of (48 + n mod 10)]"

definition format_fixed :: "nat \<Rightarrow> rat \<Rightarrow> string" where
  "format_fixed k x = (let n = nat (round_half_even (x * 10 ^ k))
     in dec_of_nat (n div 10 ^ k) @ ''.'' @ fixed_digits k n)"

definition gen_lb_rule :: "nat \<Rightarrow> string \<Rightarrow> string" where
  "gen_lb_rule i ep_chain =
     (if i = 1 then ''-j '' @ ep_chain
      else ''-m statistic --mode random --probability '' @
        format_fixed 11 (f32_pos (1 / f32_pos (of_nat i))) @ '' -j '' @ ep_chain)"

definition gen_ep_rule :: "string \<Rightarrow> ipv4 \<Rightarrow> u16 \<Rightarrow> string" where
  "gen_ep_rule svc_name ep target_port =
     ''-p tcp -m comment --comment \"'' @ svc_name @ ''\" -m tcp -j DNAT --to-destination '' @
     show_ipv4 ep @ '':'' @ show_u16 target_port"

section \<open>The load balancing table of a port\<close>

record lb_table =
  lb_svc_name :: string
  lb_chain :: string
  lb_target_port :: u16
  lb_eps :: "(ipv4, string) hashmap"

definition lb_new :: "'w iptables \<Rightarrow> string \<Rightarrow> u16 \<Rightarrow> ('w, lb_table) io" where
  "lb_new ipt svc_name target_port = io_bind (unique_hash ipt) (\<lambda>h.
     let chain = ''KUBE-LB-'' @ h in
     io_bind (unwrap (it_new_chain ipt ''nat'' chain)) (\<lambda>_.
     io_return \<lparr>lb_svc_name = svc_name, lb_chain = chain, lb_target_port = target_port, lb_eps = hm_empty\<rparr>))"

fun insert_lb_rules :: "'w iptables \<Rightarrow> string \<Rightarrow> nat \<Rightarrow> string list \<Rightarrow> ('w, unit) io" where
  "insert_lb_rules ipt chain i [] = io_return ()"
| "insert_lb_rules ipt chain i (ep_chain # eps) =
     io_bind (unwrap (it_insert ipt ''nat'' chain (gen_lb_rule i ep_chain) 1)) (\<lambda>_.
     insert_lb_rules ipt chain (i + 1) eps)"

definition rewrite_lb_rules :: "'w iptables \<Rightarrow> lb_table \<Rightarrow> ('w, unit) io" where
  "rewrite_lb_rules ipt lb =
     io_bind (unwrap (it_flush_chain ipt ''nat'' (lb_chain lb))) (\<lambda>_.
     insert_lb_rules ipt (lb_chain lb) 1 (hm_values (lb_eps lb)))"

definition lb_add_ep :: "'w iptables \<Rightarrow> ipv4 \<Rightarrow> lb_table \<Rightarrow> ('w, lb_table) io" where
  "lb_add_ep ipt ep lb = io_bind (unique_hash ipt) (\<lambda>h.
     let ep_chain = ''KUBE-EP-'' @ h in
     io_bind (unwrap (it_new_chain ipt ''nat'' ep_chain)) (\<lambda>_.
     io_bind (unwrap (it_append_unique ipt ''nat'' ep_chain
       (gen_ep_rule (lb_svc_name lb) ep (lb_target_port lb)))) (\<lambda>_.
     let lb = lb\<lparr>lb_eps := hm_insert ep ep_chain (lb_eps lb)\<rparr> in
     io_bind (rewrite_lb_rules ipt lb) (\<lambda>_. io_return lb))))"

definition remove_chain :: "'w iptables \<Rightarrow> string \<Rightarrow> ('w, string, unit) eio" where
  "remove_chain ipt chain = io_bind (it_flush_chain ipt ''nat'' chain) (\<lambda>_. it_delete_chain ipt ''nat'' chain)"

definition lb_cleanup :: "'w iptables \<Rightarrow> lb_table \<Rightarrow> ('w, unit) io" where
  "lb_cleanup ipt lb = io_bind (unwrap (remove_chain ipt (lb_chain lb))) (\<lambda>_.
     io_each (\<lambda>ep_chain. unwrap (remove_chain ipt ep_chain)) (hm_values (lb_eps lb)))"

section \<open>The table of a service\<close>

record service_table =
  st_svc_name :: string
  st_cluster_ip :: ipv4
  st_lb_tb :: "(u16, lb_table) hashmap"

definition service_table_new :: "string \<Rightarrow> ipv4 \<Rightarrow> service_table" where
  "service_table_new svc_name cluster_ip =
     \<lparr>st_svc_name = svc_name, st_cluster_ip = cluster_ip, st_lb_tb = hm_empty\<rparr>"

definition st_add_ep :: "'w iptables \<Rightarrow> ipv4 \<Rightarrow> service_table \<Rightarrow> ('w, service_table) io" where
  "st_add_ep ipt ep st =
     io_bind (io_map (\<lambda>(port, lb). io_bind (lb_add_ep ipt ep lb) (\<lambda>lb. io_return (port, lb))) (st_lb_tb st))
       (\<lambda>tb. io_return (st\<lparr>st_lb_tb := tb\<rparr>))"

definition st_add_port :: "'w iptables \<Rightarrow> u16 \<Rightarrow> u16 \<Rightarrow> service_table \<Rightarrow> ('w, service_table) io" where
  "st_add_port ipt port target_port st =
     io_bind (lb_new ipt (st_svc_name st) target_port) (\<lambda>lb.
     io_bind (unwrap (it_append ipt ''nat'' ''KUBE-SERVICES''
       (gen_svc_rule (st_svc_name st) (st_cluster_ip st) port (lb_chain lb)))) (\<lambda>_.
     io_return (st\<lparr>st_lb_tb := hm_insert port lb (st_lb_tb st)\<rparr>)))"

definition st_cleanup :: "'w iptables \<Rightarrow> service_table \<Rightarrow> ('w, unit) io" where
  "st_cleanup ipt st = io_each (\<lambda>(port, lb).
     io_bind (io_ignore (it_delete ipt ''nat'' ''KUBE-SERVICES''
       (gen_svc_rule (st_svc_name st) (st_cluster_ip st) port (lb_chain lb)))) (\<lambda>_.
     lb_cleanup ipt lb)) (st_lb_tb st)"

definition st_change_cluster_ip ::
    "'w iptables \<Rightarrow> ipv4 \<Rightarrow> service_table \<Rightarrow> ('w, service_table) io" where
  "st_change_cluster_ip ipt new_cluster_ip st =
     io_bind (io_each (\<lambda>(port, lb).
       io_bind (io_ignore (it_delete ipt ''nat'' ''KUBE-SERVICES''
         (gen_svc_rule (st_svc_name st) (st_cluster_ip st) port (lb_chain lb)))) (\<lambda>_.
       unwrap (it_append ipt ''nat'' ''KUBE-SERVICES''
         (gen_svc_rule (st_svc_name st) new_cluster_ip port (lb_chain lb))))) (st_lb_tb st)) (\<lambda>_.
     io_return (st\<lparr>st_cluster_ip := new_cluster_ip\<rparr>))"

section \<open>The tables of all services\<close>

type_synonym svc_tables = "(string, service_table) hashmap"

definition portal_rule :: string where
  "portal_rule = ''-m comment --comment \"kubernetes service portals\" -j KUBE-SERVICES''"

definition ensure_portal :: "'w iptables \<Rightarrow> string \<Rightarrow> ('w, string, unit) eio" where
  "ensure_portal ipt chain = io_bind (it_exists ipt ''nat'' chain portal_rule) (\<lambda>there.
     if there then io_return () else it_insert ipt ''nat'' chain portal_rule 1)"

definition remove_prefixed :: "'w iptables \<Rightarrow> string \<Rightarrow> string list \<Rightarrow> ('w, string, unit) eio" where
  "remove_prefixed ipt pre =
     io_each (\<lambda>chain. if starts_with chain pre then remove_chain ipt chain else io_return ())"

definition cleanup :: "'w iptables \<Rightarrow> ('w, string, unit) eio" where
  "cleanup ipt = io_bind (it_list_chains ipt ''nat'') (\<lambda>chains.
     io_bind (if ''KUBE-SERVICES'' \<in> set chains then io_return ()
              else it_new_chain ipt ''nat'' ''KUBE-SERVICES'') (\<lambda>_.
     io_bind (ensure_portal ipt ''PREROUTING'') (\<lambda>_.
     io_bind (ensure_portal ipt ''OUTPUT'') (\<lambda>_.
     io_bind (if ''KUBE-SERVICES'' \<in> set chains then it_flush_chain ipt ''nat'' ''KUBE-SERVICES''
              else io_return ()) (\<lambda>_.
     io_bind (remove_prefixed ipt ''KUBE-LB'' chains) (\<lambda>_.
     remove_prefixed ipt ''KUBE-EP'' chains))))))"

definition k8s_iptables_new :: "'w iptables \<Rightarrow> ('w, svc_tables) io" where
  "k8s_iptables_new ipt = io_bind (unwrap (cleanup ipt)) (\<lambda>_. io_return hm_empty)"

definition new_svc :: "string \<Rightarrow> ipv4 \<Rightarrow> svc_tables \<Rightarrow> svc_tables" where
  "new_svc name cluster_ip tb =
     (if hm_get tb name \<noteq> None then tb else hm_insert name (service_table_new name cluster_ip) tb)"

text \<open>An operation on the table of a service; without the service only a warning is logged.\<close>

definition on_service ::
    "(service_table \<Rightarrow> ('w, service_table) io) \<Rightarrow> string \<Rightarrow> svc_tables \<Rightarrow> ('w, svc_tables) io" where
  "on_service f name tb = (case hm_get tb name of
       None \<Rightarrow> io_return tb
     | Some st \<Rightarrow> io_bind (f st) (\<lambda>st. io_return (hm_insert name st tb)))"

definition add_svc_port :: "'w iptables \<Rightarrow> string \<Rightarrow> service_port \<Rightarrow> svc_tables \<Rightarrow> ('w, svc_tables) io" where
  "add_svc_port ipt name p = on_service (st_add_port ipt (sp_port p) (sp_target_port p)) name"

definition add_svc_ep :: "'w iptables \<Rightarrow> string \<Rightarrow> ipv4 \<Rightarrow> svc_tables \<Rightarrow> ('w, svc_tables) io" where
  "add_svc_ep ipt name ep = on_service (st_add_ep ipt ep) name"

definition change_cluster_ip :: "'w iptables \<Rightarrow> string \<Rightarrow> ipv4 \<Rightarrow> svc_tables \<Rightarrow> ('w, svc_tables) io" where
  "change_cluster_ip ipt name ip = on_service (st_change_cluster_ip ipt ip) name"

definition add_svc :: "'w iptables \<Rightarrow> service \<Rightarrow> svc_tables \<Rightarrow> ('w, svc_tables) io" where
  "add_svc ipt svc tb = (let name = md_name (svc_metadata svc) in
     case ss_cluster_ip (svc_spec svc) of
       None \<Rightarrow> io_fail (Panic ''Service should always has a cluster ip'')
     | Some cluster_ip \<Rightarrow>
         io_bind (io_fold (add_svc_port ipt name) (ss_ports (svc_spec svc)) (new_svc name cluster_ip tb)) (\<lambda>tb.
         io_fold (add_svc_ep ipt name) (ss_endpoints (svc_spec svc)) tb))"

definition del_svc :: "'w iptables \<Rightarrow> string \<Rightarrow> svc_tables \<Rightarrow> ('w, svc_tables) io" where
  "del_svc ipt name tb = (case hm_get tb name of
       None \<Rightarrow> io_return tb
     | Some st \<Rightarrow> io_bind (st_cleanup ipt st) (\<lambda>_. io_return (hm_remove name tb)))"

section \<open>The handlers\<close>

definition proxy_handle_resync ::
    "'w iptables \<Rightarrow> (string, service) hashmap \<Rightarrow> svc_tables \<Rightarrow> ('w, svc_tables) io" where
  "proxy_handle_resync ipt svc_store tb =
     io_bind (unwrap (cleanup ipt)) (\<lambda>_. io_fold (add_svc ipt) (hm_values svc_store) tb)"

definition proxy_handle_notification ::
    "'w iptables \<Rightarrow> service notification \<Rightarrow> svc_tables \<Rightarrow> ('w, svc_tables) io" where
  "proxy_handle_notification ipt n tb = (case n of
       NAdd new \<Rightarrow> add_svc ipt new tb
     | NUpdate old new \<Rightarrow> io_bind (del_svc ipt (md_name (svc_metadata old)) tb) (add_svc ipt new)
     | NDelete old \<Rightarrow> del_svc ipt (md_name (svc_metadata old)) tb)"

text \<open>A turn of the select loop; the handlers return no error, and a panic ends the proxy.\<close>

datatype proxy_event = ProxyResync "(string, service) hashmap" | ProxyEvent "service notification"

definition proxy_turn :: "'w iptables \<Rightarrow> proxy_event \<Rightarrow> svc_tables \<Rightarrow> ('w, svc_tables) io" where
  "proxy_turn ipt ev = (case ev of
       ProxyResync svc_store \<Rightarrow> proxy_handle_resync ipt svc_store
     | ProxyEvent n \<Rightarrow> proxy_handle_notification ipt n)"

end
