(* ===== verification/NatTable.thy ===== *)
theory NatTable
  imports KubeProxy "HOL-Library.Multiset"
begin

text \<open>
  The nat table the service proxy writes: which chain a rule refers to, the contract \<open>nat_table\<close> of the
  crate \<open>iptables\<close> over a view of the world (the chains with the texts of their rules, and the random strings
  that are still to be drawn), the chains a load balancing table stands for, and the runs of the single
  operations in a table \<open>tbl base C\<close> that holds the chains \<open>C\<close> beside the chains \<open>base\<close> of the host.
\<close>

section \<open>What a rule refers to\<close>

text \<open>A rule that jumps to a chain of the user ends with the option \<open>-j\<close> and the name of the chain.\<close>

definition refers :: "string \<Rightarrow> string \<Rightarrow> bool" where
  "refers rule chain = (case rev (split_on (CHR '' '') rule) of
       x # y # _ \<Rightarrow> y = ''-j'' \<and> x = chain
     | _ \<Rightarrow> False)"

definition plain :: "string \<Rightarrow> bool" where
  "plain s = list_all (\<lambda>c. c \<notin> {CHR '' '', CHR 0x22, CHR 0x5C}) s"

lemma plain_no_blank: "plain s \<Longrightarrow> CHR '' '' \<notin> set s"
  by (auto simp: plain_def list_all_iff)

lemma dec_no_blank: "CHR '' '' \<notin> set (dec_of_nat n)"
  using dec_of_nat_digits [of "CHR '' ''" n] by auto

lemma shown_no_blank: "CHR '' '' \<notin> set (show_ipv4 a)" "CHR '' '' \<notin> set (show_u16 p)"
  by (simp_all add: show_ipv4_def show_u16_def Let_def dec_no_blank)

lemma split_blank: "CHR '' '' \<notin> set s \<Longrightarrow> split_on (CHR '' '') (s @ CHR '' '' # rest) = s # split_on (CHR '' '') rest"
  by (rule split_on_append)

lemma refers_lastD:
  assumes "split_on (CHR '' '') rule = ws @ [a, b]"
  shows "refers rule chain \<longleftrightarrow> a = ''-j'' \<and> b = chain"
  using assms by (simp add: refers_def)

lemma split_on_suffix:
  "split_on c (s @ c # rest) = split_on c s @ split_on c rest"
proof (induction s)
  case (Cons x s)
  then show ?case
    by (cases "split_on c s") (auto split: list.split)
qed simp

lemma refers_jump:
  assumes "plain chain"
  shows "refers (pre @ '' -j '' @ chain) d \<longleftrightarrow> d = chain"
proof -
  have "split_on (CHR '' '') (pre @ CHR '' '' # (''-j'' @ CHR '' '' # chain)) =
      split_on (CHR '' '') pre @ [''-j'', chain]"
    using plain_no_blank [OF assms] by (simp only: split_on_suffix) (simp add: split_on_no_sep)
  then have "split_on (CHR '' '') (pre @ '' -j '' @ chain) = split_on (CHR '' '') pre @ [''-j'', chain]"
    by simp
  from refers_lastD [OF this] show ?thesis by auto
qed

lemma refers_svc_rule: "plain chain \<Longrightarrow> refers (gen_svc_rule name ip p chain) d \<longleftrightarrow> d = chain"
  using refers_jump [of chain "''-d '' @ show_ipv4 ip @ '' -p tcp --dport '' @ show_u16 p @
     '' -m comment --comment \"'' @ name @ ''\"''" d]
  by (simp add: gen_svc_rule_def)

lemma refers_lb_rule: "plain chain \<Longrightarrow> refers (gen_lb_rule i chain) d \<longleftrightarrow> d = chain"
proof (cases "i = 1")
  case True
  assume "plain chain"
  then have "split_on (CHR '' '') (''-j '' @ chain) = [] @ [''-j'', chain]"
    using plain_no_blank by (simp add: split_on_no_sep)
  from refers_lastD [OF this] True show ?thesis by (auto simp: gen_lb_rule_def)
next
  case False
  assume "plain chain"
  then show ?thesis
    using False refers_jump [of chain "''-m statistic --mode random --probability '' @
        format_fixed 11 (f32_pos (1 / f32_pos (of_nat i)))" d]
    by (simp add: gen_lb_rule_def)
qed

lemma refers_ep_rule: "\<not> refers (gen_ep_rule name ep p) d"
proof -
  have "split_on (CHR '' '') (gen_ep_rule name ep p) =
      split_on (CHR '' '') (''-p tcp -m comment --comment \"'' @ name @ ''\" -m tcp -j DNAT'') @
      [''--to-destination'', show_ipv4 ep @ '':'' @ show_u16 p]" (is "_ = ?ws @ _")
    using split_on_suffix [of "CHR '' ''" "''-p tcp -m comment --comment \"'' @ name @ ''\" -m tcp -j DNAT''"
        "''--to-destination '' @ show_ipv4 ep @ '':'' @ show_u16 p"]
    by (simp add: gen_ep_rule_def split_on_no_sep shown_no_blank)
  from refers_lastD [OF this] show ?thesis by simp
qed

section \<open>The contract of the nat table\<close>

text \<open>
  The world is seen as the nat table and the random strings that will be drawn. The laws say what the
  documentation of \<open>iptables\<close> says of calls that succeed: a new chain must not exist, a deleted chain must be
  empty and no rule may refer to it, a rule may refer to existing chains only, and a flush needs the chain.
\<close>

type_synonym nat_view = "(string \<rightharpoonup> string list) \<times> string list"

locale nat_table =
  fixes ipt :: "'w iptables" and view :: "'w \<Rightarrow> nat_view"
  assumes list_chains: "\<exists>cs w'. it_list_chains ipt ''nat'' w = (Inr cs, w') \<and> view w' = view w \<and>
      distinct cs \<and> set cs = dom (fst (view w))"
    and exists_rule: "t c = Some rs \<Longrightarrow> achieves view (it_exists ipt ''nat'' c r) (t, hs) (r \<in> set rs) (t, hs)"
    and new_chain: "t c = None \<Longrightarrow> achieves view (it_new_chain ipt ''nat'' c) (t, hs) () (t(c \<mapsto> []), hs)"
    and flush_chain: "t c = Some rs \<Longrightarrow>
      achieves view (it_flush_chain ipt ''nat'' c) (t, hs) () (t(c \<mapsto> []), hs)"
    and flush_missing: "view w = (t, hs) \<Longrightarrow> t c = None \<Longrightarrow> \<exists>e w'. it_flush_chain ipt ''nat'' c w = (Inl e, w')"
    and delete_chain: "t c = Some [] \<Longrightarrow> (\<And>d rs r. t d = Some rs \<Longrightarrow> r \<in> set rs \<Longrightarrow> \<not> refers r c) \<Longrightarrow>
      achieves view (it_delete_chain ipt ''nat'' c) (t, hs) () (t(c := None), hs)"
    and append_rule: "t c = Some rs \<Longrightarrow> (\<And>d. refers r d \<Longrightarrow> t d \<noteq> None) \<Longrightarrow>
      achieves view (it_append ipt ''nat'' c r) (t, hs) () (t(c \<mapsto> rs @ [r]), hs)"
    and append_unique_rule: "t c = Some rs \<Longrightarrow> r \<notin> set rs \<Longrightarrow> (\<And>d. refers r d \<Longrightarrow> t d \<noteq> None) \<Longrightarrow>
      achieves view (it_append_unique ipt ''nat'' c r) (t, hs) () (t(c \<mapsto> rs @ [r]), hs)"
    and insert_rule: "t c = Some rs \<Longrightarrow> (\<And>d. refers r d \<Longrightarrow> t d \<noteq> None) \<Longrightarrow>
      achieves view (it_insert ipt ''nat'' c r 1) (t, hs) () (t(c \<mapsto> r # rs), hs)"
    and delete_rule: "t c = Some rs \<Longrightarrow> r \<in> set rs \<Longrightarrow>
      achieves view (it_delete ipt ''nat'' c r) (t, hs) () (t(c \<mapsto> remove1 r rs), hs)"
    and sample: "achieves view (it_sample ipt) (t, h # hs) h (t, hs)"

section \<open>What the tables write\<close>

text \<open>The chains of the state, with their rules: the balancing rules are inserted in front of each other.\<close>

type_synonym chain_list = "(string \<times> string list) list"

fun lb_rules :: "nat \<Rightarrow> string list \<Rightarrow> string list \<Rightarrow> string list" where
  "lb_rules i [] acc = acc"
| "lb_rules i (c # cs) acc = lb_rules (i + 1) cs (gen_lb_rule i c # acc)"

definition ep_chains :: "lb_table \<Rightarrow> chain_list" where
  "ep_chains lb = map (\<lambda>(ep, c). (c, [gen_ep_rule (lb_svc_name lb) ep (lb_target_port lb)])) (lb_eps lb)"

definition lb_chains :: "lb_table \<Rightarrow> chain_list" where
  "lb_chains lb = (lb_chain lb, lb_rules 1 (hm_values (lb_eps lb)) []) # ep_chains lb"

definition port_chains :: "(u16 \<times> lb_table) list \<Rightarrow> chain_list" where
  "port_chains tb = concat (map (\<lambda>(port, lb). lb_chains lb) tb)"

definition port_rules :: "string \<Rightarrow> ipv4 \<Rightarrow> (u16 \<times> lb_table) list \<Rightarrow> string list" where
  "port_rules name ip tb = map (\<lambda>(port, lb). gen_svc_rule name ip port (lb_chain lb)) tb"

definition all_chains :: "svc_tables \<Rightarrow> chain_list" where
  "all_chains tb = concat (map (\<lambda>(name, st). port_chains (st_lb_tb st)) tb)"

definition all_rules :: "svc_tables \<Rightarrow> string list" where
  "all_rules tb = concat (map (\<lambda>(name, st). port_rules (st_svc_name st) (st_cluster_ip st) (st_lb_tb st)) tb)"

text \<open>
  The nat table with the chains of a list beside the other chains \<open>base\<close> of the host. Every rule of
  the list refers to chains of the list only, and the rules of the host to none of them.
\<close>

definition names :: "chain_list \<Rightarrow> string set" where
  "names C = fst ` set C"

definition tbl :: "(string \<rightharpoonup> string list) \<Rightarrow> chain_list \<Rightarrow> string \<rightharpoonup> string list" where
  "tbl base C = base ++ map_of C"

definition apart :: "(string \<rightharpoonup> string list) \<Rightarrow> chain_list \<Rightarrow> bool" where
  "apart base C \<longleftrightarrow> distinct (map fst C) \<and> names C \<inter> dom base = {}"

definition refs_in :: "string list \<Rightarrow> string set \<Rightarrow> bool" where
  "refs_in rs D \<longleftrightarrow> (\<forall>r \<in> set rs. \<forall>d. refers r d \<longrightarrow> d \<in> D)"

definition refs_closed :: "chain_list \<Rightarrow> string set \<Rightarrow> bool" where
  "refs_closed C D \<longleftrightarrow> (\<forall>(c, rs) \<in> set C. refs_in rs D)"

definition no_refs_from :: "(string \<rightharpoonup> string list) \<Rightarrow> string set \<Rightarrow> bool" where
  "no_refs_from base D \<longleftrightarrow> (\<forall>c rs r d. base c = Some rs \<longrightarrow> r \<in> set rs \<longrightarrow> refers r d \<longrightarrow> d \<notin> D)"

lemma names_simps [simp]:
  "names [] = {}" "names ((c, rs) # C) = insert c (names C)" "names (C @ D) = names C \<union> names D"
  by (auto simp: names_def)

lemma tbl_Cons: "tbl base ((c, rs) # C) = (tbl base C)(c \<mapsto> rs)"
  by (simp add: tbl_def)

lemma tbl_other: "c \<notin> names C \<Longrightarrow> tbl base C c = base c"
  by (auto simp: tbl_def names_def map_add_def map_of_eq_None_iff [THEN iffD2])

lemma tbl_Some_iff: "apart base C \<Longrightarrow> tbl base C c = Some rs \<longleftrightarrow> (c, rs) \<in> set C \<or> base c = Some rs"
  by (auto simp: tbl_def apart_def names_def map_add_Some_iff map_of_eq_None_iff domI)

lemma dom_tbl: "dom (tbl base C) = dom base \<union> names C"
  by (auto simp: tbl_def names_def dom_map_of_conv_image_fst)

lemma apart_Cons: "apart base ((c, rs) # C) \<longleftrightarrow> c \<notin> names C \<and> base c = None \<and> apart base C"
  by (auto simp: apart_def names_def)

lemma tbl_remove: "apart base ((c, rs) # C) \<Longrightarrow> (tbl base ((c, rs) # C))(c := None) = tbl base C"
  using tbl_other [of c C base] by (auto simp: tbl_Cons apart_Cons)

lemma tbl_perm:
  assumes "mset C = mset D" and "apart base C"
  shows "tbl base C = tbl base D" and "apart base D" and "names C = names D"
proof -
  have m: "mset (map fst C) = mset (map fst D)" using assms(1) by simp
  have d: "distinct (map fst D)"
    using assms(2) mset_eq_imp_distinct_iff [OF m] by (simp add: apart_def)
  have s: "set C = set D" using assms(1) by (rule mset_eq_setD)
  with assms(2) d have "map_of C = map_of D"
    by (intro map_of_inject_set [THEN iffD2]) (simp_all add: apart_def)
  then show "tbl base C = tbl base D" by (simp add: tbl_def)
  show "names C = names D" using s by (simp add: names_def)
  with d assms(2) show "apart base D" by (simp add: apart_def)
qed

lemma refs_closed_simps [simp]:
  "refs_closed [] D" "refs_closed ((c, rs) # C) D \<longleftrightarrow> refs_in rs D \<and> refs_closed C D"
  "refs_closed (C @ C') D \<longleftrightarrow> refs_closed C D \<and> refs_closed C' D"
  by (auto simp: refs_closed_def)

lemma refs_in_simps [simp]:
  "refs_in [] D" "refs_in (r # rs) D \<longleftrightarrow> (\<forall>d. refers r d \<longrightarrow> d \<in> D) \<and> refs_in rs D"
  "refs_in (rs @ rs') D \<longleftrightarrow> refs_in rs D \<and> refs_in rs' D"
  by (auto simp: refs_in_def)

lemma refs_in_mono: "refs_in rs D \<Longrightarrow> D \<subseteq> D' \<Longrightarrow> refs_in rs D'"
  by (auto simp: refs_in_def)

lemma refs_closed_mono: "refs_closed C D \<Longrightarrow> D \<subseteq> D' \<Longrightarrow> refs_closed C D'"
  by (fastforce simp: refs_closed_def intro: refs_in_mono)

text \<open>Deleting an empty chain that the remaining chains do not refer to.\<close>

lemma unreferenced:
  assumes "apart base C" and "refs_closed C D" and "c \<notin> D" and "no_refs_from base {c}"
    and "tbl base C d = Some rs" and "r \<in> set rs"
  shows "\<not> refers r c"
proof
  assume ref: "refers r c"
  from assms(1,5) consider "(d, rs) \<in> set C" | "base d = Some rs" by (auto simp: tbl_Some_iff)
  then show False
  proof cases
    case 1
    with assms(2,3,6) ref show ?thesis by (fastforce simp: refs_closed_def refs_in_def)
  next
    case 2
    with assms(4,6) ref show ?thesis by (auto simp: no_refs_from_def)
  qed
qed

lemma ref_there: "refs_in [r] (names C) \<Longrightarrow> refers r d \<Longrightarrow> tbl base C d \<noteq> None"
  using dom_tbl [of base C] by (auto simp: refs_in_def)

context nat_table
begin

lemma op_new:
  assumes "apart base ((c, []) # C)"
  shows "achieves view (it_new_chain ipt ''nat'' c) (tbl base C, hs) () (tbl base ((c, []) # C), hs)"
  using new_chain [of "tbl base C" c hs] assms tbl_other [of c C base] by (simp add: apart_Cons tbl_Cons)

lemma op_flush:
  "achieves view (it_flush_chain ipt ''nat'' c) (tbl base ((c, rs) # C), hs) () (tbl base ((c, []) # C), hs)"
  using flush_chain [of "tbl base ((c, rs) # C)" c rs hs] by (simp add: tbl_Cons)

lemma op_append:
  assumes "refs_in [r] (names ((c, rs) # C))"
  shows "achieves view (it_append ipt ''nat'' c r) (tbl base ((c, rs) # C), hs) ()
    (tbl base ((c, rs @ [r]) # C), hs)"
proof -
  have "tbl base ((c, rs) # C) c = Some rs" by (simp add: tbl_Cons)
  from append_rule [where t = "tbl base ((c, rs) # C)" and hs = hs, OF this ref_there [OF assms]] show ?thesis by (simp add: tbl_Cons)
qed

lemma op_append_unique:
  assumes "refs_in [r] (names ((c, rs) # C))" and "r \<notin> set rs"
  shows "achieves view (it_append_unique ipt ''nat'' c r) (tbl base ((c, rs) # C), hs) ()
    (tbl base ((c, rs @ [r]) # C), hs)"
proof -
  have "tbl base ((c, rs) # C) c = Some rs" by (simp add: tbl_Cons)
  from append_unique_rule [where t = "tbl base ((c, rs) # C)" and hs = hs, OF this assms(2) ref_there [OF assms(1)]] show ?thesis by (simp add: tbl_Cons)
qed

lemma op_insert:
  assumes "refs_in [r] (names ((c, rs) # C))"
  shows "achieves view (it_insert ipt ''nat'' c r 1) (tbl base ((c, rs) # C), hs) ()
    (tbl base ((c, r # rs) # C), hs)"
proof -
  have "tbl base ((c, rs) # C) c = Some rs" by (simp add: tbl_Cons)
  from insert_rule [where t = "tbl base ((c, rs) # C)" and hs = hs, OF this ref_there [OF assms]] show ?thesis by (simp add: tbl_Cons)
qed

lemma op_delete:
  assumes "r \<in> set rs"
  shows "achieves view (it_delete ipt ''nat'' c r) (tbl base ((c, rs) # C), hs) ()
    (tbl base ((c, remove1 r rs) # C), hs)"
  using delete_rule [of "tbl base ((c, rs) # C)" c rs r hs] assms by (simp add: tbl_Cons)

lemma op_remove_chain:
  assumes "apart base ((c, rs) # C)" and "refs_closed C D" and "c \<notin> D" and "no_refs_from base {c}"
  shows "achieves view (remove_chain ipt c) (tbl base ((c, rs) # C), hs) () (tbl base C, hs)"
  unfolding remove_chain_def
proof (rule achieves_bind [OF op_flush])
  have a: "apart base ((c, []) # C)" and cl: "refs_closed ((c, []) # C) D"
    using assms by (simp_all add: apart_Cons)
  have "(tbl base ((c, []) # C)) c = Some []" by (simp add: tbl_Cons)
  then have "achieves view (it_delete_chain ipt ''nat'' c) (tbl base ((c, []) # C), hs) ()
      ((tbl base ((c, []) # C))(c := None), hs)"
    by (rule delete_chain) (rule unreferenced [OF a cl assms(3,4)])
  then show "achieves view (it_delete_chain ipt ''nat'' c) (tbl base ((c, []) # C), hs) () (tbl base C, hs)"
    by (simp add: tbl_remove [OF a])
qed

lemma op_hash: "achieves view (unique_hash ipt) (t, h # hs) (map char_to_upper h) (t, hs)"
  unfolding unique_hash_def by (rule achieves_bind [OF sample achieves_return])

end

section \<open>Endpoints and ports\<close>

definition ep_name :: "string \<Rightarrow> string" where
  "ep_name h = ''KUBE-EP-'' @ map char_to_upper h"

definition lb_name :: "string \<Rightarrow> string" where
  "lb_name h = ''KUBE-LB-'' @ map char_to_upper h"

definition with_ep :: "ipv4 \<Rightarrow> string \<Rightarrow> lb_table \<Rightarrow> lb_table" where
  "with_ep ep h lb = lb\<lparr>lb_eps := lb_eps lb @ [(ep, ep_name h)]\<rparr>"

definition lb_fresh :: "string \<Rightarrow> u16 \<Rightarrow> string \<Rightarrow> lb_table" where
  "lb_fresh name target_port h =
     \<lparr>lb_svc_name = name, lb_chain = lb_name h, lb_target_port = target_port, lb_eps = []\<rparr>"

definition plain_names :: "chain_list \<Rightarrow> bool" where
  "plain_names C \<longleftrightarrow> (\<forall>c \<in> names C. plain c)"

lemma plain_names_simps [simp]:
  "plain_names []" "plain_names ((c, rs) # C) \<longleftrightarrow> plain c \<and> plain_names C"
  "plain_names (C @ D) \<longleftrightarrow> plain_names C \<and> plain_names D"
  by (auto simp: plain_names_def)

lemma ep_chains_with_ep:
  "ep_chains (with_ep ep h lb) =
     ep_chains lb @ [(ep_name h, [gen_ep_rule (lb_svc_name lb) ep (lb_target_port lb)])]"
  by (simp add: ep_chains_def with_ep_def)

lemma with_ep_simps [simp]:
  "lb_chain (with_ep ep h lb) = lb_chain lb" "lb_svc_name (with_ep ep h lb) = lb_svc_name lb"
  "lb_target_port (with_ep ep h lb) = lb_target_port lb"
  "lb_eps (with_ep ep h lb) = lb_eps lb @ [(ep, ep_name h)]"
  by (simp_all add: with_ep_def)

lemma names_ep_chains: "names (ep_chains lb) = set (hm_values (lb_eps lb))"
  by (force simp: names_def ep_chains_def hm_values_def)

lemma refs_lb_rules:
  "\<forall>c \<in> set cs. plain c \<Longrightarrow> set cs \<subseteq> D \<Longrightarrow> refs_in acc D \<Longrightarrow> refs_in (lb_rules i cs acc) D"
  by (induction cs arbitrary: i acc) (simp_all add: refers_lb_rule)

lemma closed_ep_chains: "refs_closed (ep_chains lb) D"
  by (auto simp: refs_closed_def ep_chains_def refs_in_def refers_ep_rule)

lemma closed_lb_chains:
  "plain_names (lb_chains lb) \<Longrightarrow> refs_closed (lb_chains lb) (names (ep_chains lb))"
  by (auto simp: lb_chains_def closed_ep_chains plain_names_def names_ep_chains intro!: refs_lb_rules)

lemma apart_perm: "mset C = mset D \<Longrightarrow> apart base C \<longleftrightarrow> apart base D"
  using tbl_perm(2) [of C D base] tbl_perm(2) [of D C base] by auto

lemma achieves_perm:
  assumes "achieves view m (tbl base C, hs) a (tbl base D, hs')" and "mset C = mset C'" and "mset D = mset D'"
    and "apart base C" and "apart base D"
  shows "achieves view m (tbl base C', hs) a (tbl base D', hs')"
  using assms tbl_perm(1) [of C C' base] tbl_perm(1) [of D D' base] by simp

context nat_table
begin

lemma op_insert_rules:
  "\<forall>c \<in> set eps. plain c \<Longrightarrow> set eps \<subseteq> names ((chain, []) # C) \<Longrightarrow>
   achieves view (insert_lb_rules ipt chain i eps) (tbl base ((chain, acc) # C), hs) ()
     (tbl base ((chain, lb_rules i eps acc) # C), hs)"
proof (induction eps arbitrary: i acc)
  case Nil
  then show ?case by (simp add: achieves_def)
next
  case (Cons c eps)
  have ok: "refs_in [gen_lb_rule i c] (names ((chain, acc) # C))"
    using Cons.prems by (auto simp: refers_lb_rule)
  show ?case
    unfolding insert_lb_rules.simps lb_rules.simps
    by (rule achieves_bind [OF achieves_map_err [OF op_insert [OF ok]] Cons.IH]) (use Cons.prems in simp_all)
qed

lemma op_rewrite:
  assumes "\<forall>c \<in> set (hm_values (lb_eps lb)). plain c" and "set (hm_values (lb_eps lb)) \<subseteq> names C"
  shows "achieves view (rewrite_lb_rules ipt lb) (tbl base ((lb_chain lb, rs) # C), hs) ()
    (tbl base ((lb_chain lb, lb_rules 1 (hm_values (lb_eps lb)) []) # C), hs)"
  unfolding rewrite_lb_rules_def
  using assms by (intro achieves_bind [OF achieves_map_err [OF op_flush]] op_insert_rules) auto

lemma lb_add_ep_run:
  assumes ap: "apart base (lb_chains (with_ep ep h lb) @ C)" and pl: "plain_names (lb_chains (with_ep ep h lb))"
    and new: "ep \<notin> fst ` set (lb_eps lb)"
  shows "achieves view (lb_add_ep ipt ep lb) (tbl base (lb_chains lb @ C), h # hs) (with_ep ep h lb)
    (tbl base (lb_chains (with_ep ep h lb) @ C), hs)"
proof -
  let ?lb = "with_ep ep h lb" and ?rule = "gen_ep_rule (lb_svc_name lb) ep (lb_target_port lb)"
  let ?old = "lb_rules 1 (hm_values (lb_eps lb)) []"
  have eq: "lb\<lparr>lb_eps := hm_insert ep (ep_name h) (lb_eps lb)\<rparr> = ?lb"
    using new by (simp add: with_ep_def hm_insert_new)
  have a0: "apart base ((ep_name h, []) # lb_chains lb @ C)"
    using ap by (auto simp: lb_chains_def ep_chains_with_ep apart_Cons apart_def)
  have a1: "apart base ((ep_name h, [?rule]) # lb_chains lb @ C)"
    using a0 by (simp add: apart_Cons)
  have swap: "tbl base ((ep_name h, [?rule]) # lb_chains lb @ C) =
      tbl base ((lb_chain lb, ?old) # ep_chains ?lb @ C)"
    by (rule tbl_perm(1) [OF _ a1]) (simp add: lb_chains_def ep_chains_with_ep)
  have ep: "set (hm_values (lb_eps ?lb)) \<subseteq> names (ep_chains ?lb @ C)" by (simp add: names_ep_chains)
  have "\<forall>c \<in> set (hm_values (lb_eps ?lb)). plain c"
    using pl by (simp add: lb_chains_def plain_names_def names_ep_chains)
  from op_rewrite [OF this ep, of base ?old hs] have rw:
    "achieves view (rewrite_lb_rules ipt ?lb) (tbl base ((ep_name h, [?rule]) # lb_chains lb @ C), hs) ()
      (tbl base (lb_chains ?lb @ C), hs)"
    unfolding swap by (simp add: lb_chains_def)
  have app: "achieves view (it_append_unique ipt ''nat'' (ep_name h) ?rule)
      (tbl base ((ep_name h, []) # lb_chains lb @ C), hs) () (tbl base ((ep_name h, [?rule]) # lb_chains lb @ C), hs)"
    using op_append_unique [of ?rule "ep_name h" "[]"] by (simp add: refers_ep_rule)
  show ?thesis
    unfolding lb_add_ep_def Let_def
    by (rule achieves_bind [OF op_hash], unfold ep_name_def [symmetric] eq,
      rule achieves_bind [OF achieves_map_err [OF op_new [OF a0]]],
      rule achieves_bind [OF achieves_map_err [OF app]], rule achieves_bind [OF rw achieves_return])
qed

end

end
