(* ===== verification/ProxyTables.thy ===== *)
theory ProxyTables
  imports NatTable
begin

text \<open>
  The nat table mirrors the services: adding and deleting a service changes exactly the chains of that
  service, so the handlers of the notifications keep \<open>mirrors\<close> and never panic.
\<close>

section \<open>Adding a service\<close>

definition with_eps :: "ipv4 \<Rightarrow> string list \<Rightarrow> (u16 \<times> lb_table) list \<Rightarrow> (u16 \<times> lb_table) list" where
  "with_eps ep hs tb = map2 (\<lambda>(p, lb) h. (p, with_ep ep h lb)) tb hs"

definition with_ports :: "string \<Rightarrow> service_port list \<Rightarrow> string list \<Rightarrow> (u16 \<times> lb_table) list" where
  "with_ports name ps hs = map2 (\<lambda>p h. (sp_port p, lb_fresh name (sp_target_port p) h)) ps hs"

fun with_all :: "ipv4 list \<Rightarrow> string list \<Rightarrow> (u16 \<times> lb_table) list \<Rightarrow> (u16 \<times> lb_table) list" where
  "with_all [] hs tb = tb"
| "with_all (e # es) hs tb = with_all es (drop (length tb) hs) (with_eps e (take (length tb) hs) tb)"

lemma distinct_sub_mset: "mset xs \<subseteq># mset ys \<Longrightarrow> distinct ys \<Longrightarrow> distinct xs"
proof -
  assume sub: "mset xs \<subseteq># mset ys" and d: "distinct ys"
  have "count (mset xs) a = (if a \<in> set xs then 1 else 0)" for a
  proof (cases "a \<in> set xs")
    case True
    then have "0 < count (mset xs) a" by simp
    moreover have "count (mset ys) a = (if a \<in> set ys then 1 else 0)"
      using d unfolding distinct_count_atmost_1 by blast
    then have "count (mset ys) a = 1 \<or> count (mset ys) a = 0" by metis
    with mset_subset_eq_count [OF sub, of a] have "count (mset xs) a \<le> 1" by linarith
    ultimately have "count (mset xs) a = 1" by linarith
    then show ?thesis using True by simp
  next
    case False
    then show ?thesis by (simp add: count_eq_zero_iff)
  qed
  then show ?thesis by (simp only: distinct_count_atmost_1) simp
qed

lemma apart_sub:
  assumes "mset (map fst C) \<subseteq># mset (map fst D)" and "apart base D"
  shows "apart base C"
proof -
  have "set (map fst C) \<subseteq> set (map fst D)" using set_mset_mono [OF assms(1)] by simp
  with assms distinct_sub_mset [OF assms(1)] show ?thesis by (auto simp: apart_def names_def)
qed

lemma plain_sub:
  assumes "mset (map fst C) \<subseteq># mset (map fst D)" and "plain_names D"
  shows "plain_names C"
proof -
  have "names C \<subseteq> names D" using set_mset_mono [OF assms(1)] by (simp add: names_def)
  with assms(2) show ?thesis by (auto simp: plain_names_def)
qed

lemma port_chains_simps [simp]:
  "port_chains [] = []" "port_chains ((p, lb) # tb) = lb_chains lb @ port_chains tb"
  "port_chains (tb @ tb') = port_chains tb @ port_chains tb'"
  by (simp_all add: port_chains_def)

lemma names_with_ep: "mset (map fst (lb_chains lb)) \<subseteq># mset (map fst (lb_chains (with_ep ep h lb)))"
  by (simp add: lb_chains_def ep_chains_with_ep)

lemma with_eps_Cons [simp]: "with_eps ep (h # hs) ((p, lb) # tb) = (p, with_ep ep h lb) # with_eps ep hs tb"
  by (simp add: with_eps_def)

lemma length_with_eps [simp]: "length hs = length tb \<Longrightarrow> length (with_eps ep hs tb) = length tb"
  by (simp add: with_eps_def)

lemma names_with_eps:
  "length hs = length tb \<Longrightarrow>
    image_mset fst (mset (port_chains (with_eps ep hs tb))) =
      image_mset fst (mset (port_chains tb)) + image_mset ep_name (mset hs)"
proof (induction tb arbitrary: hs)
  case (Cons x tb)
  then obtain h hs' where "hs = h # hs'" "length hs' = length tb" by (cases hs) auto
  with Cons.IH [of hs'] show ?case
    by (cases x) (simp add: lb_chains_def ep_chains_with_ep)
qed (simp add: with_eps_def)

lemma names_with_all:
  "length hs = length es * length tb \<Longrightarrow>
    image_mset fst (mset (port_chains (with_all es hs tb))) =
      image_mset fst (mset (port_chains tb)) + image_mset ep_name (mset hs)"
proof (induction es arbitrary: hs tb)
  case (Cons e es)
  let ?a = "take (length tb) hs" and ?b = "drop (length tb) hs"
  have len: "length ?a = length tb" "length ?b = length es * length tb" using Cons.prems by auto
  have parts: "mset ?a + mset ?b = mset hs" by (metis append_take_drop_id mset_append)
  have "image_mset fst (mset (port_chains (with_all (e # es) hs tb))) =
      image_mset fst (mset (port_chains tb)) + image_mset ep_name (mset ?a + mset ?b)"
    using Cons.IH [of ?b "with_eps e ?a tb"] len names_with_eps [OF len(1)] by simp
  then show ?case unfolding parts .
qed simp

context nat_table
begin

lemma st_add_ep_map:
  assumes "length hs1 = length tb" and "apart base (port_chains (with_eps ep hs1 tb) @ C)"
    and "plain_names (port_chains (with_eps ep hs1 tb))" and "\<forall>(p, lb) \<in> set tb. ep \<notin> fst ` set (lb_eps lb)"
  shows "achieves view (io_map (\<lambda>(port, lb). io_bind (lb_add_ep ipt ep lb) (\<lambda>lb. io_return (port, lb))) tb)
    (tbl base (port_chains tb @ C), hs1 @ hs) (with_eps ep hs1 tb)
    (tbl base (port_chains (with_eps ep hs1 tb) @ C), hs)"
  using assms
proof (induction tb arbitrary: hs1 C)
  case Nil
  then show ?case by (simp add: achieves_def with_eps_def)
next
  case (Cons x tb)
  obtain p lb where x: "x = (p, lb)" by (cases x)
  obtain h hs' where hs1: "hs1 = h # hs'" and len: "length hs' = length tb" using Cons.prems(1) by (cases hs1) auto
  let ?lb = "with_ep ep h lb" and ?tb = "with_eps ep hs' tb"
  have ap: "apart base (lb_chains ?lb @ port_chains ?tb @ C)" using Cons.prems(2) by (simp add: x hs1)
  have "apart base (lb_chains ?lb @ port_chains tb @ C)"
    by (rule apart_sub [OF _ ap]) (simp add: names_with_eps [OF len])
  then have 1: "achieves view (lb_add_ep ipt ep lb) (tbl base (lb_chains lb @ port_chains tb @ C), h # hs' @ hs) ?lb
      (tbl base (lb_chains ?lb @ port_chains tb @ C), hs' @ hs)"
    by (rule lb_add_ep_run) (use Cons.prems in \<open>simp_all add: x hs1\<close>)
  have ap': "apart base (port_chains ?tb @ lb_chains ?lb @ C)"
    using ap apart_perm [of "lb_chains ?lb @ port_chains ?tb @ C" "port_chains ?tb @ lb_chains ?lb @ C" base] by simp
  have ap'': "apart base (port_chains tb @ lb_chains ?lb @ C)"
    by (rule apart_sub [OF _ ap']) (simp add: names_with_eps [OF len])
  have ih: "achieves view (io_map (\<lambda>(port, lb). io_bind (lb_add_ep ipt ep lb) (\<lambda>lb. io_return (port, lb))) tb)
      (tbl base (port_chains tb @ lb_chains ?lb @ C), hs' @ hs) ?tb (tbl base (port_chains ?tb @ lb_chains ?lb @ C), hs)"
    by (rule Cons.IH [OF len ap']) (use Cons.prems(3,4) in \<open>simp_all add: x hs1\<close>)
  have 2: "achieves view (io_map (\<lambda>(port, lb). io_bind (lb_add_ep ipt ep lb) (\<lambda>lb. io_return (port, lb))) tb)
      (tbl base (lb_chains ?lb @ port_chains tb @ C), hs' @ hs) ?tb (tbl base (lb_chains ?lb @ port_chains ?tb @ C), hs)"
    by (rule achieves_perm [OF ih _ _ ap'' ap']) simp_all
  show ?case
    unfolding x hs1 io_map.simps prod.case append_Cons with_eps_Cons port_chains_simps append_assoc
    by (rule achieves_bind, rule achieves_bind [OF 1], rule achieves_return, rule achieves_bind [OF 2],
      rule achieves_return)
qed

lemma st_add_ep_run:
  assumes "length hs1 = length (st_lb_tb st)" and "apart base (port_chains (with_eps ep hs1 (st_lb_tb st)) @ C)"
    and "plain_names (port_chains (with_eps ep hs1 (st_lb_tb st)))"
    and "\<forall>(p, lb) \<in> set (st_lb_tb st). ep \<notin> fst ` set (lb_eps lb)"
  shows "achieves view (st_add_ep ipt ep st) (tbl base (port_chains (st_lb_tb st) @ C), hs1 @ hs)
    (st\<lparr>st_lb_tb := with_eps ep hs1 (st_lb_tb st)\<rparr>) (tbl base (port_chains (with_eps ep hs1 (st_lb_tb st)) @ C), hs)"
  unfolding st_add_ep_def by (rule achieves_bind [OF st_add_ep_map [OF assms] achieves_return])

end

definition full :: "string list \<Rightarrow> svc_tables \<Rightarrow> chain_list" where
  "full rs tb = (''KUBE-SERVICES'', rs) # all_chains tb"

definition entry :: "string \<Rightarrow> ipv4 \<Rightarrow> (u16 \<times> lb_table) list \<Rightarrow> service_table" where
  "entry name ip L = \<lparr>st_svc_name = name, st_cluster_ip = ip, st_lb_tb = L\<rparr>"

lemma entry_simps [simp]:
  "st_svc_name (entry name ip L) = name" "st_cluster_ip (entry name ip L) = ip" "st_lb_tb (entry name ip L) = L"
  "(entry name ip L)\<lparr>st_lb_tb := L'\<rparr> = entry name ip L'"
  by (simp_all add: entry_def)

lemma all_chains_simps [simp]:
  "all_chains [] = []" "all_chains ((n, st) # tb) = port_chains (st_lb_tb st) @ all_chains tb"
  "all_chains (tb @ tb') = all_chains tb @ all_chains tb'"
  by (simp_all add: all_chains_def)

lemma all_rules_simps [simp]:
  "all_rules [] = []"
  "all_rules ((n, st) # tb) = port_rules (st_svc_name st) (st_cluster_ip st) (st_lb_tb st) @ all_rules tb"
  "all_rules (tb @ tb') = all_rules tb @ all_rules tb'"
  by (simp_all add: all_rules_def)

lemma port_rules_simps [simp]:
  "port_rules name ip [] = []"
  "port_rules name ip ((p, lb) # L) = gen_svc_rule name ip p (lb_chain lb) # port_rules name ip L"
  "port_rules name ip (L @ L') = port_rules name ip L @ port_rules name ip L'"
  by (simp_all add: port_rules_def)

lemma hm_get_last: "name \<notin> fst ` set tb \<Longrightarrow> hm_get (tb @ [(name, st)]) name = Some st"
  by (simp add: hm_get_def map_add_def map_of_eq_None_iff [THEN iffD2])

lemma hm_insert_last: "name \<notin> fst ` set tb \<Longrightarrow> hm_insert name st' (tb @ [(name, st)]) = tb @ [(name, st')]"
  by (induction tb) (auto simp: hm_insert_def)

lemma on_service_run:
  assumes "name \<notin> fst ` set tb" and "achieves view (f st) v st' v'"
  shows "achieves view (on_service f name (tb @ [(name, st)])) v (tb @ [(name, st')]) v'"
  unfolding on_service_def hm_get_last [OF assms(1)] option.case
  by (rule achieves_bind [OF assms(2)]) (simp add: hm_insert_last [OF assms(1)] achieves_def)

lemma with_eps_shape:
  "length hs = length L \<Longrightarrow> map fst (with_eps ep hs L) = map fst L \<and>
    map (lb_target_port \<circ> snd) (with_eps ep hs L) = map (lb_target_port \<circ> snd) L \<and>
    map (map fst \<circ> lb_eps \<circ> snd) (with_eps ep hs L) = map (\<lambda>(p, lb). map fst (lb_eps lb) @ [ep]) L \<and>
    port_rules name ip (with_eps ep hs L) = port_rules name ip L"
proof (induction L arbitrary: hs)
  case (Cons x L)
  then obtain h hs' where "hs = h # hs'" "length hs' = length L" by (cases hs) auto
  with Cons.IH [of hs'] show ?case by (cases x) simp
qed (simp add: with_eps_def)

lemma with_ports_shape:
  "length hs = length ps \<Longrightarrow> map fst (with_ports name ps hs) = map sp_port ps \<and>
    map (lb_target_port \<circ> snd) (with_ports name ps hs) = map sp_target_port ps \<and>
    map (lb_eps \<circ> snd) (with_ports name ps hs) = map (\<lambda>_. []) ps \<and>
    image_mset fst (mset (port_chains (with_ports name ps hs))) = image_mset lb_name (mset hs)"
proof (induction ps arbitrary: hs)
  case (Cons p ps)
  then obtain h hs' where "hs = h # hs'" "length hs' = length ps" by (cases hs) auto
  with Cons.IH [of hs'] show ?case
    by (simp add: with_ports_def lb_fresh_def lb_chains_def ep_chains_def hm_values_def)
qed (simp add: with_ports_def)

context nat_table
begin

lemma add_svc_port_run:
  assumes tb: "name \<notin> fst ` set tb" and port: "sp_port p \<notin> fst ` set L"
    and ap: "apart base (full rs (tb @ [(name, entry name ip (L @ [(sp_port p, lb_fresh name (sp_target_port p) h)]))]))"
    and pl: "plain (lb_name h)"
  shows "achieves view (add_svc_port ipt name p (tb @ [(name, entry name ip L)]))
    (tbl base (full rs (tb @ [(name, entry name ip L)])), h # hs)
    (tb @ [(name, entry name ip (L @ [(sp_port p, lb_fresh name (sp_target_port p) h)]))])
    (tbl base (full (rs @ [gen_svc_rule name ip (sp_port p) (lb_name h)])
      (tb @ [(name, entry name ip (L @ [(sp_port p, lb_fresh name (sp_target_port p) h)]))])), hs)"
proof -
  let ?lb = "lb_fresh name (sp_target_port p) h" and ?K = "''KUBE-SERVICES''"
  let ?rule = "gen_svc_rule name ip (sp_port p) (lb_name h)"
  let ?old = "all_chains tb @ port_chains L"
  have lb: "lb_chains ?lb = [(lb_name h, [])]"
    by (simp add: lb_chains_def lb_fresh_def ep_chains_def hm_values_def)
  have ap1: "apart base ((lb_name h, []) # (?K, rs) # ?old)"
    using ap apart_perm [of "(lb_name h, []) # (?K, rs) # ?old" "(?K, rs) # ?old @ [(lb_name h, [])]" base]
    by (simp add: full_def lb)
  have ap2: "apart base ((lb_name h, []) # (?K, rs @ [?rule]) # ?old)"
    using ap1 by (simp add: apart_Cons)
  have "refs_in [?rule] (names ((?K, rs) # (lb_name h, []) # ?old))"
    using pl by (simp add: refers_svc_rule)
  from op_append [OF this, of base hs]
  have app: "achieves view (it_append ipt ''nat'' ?K ?rule) (tbl base ((lb_name h, []) # (?K, rs) # ?old), hs) ()
      (tbl base (full (rs @ [?rule]) (tb @ [(name, entry name ip (L @ [(sp_port p, ?lb)]))])), hs)"
    using tbl_perm(1) [OF _ ap1, of "(?K, rs) # (lb_name h, []) # ?old"]
      tbl_perm(1) [OF _ ap2, of "full (rs @ [?rule]) (tb @ [(name, entry name ip (L @ [(sp_port p, ?lb)]))])"]
      tbl_perm(1) [OF _ ap2, of "(?K, rs @ [?rule]) # (lb_name h, []) # ?old"]
    by (simp add: full_def lb)
  have new: "achieves view (lb_new ipt name (sp_target_port p)) (tbl base ((?K, rs) # ?old), h # hs) ?lb
      (tbl base ((lb_name h, []) # (?K, rs) # ?old), hs)"
    unfolding lb_new_def Let_def
    by (rule achieves_bind [OF op_hash], rule achieves_bind [OF achieves_map_err],
      unfold lb_name_def [symmetric], rule op_new [OF ap1])
      (simp add: lb_fresh_def hm_empty_def achieves_def)
  have chain: "lb_chain ?lb = lb_name h" by (simp add: lb_fresh_def)
  have ins: "hm_insert (sp_port p) ?lb L = L @ [(sp_port p, ?lb)]"
    using port by (simp add: hm_insert_new)
  have step: "achieves view (st_add_port ipt (sp_port p) (sp_target_port p) (entry name ip L))
      (tbl base ((?K, rs) # ?old), h # hs) (entry name ip (L @ [(sp_port p, ?lb)]))
      (tbl base (full (rs @ [?rule]) (tb @ [(name, entry name ip (L @ [(sp_port p, ?lb)]))])), hs)"
    unfolding st_add_port_def entry_simps
    by (rule achieves_bind [OF new], unfold chain, rule achieves_bind [OF achieves_map_err [OF app]])
      (simp add: ins achieves_def)
  show ?thesis
    unfolding add_svc_port_def using on_service_run [where f = "st_add_port ipt (sp_port p) (sp_target_port p)", OF tb step]
    by (simp add: full_def)
qed

end

lemma apart_full: "apart base (full rs tb) \<longleftrightarrow> apart base (full rs' tb)"
  by (simp add: full_def apart_Cons)

lemma names_full: "image_mset fst (mset (full rs tb)) = add_mset ''KUBE-SERVICES'' (image_mset fst (mset (all_chains tb)))"
  by (simp add: full_def)

lemma with_ports_simps [simp]:
  "with_ports name [] hs = []"
  "with_ports name (p # ps) (h # hs) = (sp_port p, lb_fresh name (sp_target_port p) h) # with_ports name ps hs"
  by (simp_all add: with_ports_def)

context nat_table
begin

lemma add_ports_run:
  assumes "name \<notin> fst ` set tb" and "length hs1 = length ps" and "distinct (map sp_port ps)"
    and "sp_port ` set ps \<inter> fst ` set L = {}"
    and "apart base (full rs (tb @ [(name, entry name ip (L @ with_ports name ps hs1))]))"
    and "\<forall>h \<in> set hs1. plain (lb_name h)"
  shows "achieves view (io_fold (add_svc_port ipt name) ps (tb @ [(name, entry name ip L)]))
    (tbl base (full rs (tb @ [(name, entry name ip L)])), hs1 @ hs)
    (tb @ [(name, entry name ip (L @ with_ports name ps hs1))])
    (tbl base (full (rs @ port_rules name ip (with_ports name ps hs1))
      (tb @ [(name, entry name ip (L @ with_ports name ps hs1))])), hs)"
  using assms
proof (induction ps arbitrary: hs1 L rs)
  case Nil
  then show ?case by (simp add: achieves_def)
next
  case (Cons p ps)
  obtain h hs' where hs1: "hs1 = h # hs'" and len: "length hs' = length ps" using Cons.prems(2) by (cases hs1) auto
  let ?x = "(sp_port p, lb_fresh name (sp_target_port p) h)" and ?rule = "gen_svc_rule name ip (sp_port p) (lb_name h)"
  have ap: "apart base (full (rs @ [?rule]) (tb @ [(name, entry name ip ((L @ [?x]) @ with_ports name ps hs'))]))"
    using Cons.prems(5) apart_full [of base rs _ "rs @ [?rule]"] by (simp add: hs1)
  have "apart base (full rs (tb @ [(name, entry name ip (L @ [?x]))]))"
    by (rule apart_sub [OF _ ap]) (simp add: names_full)
  from add_svc_port_run [OF Cons.prems(1) _ this] Cons.prems(4,6)
  have 1: "achieves view (add_svc_port ipt name p (tb @ [(name, entry name ip L)]))
      (tbl base (full rs (tb @ [(name, entry name ip L)])), h # hs' @ hs) (tb @ [(name, entry name ip (L @ [?x]))])
      (tbl base (full (rs @ [?rule]) (tb @ [(name, entry name ip (L @ [?x]))])), hs' @ hs)"
    by (simp add: hs1)
  have disj: "sp_port ` set ps \<inter> fst ` set (L @ [?x]) = {}" using Cons.prems(3,4) by auto
  have "distinct (map sp_port ps)" "\<forall>h \<in> set hs'. plain (lb_name h)" using Cons.prems(3,6) by (simp_all add: hs1)
  from Cons.IH [OF Cons.prems(1) len this(1) disj ap this(2)]
  have 2: "achieves view (io_fold (add_svc_port ipt name) ps (tb @ [(name, entry name ip (L @ [?x]))]))
      (tbl base (full (rs @ [?rule]) (tb @ [(name, entry name ip (L @ [?x]))])), hs' @ hs)
      (tb @ [(name, entry name ip (L @ with_ports name (p # ps) hs1))])
      (tbl base (full (rs @ port_rules name ip (with_ports name (p # ps) hs1))
        (tb @ [(name, entry name ip (L @ with_ports name (p # ps) hs1))])), hs)"
    by (simp add: hs1 lb_fresh_def)
  show ?case
    unfolding io_fold.simps hs1 append_Cons by (rule achieves_bind [OF 1], rule 2 [unfolded hs1])
qed

lemma add_svc_ep_run:
  assumes tb: "name \<notin> fst ` set tb" and len: "length hs1 = length L"
    and ap: "apart base (full rs (tb @ [(name, entry name ip (with_eps ep hs1 L))]))"
    and pl: "plain_names (port_chains (with_eps ep hs1 L))" and new: "\<forall>(p, lb) \<in> set L. ep \<notin> fst ` set (lb_eps lb)"
  shows "achieves view (add_svc_ep ipt name ep (tb @ [(name, entry name ip L)]))
    (tbl base (full rs (tb @ [(name, entry name ip L)])), hs1 @ hs) (tb @ [(name, entry name ip (with_eps ep hs1 L))])
    (tbl base (full rs (tb @ [(name, entry name ip (with_eps ep hs1 L))])), hs)"
proof -
  let ?C = "(''KUBE-SERVICES'', rs) # all_chains tb"
  have ap': "apart base (port_chains (with_eps ep hs1 L) @ ?C)"
    using ap apart_perm [of "full rs (tb @ [(name, entry name ip (with_eps ep hs1 L))])"
      "port_chains (with_eps ep hs1 L) @ ?C" base] by (simp add: full_def)
  have ap0: "apart base (port_chains L @ ?C)"
    by (rule apart_sub [OF _ ap']) (simp add: names_with_eps [OF len])
  have "achieves view (st_add_ep ipt ep (entry name ip L)) (tbl base (port_chains L @ ?C), hs1 @ hs)
      (entry name ip (with_eps ep hs1 L)) (tbl base (port_chains (with_eps ep hs1 L) @ ?C), hs)"
    using st_add_ep_run [of hs1 "entry name ip L" base ep ?C hs] len ap' pl new by simp
  then have "achieves view (st_add_ep ipt ep (entry name ip L))
      (tbl base (full rs (tb @ [(name, entry name ip L)])), hs1 @ hs) (entry name ip (with_eps ep hs1 L))
      (tbl base (full rs (tb @ [(name, entry name ip (with_eps ep hs1 L))])), hs)"
    by (rule achieves_perm [OF _ _ _ ap0 ap']) (simp_all add: full_def)
  then show ?thesis
    unfolding add_svc_ep_def by (rule on_service_run [where f = "st_add_ep ipt ep", OF tb])
qed

lemma add_eps_run:
  assumes "name \<notin> fst ` set tb" and "length hs2 = length es * length L" and "distinct es"
    and "\<forall>(p, lb) \<in> set L. set es \<inter> fst ` set (lb_eps lb) = {}"
    and "apart base (full rs (tb @ [(name, entry name ip (with_all es hs2 L))]))"
    and "plain_names (port_chains (with_all es hs2 L))"
  shows "achieves view (io_fold (add_svc_ep ipt name) es (tb @ [(name, entry name ip L)]))
    (tbl base (full rs (tb @ [(name, entry name ip L)])), hs2 @ hs) (tb @ [(name, entry name ip (with_all es hs2 L))])
    (tbl base (full rs (tb @ [(name, entry name ip (with_all es hs2 L))])), hs)"
  using assms
proof (induction es arbitrary: hs2 L)
  case Nil
  then show ?case by (simp add: achieves_def)
next
  case (Cons e es)
  let ?a = "take (length L) hs2" and ?b = "drop (length L) hs2"
  let ?L = "with_eps e ?a L"
  have len: "length ?a = length L" "length ?b = length es * length ?L" using Cons.prems(2) by auto
  have sub: "mset (map fst (port_chains ?L)) \<subseteq># mset (map fst (port_chains (with_all (e # es) hs2 L)))"
    using names_with_all [OF len(2)] by simp
  have "apart base (full rs (tb @ [(name, entry name ip ?L)]))"
    by (rule apart_sub [OF _ Cons.prems(5)]) (use sub in \<open>simp add: names_full\<close>)
  moreover have "plain_names (port_chains ?L)"
    by (rule plain_sub [OF sub Cons.prems(6)])
  ultimately have 1: "achieves view (add_svc_ep ipt name e (tb @ [(name, entry name ip L)]))
      (tbl base (full rs (tb @ [(name, entry name ip L)])), ?a @ ?b @ hs) (tb @ [(name, entry name ip ?L)])
      (tbl base (full rs (tb @ [(name, entry name ip ?L)])), ?b @ hs)"
    using Cons.prems(1,4) by (intro add_svc_ep_run [OF _ len(1)]) auto
  have new: "\<forall>(p, lb) \<in> set ?L. set es \<inter> fst ` set (lb_eps lb) = {}"
  proof (rule ballI, clarify)
    fix p lb assume "(p, lb) \<in> set ?L"
    then obtain lb0 h where "lb = with_ep e h lb0" and "(p, lb0) \<in> set L"
      by (auto simp: with_eps_def dest!: set_zip_leftD)
    moreover from this Cons.prems(4) have "set (e # es) \<inter> fst ` set (lb_eps lb0) = {}" by blast
    ultimately show "set es \<inter> fst ` set (lb_eps lb) = {}" using Cons.prems(3) by auto
  qed
  have "distinct es" using Cons.prems(3) by simp
  from Cons.IH [OF Cons.prems(1) len(2) this new] Cons.prems(5,6)
  have 2: "achieves view (io_fold (add_svc_ep ipt name) es (tb @ [(name, entry name ip ?L)]))
      (tbl base (full rs (tb @ [(name, entry name ip ?L)])), ?b @ hs)
      (tb @ [(name, entry name ip (with_all (e # es) hs2 L))])
      (tbl base (full rs (tb @ [(name, entry name ip (with_all (e # es) hs2 L))])), hs)"
    by simp
  show ?case
    using achieves_bind [where f = "io_fold (add_svc_ep ipt name) es", OF 1 2]
    by (simp only: io_fold.simps append_assoc [symmetric] append_take_drop_id)
qed

end

section \<open>Deleting a service\<close>

lemma no_refs_from_mono: "no_refs_from base D \<Longrightarrow> D' \<subseteq> D \<Longrightarrow> no_refs_from base D'"
  by (auto simp: no_refs_from_def)

lemma closed_lb_chains_self:
  "plain_names (lb_chains lb) \<Longrightarrow> refs_closed (lb_chains lb) (names (lb_chains lb))"
  by (rule refs_closed_mono [OF closed_lb_chains]) (auto simp: lb_chains_def)

lemma closed_port_chains: "plain_names (port_chains L) \<Longrightarrow> refs_closed (port_chains L) (names (port_chains L))"
proof (induction L)
  case (Cons x L)
  obtain p lb where x: "x = (p, lb)" by (cases x)
  from Cons have "refs_closed (lb_chains lb) (names (lb_chains lb))" "refs_closed (port_chains L) (names (port_chains L))"
    by (simp_all add: x closed_lb_chains_self)
  then show ?case by (auto simp: x intro: refs_closed_mono)
qed simp

lemma refs_port_rules: "plain_names (port_chains L) \<Longrightarrow> refs_in (port_rules name ip L) (names (port_chains L))"
proof (induction L)
  case (Cons x L)
  obtain p lb where x: "x = (p, lb)" by (cases x)
  have "lb_chain lb \<in> names (lb_chains lb)" by (simp add: lb_chains_def)
  moreover from this Cons.prems have "plain (lb_chain lb)" by (simp add: x plain_names_def)
  moreover from Cons have "refs_in (port_rules name ip L) (names (port_chains L))" by (simp add: x)
  then have "refs_in (port_rules name ip L) (names (lb_chains lb) \<union> names (port_chains L))"
    by (rule refs_in_mono) simp
  ultimately show ?case by (simp add: x refers_svc_rule)
qed simp

lemma refs_in_mset: "mset rs = mset rs' \<Longrightarrow> refs_in rs D \<longleftrightarrow> refs_in rs' D"
  using mset_eq_setD [of rs rs'] by (simp add: refs_in_def)

lemma mset_fold_remove1: "mset (fold remove1 xs ys) = mset ys - mset xs"
proof (induction xs arbitrary: ys)
  case (Cons x xs)
  have "mset ys - {#x#} - mset xs = mset ys - ({#x#} + mset xs)" by (rule diff_diff_add_mset)
  with Cons show ?case by simp
qed simp

context nat_table
begin

lemma remove_chains_run:
  assumes "apart base (X @ D)" and "refs_closed X {}" and "refs_closed D (names D)" and "no_refs_from base (names X)"
  shows "achieves view (io_each (\<lambda>c. io_map_err f (remove_chain ipt c)) (map fst X)) (tbl base (X @ D), hs) ()
    (tbl base D, hs)"
  using assms
proof (induction X)
  case Nil
  then show ?case by (simp add: achieves_def)
next
  case (Cons x X)
  obtain c rs where x: "x = (c, rs)" by (cases x)
  have ap: "apart base ((c, rs) # X @ D)" using Cons.prems(1) by (simp add: x)
  have cl: "refs_closed (X @ D) (names D)" using Cons.prems(2,3) by (auto simp: x intro: refs_closed_mono)
  have "c \<notin> names D" using ap by (simp add: apart_Cons)
  moreover have "no_refs_from base {c}" using Cons.prems(4) by (rule no_refs_from_mono) (simp add: x)
  ultimately have 1: "achieves view (io_map_err f (remove_chain ipt c)) (tbl base ((c, rs) # X @ D), hs) ()
      (tbl base (X @ D), hs)"
    by (intro achieves_map_err op_remove_chain [OF ap cl])
  have 2: "achieves view (io_each (\<lambda>c. io_map_err f (remove_chain ipt c)) (map fst X)) (tbl base (X @ D), hs) ()
      (tbl base D, hs)"
  proof (rule Cons.IH)
    show "apart base (X @ D)" using ap by (simp add: apart_Cons)
    show "no_refs_from base (names X)" using Cons.prems(4) by (rule no_refs_from_mono) (auto simp: x)
  qed (use Cons.prems in \<open>simp_all add: x\<close>)
  show ?case
    unfolding x list.map(2) fst_conv io_each.simps append_Cons by (rule achieves_bind [OF 1], rule 2)
qed

lemma lb_cleanup_run:
  assumes ap: "apart base (lb_chains lb @ D)" and cl: "refs_closed D (names D)"
    and base: "no_refs_from base (names (lb_chains lb))"
  shows "achieves view (lb_cleanup ipt lb) (tbl base (lb_chains lb @ D), hs) () (tbl base D, hs)"
proof -
  let ?X = "ep_chains lb"
  have ap1: "apart base ((lb_chain lb, lb_rules 1 (hm_values (lb_eps lb)) []) # ?X @ D)"
    using ap by (simp add: lb_chains_def)
  have cl1: "refs_closed (?X @ D) (names D)" using cl by (simp add: closed_ep_chains)
  have "lb_chain lb \<notin> names D" using ap1 by (simp add: apart_Cons)
  moreover have "no_refs_from base {lb_chain lb}"
    using base by (rule no_refs_from_mono) (simp add: lb_chains_def)
  ultimately have 1: "achieves view (remove_chain ipt (lb_chain lb)) (tbl base (lb_chains lb @ D), hs) ()
      (tbl base (?X @ D), hs)"
    using op_remove_chain [OF ap1 cl1] by (simp add: lb_chains_def)
  have "apart base (?X @ D)" using ap1 by (simp add: apart_Cons)
  moreover have "no_refs_from base (names ?X)" using base by (rule no_refs_from_mono) (auto simp: lb_chains_def)
  ultimately have 2: "achieves view (io_each (\<lambda>c. unwrap (remove_chain ipt c)) (map fst ?X)) (tbl base (?X @ D), hs) ()
      (tbl base D, hs)"
    by (intro remove_chains_run closed_ep_chains cl)
  have "map fst ?X = hm_values (lb_eps lb)" by (auto simp: ep_chains_def hm_values_def)
  with 2 show ?thesis
    unfolding lb_cleanup_def by (intro achieves_bind [OF achieves_map_err [OF 1]]) simp
qed

lemma st_cleanup_run:
  assumes "apart base ((''KUBE-SERVICES'', rs) # port_chains L @ C)" and "plain_names (port_chains L)"
    and "refs_closed C (names C)" and "no_refs_from base (names (port_chains L))"
    and "mset rs = mset (port_rules name ip L) + mset M" and "refs_in M (names C)"
  shows "achieves view (io_each (\<lambda>(port, lb).
       io_bind (io_ignore (it_delete ipt ''nat'' ''KUBE-SERVICES'' (gen_svc_rule name ip port (lb_chain lb)))) (\<lambda>_.
       lb_cleanup ipt lb)) L)
    (tbl base ((''KUBE-SERVICES'', rs) # port_chains L @ C), hs) ()
    (tbl base ((''KUBE-SERVICES'', fold remove1 (port_rules name ip L) rs) # C), hs)"
  using assms
proof (induction L arbitrary: rs)
  case Nil
  then show ?case by (simp add: achieves_def)
next
  case (Cons x L)
  obtain p lb where x: "x = (p, lb)" by (cases x)
  let ?K = "''KUBE-SERVICES''" and ?r = "gen_svc_rule name ip p (lb_chain lb)"
  let ?D = "(?K, remove1 ?r rs) # port_chains L @ C"
  have "?r \<in> set rs" using mset_eq_setD [of rs "port_rules name ip (x # L) @ M"] Cons.prems(5) by (simp add: x)
  from achieves_ignore [OF op_delete [OF this]]
  have 1: "achieves view (io_ignore (it_delete ipt ''nat'' ?K ?r))
      (tbl base ((?K, rs) # lb_chains lb @ port_chains L @ C), hs) ()
      (tbl base ((?K, remove1 ?r rs) # lb_chains lb @ port_chains L @ C), hs)" .
  have ap: "apart base ((?K, remove1 ?r rs) # lb_chains lb @ port_chains L @ C)"
    using Cons.prems(1) by (simp add: x apart_Cons)
  then have ap': "apart base (lb_chains lb @ ?D)"
    using apart_perm [of "(?K, remove1 ?r rs) # lb_chains lb @ port_chains L @ C" "lb_chains lb @ ?D" base] by simp
  have rest: "mset (remove1 ?r rs) = mset (port_rules name ip L) + mset M"
    using Cons.prems(5) by (simp add: x)
  have "refs_in (remove1 ?r rs) (names (port_chains L) \<union> names C)"
    using refs_in_mset [of "remove1 ?r rs" "port_rules name ip L @ M"] rest Cons.prems(2,6)
      refs_port_rules [of L name ip] by (auto simp: x intro: refs_in_mono)
  then have "refs_closed ?D (names ?D)"
    using closed_port_chains [of L] Cons.prems(2,3)
    by (auto simp: x intro: refs_closed_mono refs_in_mono)
  moreover have "no_refs_from base (names (lb_chains lb))"
    using Cons.prems(4) by (rule no_refs_from_mono) (simp add: x)
  ultimately have "achieves view (lb_cleanup ipt lb) (tbl base (lb_chains lb @ ?D), hs) () (tbl base ?D, hs)"
    by (rule lb_cleanup_run [OF ap'])
  then have 2: "achieves view (lb_cleanup ipt lb)
      (tbl base ((?K, remove1 ?r rs) # lb_chains lb @ port_chains L @ C), hs) () (tbl base ?D, hs)"
    using tbl_perm(1) [OF _ ap', of "(?K, remove1 ?r rs) # lb_chains lb @ port_chains L @ C"] by simp
  have ap'': "apart base ?D" by (rule apart_sub [OF _ ap']) simp
  have "no_refs_from base (names (port_chains L))"
    using Cons.prems(4) by (rule no_refs_from_mono) (simp add: x)
  from Cons.IH [OF ap'' _ Cons.prems(3) this rest Cons.prems(6)] Cons.prems(2)
  show ?case
    unfolding x io_each.simps prod.case port_chains_simps append_assoc
    by (intro achieves_bind [OF achieves_bind [OF 1 2]]) (simp add: x)
qed

end

section \<open>The nat table mirrors the services\<close>

text \<open>
  \<open>mirrors base tb t\<close>: beside the chains \<open>base\<close> of the host the nat table \<open>t\<close> holds exactly the chains of the
  state, and \<open>KUBE-SERVICES\<close> with one rule for every port of every service.
\<close>

definition proxy_name :: "string \<Rightarrow> bool" where
  "proxy_name c \<longleftrightarrow> plain c \<and> (starts_with c ''KUBE-LB-'' \<or> starts_with c ''KUBE-EP-'')"

definition mirrors :: "(string \<rightharpoonup> string list) \<Rightarrow> svc_tables \<Rightarrow> (string \<rightharpoonup> string list) \<Rightarrow> bool" where
  "mirrors base tb t \<longleftrightarrow> hm_wf tb \<and> (\<forall>c \<in> names (all_chains tb). proxy_name c) \<and>
     (\<exists>rs. mset rs = mset (all_rules tb) \<and> apart base (full rs tb) \<and> t = tbl base (full rs tb))"

definition fresh :: "(string \<rightharpoonup> string list) \<Rightarrow> string list \<Rightarrow> bool" where
  "fresh t ds \<longleftrightarrow> distinct (map (map char_to_upper) ds) \<and>
     (\<forall>h \<in> set ds. plain h \<and> t (lb_name h) = None \<and> t (ep_name h) = None)"

definition complete :: "service \<Rightarrow> bool" where
  "complete svc \<longleftrightarrow> ss_cluster_ip (svc_spec svc) \<noteq> None \<and>
     distinct (map sp_port (ss_ports (svc_spec svc))) \<and> distinct (ss_endpoints (svc_spec svc))"

definition draws_for :: "service \<Rightarrow> nat" where
  "draws_for svc = length (ss_ports (svc_spec svc)) + length (ss_endpoints (svc_spec svc)) * length (ss_ports (svc_spec svc))"

definition serves :: "service_table \<Rightarrow> service \<Rightarrow> bool" where
  "serves st svc \<longleftrightarrow> st_svc_name st = md_name (svc_metadata svc) \<and>
     ss_cluster_ip (svc_spec svc) = Some (st_cluster_ip st) \<and>
     map (\<lambda>(p, lb). (p, lb_target_port lb)) (st_lb_tb st) =
       map (\<lambda>p. (sp_port p, sp_target_port p)) (ss_ports (svc_spec svc)) \<and>
     (\<forall>(p, lb) \<in> set (st_lb_tb st). map fst (lb_eps lb) = ss_endpoints (svc_spec svc))"

lemma starts_with_append: "starts_with (pre @ s) pre"
  by (simp add: starts_with_def)

lemma plain_upper: "plain h \<Longrightarrow> plain (map char_to_upper h)"
proof -
  have "char_to_upper c \<notin> {CHR '' '', CHR 0x22, CHR 0x5C}" if "c \<notin> {CHR '' '', CHR 0x22, CHR 0x5C}" for c
  proof (cases "97 \<le> (of_char c :: nat) \<and> (of_char c :: nat) \<le> 122")
    case True
    then have "of_char c - (32 :: nat) < 256" by linarith
    with True have "of_char (char_to_upper c) = (of_char c - 32 :: nat)" by (simp add: char_to_upper_def Let_def)
    with True have "65 \<le> (of_char (char_to_upper c) :: nat) \<and> (of_char (char_to_upper c) :: nat) \<le> 90" by auto
    then show ?thesis by auto
  next
    case False
    then have "char_to_upper c = c" unfolding char_to_upper_def Let_def by (rule if_not_P)
    with that show ?thesis by simp
  qed
  then show "plain h \<Longrightarrow> plain (map char_to_upper h)" by (simp add: plain_def list_all_iff)
qed

lemma proxy_name_drawn: "plain h \<Longrightarrow> proxy_name (lb_name h)" "plain h \<Longrightarrow> proxy_name (ep_name h)"
  using plain_upper [of h] starts_with_append [of "''KUBE-LB-''" "map char_to_upper h"]
    starts_with_append [of "''KUBE-EP-''" "map char_to_upper h"]
  by (simp_all add: proxy_name_def lb_name_def ep_name_def plain_def)

lemma lb_name_inject: "lb_name h = lb_name h' \<longleftrightarrow> map char_to_upper h = map char_to_upper h'"
  and ep_name_inject: "ep_name h = ep_name h' \<longleftrightarrow> map char_to_upper h = map char_to_upper h'"
  and lb_name_not_ep: "lb_name h \<noteq> ep_name h'"
  by (simp_all add: lb_name_def ep_name_def)

lemma not_proxy_names: "\<not> proxy_name ''KUBE-SERVICES''"
  by (simp add: proxy_name_def starts_with_def)

lemma fresh_sub: "fresh t ds \<Longrightarrow> dom t' \<subseteq> dom t \<Longrightarrow> fresh t' ds"
  by (auto simp: fresh_def)

lemma with_all_shape:
  "length hs = length es * length L \<Longrightarrow> map fst (with_all es hs L) = map fst L \<and>
    map (lb_target_port \<circ> snd) (with_all es hs L) = map (lb_target_port \<circ> snd) L \<and>
    map (map fst \<circ> lb_eps \<circ> snd) (with_all es hs L) = map (\<lambda>(p, lb). map fst (lb_eps lb) @ es) L \<and>
    port_rules name ip (with_all es hs L) = port_rules name ip L"
proof (induction es arbitrary: hs L)
  case (Cons e es)
  let ?L = "with_eps e (take (length L) hs) L"
  have l: "length (take (length L) hs) = length L" "length (drop (length L) hs) = length es * length ?L"
    using Cons.prems by auto
  have "map (\<lambda>x. x @ es) (map (map fst \<circ> lb_eps \<circ> snd) ?L) =
      map (\<lambda>x. x @ es) (map (\<lambda>(p, lb). map fst (lb_eps lb) @ [e]) L)"
    using with_eps_shape [OF l(1), of e] by simp
  then have "map (\<lambda>(p, lb). map fst (lb_eps lb) @ es) ?L = map (\<lambda>(p, lb). map fst (lb_eps lb) @ e # es) L"
    by (simp add: split_def o_def)
  with Cons.IH [OF l(2)] with_eps_shape [OF l(1), of e] show ?case by (simp add: o_def)
qed (simp add: split_def o_def)

lemma serves_entry:
  assumes "length hs1 = length (ss_ports (svc_spec svc))"
    and "length hs2 = length (ss_endpoints (svc_spec svc)) * length (ss_ports (svc_spec svc))"
    and "ss_cluster_ip (svc_spec svc) = Some ip"
  shows "serves (entry (md_name (svc_metadata svc)) ip
    (with_all (ss_endpoints (svc_spec svc)) hs2 (with_ports (md_name (svc_metadata svc)) (ss_ports (svc_spec svc)) hs1))) svc"
    (is "serves (entry ?n ip (with_all ?es hs2 (with_ports ?n ?ps hs1))) svc")
proof -
  let ?P = "with_ports ?n ?ps hs1"
  have len: "length hs2 = length ?es * length ?P" using assms by (simp add: with_ports_def)
  note P = with_ports_shape [OF assms(1), of ?n]
  have nil: "lb_eps (snd x) = []" if "x \<in> set ?P" for x
  proof -
    have "(lb_eps \<circ> snd) x \<in> set (map (lb_eps \<circ> snd) ?P)" using that unfolding set_map by (rule imageI)
    then show ?thesis using P by auto
  qed
  have eps: "map fst (lb_eps lb) = ?es" if "(p, lb) \<in> set (with_all ?es hs2 ?P)" for p lb
  proof -
    have "(map fst \<circ> lb_eps \<circ> snd) (p, lb) \<in> set (map (map fst \<circ> lb_eps \<circ> snd) (with_all ?es hs2 ?P))"
      using that unfolding set_map by (rule imageI)
    then show ?thesis using with_all_shape [OF len] nil by fastforce
  qed
  then have "\<forall>(p, lb) \<in> set (with_all ?es hs2 ?P). map fst (lb_eps lb) = ?es" by blast
  moreover have "map (\<lambda>(p, lb). (p, lb_target_port lb)) (with_all ?es hs2 ?P) =
      zip (map fst (with_all ?es hs2 ?P)) (map (lb_target_port \<circ> snd) (with_all ?es hs2 ?P))"
    by (simp add: zip_map_map zip_same_conv_map split_def)
  then have "map (\<lambda>(p, lb). (p, lb_target_port lb)) (with_all ?es hs2 ?P) = map (\<lambda>p. (sp_port p, sp_target_port p)) ?ps"
    using with_all_shape [OF len] P by (simp add: zip_map_map zip_same_conv_map)
  ultimately show ?thesis using assms(3) by (simp add: serves_def)
qed

lemma names_of_set: "names C = set_mset (image_mset fst (mset C))"
  by (simp add: names_def)

lemma distinct_map_name: "distinct (map (map char_to_upper) hs) \<Longrightarrow> distinct (map lb_name hs) \<and> distinct (map ep_name hs)"
  by (auto simp: distinct_map inj_on_def lb_name_inject ep_name_inject)

lemma apart_added:
  assumes "apart base (full rs tb)" and "fresh (tbl base (full rs tb)) (hs1 @ hs2)"
    and "image_mset fst (mset (port_chains L)) = image_mset lb_name (mset hs1) + image_mset ep_name (mset hs2)"
  shows "apart base (full rs' (tb @ [(name, entry name ip L)]))"
proof -
  let ?new = "map lb_name hs1 @ map ep_name hs2" and ?C = "full rs' (tb @ [(name, entry name ip L)])"
  have m: "mset (map fst ?C) = mset (map fst (full rs tb) @ ?new)"
    using assms(3) by (simp add: full_def)
  have dom: "dom (tbl base (full rs tb)) = dom base \<union> names (full rs tb)" by (rule dom_tbl)
  have out: "c \<notin> dom base" "c \<notin> names (full rs tb)" if "c \<in> set ?new" for c
  proof -
    have "tbl base (full rs tb) c = None" using that assms(2) by (auto simp: fresh_def)
    with dom show "c \<notin> dom base" "c \<notin> names (full rs tb)" by blast+
  qed
  have "distinct ?new"
    using assms(2) by (auto simp: fresh_def distinct_map_name lb_name_not_ep [symmetric] lb_name_not_ep)
  then have "distinct (map fst (full rs tb) @ ?new)"
    using assms(1) out(2) by (auto simp: apart_def names_def)
  then have "distinct (map fst ?C)" using mset_eq_imp_distinct_iff [OF m] by simp
  moreover have "names ?C = names (full rs tb) \<union> set ?new"
    using arg_cong [OF m, of set_mset] by (simp only: names_def set_map set_mset_mset set_append)
  ultimately show ?thesis using assms(1) out(1) by (auto simp: apart_def)
qed

lemma hm_insert_end: "hm_get tb k = None \<Longrightarrow> hm_insert k v tb = tb @ [(k, v)]"
  by (rule hm_insert_new) (simp add: hm_get_None_iff)

context nat_table
begin

lemma add_svc_mirrors:
  assumes m: "mirrors base tb t" and new: "hm_get tb (md_name (svc_metadata svc)) = None" and ok: "complete svc"
    and fresh: "fresh t ds" and len: "length ds = draws_for svc"
  shows "\<exists>st t'. achieves view (add_svc ipt svc tb) (t, ds @ hs) (hm_insert (md_name (svc_metadata svc)) st tb) (t', hs) \<and>
    mirrors base (hm_insert (md_name (svc_metadata svc)) st tb) t' \<and> serves st svc"
proof -
  let ?n = "md_name (svc_metadata svc)" and ?ps = "ss_ports (svc_spec svc)" and ?es = "ss_endpoints (svc_spec svc)"
  let ?h1 = "take (length ?ps) ds" and ?h2 = "drop (length ?ps) ds"
  obtain ip where ip: "ss_cluster_ip (svc_spec svc) = Some ip" using ok by (auto simp: complete_def)
  obtain rs where rs: "mset rs = mset (all_rules tb)" and ap: "apart base (full rs tb)"
    and t: "t = tbl base (full rs tb)" using m by (auto simp: mirrors_def)
  let ?P = "with_ports ?n ?ps ?h1" let ?L = "with_all ?es ?h2 ?P"
  let ?rs = "rs @ port_rules ?n ip ?P" and ?tb = "tb @ [(?n, entry ?n ip ?L)]"
  have l1: "length ?h1 = length ?ps" and l2: "length ?h2 = length ?es * length ?P"
    using len by (simp_all add: draws_for_def with_ports_def)
  have new': "?n \<notin> fst ` set tb" using new by (simp add: hm_get_None_iff)
  have all: "image_mset fst (mset (port_chains ?L)) = image_mset lb_name (mset ?h1) + image_mset ep_name (mset ?h2)"
    using names_with_all [OF l2] with_ports_shape [OF l1, of ?n] by simp
  have fr: "fresh (tbl base (full rs tb)) (?h1 @ ?h2)" using fresh t by simp
  have plain: "\<forall>h \<in> set ds. plain h" using fresh by (simp add: fresh_def)
  have apL: "apart base (full rs' ?tb)" for rs' by (rule apart_added [OF ap fr all])
  have proxy: "proxy_name c" if "c \<in> names (port_chains ?L)" for c
    using that plain unfolding names_of_set all
    by (auto simp: proxy_name_drawn dest: in_set_takeD in_set_dropD)
  have pl: "plain_names (port_chains ?L)" using proxy by (auto simp: plain_names_def proxy_name_def)
  have sub: "apart base (full rs' (tb @ [(?n, entry ?n ip ?P)]))" for rs'
    by (rule apart_sub [OF _ apL [of rs']]) (simp add: full_def names_with_all [OF l2])
  have ports: "achieves view (io_fold (add_svc_port ipt ?n) ?ps (tb @ [(?n, entry ?n ip [])]))
      (tbl base (full rs (tb @ [(?n, entry ?n ip [])])), ?h1 @ ?h2 @ hs) (tb @ [(?n, entry ?n ip ?P)])
      (tbl base (full ?rs (tb @ [(?n, entry ?n ip ?P)])), ?h2 @ hs)"
  proof -
    have "\<forall>h \<in> set ?h1. plain (lb_name h)"
      using plain proxy_name_drawn(1) by (auto simp: proxy_name_def dest: in_set_takeD)
    moreover have "distinct (map sp_port ?ps)" using ok by (simp add: complete_def)
    ultimately show ?thesis using add_ports_run [of ?n tb ?h1 ?ps "[]" base rs ip "?h2 @ hs"] new' l1 sub by simp
  qed
  have nil: "\<forall>(p, lb) \<in> set ?P. set ?es \<inter> fst ` set (lb_eps lb) = {}"
    by (auto simp: with_ports_def lb_fresh_def)
  have eps: "achieves view (io_fold (add_svc_ep ipt ?n) ?es (tb @ [(?n, entry ?n ip ?P)]))
      (tbl base (full ?rs (tb @ [(?n, entry ?n ip ?P)])), ?h2 @ hs) ?tb (tbl base (full ?rs ?tb), hs)"
    using add_eps_run [OF new' l2 _ nil apL pl] ok by (simp add: complete_def)
  have "new_svc ?n ip tb = tb @ [(?n, entry ?n ip [])]"
    using new by (simp add: new_svc_def hm_insert_end service_table_new_def entry_def hm_empty_def)
  moreover have "full rs (tb @ [(?n, entry ?n ip [])]) = full rs tb" by (simp add: full_def)
  ultimately have run: "achieves view (add_svc ipt svc tb) (t, ds @ hs) ?tb (tbl base (full ?rs ?tb), hs)"
    unfolding add_svc_def Let_def ip option.case t using ports eps append_take_drop_id [of "length ?ps" ds]
    by (auto intro!: achieves_bind simp: append_assoc [symmetric] simp del: append_assoc append_take_drop_id)
  have "mset ?rs = mset (all_rules ?tb)" using rs with_all_shape [OF l2] by simp
  moreover have "hm_wf ?tb" using m new' by (auto simp: mirrors_def hm_wf_def)
  moreover have "\<forall>c \<in> names (all_chains ?tb). proxy_name c" using m proxy by (auto simp: mirrors_def)
  ultimately have "mirrors base ?tb (tbl base (full ?rs ?tb))" using apL unfolding mirrors_def by blast
  with run serves_entry [of ?h1 svc ?h2 ip] l1 l2 ip show ?thesis
    unfolding hm_insert_end [OF new] by (auto simp: with_ports_def)
qed

end

text \<open>The rules of the host do not jump to chains of the proxy.\<close>

definition host :: "(string \<rightharpoonup> string list) \<Rightarrow> bool" where
  "host base \<longleftrightarrow> no_refs_from base {c. proxy_name c}"

lemma self_contained:
  assumes "\<forall>c \<in> names (all_chains tb). proxy_name c"
  shows "refs_closed (all_chains tb) (names (all_chains tb)) \<and> refs_in (all_rules tb) (names (all_chains tb))"
  using assms
proof (induction tb)
  case (Cons x tb)
  obtain n st where x: "x = (n, st)" by (cases x)
  have "plain_names (port_chains (st_lb_tb st))" using Cons.prems by (simp add: x plain_names_def proxy_name_def)
  with closed_port_chains [OF this] refs_port_rules [OF this] Cons show ?case
    by (auto simp: x intro: refs_closed_mono refs_in_mono)
qed simp

lemma hm_remove_split: "hm_wf (xs @ (k, v) # ys) \<Longrightarrow> hm_remove k (xs @ (k, v) # ys) = xs @ ys"
proof -
  have "filter (\<lambda>(k', _). k \<noteq> k') zs = zs" if "k \<notin> fst ` set zs" for zs :: "('a \<times> 'b) list"
    using delete_id [OF that] by (simp add: AList.delete_eq)
  then show "hm_wf (xs @ (k, v) # ys) \<Longrightarrow> ?thesis"
    by (simp add: hm_remove_def hm_wf_def AList.delete_eq)
qed

context nat_table
begin

lemma del_svc_mirrors:
  assumes m: "mirrors base tb t" and host: "host base"
  shows "\<exists>t'. achieves view (del_svc ipt name tb) (t, hs) (hm_remove name tb) (t', hs) \<and>
    mirrors base (hm_remove name tb) t' \<and> dom t' \<subseteq> dom t"
proof (cases "hm_get tb name")
  case None
  then have "hm_remove name tb = tb" by (simp add: hm_get_None_iff hm_remove_def delete_id)
  with None m show ?thesis by (auto simp: del_svc_def achieves_def)
next
  case (Some st)
  then obtain xs ys where tb: "tb = xs @ (name, st) # ys" using hm_get_SomeD split_list by metis
  let ?K = "''KUBE-SERVICES''" and ?L = "st_lb_tb st" and ?tb = "xs @ ys"
  let ?r = "port_rules (st_svc_name st) (st_cluster_ip st) ?L" and ?C = "all_chains (xs @ ys)"
  obtain rs where rs: "mset rs = mset (all_rules tb)" and ap: "apart base (full rs tb)"
    and t: "t = tbl base (full rs tb)" and wf: "hm_wf tb" and proxy: "\<forall>c \<in> names (all_chains tb). proxy_name c"
    using m by (auto simp: mirrors_def)
  have rm: "hm_remove name tb = ?tb" using hm_remove_split [OF wf [unfolded tb]] unfolding tb .
  have proxyC: "\<forall>c \<in> names ?C. proxy_name c" and proxyL: "\<forall>c \<in> names (port_chains ?L). proxy_name c"
    using proxy by (auto simp: tb)
  have ap': "apart base ((?K, rs) # port_chains ?L @ ?C)"
    using ap apart_perm [of "full rs tb" "(?K, rs) # port_chains ?L @ ?C" base] by (simp add: full_def tb)
  have t': "t = tbl base ((?K, rs) # port_chains ?L @ ?C)"
    unfolding t by (rule tbl_perm(1) [OF _ ap]) (simp add: full_def tb)
  have pl: "plain_names (port_chains ?L)" using proxyL by (simp add: plain_names_def proxy_name_def)
  have base: "no_refs_from base (names (port_chains ?L))"
    using host proxyL unfolding host_def by (auto elim: no_refs_from_mono)
  have ms: "mset rs = mset ?r + mset (all_rules ?tb)" using rs by (simp add: tb)
  let ?rs = "fold remove1 ?r rs"
  have run: "achieves view (st_cleanup ipt st) (t, hs) () (tbl base ((?K, ?rs) # ?C), hs)"
    unfolding st_cleanup_def t'
    by (rule st_cleanup_run [OF ap' pl _ base ms]) (use self_contained [OF proxyC] in auto)
  have "achieves view (del_svc ipt name tb) (t, hs) (hm_remove name tb) (tbl base (full ?rs ?tb), hs)"
    unfolding del_svc_def Some option.case using run by (auto intro!: achieves_bind achieves_return simp: full_def)
  moreover have "apart base (full ?rs ?tb)" by (rule apart_sub [OF _ ap']) (simp add: full_def)
  moreover have "mset ?rs = mset (all_rules ?tb)" by (simp add: mset_fold_remove1 ms)
  moreover have "hm_wf ?tb" using wf by (simp add: rm [symmetric])
  moreover have "dom (tbl base (full ?rs ?tb)) \<subseteq> dom t" by (auto simp: t dom_tbl full_def tb)
  ultimately show ?thesis using proxyC unfolding rm mirrors_def by blast
qed

end

text \<open>
  What is asked of a notification: a new service has a cluster address, no port twice and a name that has no
  table yet, and there are random strings for its chains.
\<close>

definition acceptable :: "service notification \<Rightarrow> svc_tables \<Rightarrow> string list \<Rightarrow> bool" where
  "acceptable n tb ds = (case n of
       NAdd new \<Rightarrow> complete new \<and> hm_get tb (md_name (svc_metadata new)) = None \<and> length ds = draws_for new
     | NUpdate old new \<Rightarrow> complete new \<and> length ds = draws_for new \<and>
         (md_name (svc_metadata new) = md_name (svc_metadata old) \<or> hm_get tb (md_name (svc_metadata new)) = None)
     | NDelete old \<Rightarrow> ds = [])"

definition brings_about :: "service notification \<Rightarrow> svc_tables \<Rightarrow> svc_tables \<Rightarrow> bool" where
  "brings_about n tb tb' = (case n of
       NAdd new \<Rightarrow> \<exists>st. serves st new \<and> hm_get tb' = (hm_get tb)(md_name (svc_metadata new) \<mapsto> st)
     | NUpdate old new \<Rightarrow> \<exists>st. serves st new \<and>
         hm_get tb' = (hm_get tb)(md_name (svc_metadata old) := None, md_name (svc_metadata new) \<mapsto> st)
     | NDelete old \<Rightarrow> hm_get tb' = (hm_get tb)(md_name (svc_metadata old) := None))"

context nat_table
begin

lemma notification_mirrors:
  assumes m: "mirrors base tb t" and host: "host base" and ok: "acceptable n tb ds" and fresh: "fresh t ds"
  shows "\<exists>tb' t'. achieves view (proxy_handle_notification ipt n tb) (t, ds @ hs) tb' (t', hs) \<and>
    mirrors base tb' t' \<and> brings_about n tb tb'"
proof (cases n)
  case (NAdd new)
  with add_svc_mirrors [OF m _ _ fresh, of new hs] ok show ?thesis
    by (fastforce simp: acceptable_def brings_about_def proxy_handle_notification_def)
next
  case (NUpdate old new)
  let ?o = "md_name (svc_metadata old)"
  obtain t1 where del: "achieves view (del_svc ipt ?o tb) (t, ds @ hs) (hm_remove ?o tb) (t1, ds @ hs)"
    and m1: "mirrors base (hm_remove ?o tb) t1" and d1: "dom t1 \<subseteq> dom t"
    using del_svc_mirrors [OF m host] by blast
  have "hm_get (hm_remove ?o tb) (md_name (svc_metadata new)) = None" "complete new" "length ds = draws_for new"
    using ok by (auto simp: NUpdate acceptable_def)
  from add_svc_mirrors [OF m1 this(1,2) fresh_sub [OF fresh d1] this(3), of hs]
  obtain st t' where "achieves view (add_svc ipt new (hm_remove ?o tb)) (t1, ds @ hs)
      (hm_insert (md_name (svc_metadata new)) st (hm_remove ?o tb)) (t', hs)"
    "mirrors base (hm_insert (md_name (svc_metadata new)) st (hm_remove ?o tb)) t'" "serves st new" by blast
  with achieves_bind [where f = "add_svc ipt new", OF del] show ?thesis
    unfolding NUpdate proxy_handle_notification_def brings_about_def notification.case by fastforce
next
  case (NDelete old)
  with del_svc_mirrors [OF m host, of "md_name (svc_metadata old)" hs] ok show ?thesis
    by (fastforce simp: acceptable_def brings_about_def proxy_handle_notification_def)
qed

end


end
