(* ===== verification/LoadBalance.thy ===== *)
theory LoadBalance
  imports ProxyTables
begin

text \<open>
  What the balancing rules mean to a packet: the printed probabilities are those of a uniform choice up to
  rounding. Then the clean-up of the nat table, a resynchronisation that ends in a panic, and a nat table in
  memory for the witnesses.
\<close>

section \<open>Accuracy of the printed probabilities\<close>

lemma pow2_powi: "pow2 e = 2 powi e"
  by (simp add: pow2_def power_int_def field_simps)

lemma bit_length_bounds: "0 < n \<Longrightarrow> 2 powi (bit_length n - 1) \<le> (of_int n :: rat) \<and> (of_int n :: rat) < 2 powi (bit_length n)"
proof (induction n rule: bit_length.induct)
  case (1 n)
  show ?case
  proof (cases "n = 1")
    case True
    then show ?thesis by simp
  next
    case False
    with "1.prems" have pos: "0 < n div 2" by simp
    have eq: "bit_length n = 1 + bit_length (n div 2)" using "1.prems" by (simp add: bit_length.simps [of n])
    have ih: "2 powi (bit_length (n div 2) - 1) \<le> (of_int (n div 2) :: rat)"
      "(of_int (n div 2) :: rat) < 2 powi bit_length (n div 2)" using "1.IH" "1.prems" pos by simp_all
    have n: "2 * (n div 2) \<le> n" "n \<le> 2 * (n div 2) + 1" by auto
    have p: "(2 :: rat) powi bit_length (n div 2) = 2 * 2 powi (bit_length (n div 2) - 1)"
      by (simp add: power_int_diff)
    have "2 powi bit_length (n div 2) \<le> (of_int (2 * (n div 2)) :: rat)" using ih(1) p by simp
    also have "\<dots> \<le> of_int n" using n(1) by (simp only: of_int_le_iff)
    finally have low: "2 powi bit_length (n div 2) \<le> (of_int n :: rat)" .
    have b: "0 \<le> bit_length (n div 2)" by (rule bit_length_nonneg)
    have "(of_int (n div 2) :: rat) < of_int (2 ^ nat (bit_length (n div 2)))"
      using ih(2) b by (simp add: power_int_def)
    then have "n div 2 + 1 \<le> 2 ^ nat (bit_length (n div 2))" by (simp only: of_int_less_iff)
    with n(2) have "n < 2 * 2 ^ nat (bit_length (n div 2))" by simp
    then have "(of_int n :: rat) < of_int (2 * 2 ^ nat (bit_length (n div 2)))" by (simp only: of_int_less_iff)
    then have "(of_int n :: rat) < 2 * 2 powi bit_length (n div 2)" using b by (simp add: power_int_def)
    with low show ?thesis by (simp add: eq power_int_add)
  qed
qed

lemma exponent_le:
  assumes "0 < x"
  shows "2 powi exponent x \<le> x"
proof -
  obtain n d where q: "quotient_of x = (n, d)" by (cases "quotient_of x")
  have d: "0 < d" using quotient_of_denom_pos [OF q] .
  have x: "x = of_int n / of_int d" using quotient_of_div [OF q] .
  with assms d have n: "0 < n" by (simp add: zero_less_divide_iff)
  let ?k = "bit_length n - bit_length d"
  have "(2 :: rat) powi (?k - 1) = 2 powi (bit_length n - 1) / 2 powi bit_length d"
    by (simp add: power_int_diff)
  also have "\<dots> \<le> of_int n / of_int d"
    using bit_length_bounds [OF n] bit_length_bounds [OF d] d n by (intro frac_le) auto
  finally have "2 powi (?k - 1) \<le> x" using x by simp
  then show ?thesis by (auto simp: exponent_def q Let_def pow2_powi)
qed

lemma round_half_even_close: "\<bar>of_int (round_half_even x) - x\<bar> \<le> 1 / 2"
proof -
  have "of_int \<lfloor>x\<rfloor> \<le> x" "x < of_int \<lfloor>x\<rfloor> + 1" by linarith+
  then show ?thesis unfolding round_half_even_def Let_def abs_le_iff by simp linarith
qed

lemma f32_close:
  assumes "0 < x" and "- 126 \<le> exponent x"
  shows "\<bar>f32_pos x - x\<bar> \<le> x / 2 ^ 24"
proof -
  let ?u = "pow2 (exponent x - 23)"
  have u: "0 < ?u" by (rule pow2_pos)
  have f: "f32_pos x = of_int (round_half_even (x / ?u)) * ?u"
    using max_absorb1 [of "- 149" "exponent x - 23"] assms(2) by (simp add: f32_pos_def Let_def)
  have "f32_pos x - x = (of_int (round_half_even (x / ?u)) - x / ?u) * ?u"
    using u by (simp add: f algebra_simps)
  then have "\<bar>f32_pos x - x\<bar> = \<bar>of_int (round_half_even (x / ?u)) - x / ?u\<bar> * ?u"
    using u by (simp add: abs_mult)
  also have "\<dots> \<le> 1 / 2 * ?u" using round_half_even_close u by (intro mult_right_mono) auto
  also have "\<dots> = 2 powi exponent x / 2 ^ 24" by (simp add: pow2_powi power_int_diff)
  also have "\<dots> \<le> x / 2 ^ 24" using exponent_le [OF assms(1)] by (simp add: divide_right_mono)
  finally show ?thesis .
qed

lemma f32_int:
  assumes "0 < n" and "n < 2 ^ 24"
  shows "f32_pos (of_int n) = of_int n"
proof -
  have "bit_length n \<le> 24" using bit_length_le [of n 24] assms by simp
  moreover have "1 \<le> bit_length n" using assms by (intro bit_length_pos) simp
  ultimately have e: "- 1 \<le> exponent (of_int n)" "exponent (of_int n) \<le> 23" by (auto simp: exponent_def Let_def)
  let ?e = "exponent (of_int n) - 23"
  have m: "max ?e (- 149) = ?e" using e by simp
  have "of_int n / pow2 ?e = (of_int (n * 2 ^ nat (- ?e)) :: rat)" using e by (auto simp: pow2_def)
  then have "round_half_even (of_int n / pow2 ?e) = n * 2 ^ nat (- ?e)" by (metis round_half_even_of_int)
  moreover have "of_int (n * 2 ^ nat (- ?e)) * pow2 ?e = (of_int n :: rat)" using e by (auto simp: pow2_def)
  ultimately show ?thesis by (simp only: f32_pos_def Let_def m)
qed

lemma exponent_inverse:
  assumes "0 < n" and "n < 2 ^ 24"
  shows "- 25 \<le> exponent (1 / of_int n)"
proof -
  have "1 / of_int n = Fract 1 n" by (simp only: Fract_of_int_quotient of_int_1)
  then have q: "quotient_of (1 / of_int n) = (1, n)"
    using assms(1) by (simp only: quotient_of_Fract) (simp add: Rat.normalize_def)
  have "bit_length n \<le> 24" using bit_length_le [of n 24] assms by simp
  then show ?thesis by (auto simp: exponent_def q Let_def)
qed

text \<open>The probability of the text of a balancing rule.\<close>

definition lb_prob :: "nat \<Rightarrow> rat" where
  "lb_prob i = (if i = 1 then 1
     else of_int (round_half_even (f32_pos (1 / f32_pos (of_nat i)) * 10 ^ 11)) / 10 ^ 11)"

lemma lb_prob_close:
  assumes "0 < i" and "i < 2 ^ 24"
  shows "\<bar>lb_prob i - 1 / of_nat i\<bar> \<le> 1 / 2 ^ 24" and "0 \<le> lb_prob i" and "lb_prob i \<le> 1"
proof -
  have "\<bar>lb_prob i - 1 / of_nat i\<bar> \<le> 1 / 2 ^ 24 \<and> 0 \<le> lb_prob i \<and> lb_prob i \<le> 1"
  proof (cases "i = 1")
    case True
    then show ?thesis by (simp add: lb_prob_def)
  next
    case False
    let ?x = "1 / of_nat i :: rat" and ?f = "f32_pos (1 / f32_pos (of_nat i))"
    have i: "2 \<le> i" using False assms(1) by simp
    have n: "0 < int i" "int i < 2 ^ 24" using assms by simp_all
    have fi: "f32_pos (of_nat i) = of_nat i" using f32_int [OF n] by simp
    have x: "0 < ?x" "?x \<le> 1 / 2" using i by (simp_all add: field_simps)
    have "\<bar>?f - ?x\<bar> \<le> ?x / 2 ^ 24"
      using f32_close [OF x(1)] exponent_inverse [OF n] by (simp add: fi)
    also have "\<dots> \<le> 1 / 2 ^ 25" using x(2) by simp
    finally have 1: "\<bar>?f - ?x\<bar> \<le> 1 / 2 ^ 25" .
    let ?r = "of_int (round_half_even (?f * 10 ^ 11)) :: rat"
    have "\<bar>?r - ?f * 10 ^ 11\<bar> \<le> 1 / 2" by (rule round_half_even_close)
    then have "\<bar>(?r - ?f * 10 ^ 11) / 10 ^ 11\<bar> \<le> 1 / 10 ^ 11" by (simp add: abs_divide)
    then have 2: "\<bar>?r / 10 ^ 11 - ?f\<bar> \<le> 1 / 10 ^ 11" by (simp add: diff_divide_distrib)
    have p: "lb_prob i = ?r / 10 ^ 11" using False by (simp add: lb_prob_def)
    have "\<bar>lb_prob i - ?x\<bar> \<le> \<bar>?r / 10 ^ 11 - ?f\<bar> + \<bar>?f - ?x\<bar>"
      using abs_triangle_ineq [of "?r / 10 ^ 11 - ?f" "?f - ?x"] by (simp add: p)
    also have "\<dots> \<le> 1 / 10 ^ 11 + 1 / 2 ^ 25" using 1 2 by (rule add_mono [rotated])
    also have "\<dots> \<le> 1 / 2 ^ 24" by simp
    finally have 3: "\<bar>lb_prob i - ?x\<bar> \<le> 1 / 2 ^ 24" .
    moreover from 3 have "1 / 2 ^ 24 < ?x" using assms(2) i by (simp add: field_simps)
    moreover have "(1 :: rat) / 2 ^ 24 \<le> 1 / 2" by simp
    ultimately show ?thesis using x 3 unfolding abs_le_iff by linarith
  qed
  then show "\<bar>lb_prob i - 1 / of_nat i\<bar> \<le> 1 / 2 ^ 24" "0 \<le> lb_prob i" "lb_prob i \<le> 1" by simp_all
qed

section \<open>Reading the rules back\<close>

text \<open>What a balancing rule means to the kernel: the probability with which it matches, and its chain.\<close>

definition decode_rule :: "string \<Rightarrow> (rat \<times> string) option" where
  "decode_rule rule = (case split_on (CHR '' '') rule of
       [j, c] \<Rightarrow> if j = ''-j'' then Some (1, c) else None
     | [m, s, o1, r, o2, p, j, c] \<Rightarrow>
         if [m, s, o1, r, o2, j] = [''-m'', ''statistic'', ''--mode'', ''random'', ''--probability'', ''-j'']
         then map_option (\<lambda>x. (x, c)) (parse_decimal p) else None
     | _ \<Rightarrow> None)"

lemma digits_value_append: "digits_value (xs @ ys) = digits_value xs * 10 ^ length ys + digits_value ys"
proof -
  have "fold (\<lambda>c n. 10 * n + (of_char c - 48)) ys m = m * 10 ^ length ys + fold (\<lambda>c n. 10 * n + (of_char c - 48)) ys 0" for m
  proof (induction ys arbitrary: m)
    case (Cons y ys)
    show ?case using Cons.IH [of "10 * m + (of_char y - 48)"] Cons.IH [of "of_char y - 48"] by (simp add: algebra_simps)
  qed simp
  then show ?thesis by (simp add: digits_value_def)
qed

lemma digit_char: "d < 10 \<Longrightarrow> is_digit (char_of (48 + d)) \<and> digits_value [char_of (48 + d)] = d"
  by (simp add: is_digit_def digits_value_def)

lemma dec_of_nat_value: "digits_value (dec_of_nat n) = n \<and> list_all is_digit (dec_of_nat n) \<and> dec_of_nat n \<noteq> []"
proof (induction n rule: dec_of_nat.induct)
  case (1 n)
  show ?case
  proof (cases "n < 10")
    case True
    then show ?thesis using digit_char [of n] by (simp add: dec_of_nat.simps [of n])
  next
    case False
    have "n mod 10 < 10" by simp
    from digit_char [OF this] 1 [OF False] False show ?thesis
      by (simp add: dec_of_nat.simps [of n] digits_value_append)
  qed
qed

lemma fixed_digits_value:
  "digits_value (fixed_digits k n) = n mod 10 ^ k \<and> list_all is_digit (fixed_digits k n) \<and> length (fixed_digits k n) = k"
proof (induction k arbitrary: n)
  case 0
  then show ?case by (simp add: digits_value_def)
next
  case (Suc k)
  have "n mod 10 < 10" by simp
  from digit_char [OF this] Suc.IH [of "n div 10"] show ?case
    by (simp add: digits_value_append mod_mult2_eq mult.commute)
qed

lemma parse_format_fixed:
  assumes "0 \<le> round_half_even (x * 10 ^ k)"
  shows "parse_decimal (format_fixed k x) = Some (of_int (round_half_even (x * 10 ^ k)) / 10 ^ k)"
proof -
  let ?n = "nat (round_half_even (x * 10 ^ k))"
  let ?w = "dec_of_nat (?n div 10 ^ k)" and ?f = "fixed_digits k ?n"
  have w: "list_all is_digit ?w" "?w \<noteq> []" and f: "list_all is_digit ?f" "length ?f = k"
    using dec_of_nat_value fixed_digits_value by blast+
  have s: "format_fixed k x = ?w @ CHR ''.'' # ?f" by (simp add: format_fixed_def Let_def)
  have nd: "\<not> is_digit (CHR ''.'')" by (simp add: is_digit_def)
  have tw: "takeWhile is_digit (format_fixed k x) = ?w" "dropWhile is_digit (format_fixed k x) = CHR ''.'' # ?f"
    using w(1) nd unfolding s by (simp_all add: list_all_iff takeWhile_append2 dropWhile_append2)
  have tf: "takeWhile is_digit ?f = ?f" "dropWhile is_digit ?f = []"
    using f(1) by (simp_all add: list_all_iff takeWhile_eq_all_conv dropWhile_eq_Nil_conv)
  have v: "digits_value (?w @ ?f) = ?n"
    using dec_of_nat_value [of "?n div 10 ^ k"] fixed_digits_value [of k ?n] unfolding digits_value_append
    by (metis div_mult_mod_eq)
  have e: "scale10 y (- int k) = y / 10 ^ k" for y by (cases "k = 0") (simp_all add: scale10_def)
  show ?thesis
    unfolding parse_decimal_def Let_def tw using w(2) assms
    by (simp add: tf v f(2) e parse_exponent_def)
qed

lemma digits_no_blank: "list_all is_digit s \<Longrightarrow> CHR '' '' \<notin> set s"
  by (auto simp: list_all_iff is_digit_def dest!: bspec)

lemma format_fixed_no_blank: "CHR '' '' \<notin> set (format_fixed k x)"
  using digits_no_blank [OF conjunct1 [OF conjunct2 [OF fixed_digits_value]]]
  by (simp add: format_fixed_def Let_def dec_no_blank)

lemma decode_gen_lb_rule:
  assumes "plain c" and "0 < i" and "i < 2 ^ 24"
  shows "decode_rule (gen_lb_rule i c) = Some (lb_prob i, c)"
proof (cases "i = 1")
  case True
  have "split_on (CHR '' '') (''-j '' @ c) = [''-j'', c]"
    using plain_no_blank [OF assms(1)] by (simp add: split_on_no_sep)
  with True show ?thesis by (simp add: decode_rule_def gen_lb_rule_def lb_prob_def)
next
  case False
  let ?x = "f32_pos (1 / f32_pos (of_nat i))" and ?p = "format_fixed 11 (f32_pos (1 / f32_pos (of_nat i)))"
  have "split_on (CHR '' '') (gen_lb_rule i c) =
      [''-m'', ''statistic'', ''--mode'', ''random'', ''--probability'', ?p, ''-j'', c]"
    using False plain_no_blank [OF assms(1)] format_fixed_no_blank [of 11 ?x]
    by (simp add: gen_lb_rule_def split_on_no_sep split_blank)
  moreover have "0 \<le> round_half_even (?x * 10 ^ 11)"
    using lb_prob_close(2) [OF assms(2,3)] False by (simp add: lb_prob_def)
  ultimately show ?thesis using False parse_format_fixed [of ?x 11] by (simp add: decode_rule_def lb_prob_def)
qed

section \<open>The share of an endpoint\<close>

text \<open>
  A packet tries the rules of a chain in order, and each matches with its probability: the probability
  that it leaves to the chain \<open>c\<close>.
\<close>

fun share :: "(rat \<times> string) list \<Rightarrow> string \<Rightarrow> rat" where
  "share [] c = 0"
| "share ((p, d) # rs) c = (if d = c then p else 0) + (1 - p) * share rs c"

fun lb_means :: "nat \<Rightarrow> string list \<Rightarrow> (rat \<times> string) list \<Rightarrow> (rat \<times> string) list" where
  "lb_means i [] acc = acc"
| "lb_means i (c # cs) acc = lb_means (i + 1) cs ((lb_prob i, c) # acc)"

lemma lb_rules_decode:
  assumes "map decode_rule acc = map Some acc'" and "\<forall>c \<in> set cs. plain c" and "0 < i" and "i + length cs \<le> 2 ^ 24"
  shows "map decode_rule (lb_rules i cs acc) = map Some (lb_means i cs acc')"
  using assms
proof (induction cs arbitrary: i acc acc')
  case (Cons c cs)
  then have "decode_rule (gen_lb_rule i c) = Some (lb_prob i, c)" by (intro decode_gen_lb_rule) auto
  with Cons show ?case by simp
qed simp

lemma lb_means_snoc: "lb_means i (cs @ [c]) acc = (lb_prob (i + length cs), c) # lb_means i cs acc"
  by (induction cs arbitrary: i acc) simp_all

lemma share_other: "c \<notin> snd ` set rs \<Longrightarrow> share rs c = 0"
  by (induction rs) (auto split: prod.splits)

lemma snd_lb_means: "snd ` set (lb_means i cs acc) = set cs \<union> snd ` set acc"
  by (induction cs arbitrary: i acc) auto

lemma shares_fair:
  assumes "distinct cs" and "cs \<noteq> []" and "length cs < 2 ^ 24"
  shows "(\<Sum>c \<in> set cs. share (lb_means 1 cs []) c) = 1 \<and>
    (\<forall>c \<in> set cs. \<bar>share (lb_means 1 cs []) c - 1 / of_nat (length cs)\<bar> \<le> of_nat (length cs) / 2 ^ 24)"
  using assms
proof (induction cs rule: rev_induct)
  case (snoc c cs)
  let ?n = "length cs" and ?old = "lb_means 1 cs []" and ?new = "lb_means 1 (cs @ [c]) []" and ?p = "lb_prob (length cs + 1)"
  have new: "?new = (?p, c) # ?old" by (simp add: lb_means_snoc)
  show ?case
  proof (cases "cs = []")
    case True
    then show ?thesis by (simp add: lb_prob_def)
  next
    case False
    then have n: "0 < ?n" by simp
    have c: "c \<notin> set cs" using snoc.prems by simp
    have ih: "(\<Sum>d \<in> set cs. share ?old d) = 1"
      "\<And>d. d \<in> set cs \<Longrightarrow> \<bar>share ?old d - 1 / of_nat ?n\<bar> \<le> of_nat ?n / 2 ^ 24"
      using snoc.IH snoc.prems False by auto
    have p: "\<bar>?p - 1 / of_nat (?n + 1)\<bar> \<le> 1 / 2 ^ 24" "0 \<le> ?p" "?p \<le> 1"
      using lb_prob_close [of "?n + 1"] snoc.prems by simp_all
    have at_c: "share ?new c = ?p" unfolding new using c by (simp add: share_other snd_lb_means)
    have at_d: "share ?new d = (1 - ?p) * share ?old d" if "d \<in> set cs" for d unfolding new using that c by auto
    have sum: "(\<Sum>d \<in> set (cs @ [c]). share ?new d) = 1"
    proof -
      have "(\<Sum>d \<in> set (cs @ [c]). share ?new d) = ?p + (\<Sum>d \<in> set cs. (1 - ?p) * share ?old d)"
        using c at_d at_c by (auto intro!: sum.cong)
      then show ?thesis using ih(1) by (simp add: sum_distrib_left [symmetric])
    qed
    have step: "\<bar>(1 - ?p) * s - 1 / of_nat (?n + 1)\<bar> \<le> of_nat (?n + 1) / 2 ^ 24"
      if s: "\<bar>s - 1 / of_nat ?n\<bar> \<le> of_nat ?n / 2 ^ 24" for s
    proof -
      have split: "(1 - ?p) * s - 1 / of_nat (?n + 1) =
          (1 - ?p) * (s - 1 / of_nat ?n) + (1 / of_nat (?n + 1) - ?p) * (1 / of_nat ?n)"
      proof -
        have "(1 :: rat) / of_nat ?n - 1 / of_nat (?n + 1) = 1 / of_nat (?n + 1) * (1 / of_nat ?n)"
          using n by (simp add: field_simps)
        moreover have "(1 - p) * s - b = (1 - p) * (s - a) + (b - p) * a" if "a - b = b * a" for p a b :: rat
          using that by (simp add: algebra_simps)
        ultimately show ?thesis by blast
      qed
      have "\<bar>(1 - ?p) * (s - 1 / of_nat ?n)\<bar> \<le> 1 * (of_nat ?n / 2 ^ 24)"
        unfolding abs_mult using p s by (intro mult_mono) auto
      moreover have "\<bar>(1 / of_nat (?n + 1) - ?p) * (1 / of_nat ?n)\<bar> \<le> 1 / 2 ^ 24 * 1"
      proof -
        have "\<bar>1 / of_nat ?n :: rat\<bar> \<le> 1" using n by (simp add: Suc_le_eq del: length_greater_0_conv)
        then show ?thesis unfolding abs_mult using p(1) by (intro mult_mono) (auto simp: abs_minus_commute)
      qed
      ultimately have "\<bar>(1 - ?p) * s - 1 / of_nat (?n + 1)\<bar> \<le> of_nat ?n / 2 ^ 24 + 1 / 2 ^ 24"
        unfolding split by (intro order.trans [OF abs_triangle_ineq] add_mono) simp_all
      then show ?thesis by (simp add: add_divide_distrib)
    qed
    have "\<bar>?p - 1 / of_nat (?n + 1)\<bar> \<le> of_nat (?n + 1) / 2 ^ 24"
      using p(1) by (rule order.trans) (simp add: divide_right_mono)
    then have "\<forall>d \<in> set (cs @ [c]). \<bar>share ?new d - 1 / of_nat (length (cs @ [c]))\<bar> \<le> of_nat (length (cs @ [c])) / 2 ^ 24"
      using step ih(2) at_c at_d by auto
    with sum show ?thesis by blast
  qed
qed simp

text \<open>
  C14. After the rules of a load balancing chain were rewritten, a packet that enters it leaves to one of the
  endpoints, and to each of \<open>n\<close> endpoints with probability \<open>1/n\<close>, up to the rounding of the printed
  probabilities to \<open>f32\<close> and eleven decimals, at most \<open>n / 2 ^ 24\<close>.
\<close>

theorem endpoints_share_equally:
  assumes "nat_table ipt view" and "view w = (t, hs)" and "t (lb_chain lb) = Some old"
    and "\<forall>c \<in> set (hm_values (lb_eps lb)). plain c \<and> t c \<noteq> None"
    and "distinct (hm_values (lb_eps lb))" and "lb_chain lb \<notin> set (hm_values (lb_eps lb))"
    and "lb_eps lb \<noteq> []" and "length (lb_eps lb) < 2 ^ 24"
  shows "\<exists>w' rules ms. rewrite_lb_rules ipt lb w = (Inr (), w') \<and> view w' = (t(lb_chain lb \<mapsto> rules), hs) \<and>
    map decode_rule rules = map Some ms \<and> (\<Sum>c \<in> set (hm_values (lb_eps lb)). share ms c) = 1 \<and>
    (\<forall>c \<in> set (hm_values (lb_eps lb)).
       \<bar>share ms c - 1 / of_nat (length (lb_eps lb))\<bar> \<le> of_nat (length (lb_eps lb)) / 2 ^ 24)"
proof -
  let ?cs = "hm_values (lb_eps lb)" and ?C = "map (\<lambda>c. (c, the (t c))) (hm_values (lb_eps lb))"
  have names: "names ?C = set ?cs" by (force simp: names_def)
  have same: "tbl t ?C = t"
    using assms(4) by (auto simp: tbl_def map_of_map_restrict map_add_def restrict_map_def fun_eq_iff split: option.split)
  have "achieves view (rewrite_lb_rules ipt lb) (tbl t ((lb_chain lb, old) # ?C), hs) ()
      (tbl t ((lb_chain lb, lb_rules 1 ?cs []) # ?C), hs)"
    using assms(4) names by (intro nat_table.op_rewrite [OF assms(1)]) auto
  then have "achieves view (rewrite_lb_rules ipt lb) (t, hs) () (t(lb_chain lb \<mapsto> lb_rules 1 ?cs []), hs)"
    using assms(3) by (simp add: tbl_Cons same fun_upd_idem)
  from achievesD [OF this assms(2)] obtain w' where run: "rewrite_lb_rules ipt lb w = (Inr (), w')"
    and w': "view w' = (t(lb_chain lb \<mapsto> lb_rules 1 ?cs []), hs)" by blast
  have len: "length ?cs = length (lb_eps lb)" by (simp add: hm_values_def)
  have "map decode_rule (lb_rules 1 ?cs []) = map Some (lb_means 1 ?cs [])"
    using assms(4,8) len by (intro lb_rules_decode) auto
  moreover have "?cs \<noteq> []" using assms(7) by (simp add: hm_values_def)
  ultimately show ?thesis using run w' shares_fair [OF assms(5)] assms(8) len by metis
qed

section \<open>Cleaning up\<close>

definition without :: "string \<Rightarrow> string list \<Rightarrow> (string \<rightharpoonup> string list) \<Rightarrow> string \<rightharpoonup> string list" where
  "without pre cs t = (\<lambda>c. if c \<in> set cs \<and> starts_with c pre then None else t c)"

definition cleaned :: "(string \<rightharpoonup> string list) \<Rightarrow> string \<rightharpoonup> string list" where
  "cleaned t = (\<lambda>c.
     if starts_with c ''KUBE-LB'' \<or> starts_with c ''KUBE-EP'' then None
     else if c = ''KUBE-SERVICES'' then Some []
     else if c = ''PREROUTING'' \<or> c = ''OUTPUT'' then
       map_option (\<lambda>rs. if portal_rule \<in> set rs then rs else portal_rule # rs) (t c)
     else t c)"

text \<open>Only the rules of the proxy jump to its chains.\<close>

definition proxied :: "(string \<rightharpoonup> string list) \<Rightarrow> bool" where
  "proxied t \<longleftrightarrow> (\<forall>c rs r d. t c = Some rs \<longrightarrow> r \<in> set rs \<longrightarrow> refers r d \<longrightarrow>
     (starts_with d ''KUBE-LB'' \<longrightarrow> c = ''KUBE-SERVICES'') \<and>
     (starts_with d ''KUBE-EP'' \<longrightarrow> c = ''KUBE-SERVICES'' \<or> starts_with c ''KUBE-LB''))"

lemma refers_portal: "refers portal_rule d \<longleftrightarrow> d = ''KUBE-SERVICES''"
  using refers_jump [of "''KUBE-SERVICES''" "''-m comment --comment \"kubernetes service portals\"''" d]
  by (simp add: portal_rule_def plain_def)

context nat_table
begin

lemma remove_prefixed_run:
  assumes "distinct cs" and "\<forall>c \<in> set cs. t c \<noteq> None" and "no_refs_from t {c. starts_with c pre}"
  shows "achieves view (remove_prefixed ipt pre cs) (t, hs) () (without pre cs t, hs)"
  using assms
proof (induction cs arbitrary: t)
  case Nil
  then show ?case by (simp add: achieves_def without_def remove_prefixed_def)
next
  case (Cons c cs)
  obtain rs where rs: "t c = Some rs" using Cons.prems(2) by auto
  show ?case
  proof (cases "starts_with c pre")
    case True
    let ?t = "t(c := None)"
    have refs: "no_refs_from (t(c \<mapsto> [])) {c. starts_with c pre}" "no_refs_from ?t {c. starts_with c pre}"
      using Cons.prems(3) by (auto simp: no_refs_from_def)
    have "achieves view (it_delete_chain ipt ''nat'' c) (t(c \<mapsto> []), hs) () ((t(c \<mapsto> []))(c := None), hs)"
      by (rule delete_chain) (use refs(1) True in \<open>auto simp: no_refs_from_def split: if_splits\<close>)
    then have 1: "achieves view (remove_chain ipt c) (t, hs) () (?t, hs)"
      unfolding remove_chain_def by (intro achieves_bind [OF flush_chain [where t = t and c = c, OF rs]]) simp
    have "achieves view (remove_prefixed ipt pre cs) (?t, hs) () (without pre cs ?t, hs)"
      using Cons.prems(1,2) by (intro Cons.IH refs) auto
    moreover have "without pre cs ?t = without pre (c # cs) t" using True by (auto simp: without_def)
    ultimately show ?thesis using True 1 by (auto simp: remove_prefixed_def intro: achieves_bind)
  next
    case False
    have "achieves view (remove_prefixed ipt pre cs) (t, hs) () (without pre cs t, hs)"
      using Cons.prems by (intro Cons.IH) auto
    moreover have "without pre cs t = without pre (c # cs) t" using False by (auto simp: without_def)
    ultimately show ?thesis using False by (simp add: remove_prefixed_def)
  qed
qed

lemma ensure_portal_run:
  assumes "t c = Some rs" and "t ''KUBE-SERVICES'' \<noteq> None"
  shows "achieves view (ensure_portal ipt c) (t, hs) ()
    (t(c \<mapsto> if portal_rule \<in> set rs then rs else portal_rule # rs), hs)"
  unfolding ensure_portal_def
proof (rule achieves_bind [OF exists_rule [where t = t and c = c, OF assms(1)]])
  have "achieves view (it_insert ipt ''nat'' c portal_rule 1) (t, hs) () (t(c \<mapsto> portal_rule # rs), hs)"
    using assms by (intro insert_rule) (auto simp: refers_portal)
  then show "achieves view (if portal_rule \<in> set rs then io_return () else it_insert ipt ''nat'' c portal_rule 1)
      (t, hs) () (t(c \<mapsto> if portal_rule \<in> set rs then rs else portal_rule # rs), hs)"
    using assms(1) by (simp add: achieves_return fun_upd_idem)
qed

lemma cleanup_run:
  assumes pre: "t ''PREROUTING'' = Some rs1" and out: "t ''OUTPUT'' = Some rs2" and ok: "proxied t"
  shows "achieves view (cleanup ipt) (t, hs) () (cleaned t, hs)"
  unfolding achieves_def
proof (intro allI impI)
  fix w assume w: "view w = (t, hs)"
  obtain cs w1 where ls: "it_list_chains ipt ''nat'' w = (Inr cs, w1)" and w1: "view w1 = (t, hs)"
    and cs: "distinct cs" "set cs = dom t" using list_chains [of w] w by auto
  let ?K = "''KUBE-SERVICES''" and ?portal = "\<lambda>rs. if portal_rule \<in> set rs then rs else portal_rule # rs"
  define t1 where "t1 = (if ?K \<in> set cs then t else t(?K \<mapsto> []))"
  define t2 where "t2 = t1(''PREROUTING'' \<mapsto> ?portal rs1, ''OUTPUT'' \<mapsto> ?portal rs2)"
  define t3 where "t3 = t2(?K \<mapsto> [])"
  have K1: "t1 ?K \<noteq> None" using cs by (auto simp: t1_def)
  have 1: "achieves view (if ?K \<in> set cs then io_return () else it_new_chain ipt ''nat'' ?K) (t, hs) () (t1, hs)"
    using cs new_chain [of t ?K hs] by (auto simp: t1_def achieves_return domIff)
  have 2: "achieves view (ensure_portal ipt ''PREROUTING'') (t1, hs) () (t1(''PREROUTING'' \<mapsto> ?portal rs1), hs)"
    using ensure_portal_run [of t1 "''PREROUTING''" rs1 hs] K1 pre by (simp add: t1_def)
  have 3: "achieves view (ensure_portal ipt ''OUTPUT'') (t1(''PREROUTING'' \<mapsto> ?portal rs1), hs) () (t2, hs)"
    using ensure_portal_run [of "t1(''PREROUTING'' \<mapsto> ?portal rs1)" "''OUTPUT''" rs2 hs] K1 out
    by (simp add: t2_def t1_def)
  have K2: "t2 ?K = t1 ?K" by (simp add: t2_def)
  have 4: "achieves view (if ?K \<in> set cs then it_flush_chain ipt ''nat'' ?K else io_return ()) (t2, hs) () (t3, hs)"
    using flush_chain [of t2 ?K _ hs] K1 K2 by (auto simp: t3_def t1_def achieves_return fun_upd_idem)
  have there: "\<forall>c \<in> set cs. t3 c \<noteq> None" using cs by (auto simp: t3_def t2_def t1_def)
  have refs: "(starts_with d ''KUBE-LB'' \<longrightarrow> False) \<and> (starts_with d ''KUBE-EP'' \<longrightarrow> starts_with c ''KUBE-LB'')"
    if "t3 c = Some rs" "r \<in> set rs" "refers r d" for c rs r d
  proof (cases "r = portal_rule")
    case True
    with that(3) show ?thesis by (simp add: refers_portal starts_with_def)
  next
    case False
    with that(1,2) obtain rs' where "t c = Some rs'" "r \<in> set rs'" "c \<noteq> ?K"
      using pre out by (auto simp: t3_def t2_def t1_def split: if_splits)
    with ok that(3) show ?thesis unfolding proxied_def by blast
  qed
  have 5: "achieves view (remove_prefixed ipt ''KUBE-LB'' cs) (t3, hs) () (without ''KUBE-LB'' cs t3, hs)"
    using cs(1) there refs by (intro remove_prefixed_run) (auto simp: no_refs_from_def)
  have gone: "t3 c = None" if "c \<notin> set cs" "starts_with c ''KUBE-LB'' \<or> starts_with c ''KUBE-EP''" for c
  proof -
    have "c \<noteq> ?K" "c \<noteq> ''PREROUTING''" "c \<noteq> ''OUTPUT''" using that(2) by (auto simp: starts_with_def)
    moreover have "t c = None" using that(1) unfolding cs(2) by blast
    ultimately show ?thesis by (simp add: t3_def t2_def t1_def)
  qed
  let ?rest = "filter (\<lambda>c. \<not> starts_with c ''KUBE-LB'') cs"
  have skip: "remove_prefixed ipt ''KUBE-EP'' cs = remove_prefixed ipt ''KUBE-EP'' ?rest"
    unfolding remove_prefixed_def by (induction cs) (auto simp: starts_with_def)
  have ep_refs: "no_refs_from (without ''KUBE-LB'' cs t3) {c. starts_with c ''KUBE-EP''}"
    unfolding no_refs_from_def
  proof (intro allI impI)
    fix c rs r d
    assume c: "without ''KUBE-LB'' cs t3 c = Some rs" and r: "r \<in> set rs" "refers r d"
    then have "t3 c = Some rs" "\<not> starts_with c ''KUBE-LB''"
      using gone [of c] by (auto simp: without_def split: if_splits)
    with refs r show "d \<notin> {c. starts_with c ''KUBE-EP''}" by blast
  qed
  have "\<forall>c \<in> set ?rest. without ''KUBE-LB'' cs t3 c \<noteq> None" using there by (simp add: without_def)
  then have 6: "achieves view (remove_prefixed ipt ''KUBE-EP'' ?rest) (without ''KUBE-LB'' cs t3, hs) ()
      (without ''KUBE-EP'' ?rest (without ''KUBE-LB'' cs t3), hs)"
    using cs(1) by (intro remove_prefixed_run ep_refs) simp
  have there_cs: "''PREROUTING'' \<in> set cs" "''OUTPUT'' \<in> set cs" using pre out unfolding cs(2) by blast+
  have none: "t c = None" if "c \<notin> set cs" for c using that unfolding cs(2) by blast
  have res: "without ''KUBE-EP'' ?rest (without ''KUBE-LB'' cs t3) = cleaned t"
    using pre out none there_cs by (auto simp: without_def cleaned_def t3_def t2_def t1_def fun_eq_iff starts_with_def split: if_splits)
  show "\<exists>w'. cleanup ipt w = (Inr (), w') \<and> view w' = (cleaned t, hs)"
  proof -
    have "achieves view (io_bind (if ?K \<in> set cs then io_return () else it_new_chain ipt ''nat'' ?K) (\<lambda>_.
       io_bind (ensure_portal ipt ''PREROUTING'') (\<lambda>_. io_bind (ensure_portal ipt ''OUTPUT'') (\<lambda>_.
       io_bind (if ?K \<in> set cs then it_flush_chain ipt ''nat'' ?K else io_return ()) (\<lambda>_.
       io_bind (remove_prefixed ipt ''KUBE-LB'' cs) (\<lambda>_. remove_prefixed ipt ''KUBE-EP'' cs))))))
       (t, hs) () (cleaned t, hs)"
      unfolding skip by (rule achieves_bind [OF 1], rule achieves_bind [OF 2], rule achieves_bind [OF 3],
        rule achieves_bind [OF 4], rule achieves_bind [OF 5], rule 6 [unfolded res])
    from achievesD [OF this w1] show ?thesis unfolding cleanup_def by (simp add: io_bind_def ls)
  qed
qed

end

text \<open>
  C15. At its start and before every resynchronisation the proxy removes every chain of its own and all rules
  of \<open>KUBE-SERVICES\<close>, makes the portals jump there once, and leaves all other chains alone.
\<close>

theorem cleanup_exact:
  assumes "nat_table ipt view" and "view w = (t, hs)" and "t ''PREROUTING'' \<noteq> None" and "t ''OUTPUT'' \<noteq> None"
    and "proxied t"
  shows "\<exists>w'. k8s_iptables_new ipt w = (Inr hm_empty, w') \<and> view w' = (cleaned t, hs)"
proof -
  obtain rs1 rs2 where "t ''PREROUTING'' = Some rs1" "t ''OUTPUT'' = Some rs2" using assms(3,4) by auto
  from achieves_bind [OF achieves_map_err [OF nat_table.cleanup_run [OF assms(1) this assms(5)]] achieves_return]
  show ?thesis unfolding k8s_iptables_new_def using assms(2) by (fastforce dest: achievesD)
qed

section \<open>A resynchronisation forgets the chains, not the tables\<close>

definition panics :: "(fault + 'a) \<times> 'w \<Rightarrow> bool" where
  "panics r = (case fst r of Inl (Panic p) \<Rightarrow> True | _ \<Rightarrow> False)"

lemma panics_bind:
  assumes "achieves view m v a v1" and "view w = v" and "\<And>w. view w = v1 \<Longrightarrow> panics (f a w)"
  shows "panics (io_bind m f w)"
proof -
  obtain w' where "m w = (Inr a, w')" "view w' = v1" using achievesD [OF assms(1,2)] by blast
  with assms(3) show ?thesis by (simp add: io_bind_def)
qed

lemma panics_first: "panics (m w) \<Longrightarrow> panics (io_bind m f w)"
  by (auto simp: panics_def io_bind_def split: prod.splits sum.splits fault.splits)

context nat_table
begin

text \<open>An endpoint for a port whose chain is gone.\<close>

lemma lb_add_ep_gone:
  assumes "view w = (t, h # hs)" and "t (lb_chain lb) = None" and "t (ep_name h) = None" and "ep_name h \<noteq> lb_chain lb"
  shows "panics (lb_add_ep ipt ep lb w)"
  unfolding lb_add_ep_def Let_def
proof (rule panics_bind [OF op_hash assms(1)], unfold ep_name_def [symmetric])
  let ?rule = "gen_ep_rule (lb_svc_name lb) ep (lb_target_port lb)"
  let ?lb = "lb\<lparr>lb_eps := hm_insert ep (ep_name h) (lb_eps lb)\<rparr>"
  let ?t1 = "t(ep_name h \<mapsto> [])" and ?t2 = "t(ep_name h \<mapsto> [?rule])"
  fix w assume w: "view w = (t, hs)"
  have new: "achieves view (unwrap (it_new_chain ipt ''nat'' (ep_name h))) (t, hs) () (?t1, hs)"
    by (intro achieves_map_err new_chain assms(3))
  have "achieves view (it_append_unique ipt ''nat'' (ep_name h) ?rule) (?t1, hs) () (?t1(ep_name h \<mapsto> [] @ [?rule]), hs)"
    by (rule append_unique_rule) (simp_all add: refers_ep_rule)
  then have app: "achieves view (unwrap (it_append_unique ipt ''nat'' (ep_name h) ?rule)) (?t1, hs) () (?t2, hs)"
    by (intro achieves_map_err) simp
  show "panics (io_bind (unwrap (it_new_chain ipt ''nat'' (ep_name h))) (\<lambda>_.
      io_bind (unwrap (it_append_unique ipt ''nat'' (ep_name h) ?rule)) (\<lambda>_.
      io_bind (rewrite_lb_rules ipt ?lb) (\<lambda>_. io_return ?lb))) w)"
  proof (rule panics_bind [OF new w], rule panics_bind [OF app], assumption, rule panics_first)
    fix w assume "view w = (?t2, hs)"
    with flush_missing [of w ?t2 hs "lb_chain lb"] assms(2,4)
    obtain e w' where "it_flush_chain ipt ''nat'' (lb_chain lb) w = (Inl e, w')" by auto
    then show "panics (rewrite_lb_rules ipt ?lb w)"
      by (simp add: rewrite_lb_rules_def io_bind_def io_map_err_def panics_def)
  qed
qed

lemma resync_gone:
  assumes w: "view w = (t, h1 # h2 # hs)" and "t ''PREROUTING'' \<noteq> None"
    and "t ''OUTPUT'' \<noteq> None" and "proxied t" and draws: "fresh (cleaned t) [h1, h2]"
    and st: "hm_get tb (md_name (svc_metadata svc)) = Some st" and old: "st_lb_tb st = (q, lb) # rest"
    and chain: "starts_with (lb_chain lb) ''KUBE-LB''" and other: "lb_chain lb \<noteq> lb_name h1"
    and ports: "ss_ports (svc_spec svc) = [p]" and changed: "sp_port p \<noteq> q"
    and ip: "ss_cluster_ip (svc_spec svc) = Some ip" and eps: "ss_endpoints (svc_spec svc) = e # es"
  shows "panics (proxy_handle_resync ipt [(k, svc)] tb w)"
proof -
  let ?n = "md_name (svc_metadata svc)" and ?K = "''KUBE-SERVICES''" and ?t = "cleaned t"
  let ?rule = "gen_svc_rule (st_svc_name st) (st_cluster_ip st) (sp_port p) (lb_name h1)"
  let ?t1 = "?t(lb_name h1 \<mapsto> [])" and ?t2 = "?t(lb_name h1 \<mapsto> [], ?K \<mapsto> [?rule])"
  let ?lb = "lb_fresh (st_svc_name st) (sp_target_port p) h1"
  let ?st = "st\<lparr>st_lb_tb := hm_insert (sp_port p) ?lb (st_lb_tb st)\<rparr>"
  obtain rs1 rs2 where "t ''PREROUTING'' = Some rs1" "t ''OUTPUT'' = Some rs2" using assms(2,3) by auto
  from achieves_map_err [OF cleanup_run [OF this assms(4)]]
  have 1: "achieves view (unwrap (cleanup ipt)) (t, h1 # h2 # hs) () (?t, h1 # h2 # hs)" .
  have K: "?t ?K = Some []" by (simp add: cleaned_def starts_with_def)
  have n1: "?t (lb_name h1) = None" "plain (lb_name h1)" "?t (ep_name h2) = None"
    using draws proxy_name_drawn(1) [of h1] by (auto simp: fresh_def proxy_name_def)
  have gone: "?t (lb_chain lb) = None" using chain by (auto simp: cleaned_def starts_with_def)
  have "achieves view (it_append ipt ''nat'' ?K ?rule) (?t1, h2 # hs) () (?t1(?K \<mapsto> [] @ [?rule]), h2 # hs)"
    by (rule append_rule) (use K n1 in \<open>auto simp: refers_svc_rule lb_name_def\<close>)
  then have app: "achieves view (unwrap (it_append ipt ''nat'' ?K ?rule)) (?t1, h2 # hs) () (?t2, h2 # hs)"
    by (intro achieves_map_err) simp
  have new: "achieves view (lb_new ipt (st_svc_name st) (sp_target_port p)) (?t, h1 # h2 # hs) ?lb (?t1, h2 # hs)"
    unfolding lb_new_def Let_def
    by (rule achieves_bind [OF op_hash], rule achieves_bind [OF achieves_map_err],
      unfold lb_name_def [symmetric], rule new_chain, rule n1(1))
      (simp add: lb_fresh_def hm_empty_def achieves_def)
  have chain1: "lb_chain ?lb = lb_name h1" by (simp add: lb_fresh_def)
  have port: "achieves view (st_add_port ipt (sp_port p) (sp_target_port p) st) (?t, h1 # h2 # hs) ?st (?t2, h2 # hs)"
    unfolding st_add_port_def
    by (rule achieves_bind [OF new], unfold chain1, rule achieves_bind [OF app achieves_return])
  have 2: "achieves view (add_svc_port ipt ?n p tb) (?t, h1 # h2 # hs) (hm_insert ?n ?st tb) (?t2, h2 # hs)"
    unfolding add_svc_port_def on_service_def st option.case by (rule achieves_bind [OF port achieves_return])
  have tb: "new_svc ?n ip tb = tb" using st by (simp add: new_svc_def)
  have first: "st_lb_tb ?st = (q, lb) # hm_insert (sp_port p) ?lb rest" using changed by (simp add: old hm_insert_def)
  have "\<not> starts_with (ep_name h2) ''KUBE-LB''" by (simp add: ep_name_def starts_with_def)
  with chain have "ep_name h2 \<noteq> lb_chain lb" by auto
  moreover have "?t2 (lb_chain lb) = None" "?t2 (ep_name h2) = None"
    using gone n1(3) other K chain by (auto simp: starts_with_def ep_name_def lb_name_def)
  ultimately have "panics (add_svc_ep ipt ?n e (hm_insert ?n ?st tb) w)" if "view w = (?t2, h2 # hs)" for w
    unfolding add_svc_ep_def on_service_def st_add_ep_def first using lb_add_ep_gone [OF that]
    by (auto simp: first intro!: panics_first)
  then have "panics (io_fold (add_svc_ep ipt ?n) (e # es) (hm_insert ?n ?st tb) w)" if "view w = (?t2, h2 # hs)" for w
    using that by (auto intro!: panics_first)
  moreover have "achieves view (io_fold (add_svc_port ipt ?n) [p] tb) (?t, h1 # h2 # hs) (hm_insert ?n ?st tb) (?t2, h2 # hs)"
    unfolding io_fold.simps by (rule achieves_bind [OF 2 achieves_return])
  ultimately have "panics (add_svc ipt svc tb w)" if "view w = (?t, h1 # h2 # hs)" for w
    unfolding add_svc_def Let_def ip option.case ports eps tb using that by (blast intro: panics_bind)
  then show ?thesis
    unfolding proxy_handle_resync_def by (intro panics_bind [OF 1 w]) (auto simp: hm_values_def intro!: panics_first)
qed

end


section \<open>A nat table in memory\<close>

type_synonym mem_nat = "(string, string list) hashmap \<times> string list"

definition mem_view :: "mem_nat \<Rightarrow> nat_view" where
  "mem_view w = (hm_get (fst w), snd w)"

definition on_chain :: "string \<Rightarrow> (string list \<Rightarrow> string list) \<Rightarrow> (mem_nat, string, unit) eio" where
  "on_chain c f w = (case hm_get (fst w) c of
       None \<Rightarrow> (Inl ''No chain/target/match by that name'', w)
     | Some rs \<Rightarrow> (Inr (), (hm_insert c (f rs) (fst w), snd w)))"

definition mem_iptables :: "mem_nat iptables" where
  "mem_iptables = \<lparr>
     it_list_chains = (\<lambda>_ w. (Inr (map fst (AList.clearjunk (fst w))), w)),
     it_exists = (\<lambda>_ c r w. (Inr (case hm_get (fst w) c of None \<Rightarrow> False | Some rs \<Rightarrow> r \<in> set rs), w)),
     it_new_chain = (\<lambda>_ c w. if hm_get (fst w) c = None then (Inr (), (hm_insert c [] (fst w), snd w))
       else (Inl ''Chain already exists'', w)),
     it_flush_chain = (\<lambda>_ c. on_chain c (\<lambda>_. [])),
     it_delete_chain = (\<lambda>_ c w.
       if hm_get (fst w) c = Some [] \<and>
          list_all (\<lambda>(d, rs). list_all (\<lambda>r. \<not> refers r c) rs) (AList.clearjunk (fst w))
       then (Inr (), (hm_remove c (fst w), snd w)) else (Inl ''Too many links'', w)),
     it_append = (\<lambda>_ c r. on_chain c (\<lambda>rs. rs @ [r])),
     it_append_unique = (\<lambda>_ c r. on_chain c (\<lambda>rs. if r \<in> set rs then rs else rs @ [r])),
     it_insert = (\<lambda>_ c r i. on_chain c (\<lambda>rs. take (i - 1) rs @ r # drop (i - 1) rs)),
     it_delete = (\<lambda>_ c r. on_chain c (remove1 r)),
     it_sample = (\<lambda>w. case snd w of [] \<Rightarrow> (Inr [], w) | h # hs \<Rightarrow> (Inr h, (fst w, hs)))\<rparr>"

lemma on_chain_run:
  "t c = Some rs \<Longrightarrow> f rs = rs' \<Longrightarrow> achieves mem_view (on_chain c f) (t, hs) () (t(c \<mapsto> rs'), hs)"
  by (auto simp: achieves_def mem_view_def on_chain_def)

interpretation memn: nat_table mem_iptables mem_view
proof
  show "\<exists>cs w'. it_list_chains mem_iptables ''nat'' w = (Inr cs, w') \<and> mem_view w' = mem_view w \<and>
      distinct cs \<and> set cs = dom (fst (mem_view w))" for w
    by (simp add: mem_iptables_def mem_view_def dom_hm_get distinct_clearjunk dom_clearjunk)
  show "achieves mem_view (it_delete_chain mem_iptables ''nat'' c) (t, hs) () (t(c := None), hs)"
    if empty: "t c = Some []" and refs: "\<And>d rs r. t d = Some rs \<Longrightarrow> r \<in> set rs \<Longrightarrow> \<not> refers r c" for t c hs
  proof -
    have "list_all (\<lambda>(d, rs). list_all (\<lambda>r. \<not> refers r c) rs) (AList.clearjunk m)" if "t = hm_get m" for m
    proof -
      have "t d = Some rs" if "(d, rs) \<in> set (AList.clearjunk m)" for d rs
        using that \<open>t = hm_get m\<close> map_of_is_SomeI [OF distinct_clearjunk that] by (simp add: hm_get_def map_of_clearjunk)
      with refs show ?thesis by (fastforce simp: list_all_iff)
    qed
    with empty show ?thesis by (auto simp: achieves_def mem_view_def mem_iptables_def)
  qed
qed (auto simp: achieves_def mem_view_def mem_iptables_def on_chain_def)

section \<open>Witnesses\<close>

definition shop :: service where
  "shop = \<lparr>svc_metadata = metadata_default\<lparr>md_name := ''shop''\<rparr>,
     svc_spec = \<lparr>ss_selector = [], ss_ports = [\<lparr>sp_port = 80, sp_target_port = 8080\<rparr>],
       ss_endpoints = [167772161], ss_cluster_ip = Some 2886729729\<rparr>\<rparr>"

lemma sample_plain: "plain ''ab''" "plain ''cd''" "plain ''KUBE-EP-A''" "plain ''KUBE-EP-B''"
  by (simp_all add: plain_def)

lemma shop_simps:
  "md_name (svc_metadata shop) = ''shop''" "ss_ports (svc_spec shop) = [\<lparr>sp_port = 80, sp_target_port = 8080\<rparr>]"
  "ss_endpoints (svc_spec shop) = [167772161]" "ss_cluster_ip (svc_spec shop) = Some 2886729729"
  by (simp_all add: shop_def)


definition sample_lb :: lb_table where
  "sample_lb = \<lparr>lb_svc_name = ''shop'', lb_chain = ''KUBE-LB-X'', lb_target_port = 8080,
     lb_eps = [(1, ''KUBE-EP-A''), (2, ''KUBE-EP-B'')]\<rparr>"

definition sample_nat :: "(string, string list) hashmap" where
  "sample_nat = [(''PREROUTING'', []), (''OUTPUT'', []), (''KUBE-LB-X'', []), (''KUBE-EP-A'', []), (''KUBE-EP-B'', [])]"

theorem endpoints_share_equally_witness:
  "\<exists>w' rules ms. rewrite_lb_rules mem_iptables sample_lb (sample_nat, []) = (Inr (), w') \<and>
    mem_view w' = ((hm_get sample_nat)(''KUBE-LB-X'' \<mapsto> rules), []) \<and>
    map decode_rule rules = map Some ms \<and> share ms ''KUBE-EP-A'' + share ms ''KUBE-EP-B'' = 1 \<and>
    \<bar>share ms ''KUBE-EP-B'' - 1 / 2\<bar> \<le> 2 / 2 ^ 24"
  using endpoints_share_equally [OF memn.nat_table_axioms, of "(sample_nat, [])" "hm_get sample_nat" "[]" sample_lb "[]"]
  by (fastforce simp: sample_lb_def sample_nat_def mem_view_def hm_values_def sample_plain)

theorem cleanup_exact_witness:
  "\<exists>w'. k8s_iptables_new mem_iptables (sample_nat, []) = (Inr hm_empty, w') \<and>
    mem_view w' = ([''PREROUTING'' \<mapsto> [portal_rule], ''OUTPUT'' \<mapsto> [portal_rule], ''KUBE-SERVICES'' \<mapsto> []], [])"
proof -
  have "proxied (hm_get sample_nat)" by (simp add: proxied_def sample_nat_def)
  moreover have "cleaned (hm_get sample_nat) =
      [''PREROUTING'' \<mapsto> [portal_rule], ''OUTPUT'' \<mapsto> [portal_rule], ''KUBE-SERVICES'' \<mapsto> []]"
  proof (rule ext)
    fix c
    show "cleaned (hm_get sample_nat) c =
        [''PREROUTING'' \<mapsto> [portal_rule], ''OUTPUT'' \<mapsto> [portal_rule], ''KUBE-SERVICES'' \<mapsto> []] c"
    proof (cases "starts_with c ''KUBE-LB'' \<or> starts_with c ''KUBE-EP''")
      case True
      then have "c \<noteq> ''PREROUTING''" "c \<noteq> ''OUTPUT''" "c \<noteq> ''KUBE-SERVICES''" by (auto simp: starts_with_def)
      with True show ?thesis by (simp add: cleaned_def)
    next
      case False
      then have "c \<noteq> ''KUBE-LB-X''" "c \<noteq> ''KUBE-EP-A''" "c \<noteq> ''KUBE-EP-B''" by (auto simp: starts_with_def)
      with False show ?thesis by (simp add: cleaned_def sample_nat_def)
    qed
  qed
  ultimately show ?thesis
    using cleanup_exact [OF memn.nat_table_axioms, of "(sample_nat, [])" "hm_get sample_nat" "[]"]
    by (simp add: mem_view_def sample_nat_def)
qed


end
