(* ===== verification/Docker.thy ===== *)
theory Docker
  imports Objects
begin

text \<open>
  The containers of a node (\<open>rkubelet/src/docker.rs\<close>). The Docker engine behind the crate \<open>bollard\<close> is the
  parameter \<open>docker\<close>: one field for every call the sources make, with the fields of its requests and
  answers that they use. The locale \<open>docker_engine\<close> states what the documentation of the engine says of the
  calls, over a view of the world: the containers by name.

  \<open>join_all\<close> runs its futures concurrently on one task; every future works on a container of its own,
  so the model runs them one after the other and collects all the results.
\<close>

section \<open>The engine\<close>

datatype docker_error = ServerError nat string | OtherDockerError string

definition show_docker_error :: "docker_error \<Rightarrow> string" where
  "show_docker_error e = (case e of ServerError status s \<Rightarrow> s | OtherDockerError s \<Rightarrow> s)"

datatype state_status = SsEmpty | SsCreated | SsRunning | SsPaused | SsRestarting | SsRemoving | SsExited | SsDead

record inspect_state =
  is_status :: "state_status option"
  is_exit_code :: "i64 option"

record inspect_response =
  ir_id :: "string option"
  ir_image :: "string option"
  ir_state :: "inspect_state option"
  ir_restart_count :: "i64 option"
  ir_config_labels :: "labels option option"
  ir_networks :: "(string, string option) hashmap option option"

datatype restart_policy_name = RpAlways | RpOnFailure | RpNo

record host_config =
  hc_cpu_shares :: "i64 option"
  hc_memory :: "i64 option"
  hc_network_mode :: "string option"
  hc_ipc_mode :: "string option"
  hc_pid_mode :: "string option"
  hc_binds :: "string list option"
  hc_restart_policy :: "restart_policy_name option"

definition host_config_default :: host_config where
  "host_config_default = \<lparr>hc_cpu_shares = None, hc_memory = None, hc_network_mode = None, hc_ipc_mode = None,
     hc_pid_mode = None, hc_binds = None, hc_restart_policy = None\<rparr>"

record container_config =
  cf_image :: "string option"
  cf_entrypoint :: "string list option"
  cf_host_config :: "host_config option"
  cf_labels :: "labels option"
  cf_exposed_ports :: "(string, unit) hashmap option"

record 'w docker =
  dk_create_image :: "string \<Rightarrow> 'w \<Rightarrow> (docker_error + unit) list \<times> 'w"
  dk_list_images :: "string \<Rightarrow> ('w, docker_error, string list) eio"
  dk_create_container :: "string option \<Rightarrow> container_config \<Rightarrow> ('w, docker_error, string) eio"
  dk_start_container :: "string \<Rightarrow> ('w, docker_error, unit) eio"
  dk_inspect_container :: "string \<Rightarrow> ('w, docker_error, inspect_response) eio"
  dk_stop_container :: "string \<Rightarrow> ('w, docker_error, unit) eio"
  dk_remove_container :: "string \<Rightarrow> ('w, docker_error, unit) eio"
  dk_logs :: "string \<Rightarrow> string \<Rightarrow> 'w \<Rightarrow> (docker_error + string option) list \<times> 'w"
  dk_create_dir :: "string \<Rightarrow> ('w, string, unit) eio"

text \<open>The states of the API (\<open>resources/src/objects/pod.rs\<close>).\<close>

definition container_state_from :: "inspect_state option \<Rightarrow> container_state" where
  "container_state_from state = (case state of
       None \<Rightarrow> CWaiting
     | Some s \<Rightarrow> (case is_status s of
         None \<Rightarrow> CWaiting
       | Some SsRunning \<Rightarrow> CRunning
       | Some SsExited \<Rightarrow> CTerminated (case is_exit_code s of None \<Rightarrow> 0 | Some code \<Rightarrow> code)
       | Some SsDead \<Rightarrow> CTerminated (case is_exit_code s of None \<Rightarrow> 0 | Some code \<Rightarrow> code)
       | Some _ \<Rightarrow> CWaiting))"

definition container_status_from :: "inspect_response \<Rightarrow> container_status outcome" where
  "container_status_from r =
     (let labels = (case ir_config_labels r of Some (Some l) \<Rightarrow> l | _ \<Rightarrow> hm_empty);
          name = (case hm_get labels ''minik8s.container.name'' of None \<Rightarrow> [] | Some n \<Rightarrow> n)
      in case (ir_image r, ir_id r) of
           (None, _) \<Rightarrow> Inl (Panic ''Container image not found'')
         | (_, None) \<Rightarrow> Inl (Panic ''Container ID not found'')
         | (Some img, Some i) \<Rightarrow> Inr \<lparr>cs_name = name, cs_image = img, cs_container_id = i,
             cs_state = container_state_from (ir_state r),
             cs_restart_count = (case ir_restart_count r of None \<Rightarrow> 0 | Some n \<Rightarrow> ucast n)\<rparr>)"

definition restart_policy_into :: "restart_policy \<Rightarrow> restart_policy_name" where
  "restart_policy_into p = (case p of
       RestartAlways \<Rightarrow> RpAlways | RestartOnFailure \<Rightarrow> RpOnFailure | RestartNever \<Rightarrow> RpNo)"

section \<open>Results of several tasks\<close>

definition join_all :: "('a \<Rightarrow> ('w, 'b) io) \<Rightarrow> 'a list \<Rightarrow> ('w, 'b outcome list) io" where
  "join_all f = io_map (\<lambda>x. io_try (f x))"

fun first_error_or_ok :: "'a outcome list \<Rightarrow> unit outcome" where
  "first_error_or_ok [] = Inr ()"
| "first_error_or_ok (Inl e # rs) = Inl e"
| "first_error_or_ok (Inr a # rs) = first_error_or_ok rs"

section \<open>Images\<close>

definition image_new :: "string \<Rightarrow> string" where
  "image_new name = (if CHR '':'' \<in> set name then name else name @ '':latest'')"

fun pull_stream :: "(docker_error + unit) list \<Rightarrow> unit outcome" where
  "pull_stream [] = Inr ()"
| "pull_stream (Inl e # items) = Inl (Err (show_docker_error e))"
| "pull_stream (Inr a # items) = pull_stream items"

definition image_pull :: "'w docker \<Rightarrow> string \<Rightarrow> ('w, unit) io" where
  "image_pull dk name w = (case dk_create_image dk name w of (items, w') \<Rightarrow> (pull_stream items, w'))"

definition image_exists :: "'w docker \<Rightarrow> string \<Rightarrow> ('w, bool) io" where
  "image_exists dk name w = (case dk_list_images dk name w of
       (Inr images, w') \<Rightarrow> (Inr (images \<noteq> []), w')
     | (Inl e, w') \<Rightarrow> (Inr False, w'))"

definition pull_with_policy :: "'w docker \<Rightarrow> string \<Rightarrow> image_pull_policy \<Rightarrow> ('w, unit) io" where
  "pull_with_policy dk name policy = (case policy of
       PullIfNotPresent \<Rightarrow> io_bind (image_exists dk name) (\<lambda>there.
         if there then io_return () else image_pull dk name)
     | PullAlways \<Rightarrow> image_pull dk name
     | PullNever \<Rightarrow> io_return ())"

section \<open>Containers\<close>

text \<open>A container is named by its name or its id.\<close>

abbreviation docker_err :: "string \<Rightarrow> ('w, docker_error, 'a) eio \<Rightarrow> ('w, 'a) io" where
  "docker_err msg \<equiv> io_map_err (\<lambda>e. Err msg)"

definition container_create :: "'w docker \<Rightarrow> string option \<Rightarrow> container_config \<Rightarrow> ('w, string) io" where
  "container_create dk name config = docker_err ''Failed to create container'' (dk_create_container dk name config)"

definition container_start :: "'w docker \<Rightarrow> string \<Rightarrow> ('w, unit) io" where
  "container_start dk c = docker_err (''Failed to start container '' @ c) (dk_start_container dk c)"

definition container_inspect :: "'w docker \<Rightarrow> string \<Rightarrow> ('w, inspect_response option) io" where
  "container_inspect dk c w = (case dk_inspect_container dk c w of
       (Inr response, w') \<Rightarrow> (Inr (Some response), w')
     | (Inl (ServerError status e), w') \<Rightarrow> (if status = 404 then Inr None else Inl (Err (''Failed to inspect container '' @ c)), w')
     | (Inl (OtherDockerError e), w') \<Rightarrow> (Inl (Err (''Failed to inspect container '' @ c)), w'))"

definition container_stop :: "'w docker \<Rightarrow> string \<Rightarrow> ('w, unit) io" where
  "container_stop dk c = docker_err (''Failed to stop container '' @ c) (dk_stop_container dk c)"

definition container_remove :: "'w docker \<Rightarrow> string \<Rightarrow> ('w, bool) io" where
  "container_remove dk c w = (case dk_remove_container dk c w of
       (Inr u, w') \<Rightarrow> (Inr True, w')
     | (Inl (ServerError status e), w') \<Rightarrow> (if status = 404 then Inr False else Inl (Err (''Failed to inspect container '' @ c)), w')
     | (Inl (OtherDockerError e), w') \<Rightarrow> (Inl (Err (''Failed to inspect container '' @ c)), w'))"

text \<open>An item of the log that is not UTF-8 is only reported.\<close>

fun log_stream :: "(docker_error + string option) list \<Rightarrow> string \<Rightarrow> string outcome" where
  "log_stream [] logs = Inr logs"
| "log_stream (Inr (Some l) # items) logs = log_stream items (logs @ l)"
| "log_stream (Inr None # items) logs = log_stream items logs"
| "log_stream (Inl e # items) logs = Inl (Err (''Failed to get logs: '' @ show_docker_error e))"

definition container_logs :: "'w docker \<Rightarrow> string \<Rightarrow> string option \<Rightarrow> ('w, string) io" where
  "container_logs dk c tail w = (case dk_logs dk c (case tail of None \<Rightarrow> ''all'' | Some t \<Rightarrow> t) w of
       (items, w') \<Rightarrow> (log_stream items [], w'))"

definition start_all :: "'w docker \<Rightarrow> string list \<Rightarrow> ('w, unit outcome list) io" where
  "start_all dk = join_all (container_start dk)"

definition stop_all :: "'w docker \<Rightarrow> string list \<Rightarrow> ('w, unit outcome list) io" where
  "stop_all dk = join_all (container_stop dk)"

definition remove_all :: "'w docker \<Rightarrow> string list \<Rightarrow> ('w, bool outcome list) io" where
  "remove_all dk = join_all (container_remove dk)"

section \<open>The contract of the engine\<close>

text \<open>
  A container as the engine keeps it: its configuration and whether it is created, running or
  exited. A reference is the name of a container or the id the engine gave it.
\<close>

datatype box_state = Fresh | Up | Exited i64

record box =
  bx_config :: container_config
  bx_state :: box_state

record engine =
  en_boxes :: "string \<rightharpoonup> box"
  en_ids :: "string \<rightharpoonup> string"

definition box_target :: "engine \<Rightarrow> string \<Rightarrow> string option" where
  "box_target en r = (if en_boxes en r \<noteq> None then Some r
     else case en_ids en r of None \<Rightarrow> None | Some n \<Rightarrow> if en_boxes en n \<noteq> None then Some n else None)"

definition set_box :: "string \<Rightarrow> box \<Rightarrow> engine \<Rightarrow> engine" where
  "set_box n b en = en\<lparr>en_boxes := (en_boxes en)(n \<mapsto> b)\<rparr>"

definition state_of_box :: "box \<Rightarrow> container_state" where
  "state_of_box b = (case bx_state b of Fresh \<Rightarrow> CWaiting | Up \<Rightarrow> CRunning | Exited code \<Rightarrow> CTerminated code)"

text \<open>
  The laws, for an engine that is up and has the images: an id is a hexadecimal number; a missing container is reported with 404; a
  running container can be started again without effect and cannot be removed; a name is used once.
\<close>

locale docker_engine =
  fixes dk :: "'w docker" and view :: "'w \<Rightarrow> engine"
  assumes pull: "view w = en \<Longrightarrow> \<exists>items w'. dk_create_image dk i w = (map Inr items, w') \<and> view w' = en"
    and list_images: "view w = en \<Longrightarrow> \<exists>is w'. dk_list_images dk i w = (Inr is, w') \<and> view w' = en"
    and create_dir: "achieves view (dk_create_dir dk d) en () en"
    and create: "view w = en \<Longrightarrow> en_boxes en n = None \<Longrightarrow> \<exists>i w'. dk_create_container dk (Some n) cf w = (Inr i, w') \<and>
        view w' = (set_box n \<lparr>bx_config = cf, bx_state = Fresh\<rparr> en)\<lparr>en_ids := (en_ids en)(i \<mapsto> n)\<rparr> \<and> en_boxes en i = None \<and> i \<noteq> n \<and> CHR ''_'' \<notin> set i"
    and ids: "en_ids (view w) i \<noteq> None \<Longrightarrow> CHR ''_'' \<notin> set i"
    and start: "box_target en r = Some n \<Longrightarrow> en_boxes en n = Some b \<Longrightarrow>
        achieves view (dk_start_container dk r) en () (set_box n (b\<lparr>bx_state := Up\<rparr>) en)"
    and inspect: "view w = en \<Longrightarrow> box_target en r = Some n \<Longrightarrow> en_boxes en n = Some b \<Longrightarrow>
        \<exists>resp w'. dk_inspect_container dk r w = (Inr resp, w') \<and> view w' = en \<and>
          container_state_from (ir_state resp) = state_of_box b \<and>
          ir_config_labels resp = Some (cf_labels (bx_config b)) \<and> ir_image resp \<noteq> None \<and> ir_id resp \<noteq> None"
    and inspect_missing: "view w = en \<Longrightarrow> box_target en r = None \<Longrightarrow>
        \<exists>e w'. dk_inspect_container dk r w = (Inl (ServerError 404 e), w') \<and> view w' = en"
    and remove: "box_target en r = Some n \<Longrightarrow> en_boxes en n = Some b \<Longrightarrow> bx_state b \<noteq> Up \<Longrightarrow>
        achieves view (dk_remove_container dk r) en () (en\<lparr>en_boxes := (en_boxes en)(n := None)\<rparr>)"
    and remove_missing: "view w = en \<Longrightarrow> box_target en r = None \<Longrightarrow>
        \<exists>e w'. dk_remove_container dk r w = (Inl (ServerError 404 e), w') \<and> view w' = en"
    and remove_running: "view w = en \<Longrightarrow> box_target en r = Some n \<Longrightarrow> en_boxes en n = Some b \<Longrightarrow> bx_state b = Up \<Longrightarrow>
        \<exists>e w'. dk_remove_container dk r w = (Inl (ServerError 409 e), w') \<and> view w' = en"

end
