(* ===== verification/KubeletPod.thy ===== *)
theory KubeletPod
  imports Docker Workload
begin

text \<open>
  The pods of a node as the kubelet keeps them (\<open>rkubelet/src/pod.rs\<close>, \<open>volume.rs\<close>): their containers and their
  sandbox, the status read back from the engine, and the reconciliation of what runs with what is asked for.
\<close>

section \<open>Names and paths\<close>

definition pause_image_name :: string where
  "pause_image_name = ''docker/desktop-kubernetes-pause:3.5''"

definition container_name_prefix :: string where
  "container_name_prefix = ''minik8s''"

definition sandbox_name :: string where
  "sandbox_name = ''POD''"

definition pod_dir_path :: string where
  "pod_dir_path = ''/var/lib/rkubelet/pods''"

text \<open>\<open>PathBuf::push\<close>: an absolute path replaces the buffer.\<close>

definition path_push :: "string \<Rightarrow> string \<Rightarrow> string" where
  "path_push p q = (if starts_with q ''/'' then q
     else if p = [] \<or> ends_with p ''/'' then p @ q else p @ ''/'' @ q)"

fun hex_digits :: "nat \<Rightarrow> nat \<Rightarrow> string" where
  "hex_digits 0 n = []"
| "hex_digits (Suc k) n = hex_digits k (n div 16) @
     [let d = n mod 16 in if d < 10 then char_of (48 + d) else char_of (87 + d)]"

definition show_uuid :: "uuid \<Rightarrow> string" where
  "show_uuid u = (let h = hex_digits 32 (unat u) in
     take 8 h @ ''-'' @ take 4 (drop 8 h) @ ''-'' @ take 4 (drop 12 h) @ ''-'' @ take 4 (drop 16 h) @ ''-'' @ drop 20 h)"

section \<open>Volumes\<close>

definition host_src :: "string \<Rightarrow> volume \<Rightarrow> string" where
  "host_src pod_dir v = (case vo_config v of
       EmptyDir \<Rightarrow> path_push (path_push pod_dir ''volumes'') (vo_name v)
     | HostPath path \<Rightarrow> path)"

definition volume_create :: "'w docker \<Rightarrow> string \<Rightarrow> volume \<Rightarrow> ('w, unit) io" where
  "volume_create dk pod_dir v = (case vo_config v of
       EmptyDir \<Rightarrow> io_map_err (\<lambda>e. Err (''Failed to create empty dir volume '' @ vo_name v))
         (dk_create_dir dk (host_src pod_dir v))
     | HostPath path \<Rightarrow> io_return ())"

section \<open>The pod\<close>

record kubelet_pod =
  kp_metadata :: metadata
  kp_spec :: pod_spec
  kp_status :: pod_status

definition pod_load :: "pod \<Rightarrow> kubelet_pod outcome" where
  "pod_load p = (case pod_status p of
       None \<Rightarrow> Inl (Err ''[Pod::load] Status is missing'')
     | Some status \<Rightarrow> Inr \<lparr>kp_metadata = pod_metadata p, kp_spec = pod_spec p, kp_status = status\<rparr>)"

definition pod_object :: "kubelet_pod \<Rightarrow> kube_object" where
  "pod_object kp = KPod \<lparr>pod_metadata = kp_metadata kp, pod_spec = kp_spec kp, pod_status = Some (kp_status kp)\<rparr>"

definition unique_container_name :: "uuid \<Rightarrow> string \<Rightarrow> string \<Rightarrow> string" where
  "unique_container_name uid pod_name name =
     container_name_prefix @ ''_'' @ name @ ''_'' @ pod_name @ ''_'' @ show_uuid uid"

definition pod_uid :: "kubelet_pod \<Rightarrow> uuid outcome" where
  "pod_uid kp = ok_or (Panic ''Pod with no uid'') (md_uid (kp_metadata kp))"

definition get_container_name :: "kubelet_pod \<Rightarrow> string \<Rightarrow> ('w, string) io" where
  "get_container_name kp name = io_bind (io_lift (pod_uid kp)) (\<lambda>uid.
     io_return (unique_container_name uid (md_name (kp_metadata kp)) name))"

definition sandbox :: "kubelet_pod \<Rightarrow> ('w, string) io" where
  "sandbox kp = get_container_name kp sandbox_name"

definition containers :: "kubelet_pod \<Rightarrow> ('w, string list) io" where
  "containers kp = io_map (\<lambda>c. get_container_name kp (co_name c)) (ps_containers (kp_spec kp))"

definition pod_dir :: "kubelet_pod \<Rightarrow> ('w, string) io" where
  "pod_dir kp = io_bind (io_lift (pod_uid kp)) (\<lambda>uid. io_return (path_push pod_dir_path (show_uuid uid)))"

definition container_labels :: "kubelet_pod \<Rightarrow> uuid \<Rightarrow> string \<Rightarrow> string \<Rightarrow> labels" where
  "container_labels kp uid name type =
     hm_insert (container_name_prefix @ ''.container.type'') type
    (hm_insert (container_name_prefix @ ''.container.name'') name
    (hm_insert (container_name_prefix @ ''.pod.uid'') (show_uuid uid)
    (hm_insert (container_name_prefix @ ''.pod.name'') (md_name (kp_metadata kp)) (md_labels (kp_metadata kp)))))"

section \<open>Creating containers\<close>

fun create_volumes :: "'w docker \<Rightarrow> string \<Rightarrow> volume list \<Rightarrow> (string, volume) hashmap \<Rightarrow> ('w, (string, volume) hashmap) io" where
  "create_volumes dk dir [] m = io_return m"
| "create_volumes dk dir (v # vs) m = io_bind (volume_create dk dir v) (\<lambda>_.
     create_volumes dk dir vs (hm_insert (vo_name v) v m))"

fun bind_list :: "string \<Rightarrow> (string, volume) hashmap \<Rightarrow> volume_mount list \<Rightarrow> string list outcome" where
  "bind_list dir volumes [] = Inr []"
| "bind_list dir volumes (m # ms) = (case hm_get volumes (vm_name m) of
       None \<Rightarrow> Inl (Err (''No volume '' @ vm_name m @ '' found to mount''))
     | Some v \<Rightarrow> (case bind_list dir volumes ms of
         Inl e \<Rightarrow> Inl e
       | Inr binds \<Rightarrow> Inr ((host_src dir v @ '':'' @ vm_mount_path m) # binds)))"

definition bind_mounts :: "string \<Rightarrow> (string, volume) hashmap \<Rightarrow> volume_mount list \<Rightarrow> string list option outcome" where
  "bind_mounts dir volumes mounts =
     (if mounts = [] then Inr None
      else case bind_list dir volumes mounts of Inl e \<Rightarrow> Inl e | Inr binds \<Rightarrow> Inr (Some binds))"

definition pod_container_config :: "kubelet_pod \<Rightarrow> uuid \<Rightarrow> container \<Rightarrow> string \<Rightarrow> string list option \<Rightarrow> container_config" where
  "pod_container_config kp uid c sandbox_id binds =
     (let mode = Some (''container:'' @ sandbox_id) in
      \<lparr>cf_image = Some (image_new (co_image c)), cf_entrypoint = Some (co_command c),
       cf_host_config = Some (host_config_default\<lparr>hc_cpu_shares := Some (cpu_shares (co_resources c)),
         hc_memory := Some (rq_memory (rr_limits (co_resources c))), hc_network_mode := mode,
         hc_ipc_mode := mode, hc_pid_mode := mode, hc_binds := binds,
         hc_restart_policy := Some (restart_policy_into (ps_restart_policy (kp_spec kp)))\<rparr>),
       cf_labels = Some (container_labels kp uid (co_name c) ''container''), cf_exposed_ports = None\<rparr>)"

definition create_container :: "'w docker \<Rightarrow> kubelet_pod \<Rightarrow> container \<Rightarrow> string \<Rightarrow> ('w, string) io" where
  "create_container dk kp c sandbox_id =
     io_bind (pull_with_policy dk (image_new (co_image c)) (image_pull_policy c)) (\<lambda>_.
     io_bind (pod_dir kp) (\<lambda>dir.
     io_bind (create_volumes dk dir (ps_volumes (kp_spec kp)) hm_empty) (\<lambda>volumes.
     io_bind (io_lift (bind_mounts dir volumes (co_volume_mounts c))) (\<lambda>binds.
     io_bind (io_lift (pod_uid kp)) (\<lambda>uid.
     io_bind (get_container_name kp (co_name c)) (\<lambda>name.
     container_create dk (Some name) (pod_container_config kp uid c sandbox_id binds)))))))"

fun oks :: "'a outcome list \<Rightarrow> 'a list" where
  "oks [] = []"
| "oks (Inl e # rs) = oks rs"
| "oks (Inr a # rs) = a # oks rs"

definition create_containers :: "'w docker \<Rightarrow> kubelet_pod \<Rightarrow> string \<Rightarrow> ('w, string list) io" where
  "create_containers dk kp sandbox_id =
     io_bind (join_all (\<lambda>c. create_container dk kp c sandbox_id) (ps_containers (kp_spec kp))) (\<lambda>results.
     io_return (oks results))"

definition sandbox_config :: "kubelet_pod \<Rightarrow> uuid \<Rightarrow> container_config" where
  "sandbox_config kp uid =
     \<lparr>cf_image = Some (image_new pause_image_name), cf_entrypoint = None,
      cf_host_config = Some (host_config_default\<lparr>hc_network_mode := Some (network_mode (kp_spec kp)),
        hc_ipc_mode := Some ''shareable''\<rparr>),
      cf_labels = Some (container_labels kp uid sandbox_name ''podsandbox''),
      cf_exposed_ports = Some (pod_exposed_ports (kp_spec kp))\<rparr>"

definition create_sandbox :: "'w docker \<Rightarrow> kubelet_pod \<Rightarrow> ('w, string) io" where
  "create_sandbox dk kp =
     io_bind (pull_with_policy dk (image_new pause_image_name) PullIfNotPresent) (\<lambda>_.
     io_bind (io_lift (pod_uid kp)) (\<lambda>uid.
     io_bind (get_container_name kp sandbox_name) (\<lambda>name.
     io_bind (container_create dk (Some name) (sandbox_config kp uid)) (\<lambda>c.
     io_bind (container_start dk c) (\<lambda>_. io_return c)))))"

definition start_container :: "'w docker \<Rightarrow> kubelet_pod \<Rightarrow> container \<Rightarrow> string \<Rightarrow> ('w, unit) io" where
  "start_container dk kp c sandbox_id =
     io_bind (get_container_name kp (co_name c)) (\<lambda>name.
     io_bind (container_inspect dk name) (\<lambda>r.
     io_bind (case r of Some _ \<Rightarrow> io_return name | None \<Rightarrow> create_container dk kp c sandbox_id) (\<lambda>i.
     container_start dk i)))"

definition start_containers :: "'w docker \<Rightarrow> kubelet_pod \<Rightarrow> container list \<Rightarrow> string \<Rightarrow> ('w, unit) io" where
  "start_containers dk kp cs sandbox_id =
     io_bind (join_all (\<lambda>c. start_container dk kp c sandbox_id) cs) (\<lambda>results. io_lift (first_error_or_ok results))"

section \<open>Status\<close>

definition inspect_containers :: "'w docker \<Rightarrow> kubelet_pod \<Rightarrow> ('w, inspect_response option list) io" where
  "inspect_containers dk kp = io_bind (containers kp) (\<lambda>cs.
     io_bind (join_all (container_inspect dk) cs) (\<lambda>results. io_return (oks results)))"

definition compute_phase :: "restart_policy \<Rightarrow> container_status list \<Rightarrow> pod_phase" where
  "compute_phase policy statuses =
     (let running = length (filter (\<lambda>s. cs_state s = CRunning) statuses);
          waiting = length (filter (\<lambda>s. cs_state s = CWaiting) statuses);
          stopped = length (filter (\<lambda>s. case cs_state s of CTerminated code \<Rightarrow> True | _ \<Rightarrow> False) statuses);
          succeeded = length (filter (\<lambda>s. cs_state s = CTerminated 0) statuses)
      in if waiting > 0 then Pending
         else if running > 0 then Running
         else if running = 0 \<and> stopped > 0 then
           if policy = RestartAlways then Running
           else if stopped = succeeded then Succeeded
           else if policy = RestartNever then Failed
           else Running
         else Pending)"

definition determine_conditions ::
    "kubelet_pod \<Rightarrow> container_status list \<Rightarrow> (pod_condition_type, pod_condition) hashmap" where
  "determine_conditions kp statuses =
     (let ready_count = of_nat (length (filter (\<lambda>s. cs_state s = CRunning) statuses)) :: u32;
          containers_ready = (ready_count = of_nat (length (ps_containers (kp_spec kp))))
      in hm_insert Ready containers_ready
           (hm_insert ContainersReady containers_ready (pst_conditions (kp_status kp))))"

text \<open>\<open>str::parse::<Ipv4Addr>\<close>: four decimal octets without leading zeros.\<close>

definition parse_octet :: "string \<Rightarrow> nat option" where
  "parse_octet s =
     (if s \<noteq> [] \<and> length s \<le> 3 \<and> list_all (\<lambda>c. 48 \<le> (of_char c :: nat) \<and> (of_char c :: nat) \<le> 57) s \<and>
         (length s = 1 \<or> hd s \<noteq> CHR ''0'')
      then let n = fold (\<lambda>c n. 10 * n + (of_char c - 48)) s 0 in if n < 256 then Some n else None
      else None)"

definition parse_ipv4 :: "string \<Rightarrow> ipv4 option" where
  "parse_ipv4 s = (case map parse_octet (split_on (CHR ''.'') s) of
       [Some a, Some b, Some c, Some d] \<Rightarrow> Some (of_nat (((a * 256 + b) * 256 + c) * 256 + d))
     | _ \<Rightarrow> None)"

definition get_ip :: "inspect_response \<Rightarrow> string option" where
  "get_ip r = (case ir_networks r of Some (Some networks) \<Rightarrow> Option.bind (hm_get networks ''bridge'') id | _ \<Rightarrow> None)"

definition pod_status_eq :: "pod_status \<Rightarrow> pod_status \<Rightarrow> bool" where
  "pod_status_eq a b \<longleftrightarrow> pst_host_ip a = pst_host_ip b \<and> pst_start_time a = pst_start_time b \<and>
     pst_phase a = pst_phase b \<and> pst_pod_ip a = pst_pod_ip b \<and> hm_eq (pst_conditions a) (pst_conditions b) \<and>
     pst_container_statuses a = pst_container_statuses b"

fun collect_statuses :: "inspect_response option list \<Rightarrow> container_status list outcome" where
  "collect_statuses [] = Inr []"
| "collect_statuses (None # rs) = collect_statuses rs"
| "collect_statuses (Some r # rs) = (case container_status_from r of
       Inl e \<Rightarrow> Inl e
     | Inr s \<Rightarrow> (case collect_statuses rs of Inl e \<Rightarrow> Inl e | Inr ss \<Rightarrow> Inr (s # ss)))"

definition update_status :: "'w docker \<Rightarrow> kubelet_pod \<Rightarrow> ('w, bool \<times> kubelet_pod) io" where
  "update_status dk kp =
     io_bind (sandbox kp) (\<lambda>s.
     io_bind (container_inspect dk s) (\<lambda>response.
     let pod_ip = Option.bind (Option.bind response get_ip) parse_ipv4 in
     io_bind (inspect_containers dk kp) (\<lambda>rs.
     io_bind (io_lift (collect_statuses rs)) (\<lambda>statuses.
     let new_status = (kp_status kp)\<lparr>pst_phase := compute_phase (ps_restart_policy (kp_spec kp)) statuses,
           pst_pod_ip := pod_ip, pst_conditions := determine_conditions kp statuses,
           pst_container_statuses := statuses\<rparr>
     in io_return (\<not> pod_status_eq new_status (kp_status kp), kp\<lparr>kp_status := new_status\<rparr>)))))"

section \<open>Creating, starting and removing the pod\<close>

definition pod_create :: "'w docker \<Rightarrow> time \<Rightarrow> pod \<Rightarrow> ('w, kubelet_pod) io" where
  "pod_create dk now p =
     (let kp = \<lparr>kp_metadata = pod_metadata p, kp_spec = pod_spec p, kp_status = pod_status_default now\<rparr> in
      io_bind (pod_dir kp) (\<lambda>dir.
      io_bind (io_map_err (\<lambda>e. Err (''Failed to create pod directory for '' @ md_name (pod_metadata p)))
        (dk_create_dir dk dir)) (\<lambda>_.
      io_bind (create_sandbox dk kp) (\<lambda>s.
      io_bind (create_containers dk kp s) (\<lambda>_.
      io_bind (update_status dk kp) (\<lambda>(changed, kp). io_return kp))))))"

definition pod_start :: "'w docker \<Rightarrow> kubelet_pod \<Rightarrow> ('w, unit) io" where
  "pod_start dk kp =
     io_bind (start_all dk (map cs_container_id (pst_container_statuses (kp_status kp)))) (\<lambda>results.
     io_lift (first_error_or_ok results))"

definition stop_containers :: "'w docker \<Rightarrow> kubelet_pod \<Rightarrow> ('w, unit) io" where
  "stop_containers dk kp = io_bind (containers kp) (\<lambda>cs.
     io_bind (stop_all dk cs) (\<lambda>results.
     io_bind (sandbox kp) (\<lambda>s. io_bind (container_stop dk s) (\<lambda>_. io_lift (first_error_or_ok results)))))"

definition remove_containers :: "'w docker \<Rightarrow> kubelet_pod \<Rightarrow> ('w, unit) io" where
  "remove_containers dk kp = io_bind (containers kp) (\<lambda>cs.
     io_bind (remove_all dk cs) (\<lambda>results.
     io_bind (sandbox kp) (\<lambda>s. io_bind (container_remove dk s) (\<lambda>_. io_lift (first_error_or_ok results)))))"

definition pod_remove :: "'w docker \<Rightarrow> kubelet_pod \<Rightarrow> ('w, unit) io" where
  "pod_remove dk kp = io_bind (io_try (stop_containers dk kp)) (\<lambda>_. remove_containers dk kp)"

section \<open>Reconciliation\<close>

record pod_actions =
  pa_create_sandbox :: bool
  pa_start_sandbox :: bool
  pa_containers_to_start :: "container list"
  pa_containers_to_remove :: "string list"

definition should_restart_container :: "restart_policy \<Rightarrow> container_status option \<Rightarrow> bool" where
  "should_restart_container policy status = (case status of
       None \<Rightarrow> True
     | Some s \<Rightarrow> (case cs_state s of
         CRunning \<Rightarrow> False
       | CWaiting \<Rightarrow> False
       | CTerminated exit_code \<Rightarrow> (case policy of
           RestartAlways \<Rightarrow> True | RestartNever \<Rightarrow> False | RestartOnFailure \<Rightarrow> exit_code \<noteq> 0)))"

definition containers_to_start :: "kubelet_pod \<Rightarrow> container list" where
  "containers_to_start kp = filter (\<lambda>c.
     let status = List.find (\<lambda>s. cs_name s = co_name c) (pst_container_statuses (kp_status kp))
     in map_option (\<lambda>s. cs_state s = CRunning) status \<noteq> Some True \<and>
        should_restart_container (ps_restart_policy (kp_spec kp)) status) (ps_containers (kp_spec kp))"

definition compute_pod_actions :: "'w docker \<Rightarrow> kubelet_pod \<Rightarrow> ('w, pod_actions) io" where
  "compute_pod_actions dk kp =
     io_bind (sandbox kp) (\<lambda>s.
     io_bind (containers kp) (\<lambda>cs.
     io_bind (io_try (container_inspect dk s)) (\<lambda>response. io_return (case response of
         Inr (Some r) \<Rightarrow> \<lparr>pa_create_sandbox = False,
           pa_start_sandbox = (case container_state_from (ir_state r) of CTerminated code \<Rightarrow> True | _ \<Rightarrow> False),
           pa_containers_to_start = containers_to_start kp, pa_containers_to_remove = []\<rparr>
       | Inr None \<Rightarrow> \<lparr>pa_create_sandbox = True, pa_start_sandbox = False,
           pa_containers_to_start = ps_containers (kp_spec kp), pa_containers_to_remove = cs\<rparr>
       | Inl e \<Rightarrow> \<lparr>pa_create_sandbox = True, pa_start_sandbox = False,
           pa_containers_to_start = ps_containers (kp_spec kp), pa_containers_to_remove = s # cs\<rparr>))))"

definition pod_reconcile :: "'w docker \<Rightarrow> kubelet_pod \<Rightarrow> ('w, unit) io" where
  "pod_reconcile dk kp =
     io_bind (compute_pod_actions dk kp) (\<lambda>actions.
     io_bind (remove_all dk (pa_containers_to_remove actions)) (\<lambda>_.
     io_bind (if pa_create_sandbox actions then create_sandbox dk kp else sandbox kp) (\<lambda>s.
     io_bind (if pa_start_sandbox actions then container_start dk s else io_return ()) (\<lambda>_.
     start_containers dk kp (pa_containers_to_start actions) s))))"

end
