(* ===== verification/DockerMemory.thy ===== *)
theory DockerMemory
  imports Docker
begin

text \<open>
  A Docker engine in memory: a table of containers and a table of ids. It satisfies the contract \<open>docker_engine\<close>.
\<close>

type_synonym mem_engine = "(string, box) hashmap \<times> (string, string) hashmap"

definition engine_view :: "mem_engine \<Rightarrow> engine" where
  "engine_view w = \<lparr>en_boxes = hm_get (fst w),
     en_ids = (\<lambda>i. if CHR ''_'' \<in> set i then None else hm_get (snd w) i)\<rparr>"

text \<open>An id longer than every name in use.\<close>

definition new_id :: "mem_engine \<Rightarrow> string \<Rightarrow> string" where
  "new_id w n = replicate (Suc (length n + sum_list (map (\<lambda>(k, b). length k) (fst w)))) (CHR ''a'')"

definition on_box :: "string \<Rightarrow> (string \<Rightarrow> box \<Rightarrow> mem_engine \<Rightarrow> (docker_error + 'a) \<times> mem_engine) \<Rightarrow>
    (mem_engine, docker_error, 'a) eio" where
  "on_box r f w = (case box_target (engine_view w) r of
       None \<Rightarrow> (Inl (ServerError 404 ''No such container''), w)
     | Some n \<Rightarrow> (case hm_get (fst w) n of
         None \<Rightarrow> (Inl (ServerError 404 ''No such container''), w)
       | Some b \<Rightarrow> f n b w))"

definition put_box :: "string \<Rightarrow> box \<Rightarrow> mem_engine \<Rightarrow> (docker_error + unit) \<times> mem_engine" where
  "put_box n b w = (Inr (), (hm_insert n b (fst w), snd w))"

definition box_response :: "string \<Rightarrow> box \<Rightarrow> inspect_response" where
  "box_response n b = \<lparr>ir_id = Some n,
     ir_image = Some (case cf_image (bx_config b) of None \<Rightarrow> [] | Some i \<Rightarrow> i),
     ir_state = Some (case bx_state b of
         Fresh \<Rightarrow> \<lparr>is_status = Some SsCreated, is_exit_code = None\<rparr>
       | Up \<Rightarrow> \<lparr>is_status = Some SsRunning, is_exit_code = None\<rparr>
       | Exited code \<Rightarrow> \<lparr>is_status = Some SsExited, is_exit_code = Some code\<rparr>),
     ir_restart_count = Some 0, ir_config_labels = Some (cf_labels (bx_config b)), ir_networks = None\<rparr>"

definition mem_docker :: "mem_engine docker" where
  "mem_docker = \<lparr>
     dk_create_image = (\<lambda>i w. ([], w)),
     dk_list_images = (\<lambda>i w. (Inr [i], w)),
     dk_create_container = (\<lambda>name cf w. case name of
         None \<Rightarrow> (Inl (OtherDockerError ''a container without a name''), w)
       | Some n \<Rightarrow> if hm_get (fst w) n \<noteq> None then (Inl (ServerError 409 ''The name is in use''), w)
           else (Inr (new_id w n), (hm_insert n \<lparr>bx_config = cf, bx_state = Fresh\<rparr> (fst w), hm_insert (new_id w n) n (snd w)))),
     dk_start_container = (\<lambda>r. on_box r (\<lambda>n b. put_box n (b\<lparr>bx_state := Up\<rparr>))),
     dk_inspect_container = (\<lambda>r. on_box r (\<lambda>n b w. (Inr (box_response n b), w))),
     dk_stop_container = (\<lambda>r. on_box r (\<lambda>n b. if bx_state b = Up then put_box n (b\<lparr>bx_state := Exited 0\<rparr>) else put_box n b)),
     dk_remove_container = (\<lambda>r. on_box r (\<lambda>n b w. if bx_state b = Up
         then (Inl (ServerError 409 ''The container is running''), w)
         else (Inr (), (hm_remove n (fst w), snd w)))),
     dk_logs = (\<lambda>r tail w. ([], w)),
     dk_create_dir = (\<lambda>d w. (Inr (), w))\<rparr>"

lemma new_id_unused: "hm_get (fst w) (new_id w n) = None" "new_id w n \<noteq> n" "CHR ''_'' \<notin> set (new_id w n)"
proof -
  have "length k \<le> sum_list (map (\<lambda>(k, b). length k) m)" if "hm_get m k \<noteq> None" for k m
    using that by (induction m) (auto split: if_splits)
  from this [of "fst w" "new_id w n"] show "hm_get (fst w) (new_id w n) = None" by (fastforce simp: new_id_def)
  have "length (new_id w n) > length n" by (simp add: new_id_def)
  then show "new_id w n \<noteq> n" by auto
  show "CHR ''_'' \<notin> set (new_id w n)" by (simp add: new_id_def)
qed

lemma on_box_run:
  assumes "box_target (engine_view w) r = Some n" and "en_boxes (engine_view w) n = Some b"
  shows "on_box r f w = f n b w"
  using assms by (simp add: on_box_def engine_view_def)

lemma mem_docker_run:
  assumes "box_target (engine_view w) r = Some n" and "en_boxes (engine_view w) n = Some b"
  shows "dk_start_container mem_docker r w = put_box n (b\<lparr>bx_state := Up\<rparr>) w"
    and "dk_inspect_container mem_docker r w = (Inr (box_response n b), w)"
    and "dk_remove_container mem_docker r w = (if bx_state b = Up
      then (Inl (ServerError 409 ''The container is running''), w) else (Inr (), (hm_remove n (fst w), snd w)))"
  by (simp_all add: mem_docker_def on_box_run [OF assms])

lemma engine_view_put: "engine_view (hm_insert n b (fst w), snd w) = set_box n b (engine_view w)"
  by (simp add: engine_view_def set_box_def cong: if_cong)

lemma engine_view_drop:
  "engine_view (hm_remove n (fst w), snd w) = (engine_view w)\<lparr>en_boxes := (en_boxes (engine_view w))(n := None)\<rparr>"
  by (simp add: engine_view_def cong: if_cong)

interpretation memd: docker_engine mem_docker engine_view
proof
  show "\<exists>items w'. dk_create_image mem_docker i w = (map Inr items, w') \<and> engine_view w' = en"
    if "engine_view w = en" for w en i
    using that by (simp add: mem_docker_def)
  show "\<exists>is w'. dk_list_images mem_docker i w = (Inr is, w') \<and> engine_view w' = en"
    if "engine_view w = en" for w en i
    using that by (simp add: mem_docker_def)
  show "achieves engine_view (dk_create_dir mem_docker d) en () en" for d en
    by (simp add: mem_docker_def achieves_def)
  show "\<exists>i w'. dk_create_container mem_docker (Some n) cf w = (Inr i, w') \<and>
        engine_view w' = (set_box n \<lparr>bx_config = cf, bx_state = Fresh\<rparr> en)\<lparr>en_ids := (en_ids en)(i \<mapsto> n)\<rparr> \<and>
        en_boxes en i = None \<and> i \<noteq> n \<and> CHR ''_'' \<notin> set i"
    if "engine_view w = en" and "en_boxes en n = None" for w en n cf
    using that new_id_unused [of w n]
    by (auto simp: mem_docker_def engine_view_def set_box_def fun_eq_iff)
  show "CHR ''_'' \<notin> set i" if "en_ids (engine_view w) i \<noteq> None" for w i
    using that by (simp add: engine_view_def split: if_splits)
  show "achieves engine_view (dk_start_container mem_docker r) en () (set_box n (b\<lparr>bx_state := Up\<rparr>) en)"
    if "box_target en r = Some n" and "en_boxes en n = Some b" for en r n b
    using that by (auto simp: achieves_def mem_docker_run put_box_def engine_view_put)
  show "\<exists>resp w'. dk_inspect_container mem_docker r w = (Inr resp, w') \<and> engine_view w' = en \<and>
      container_state_from (ir_state resp) = state_of_box b \<and>
      ir_config_labels resp = Some (cf_labels (bx_config b)) \<and> ir_image resp \<noteq> None \<and> ir_id resp \<noteq> None"
    if "engine_view w = en" and "box_target en r = Some n" and "en_boxes en n = Some b" for w en r n b
    using that by (cases "bx_state b")
      (auto simp: mem_docker_run box_response_def container_state_from_def state_of_box_def)
  show "\<exists>e w'. dk_inspect_container mem_docker r w = (Inl (ServerError 404 e), w') \<and> engine_view w' = en"
    if "engine_view w = en" and "box_target en r = None" for w en r
    using that by (simp add: mem_docker_def on_box_def)
  show "achieves engine_view (dk_remove_container mem_docker r) en () (en\<lparr>en_boxes := (en_boxes en)(n := None)\<rparr>)"
    if "box_target en r = Some n" and "en_boxes en n = Some b" and "bx_state b \<noteq> Up" for en r n b
    using that by (auto simp: achieves_def mem_docker_run engine_view_drop)
  show "\<exists>e w'. dk_remove_container mem_docker r w = (Inl (ServerError 404 e), w') \<and> engine_view w' = en"
    if "engine_view w = en" and "box_target en r = None" for w en r
    using that by (simp add: mem_docker_def on_box_def)
  show "\<exists>e w'. dk_remove_container mem_docker r w = (Inl (ServerError 409 e), w') \<and> engine_view w' = en"
    if "engine_view w = en" and "box_target en r = Some n" and "en_boxes en n = Some b" and "bx_state b = Up" for w en r n b
    using that by (auto simp: mem_docker_run)
qed

end
