(* ===== verification/KubeletFacts.thy ===== *)
theory KubeletFacts
  imports KubeletPod DockerMemory
begin

text \<open>
  What the kubelet makes of its containers: the phase it computes, and what a reconciliation does to
  the containers of a working engine.
\<close>

section \<open>The phase of a pod\<close>

lemma length_filter_all: "length xs = length (filter P xs) \<longleftrightarrow> (\<forall>x \<in> set xs. P x)"
proof -
  have "length xs = length (filter P xs) \<longleftrightarrow> length (filter (\<lambda>x. \<not> P x) xs) = 0"
    using sum_length_filter_compl [of P xs] by linarith
  then show ?thesis by (simp add: filter_empty_conv)
qed

lemma all_succeeded:
  "S = {CTerminated 0} \<longleftrightarrow> S \<noteq> {} \<and> CRunning \<notin> S \<and> CWaiting \<notin> S \<and> (\<forall>code. CTerminated code \<in> S \<longrightarrow> code = 0)"
proof
  assume r: "S \<noteq> {} \<and> CRunning \<notin> S \<and> CWaiting \<notin> S \<and> (\<forall>code. CTerminated code \<in> S \<longrightarrow> code = 0)"
  then have "s = CTerminated 0" if "s \<in> S" for s using that by (cases s) auto
  with r show "S = {CTerminated 0}" by auto
qed auto

text \<open>
  The phase of a pod follows from the states of the containers that exist: a container that could not be
  created does not count, so a pod whose other containers are done is reported as succeeded.
\<close>

theorem phase_of_statuses:
  "(compute_phase policy ss = Pending \<longleftrightarrow> ss = [] \<or> CWaiting \<in> cs_state ` set ss) \<and>
   (compute_phase policy ss = Succeeded \<longleftrightarrow>
      cs_state ` set ss = {CTerminated 0} \<and> policy \<noteq> RestartAlways) \<and>
   (compute_phase policy ss = Failed \<longleftrightarrow>
      (\<exists>code. code \<noteq> 0 \<and> CTerminated code \<in> cs_state ` set ss) \<and> policy = RestartNever \<and>
      CRunning \<notin> cs_state ` set ss \<and> CWaiting \<notin> cs_state ` set ss)"
proof -
  let ?stop = "\<lambda>s. case cs_state s of CTerminated code \<Rightarrow> True | _ \<Rightarrow> False"
  have stop: "?stop s \<longleftrightarrow> (\<exists>code. cs_state s = CTerminated code)" for s by (cases "cs_state s") auto
  have running: "filter (\<lambda>s. cs_state s = CRunning) ss = [] \<longleftrightarrow> CRunning \<notin> cs_state ` set ss"
    by (auto simp: filter_empty_conv image_iff)
  have waiting: "filter (\<lambda>s. cs_state s = CWaiting) ss = [] \<longleftrightarrow> CWaiting \<notin> cs_state ` set ss"
    by (auto simp: filter_empty_conv image_iff)
  have stopped: "filter ?stop ss = [] \<longleftrightarrow> (\<forall>code. CTerminated code \<notin> cs_state ` set ss)"
    by (simp only: stop filter_empty_conv image_iff) metis
  have zero: "filter (\<lambda>s. cs_state s = CTerminated 0) ss = filter (\<lambda>s. cs_state s = CTerminated 0) (filter ?stop ss)"
    by (auto intro: filter_cong)
  have "length (filter ?stop ss) = length (filter (\<lambda>s. cs_state s = CTerminated 0) ss) \<longleftrightarrow>
      (\<forall>s \<in> set (filter ?stop ss). cs_state s = CTerminated 0)"
    by (rule trans [OF arg_cong [where f = "\<lambda>n. length (filter ?stop ss) = length n", OF zero] length_filter_all])
  also have "\<dots> \<longleftrightarrow> (\<forall>s \<in> set ss. \<forall>code. cs_state s = CTerminated code \<longrightarrow> code = 0)"
    by (simp only: set_filter mem_Collect_eq stop) fastforce
  finally have same: "length (filter ?stop ss) = length (filter (\<lambda>s. cs_state s = CTerminated 0) ss) \<longleftrightarrow>
      (\<forall>code. CTerminated code \<in> cs_state ` set ss \<longrightarrow> code = 0)"
    by (simp only: image_iff) metis
  have no_other: "ss = []" if "CRunning \<notin> cs_state ` set ss" "CWaiting \<notin> cs_state ` set ss"
      "\<forall>code. CTerminated code \<notin> cs_state ` set ss"
  proof -
    have "s \<notin> cs_state ` set ss" for s using that by (cases s) auto
    then show ?thesis by (cases ss) auto
  qed
  show ?thesis
    unfolding compute_phase_def Let_def length_greater_0_conv length_0_conv running waiting stopped same
      all_succeeded [of "cs_state ` set ss"]
    using no_other by (cases "CWaiting \<in> cs_state ` set ss"; cases "CRunning \<in> cs_state ` set ss"; cases policy) auto
qed

section \<open>Reconciliation on a working engine\<close>

text \<open>The container of a name, and the mounts of a container, for a pod with a uid.\<close>

definition box_name :: "kubelet_pod \<Rightarrow> uuid \<Rightarrow> string \<Rightarrow> string" where
  "box_name kp uid name = unique_container_name uid (md_name (kp_metadata kp)) name"

definition volume_table :: "kubelet_pod \<Rightarrow> (string, volume) hashmap" where
  "volume_table kp = fold (\<lambda>v. hm_insert (vo_name v) v) (ps_volumes (kp_spec kp)) hm_empty"

definition container_binds :: "kubelet_pod \<Rightarrow> uuid \<Rightarrow> container \<Rightarrow> string list option outcome" where
  "container_binds kp uid c =
     bind_mounts (path_push pod_dir_path (show_uuid uid)) (volume_table kp) (co_volume_mounts c)"

text \<open>
  What starting a container of the pod leaves of it: it runs; a container that was there keeps its
  configuration, a missing one has been created for the sandbox \<open>s\<close>.
\<close>

definition started :: "kubelet_pod \<Rightarrow> uuid \<Rightarrow> string \<Rightarrow> container \<Rightarrow> box option \<Rightarrow> box" where
  "started kp uid s c old = (case old of
       Some b \<Rightarrow> b\<lparr>bx_state := Up\<rparr>
     | None \<Rightarrow> \<lparr>bx_config = pod_container_config kp uid c s
         (case container_binds kp uid c of Inl e \<Rightarrow> None | Inr binds \<Rightarrow> binds), bx_state = Up\<rparr>)"

fun start_boxes :: "kubelet_pod \<Rightarrow> uuid \<Rightarrow> string \<Rightarrow> container list \<Rightarrow> (string \<rightharpoonup> box) \<Rightarrow> (string \<rightharpoonup> box)" where
  "start_boxes kp uid s [] boxes = boxes"
| "start_boxes kp uid s (c # cs) boxes =
     start_boxes kp uid s cs (boxes(box_name kp uid (co_name c) \<mapsto> started kp uid s c (boxes (box_name kp uid (co_name c)))))"

lemma box_name_inj [simp]: "box_name kp uid a = box_name kp uid b \<longleftrightarrow> a = b"
  by (simp add: box_name_def unique_container_name_def)

lemma box_name_underscore [simp]: "CHR ''_'' \<in> set (box_name kp uid a)"
  by (simp add: box_name_def unique_container_name_def)

lemma status_irrelevant [simp]:
  "box_name (kp\<lparr>kp_status := st\<rparr>) = box_name kp" "container_binds (kp\<lparr>kp_status := st\<rparr>) = container_binds kp"
  "started (kp\<lparr>kp_status := st\<rparr>) = started kp"
  by (simp_all add: fun_eq_iff box_name_def container_binds_def volume_table_def started_def pod_container_config_def
      container_labels_def Let_def split: option.split)

lemma pod_uid_Some: "md_uid (kp_metadata kp) = Some uid \<Longrightarrow> pod_uid kp = Inr uid"
  by (simp add: pod_uid_def ok_or_def)

lemma get_container_name_run:
  assumes "md_uid (kp_metadata kp) = Some uid"
  shows "get_container_name kp name = io_return (box_name kp uid name)"
  unfolding get_container_name_def pod_uid_Some [OF assms] io_lift_Inr io_bind_return box_name_def ..

lemma containers_run:
  assumes "md_uid (kp_metadata kp) = Some uid"
  shows "containers kp = io_return (map (\<lambda>c. box_name kp uid (co_name c)) (ps_containers (kp_spec kp)))"
proof -
  have "io_map (\<lambda>c. get_container_name kp (co_name c)) cs = io_return (map (\<lambda>c. box_name kp uid (co_name c)) cs)" for cs
    by (induction cs) (simp_all only: io_map.simps get_container_name_run [OF assms] io_bind_return list.map)
  then show ?thesis by (simp add: containers_def)
qed

lemma start_boxes_apply:
  assumes "distinct (map co_name cs)"
  shows "start_boxes kp uid s cs boxes n =
    (case List.find (\<lambda>c. box_name kp uid (co_name c) = n) cs of
       None \<Rightarrow> boxes n | Some c \<Rightarrow> Some (started kp uid s c (boxes n)))"
  using assms
proof (induction cs arbitrary: boxes)
  case (Cons c cs)
  have "List.find (\<lambda>d. box_name kp uid (co_name d) = box_name kp uid (co_name c)) cs = None"
    using Cons.prems by (simp add: find_None_iff image_iff) metis
  with Cons show ?case by (auto split: option.splits)
qed simp

text \<open>
  Whether a container is to be started: it is missing, or it has exited and the restart policy asks for it. A container that
  was created and never started is not.
\<close>

definition wants_start :: "restart_policy \<Rightarrow> box option \<Rightarrow> bool" where
  "wants_start policy old = (case old of
       None \<Rightarrow> True
     | Some b \<Rightarrow> (case bx_state b of
         Exited code \<Rightarrow> (case policy of RestartAlways \<Rightarrow> True | RestartNever \<Rightarrow> False | RestartOnFailure \<Rightarrow> code \<noteq> 0)
       | _ \<Rightarrow> False))"

text \<open>
  The containers of the node after a pod has been looked after: the sandbox runs again if it had
  exited, the containers of the pod that want it have been started, and no other container is touched.
\<close>

definition healed :: "kubelet_pod \<Rightarrow> uuid \<Rightarrow> (string \<rightharpoonup> box) \<Rightarrow> (string \<rightharpoonup> box)" where
  "healed kp uid boxes n =
     (if n = box_name kp uid sandbox_name
      then map_option (\<lambda>b. case bx_state b of Exited code \<Rightarrow> b\<lparr>bx_state := Up\<rparr> | _ \<Rightarrow> b) (boxes n)
      else case List.find (\<lambda>c. box_name kp uid (co_name c) = n) (ps_containers (kp_spec kp)) of
          None \<Rightarrow> boxes n
        | Some c \<Rightarrow> if wants_start (ps_restart_policy (kp_spec kp)) (boxes n)
            then Some (started kp uid (box_name kp uid sandbox_name) c (boxes n)) else boxes n)"

text \<open>The containers carry the label that \<open>create_container\<close> gives them.\<close>

definition labelled :: "kubelet_pod \<Rightarrow> uuid \<Rightarrow> (string \<rightharpoonup> box) \<Rightarrow> container \<Rightarrow> bool" where
  "labelled kp uid boxes c = (case boxes (box_name kp uid (co_name c)) of
       None \<Rightarrow> True
     | Some b \<Rightarrow> (case cf_labels (bx_config b) of
         None \<Rightarrow> False
       | Some l \<Rightarrow> hm_get l ''minik8s.container.name'' = Some (co_name c)))"

fun reported :: "kubelet_pod \<Rightarrow> uuid \<Rightarrow> (string \<rightharpoonup> box) \<Rightarrow> container list \<Rightarrow> (string \<times> container_state) list" where
  "reported kp uid boxes [] = []"
| "reported kp uid boxes (c # cs) = (case boxes (box_name kp uid (co_name c)) of
       None \<Rightarrow> reported kp uid boxes cs
     | Some b \<Rightarrow> (co_name c, state_of_box b) # reported kp uid boxes cs)"

lemma started_labelled: "labelled kp uid boxes c \<Longrightarrow> labelled kp uid (boxes(box_name kp uid (co_name c) \<mapsto>
    started kp uid s c (boxes (box_name kp uid (co_name c))))) c"
  by (auto simp: labelled_def started_def pod_container_config_def container_labels_def container_name_prefix_def Let_def
      split: option.splits)

lemma find_status:
  "map_option cs_state (List.find (\<lambda>s. cs_name s = k) ss) = map_of (map (\<lambda>s. (cs_name s, cs_state s)) ss) k"
  by (induction ss) simp_all

lemma map_of_reported:
  assumes "distinct (map co_name cs)" and "c \<in> set cs"
  shows "map_of (reported kp uid boxes cs) (co_name c) = map_option state_of_box (boxes (box_name kp uid (co_name c)))"
proof -
  have none: "map_of (reported kp uid boxes ds) k = None" if "k \<notin> co_name ` set ds" for ds k
    using that by (induction ds) (auto split: option.splits)
  from assms show ?thesis
  proof (induction cs)
    case (Cons d cs)
    then show ?case using none [of "co_name d" cs] by (cases "c = d") (auto split: option.splits)
  qed simp
qed

lemma containers_to_start_reported:
  assumes ss: "map (\<lambda>s. (cs_name s, cs_state s)) ss = reported kp uid boxes (ps_containers (kp_spec kp))"
    and dist: "distinct (map co_name (ps_containers (kp_spec kp)))"
    and st: "pst_container_statuses (kp_status kp) = ss"
  shows "containers_to_start kp = filter (\<lambda>c. wants_start (ps_restart_policy (kp_spec kp))
    (boxes (box_name kp uid (co_name c)))) (ps_containers (kp_spec kp))"
  unfolding containers_to_start_def
proof (rule filter_cong [OF refl])
  fix c assume c: "c \<in> set (ps_containers (kp_spec kp))"
  let ?st = "List.find (\<lambda>s. cs_name s = co_name c) ss"
  have "map_option cs_state ?st = map_option state_of_box (boxes (box_name kp uid (co_name c)))"
    unfolding find_status ss by (rule map_of_reported [OF dist c])
  then show "(let status = List.find (\<lambda>s. cs_name s = co_name c) (pst_container_statuses (kp_status kp))
     in map_option (\<lambda>s. cs_state s = CRunning) status \<noteq> Some True \<and>
        should_restart_container (ps_restart_policy (kp_spec kp)) status) \<longleftrightarrow>
    wants_start (ps_restart_policy (kp_spec kp)) (boxes (box_name kp uid (co_name c)))"
    unfolding st by (cases ?st; cases "boxes (box_name kp uid (co_name c))"; cases "ps_restart_policy (kp_spec kp)")
      (auto simp: wants_start_def should_restart_container_def state_of_box_def split: box_state.splits)
qed

lemma find_filter:
  assumes "distinct (map co_name cs)"
  shows "List.find (\<lambda>c. box_name kp uid (co_name c) = n) (filter Q cs) =
    (case List.find (\<lambda>c. box_name kp uid (co_name c) = n) cs of None \<Rightarrow> None | Some c \<Rightarrow> if Q c then Some c else None)"
  using assms
proof (induction cs)
  case (Cons c cs)
  have "List.find (\<lambda>d. box_name kp uid (co_name d) = box_name kp uid (co_name c)) cs = None"
    using Cons.prems by (simp add: find_None_iff image_iff) metis
  with Cons show ?case by auto
qed simp

lemma start_boxes_healed:
  assumes "distinct (map co_name (ps_containers (kp_spec kp)))"
    and "sandbox_name \<notin> co_name ` set (ps_containers (kp_spec kp))"
    and sb: "boxes (box_name kp uid sandbox_name) = Some sb"
  shows "start_boxes kp uid (box_name kp uid sandbox_name)
      (filter (\<lambda>c. wants_start (ps_restart_policy (kp_spec kp)) (boxes (box_name kp uid (co_name c)))) (ps_containers (kp_spec kp)))
      (boxes(box_name kp uid sandbox_name \<mapsto> (case bx_state sb of Exited code \<Rightarrow> sb\<lparr>bx_state := Up\<rparr> | _ \<Rightarrow> sb))) =
    healed kp uid boxes"
proof (rule ext)
  fix n
  let ?cs = "ps_containers (kp_spec kp)"
  have none: "List.find (\<lambda>c. box_name kp uid (co_name c) = box_name kp uid sandbox_name) ?cs = None"
    using assms(2) by (simp add: find_None_iff image_iff) metis
  have dist: "distinct (map co_name (filter Q ?cs))" for Q using assms(1) by (rule distinct_map_filter)
  have found: "box_name kp uid (co_name c) = n" if "List.find (\<lambda>c. box_name kp uid (co_name c) = n) ?cs = Some c" for c
    using that by (auto simp: find_Some_iff)
  show "start_boxes kp uid (box_name kp uid sandbox_name)
      (filter (\<lambda>c. wants_start (ps_restart_policy (kp_spec kp)) (boxes (box_name kp uid (co_name c)))) ?cs)
      (boxes(box_name kp uid sandbox_name \<mapsto> (case bx_state sb of Exited code \<Rightarrow> sb\<lparr>bx_state := Up\<rparr> | _ \<Rightarrow> sb))) n =
    healed kp uid boxes n"
    unfolding start_boxes_apply [OF dist] find_filter [OF assms(1)] healed_def
    using none sb found by (cases "n = box_name kp uid sandbox_name") (auto split: option.split)
qed

text \<open>
  What reconciling leaves when the sandbox is gone: there is a new sandbox, and the containers of the pod
  have been created anew for it, but those that still run are as they were.
\<close>

definition removable :: "box option \<Rightarrow> box option" where
  "removable old = (case old of None \<Rightarrow> None | Some b \<Rightarrow> if bx_state b = Up then Some b else None)"

definition recreated :: "kubelet_pod \<Rightarrow> uuid \<Rightarrow> string \<Rightarrow> (string \<rightharpoonup> box) \<Rightarrow> (string \<rightharpoonup> box)" where
  "recreated kp uid s boxes n =
     (if n = box_name kp uid sandbox_name then Some \<lparr>bx_config = sandbox_config kp uid, bx_state = Up\<rparr>
      else case List.find (\<lambda>c. box_name kp uid (co_name c) = n) (ps_containers (kp_spec kp)) of
          None \<Rightarrow> boxes n
        | Some c \<Rightarrow> Some (started kp uid s c (removable (boxes n))))"

lemma started_running: "bx_state b = Up \<Longrightarrow> started kp uid s c (removable (Some b)) = b"
  by (simp add: removable_def started_def)

context docker_engine
begin

lemma target_name: "en_boxes en n = Some b \<Longrightarrow> box_target en n = Some n"
  by (simp add: box_target_def)

lemma target_missing: "en_boxes (view w) n = None \<Longrightarrow> CHR ''_'' \<in> set n \<Longrightarrow> box_target (view w) n = None"
  using ids [of w n] by (cases "en_ids (view w) n") (auto simp: box_target_def)

lemma inspect_run:
  assumes "en_boxes (view w) n = Some b"
  shows "\<exists>resp w'. container_inspect dk n w = (Inr (Some resp), w') \<and> view w' = view w \<and>
    container_state_from (ir_state resp) = state_of_box b \<and>
    ir_config_labels resp = Some (cf_labels (bx_config b)) \<and> ir_image resp \<noteq> None \<and> ir_id resp \<noteq> None"
proof -
  obtain resp w' where "dk_inspect_container dk n w = (Inr resp, w')" "view w' = view w"
      "container_state_from (ir_state resp) = state_of_box b"
      "ir_config_labels resp = Some (cf_labels (bx_config b))" "ir_image resp \<noteq> None" "ir_id resp \<noteq> None"
    using inspect [OF refl target_name [OF assms] assms] by blast
  then show ?thesis by (auto simp: container_inspect_def)
qed

lemma inspect_missing_run:
  assumes "en_boxes (view w) n = None" and "CHR ''_'' \<in> set n"
  shows "\<exists>w'. container_inspect dk n w = (Inr None, w') \<and> view w' = view w"
  using inspect_missing [OF refl target_missing [OF assms]] by (auto simp: container_inspect_def)

lemma start_run:
  assumes "box_target (view w) r = Some n" and "en_boxes (view w) n = Some b"
  shows "\<exists>w'. container_start dk r w = (Inr (), w') \<and> view w' = set_box n (b\<lparr>bx_state := Up\<rparr>) (view w)"
  using achievesD [OF achieves_map_err [OF start [OF assms]] refl] by (simp add: container_start_def)

lemma pull_run: "\<exists>w'. pull_with_policy dk i policy w = (Inr (), w') \<and> view w' = view w"
proof -
  have p: "\<exists>w'. image_pull dk i w = (Inr (), w') \<and> view w' = view w" for w
  proof -
    have "pull_stream (map Inr items) = Inr ()" for items by (induction items) simp_all
    with pull [OF refl, of i w] show ?thesis by (auto simp: image_pull_def)
  qed
  obtain found w1 where l: "dk_list_images dk i w = (Inr found, w1)" "view w1 = view w"
    using list_images [OF refl, of i w] by auto
  then have "image_exists dk i w = (Inr (found \<noteq> []), w1)" by (simp add: image_exists_def)
  with p [of w1] p [of w] l show ?thesis
    by (cases policy) (auto simp: pull_with_policy_def io_bind_def)
qed

lemma volumes_run:
  "\<exists>w'. create_volumes dk dir vs m w = (Inr (fold (\<lambda>v. hm_insert (vo_name v) v) vs m), w') \<and> view w' = view w"
proof (induction vs arbitrary: m w)
  case (Cons v vs)
  have "\<exists>w'. volume_create dk dir v w = (Inr (), w') \<and> view w' = view w"
    using achievesD [OF achieves_map_err [OF create_dir] refl]
    by (cases "vo_config v") (simp_all add: volume_create_def)
  then obtain w1 where "volume_create dk dir v w = (Inr (), w1)" and "view w1 = view w" by auto
  with Cons.IH [of "hm_insert (vo_name v) v m" w1] show ?case by (simp add: io_bind_Inr)
qed simp

lemma create_run:
  assumes "md_uid (kp_metadata kp) = Some uid" and "container_binds kp uid c = Inr binds"
    and "en_boxes (view w) (box_name kp uid (co_name c)) = None"
  shows "\<exists>i w'. create_container dk kp c s w = (Inr i, w') \<and> box_target (view w') i = Some (box_name kp uid (co_name c)) \<and>
    en_boxes (view w') = (en_boxes (view w))(box_name kp uid (co_name c) \<mapsto>
      \<lparr>bx_config = pod_container_config kp uid c s binds, bx_state = Fresh\<rparr>)"
proof -
  let ?n = "box_name kp uid (co_name c)"
  let ?dir = "path_push pod_dir_path (show_uuid uid)"
  obtain w1 where w1: "pull_with_policy dk (image_new (co_image c)) (image_pull_policy c) w = (Inr (), w1)" "view w1 = view w"
    using pull_run by blast
  obtain w2 where w2: "create_volumes dk ?dir (ps_volumes (kp_spec kp)) hm_empty w1 = (Inr (volume_table kp), w2)"
      "view w2 = view w"
    using volumes_run [of ?dir "ps_volumes (kp_spec kp)" hm_empty w1] w1(2) by (auto simp: volume_table_def)
  obtain i w3 where w3: "dk_create_container dk (Some ?n) (pod_container_config kp uid c s binds) w2 = (Inr i, w3)"
      "view w3 = (set_box ?n \<lparr>bx_config = pod_container_config kp uid c s binds, bx_state = Fresh\<rparr> (view w))
         \<lparr>en_ids := (en_ids (view w))(i \<mapsto> ?n)\<rparr>" "en_boxes (view w) i = None" "i \<noteq> ?n"
    using create [OF w2(2) assms(3)] by blast
  have "create_container dk kp c s w = (Inr i, w3)"
    unfolding create_container_def pod_dir_def pod_uid_Some [OF assms(1)] get_container_name_run [OF assms(1)]
      io_lift_Inr io_bind_return assms(2) [unfolded container_binds_def]
    by (simp add: io_bind_def w1(1) w2(1) assms(2) [unfolded container_binds_def] container_create_def io_map_err_def w3(1))
  with w3 show ?thesis by (auto simp: box_target_def set_box_def)
qed

lemma start_container_run:
  assumes uid: "md_uid (kp_metadata kp) = Some uid" and binds: "is_ok (container_binds kp uid c)"
  defines "n \<equiv> box_name kp uid (co_name c)"
  shows "\<exists>w'. start_container dk kp c s w = (Inr (), w') \<and>
    en_boxes (view w') = (en_boxes (view w))(n \<mapsto> started kp uid s c (en_boxes (view w) n))"
proof (cases "en_boxes (view w) n")
  case None
  obtain bs where bs: "container_binds kp uid c = Inr bs" using binds by (cases "container_binds kp uid c") auto
  obtain w1 where w1: "container_inspect dk n w = (Inr None, w1)" "view w1 = view w"
    using inspect_missing_run [OF None] by (auto simp: n_def)
  obtain i w2 where w2: "create_container dk kp c s w1 = (Inr i, w2)" "box_target (view w2) i = Some n"
      "en_boxes (view w2) = (en_boxes (view w))(n \<mapsto> \<lparr>bx_config = pod_container_config kp uid c s bs, bx_state = Fresh\<rparr>)"
    using create_run [OF uid bs, of w1 s] None w1(2) by (auto simp: n_def)
  from w2(3) have "en_boxes (view w2) n = Some \<lparr>bx_config = pod_container_config kp uid c s bs, bx_state = Fresh\<rparr>" by simp
  from start_run [OF w2(2) this] obtain w3 where w3: "container_start dk i w2 = (Inr (), w3)"
      "view w3 = set_box n \<lparr>bx_config = pod_container_config kp uid c s bs, bx_state = Up\<rparr> (view w2)" by auto
  then show ?thesis
    unfolding start_container_def get_container_name_run [OF uid] io_bind_return n_def [symmetric]
    by (simp add: io_bind_def w1(1) w2(1,3) set_box_def started_def None bs)
next
  case (Some b)
  then obtain resp w1 where w1: "container_inspect dk n w = (Inr (Some resp), w1)" "view w1 = view w"
    using inspect_run by blast
  obtain w2 where "container_start dk n w1 = (Inr (), w2)" "view w2 = set_box n (b\<lparr>bx_state := Up\<rparr>) (view w)"
    using start_run [of w1 n n b] target_name [OF Some] Some w1(2) by auto
  then show ?thesis
    unfolding start_container_def get_container_name_run [OF uid] io_bind_return n_def [symmetric]
    by (simp add: io_bind_def w1(1) set_box_def started_def Some)
qed

lemma start_containers_run:
  assumes uid: "md_uid (kp_metadata kp) = Some uid" and "\<forall>c \<in> set cs. is_ok (container_binds kp uid c)"
  shows "\<exists>w'. start_containers dk kp cs s w = (Inr (), w') \<and>
    en_boxes (view w') = start_boxes kp uid s cs (en_boxes (view w))"
proof -
  have "\<exists>rs w'. join_all (\<lambda>c. start_container dk kp c s) cs w = (Inr rs, w') \<and> first_error_or_ok rs = Inr () \<and>
      en_boxes (view w') = start_boxes kp uid s cs (en_boxes (view w))"
    using assms(2)
  proof (induction cs arbitrary: w)
    case (Cons c cs)
    let ?n = "box_name kp uid (co_name c)"
    obtain w1 where w1: "start_container dk kp c s w = (Inr (), w1)"
        "en_boxes (view w1) = (en_boxes (view w))(?n \<mapsto> started kp uid s c (en_boxes (view w) ?n))"
      using start_container_run [OF uid] Cons.prems by fastforce
    obtain rs w2 where "join_all (\<lambda>c. start_container dk kp c s) cs w1 = (Inr rs, w2)" "first_error_or_ok rs = Inr ()"
        "en_boxes (view w2) = start_boxes kp uid s cs (en_boxes (view w1))"
      using Cons by fastforce
    with w1 show ?case by (intro exI [of _ "Inr () # rs"] exI [of _ w2]) (simp add: join_all_def io_bind_def io_try_def)
  qed (simp add: join_all_def)
  then show ?thesis by (auto simp: start_containers_def io_bind_def)
qed

lemma statuses_run:
  assumes "\<forall>c \<in> set cs. labelled kp uid (en_boxes (view w)) c"
  shows "\<exists>rs ss w'. join_all (container_inspect dk) (map (\<lambda>c. box_name kp uid (co_name c)) cs) w = (Inr rs, w') \<and>
    view w' = view w \<and> collect_statuses (oks rs) = Inr ss \<and>
    map (\<lambda>s. (cs_name s, cs_state s)) ss = reported kp uid (en_boxes (view w)) cs"
  using assms
proof (induction cs arbitrary: w)
  case (Cons c cs)
  let ?n = "box_name kp uid (co_name c)"
  have rest: "\<exists>rs ss w2. join_all (container_inspect dk) (map (\<lambda>c. box_name kp uid (co_name c)) cs) w1 = (Inr rs, w2) \<and>
      view w2 = view w \<and> collect_statuses (oks rs) = Inr ss \<and>
      map (\<lambda>s. (cs_name s, cs_state s)) ss = reported kp uid (en_boxes (view w)) cs" if "view w1 = view w" for w1
    using Cons.IH [of w1] Cons.prems that by simp
  show ?case
  proof (cases "en_boxes (view w) ?n")
    case None
    obtain w1 where w1: "container_inspect dk ?n w = (Inr None, w1)" "view w1 = view w"
      using inspect_missing_run [OF None] by auto
    obtain rs ss w2 where "join_all (container_inspect dk) (map (\<lambda>c. box_name kp uid (co_name c)) cs) w1 = (Inr rs, w2)"
        "view w2 = view w" "collect_statuses (oks rs) = Inr ss"
        "map (\<lambda>s. (cs_name s, cs_state s)) ss = reported kp uid (en_boxes (view w)) cs"
      using rest [OF w1(2)] by blast
    with w1 None show ?thesis
      by (intro exI [of _ "Inr None # rs"] exI [of _ ss] exI [of _ w2]) (simp add: join_all_def io_bind_def io_try_def)
  next
    case (Some b)
    obtain r w1 where w1: "container_inspect dk ?n w = (Inr (Some r), w1)" "view w1 = view w"
        "container_state_from (ir_state r) = state_of_box b"
        "ir_config_labels r = Some (cf_labels (bx_config b))" "ir_image r \<noteq> None" "ir_id r \<noteq> None"
      using inspect_run [OF Some] by auto
    from Cons.prems Some obtain l where l: "cf_labels (bx_config b) = Some l" "hm_get l ''minik8s.container.name'' = Some (co_name c)"
      by (auto simp: labelled_def split: option.splits)
    from w1(5,6) obtain i img where "ir_id r = Some i" "ir_image r = Some img" by blast
    then obtain s where s: "container_status_from r = Inr s" "cs_name s = co_name c" "cs_state s = state_of_box b"
      by (simp add: container_status_from_def w1(3,4) l)
    obtain rs ss w2 where "join_all (container_inspect dk) (map (\<lambda>c. box_name kp uid (co_name c)) cs) w1 = (Inr rs, w2)"
        "view w2 = view w" "collect_statuses (oks rs) = Inr ss"
        "map (\<lambda>s. (cs_name s, cs_state s)) ss = reported kp uid (en_boxes (view w)) cs"
      using rest [OF w1(2)] by blast
    with w1(1) Some s show ?thesis
      by (intro exI [of _ "Inr (Some r) # rs"] exI [of _ "s # ss"] exI [of _ w2]) (simp add: join_all_def io_bind_def io_try_def)
  qed
qed (simp add: join_all_def)

lemma update_status_run:
  assumes uid: "md_uid (kp_metadata kp) = Some uid" and sb: "en_boxes (view w) (box_name kp uid sandbox_name) = Some sb"
    and "\<forall>c \<in> set (ps_containers (kp_spec kp)). labelled kp uid (en_boxes (view w)) c"
  shows "\<exists>changed st w'. update_status dk kp w = (Inr (changed, kp\<lparr>kp_status := st\<rparr>), w') \<and> view w' = view w \<and>
    map (\<lambda>s. (cs_name s, cs_state s)) (pst_container_statuses st) =
      reported kp uid (en_boxes (view w)) (ps_containers (kp_spec kp))"
proof -
  obtain r w1 where w1: "container_inspect dk (box_name kp uid sandbox_name) w = (Inr (Some r), w1)" "view w1 = view w"
    using inspect_run [OF sb] by auto
  obtain rs ss w2 where w2: "join_all (container_inspect dk) (map (\<lambda>c. box_name kp uid (co_name c)) (ps_containers (kp_spec kp))) w1 = (Inr rs, w2)"
      "view w2 = view w" "collect_statuses (oks rs) = Inr ss"
      "map (\<lambda>s. (cs_name s, cs_state s)) ss = reported kp uid (en_boxes (view w)) (ps_containers (kp_spec kp))"
    using statuses_run [of "ps_containers (kp_spec kp)" kp uid w1] assms(3) w1(2) by auto
  then show ?thesis
    unfolding update_status_def sandbox_def get_container_name_run [OF uid] io_bind_return inspect_containers_def
      containers_run [OF uid] by (simp add: io_bind_def w1(1) Let_def) (rule exI, rule conjI, rule refl, simp)
qed

lemma reconcile_run:
  assumes uid: "md_uid (kp_metadata kp) = Some uid" and sb: "en_boxes (view w) (box_name kp uid sandbox_name) = Some sb"
    and binds: "\<forall>c \<in> set (ps_containers (kp_spec kp)). is_ok (container_binds kp uid c)"
  shows "\<exists>w'. pod_reconcile dk kp w = (Inr (), w') \<and>
    en_boxes (view w') = start_boxes kp uid (box_name kp uid sandbox_name) (containers_to_start kp)
      ((en_boxes (view w))(box_name kp uid sandbox_name \<mapsto> (case bx_state sb of Exited code \<Rightarrow> sb\<lparr>bx_state := Up\<rparr> | _ \<Rightarrow> sb)))"
proof -
  let ?s = "box_name kp uid sandbox_name"
  let ?sb = "case bx_state sb of Exited code \<Rightarrow> sb\<lparr>bx_state := Up\<rparr> | _ \<Rightarrow> sb"
  obtain r w1 where w1: "container_inspect dk ?s w = (Inr (Some r), w1)" "view w1 = view w"
      "container_state_from (ir_state r) = state_of_box sb"
    using inspect_run [OF sb] by auto
  let ?exited = "case bx_state sb of Exited code \<Rightarrow> True | _ \<Rightarrow> False"
  have actions: "compute_pod_actions dk kp w = (Inr \<lparr>pa_create_sandbox = False, pa_start_sandbox = ?exited,
      pa_containers_to_start = containers_to_start kp, pa_containers_to_remove = []\<rparr>, w1)"
    unfolding compute_pod_actions_def sandbox_def get_container_name_run [OF uid] io_bind_return containers_run [OF uid]
    by (cases "bx_state sb") (simp_all add: io_bind_def io_try_def w1(1,3) state_of_box_def)
  have "\<exists>w2. (if ?exited then container_start dk ?s else io_return ()) w1 = (Inr (), w2) \<and>
      en_boxes (view w2) = (en_boxes (view w))(?s \<mapsto> ?sb)"
  proof (cases ?exited)
    case True
    with start_run [of w1 ?s ?s sb] target_name [OF sb] sb w1(2) show ?thesis
      by (auto simp: set_box_def split: box_state.splits)
  next
    case False
    with sb w1(2) show ?thesis by (auto split: box_state.splits)
  qed
  then obtain w2 where w2: "(if ?exited then container_start dk ?s else io_return ()) w1 = (Inr (), w2)"
      "en_boxes (view w2) = (en_boxes (view w))(?s \<mapsto> ?sb)" by blast
  have "set (containers_to_start kp) \<subseteq> set (ps_containers (kp_spec kp))" by (auto simp: containers_to_start_def)
  with binds have "\<forall>c \<in> set (containers_to_start kp). is_ok (container_binds kp uid c)" by blast
  from start_containers_run [OF uid this, of ?s w2] w2 show ?thesis
    unfolding pod_reconcile_def sandbox_def get_container_name_run [OF uid]
    by (auto simp: io_bind_def actions remove_all_def join_all_def)
qed

lemma remove_run:
  assumes "CHR ''_'' \<in> set n"
  shows "\<exists>r w'. container_remove dk n w = (r, w') \<and> (\<forall>p. r \<noteq> Inl (Panic p)) \<and>
    en_boxes (view w') = (en_boxes (view w))(n := removable (en_boxes (view w) n))"
proof (cases "en_boxes (view w) n")
  case None
  from remove_missing [OF refl target_missing [OF None assms]] None show ?thesis
    by (auto simp: container_remove_def removable_def fun_upd_idem)
next
  case (Some b)
  note t = target_name [OF Some]
  show ?thesis
  proof (cases "bx_state b = Up")
    case True
    from remove_running [OF refl t Some True] Some True show ?thesis
      by (auto simp: container_remove_def removable_def fun_upd_idem)
  next
    case False
    from achievesD [OF remove [OF t Some False] refl] Some False show ?thesis
      by (auto simp: container_remove_def removable_def)
  qed
qed

lemma remove_all_run:
  assumes "distinct (map co_name cs)"
  shows "\<exists>rs w'. remove_all dk (map (\<lambda>c. box_name kp uid (co_name c)) cs) w = (Inr rs, w') \<and>
    (\<forall>n. en_boxes (view w') n = (if n \<in> (\<lambda>c. box_name kp uid (co_name c)) ` set cs
       then removable (en_boxes (view w) n) else en_boxes (view w) n))"
  using assms
proof (induction cs arbitrary: w)
  case (Cons c cs)
  let ?n = "box_name kp uid (co_name c)"
  obtain r w1 where w1: "container_remove dk ?n w = (r, w1)" "\<forall>p. r \<noteq> Inl (Panic p)"
      "en_boxes (view w1) = (en_boxes (view w))(?n := removable (en_boxes (view w) ?n))"
    using remove_run [OF box_name_underscore] by blast
  then have tried: "io_try (container_remove dk ?n) w = (Inr r, w1)"
    by (auto simp: io_try_def split: sum.split fault.split)
  obtain rs w2 where w2: "remove_all dk (map (\<lambda>c. box_name kp uid (co_name c)) cs) w1 = (Inr rs, w2)"
      "\<forall>n. en_boxes (view w2) n = (if n \<in> (\<lambda>c. box_name kp uid (co_name c)) ` set cs
         then removable (en_boxes (view w1) n) else en_boxes (view w1) n)"
    using Cons by fastforce
  moreover have "?n \<notin> (\<lambda>c. box_name kp uid (co_name c)) ` set cs" using Cons.prems by auto
  ultimately show ?case using tried w1(3)
    by (intro exI [of _ "r # rs"] exI [of _ w2]) (auto simp: remove_all_def join_all_def io_bind_def)
qed (simp add: remove_all_def join_all_def)

lemma sandbox_run:
  assumes uid: "md_uid (kp_metadata kp) = Some uid" and none: "en_boxes (view w) (box_name kp uid sandbox_name) = None"
  shows "\<exists>i w'. create_sandbox dk kp w = (Inr i, w') \<and>
    en_boxes (view w') = (en_boxes (view w))(box_name kp uid sandbox_name \<mapsto> \<lparr>bx_config = sandbox_config kp uid, bx_state = Up\<rparr>)"
proof -
  let ?n = "box_name kp uid sandbox_name"
  let ?b = "\<lparr>bx_config = sandbox_config kp uid, bx_state = Fresh\<rparr>"
  obtain w1 where w1: "pull_with_policy dk (image_new pause_image_name) PullIfNotPresent w = (Inr (), w1)" "view w1 = view w"
    using pull_run by blast
  obtain i w2 where w2: "dk_create_container dk (Some ?n) (sandbox_config kp uid) w1 = (Inr i, w2)"
      "view w2 = (set_box ?n ?b (view w))\<lparr>en_ids := (en_ids (view w))(i \<mapsto> ?n)\<rparr>" "en_boxes (view w) i = None" "i \<noteq> ?n"
    using create [OF w1(2) none] by blast
  have "box_target (view w2) i = Some ?n" "en_boxes (view w2) ?n = Some ?b"
    using w2 by (simp_all add: box_target_def set_box_def)
  from start_run [OF this] obtain w3 where w3: "container_start dk i w2 = (Inr (), w3)"
      "view w3 = set_box ?n \<lparr>bx_config = sandbox_config kp uid, bx_state = Up\<rparr> (view w2)" by auto
  show ?thesis
    unfolding create_sandbox_def pod_uid_Some [OF uid] get_container_name_run [OF uid] io_lift_Inr io_bind_return
    using w2(2) w3(2) by (simp add: io_bind_def w1(1) container_create_def io_map_err_def w2(1) w3(1) set_box_def)
qed

lemma recreate_run:
  assumes uid: "md_uid (kp_metadata kp) = Some uid" and none: "en_boxes (view w) (box_name kp uid sandbox_name) = None"
    and dist: "distinct (map co_name (ps_containers (kp_spec kp)))"
    and pod: "sandbox_name \<notin> co_name ` set (ps_containers (kp_spec kp))"
    and binds: "\<forall>c \<in> set (ps_containers (kp_spec kp)). is_ok (container_binds kp uid c)"
  shows "\<exists>s w'. pod_reconcile dk kp w = (Inr (), w') \<and> en_boxes (view w') = recreated kp uid s (en_boxes (view w))"
proof -
  let ?s = "box_name kp uid sandbox_name"
  let ?cs = "ps_containers (kp_spec kp)"
  let ?ns = "map (\<lambda>c. box_name kp uid (co_name c)) ?cs"
  obtain w1 where w1: "container_inspect dk ?s w = (Inr None, w1)" "view w1 = view w"
    using inspect_missing_run [OF none] by auto
  have actions: "compute_pod_actions dk kp w = (Inr \<lparr>pa_create_sandbox = True, pa_start_sandbox = False,
      pa_containers_to_start = ?cs, pa_containers_to_remove = ?ns\<rparr>, w1)"
    unfolding compute_pod_actions_def sandbox_def get_container_name_run [OF uid] io_bind_return containers_run [OF uid]
    by (simp add: io_bind_def io_try_def w1(1))
  obtain rs w2 where w2: "remove_all dk ?ns w1 = (Inr rs, w2)"
      "\<forall>n. en_boxes (view w2) n = (if n \<in> (\<lambda>c. box_name kp uid (co_name c)) ` set ?cs
         then removable (en_boxes (view w) n) else en_boxes (view w) n)"
    using remove_all_run [OF dist, of kp uid w1] w1(2) by auto
  from pod none w2(2) have "en_boxes (view w2) ?s = None" by (auto simp: removable_def)
  from sandbox_run [OF uid this] obtain s w3 where w3: "create_sandbox dk kp w2 = (Inr s, w3)"
      "en_boxes (view w3) = (en_boxes (view w2))(?s \<mapsto> \<lparr>bx_config = sandbox_config kp uid, bx_state = Up\<rparr>)" by auto
  from start_containers_run [OF uid binds, of s w3] obtain w4 where w4: "start_containers dk kp ?cs s w3 = (Inr (), w4)"
      "en_boxes (view w4) = start_boxes kp uid s ?cs (en_boxes (view w3))" by auto
  have missed: "List.find (\<lambda>c. box_name kp uid (co_name c) = ?s) ?cs = None"
    using pod by (simp add: find_None_iff image_iff) metis
  have "en_boxes (view w4) n = recreated kp uid s (en_boxes (view w)) n" for n
  proof (cases "List.find (\<lambda>c. box_name kp uid (co_name c) = n) ?cs")
    case None
    then have "n \<notin> (\<lambda>c. box_name kp uid (co_name c)) ` set ?cs" by (auto simp: find_None_iff)
    with None w2(2) show ?thesis
      unfolding w4(2) start_boxes_apply [OF dist] w3(2) recreated_def by simp
  next
    case (Some c)
    moreover from Some have "n \<in> (\<lambda>c. box_name kp uid (co_name c)) ` set ?cs" by (auto simp: find_Some_iff)
    moreover from Some missed have "n \<noteq> ?s" by auto
    ultimately show ?thesis
      unfolding w4(2) start_boxes_apply [OF dist] w3(2) recreated_def using w2(2) by simp
  qed
  then have "en_boxes (view w4) = recreated kp uid s (en_boxes (view w))" by (rule ext)
  then show ?thesis
    unfolding pod_reconcile_def sandbox_def get_container_name_run [OF uid]
    by (auto simp: io_bind_def actions w2(1) w3(1) w4(1))
qed

end


text \<open>
  C13. When the sandbox of a pod is gone, a reconciliation creates it again and reports success; a container that still runs is neither
  removed nor created anew: it stays in the namespaces of the sandbox that is gone.
\<close>

theorem lost_sandbox_keeps_running:
  assumes "docker_engine dk view" and "md_uid (kp_metadata kp) = Some uid"
    and "en_boxes (view w) (box_name kp uid sandbox_name) = None"
    and "distinct (map co_name (ps_containers (kp_spec kp)))"
    and "sandbox_name \<notin> co_name ` set (ps_containers (kp_spec kp))"
    and "\<forall>c \<in> set (ps_containers (kp_spec kp)). is_ok (container_binds kp uid c)"
    and "c \<in> set (ps_containers (kp_spec kp))"
    and "en_boxes (view w) (box_name kp uid (co_name c)) = Some b" and "bx_state b = Up"
  shows "\<exists>s w'. pod_reconcile dk kp w = (Inr (), w') \<and> en_boxes (view w') = recreated kp uid s (en_boxes (view w)) \<and>
    en_boxes (view w') (box_name kp uid (co_name c)) = Some b"
proof -
  obtain s w' where w': "pod_reconcile dk kp w = (Inr (), w')" "en_boxes (view w') = recreated kp uid s (en_boxes (view w))"
    using docker_engine.recreate_run [OF assms(1-6)] by auto
  have "List.find (\<lambda>d. box_name kp uid (co_name d) = box_name kp uid (co_name c)) (ps_containers (kp_spec kp)) \<noteq> None"
    using assms(7) by (simp add: find_None_iff) blast
  moreover have "co_name c \<noteq> sandbox_name" using assms(5) imageI [OF assms(7), of co_name] by metis
  ultimately have "recreated kp uid s (en_boxes (view w)) (box_name kp uid (co_name c)) = Some b"
    using started_running [OF assms(9)] by (auto simp: recreated_def assms(8))
  with w' show ?thesis by auto
qed

section \<open>Witnesses\<close>

text \<open>A pod with a container that has exited and one that is missing, on the engine in memory.\<close>

definition web_pod :: kubelet_pod where
  "web_pod = \<lparr>kp_metadata = metadata_default\<lparr>md_name := ''web'', md_uid := Some 7\<rparr>,
     kp_spec = pod_spec_default\<lparr>ps_containers := [container_default\<lparr>co_name := ''nginx'',
         co_volume_mounts := [\<lparr>vm_mount_path = ''/data'', vm_name = ''data''\<rparr>]\<rparr>, container_default\<lparr>co_name := ''sidecar''\<rparr>],
       ps_volumes := [\<lparr>vo_name = ''data'', vo_config = EmptyDir\<rparr>]\<rparr>,
     kp_status = pod_status_default 0\<rparr>"

definition web_box :: "string \<Rightarrow> box_state \<Rightarrow> box" where
  "web_box name st = \<lparr>bx_config = pod_container_config web_pod 7 (container_default\<lparr>co_name := name\<rparr>) [] None, bx_state = st\<rparr>"

definition web_world :: "box_state \<Rightarrow> mem_engine" where
  "web_world st = ([(box_name web_pod 7 sandbox_name, \<lparr>bx_config = sandbox_config web_pod 7, bx_state = Exited 0\<rparr>),
     (box_name web_pod 7 ''nginx'', web_box ''nginx'' st)], [])"

lemma web_pod_simps:
  "md_uid (kp_metadata web_pod) = Some 7"
  "ps_containers (kp_spec web_pod) = [container_default\<lparr>co_name := ''nginx'',
     co_volume_mounts := [\<lparr>vm_mount_path = ''/data'', vm_name = ''data''\<rparr>]\<rparr>, container_default\<lparr>co_name := ''sidecar''\<rparr>]"
  by (simp_all add: web_pod_def)

lemma web_binds: "\<forall>c \<in> set (ps_containers (kp_spec web_pod)). is_ok (container_binds web_pod 7 c)"
  by (simp add: web_pod_def container_binds_def volume_table_def bind_mounts_def container_default_def is_ok_def)

lemma web_labelled: "\<forall>c \<in> set (ps_containers (kp_spec web_pod)). labelled web_pod 7 (en_boxes (engine_view (web_world st))) c"
  by (simp add: web_pod_simps labelled_def engine_view_def web_world_def web_box_def pod_container_config_def
      container_labels_def container_name_prefix_def Let_def sandbox_name_def)


theorem lost_sandbox_keeps_running_witness:
  "\<exists>s w'. pod_reconcile mem_docker web_pod ([(box_name web_pod 7 ''nginx'', web_box ''nginx'' Up)], []) = (Inr (), w') \<and>
    en_boxes (engine_view w') =
      recreated web_pod 7 s (en_boxes (engine_view ([(box_name web_pod 7 ''nginx'', web_box ''nginx'' Up)], []))) \<and>
    en_boxes (engine_view w') (box_name web_pod 7 ''nginx'') = Some (web_box ''nginx'' Up)"
  using lost_sandbox_keeps_running [OF memd.docker_engine_axioms, of web_pod 7
      "([(box_name web_pod 7 ''nginx'', web_box ''nginx'' Up)], [])" "hd (ps_containers (kp_spec web_pod))" "web_box ''nginx'' Up"] web_binds
  by (simp add: web_pod_simps engine_view_def sandbox_name_def web_box_def)

end
