(* ===== verification/Kubelet.thy ===== *)
theory Kubelet
  imports KubeletFacts Http ApiStore
begin

text \<open>
  The tasks of the kubelet (\<open>rkubelet/src\<close>): the pod worker, which serves one queue of updates that the informer and
  the worker itself fill, the status manager, the node status manager, and the logs of its own API.

  The pod list \<open>Arc<RwLock<HashSet<String>>>\<close> is a table of names. The worker takes a name out of it while it reconciles
  the pod, so that the status manager skips the pod meanwhile, and puts it back.
\<close>

section \<open>The pod worker\<close>

datatype pod_update = UAdd pod | UUpdate pod pod | UDelete pod

type_synonym pod_list = "(string, unit) hashmap"

definition work_queue_capacity :: nat where
  "work_queue_capacity = 16"

text \<open>What the informer queues for a notification.\<close>

definition pod_update_of :: "pod notification \<Rightarrow> pod_update" where
  "pod_update_of n = (case n of
       NAdd p \<Rightarrow> UAdd p
     | NUpdate old_pod new_pod \<Rightarrow> UUpdate old_pod new_pod
     | NDelete old_pod \<Rightarrow> UDelete old_pod)"

definition worker_pod_add :: "'w docker \<Rightarrow> time \<Rightarrow> string \<Rightarrow> pod \<Rightarrow> pod_list \<Rightarrow> ('w, pod_list) io" where
  "worker_pod_add dk now node p pods =
     (if \<not> pod_is_on_node p node then io_return pods
      else io_bind (io_try (pod_create dk now p)) (\<lambda>res.
           io_bind (case res of
               Inr kp \<Rightarrow> io_bind (io_try (pod_start dk kp)) (\<lambda>_. io_return ())
             | Inl e \<Rightarrow> io_return ()) (\<lambda>_.
           io_return (hm_insert (md_name (pod_metadata p)) () pods))))"

definition worker_pod_update ::
    "'w docker \<Rightarrow> time \<Rightarrow> string \<Rightarrow> pod \<Rightarrow> pod \<Rightarrow> pod_list \<Rightarrow> ('w, pod_list) io" where
  "worker_pod_update dk now node old_pod p pods =
     (if \<not> pod_is_on_node old_pod node \<and> pod_is_on_node p node then worker_pod_add dk now node p pods
      else let name = md_name (pod_metadata p) in
        if hm_get pods name = None then io_return pods
        else case pod_load p of
            Inr kp \<Rightarrow> (let pods = hm_remove name pods in
              io_bind (io_try (pod_reconcile dk kp)) (\<lambda>_. io_return (hm_insert name () pods)))
          | Inl e \<Rightarrow> io_return pods)"

definition worker_pod_delete :: "'w docker \<Rightarrow> string \<Rightarrow> pod \<Rightarrow> pod_list \<Rightarrow> ('w, pod_list) io" where
  "worker_pod_delete dk node p pods =
     (if \<not> pod_is_on_node p node then io_return pods
      else let pods = hm_remove (md_name (pod_metadata p)) pods in
        case pod_load p of
          Inr kp \<Rightarrow> io_bind (io_try (pod_remove dk kp)) (\<lambda>_. io_return pods)
        | Inl e \<Rightarrow> io_return pods)"

definition worker_handle_update :: "'w docker \<Rightarrow> time \<Rightarrow> string \<Rightarrow> pod_update \<Rightarrow> pod_list \<Rightarrow> ('w, pod_list) io" where
  "worker_handle_update dk now node u pods = (case u of
       UAdd p \<Rightarrow> worker_pod_add dk now node p pods
     | UUpdate old_pod p \<Rightarrow> worker_pod_update dk now node old_pod p pods
     | UDelete p \<Rightarrow> worker_pod_delete dk node p pods)"

text \<open>
  The resynchronisation sends every stored pod of the node into the queue of the worker itself (16 places), while it
  holds the pod list for writing. Nobody else reads the queue, so a send into the full queue never returns: \<open>None\<close>.
\<close>

fun worker_send_all :: "pod list \<Rightarrow> pod_list \<times> pod_update list \<Rightarrow> (pod_list \<times> pod_update list) option" where
  "worker_send_all [] s = Some s"
| "worker_send_all (p # ps) (pods, queue) =
     (if length queue < work_queue_capacity
      then worker_send_all ps (hm_insert (md_name (pod_metadata p)) () pods, queue @ [UUpdate p p])
      else None)"

definition worker_handle_resync ::
    "string \<Rightarrow> (string, pod) hashmap \<Rightarrow> pod_list \<times> pod_update list \<Rightarrow> (pod_list \<times> pod_update list) option" where
  "worker_handle_resync node store =
     worker_send_all (filter (\<lambda>p. pod_is_on_node p node) (hm_values store))"

text \<open>One turn of the loop. A panic ends the task.\<close>

record pod_worker =
  wk_pods :: pod_list
  wk_queue :: "pod_update list"

datatype worker_event = WkUpdate | WkResync

definition worker_turn ::
    "'w docker \<Rightarrow> time \<Rightarrow> string \<Rightarrow> (string, pod) hashmap \<Rightarrow> worker_event \<Rightarrow>
     pod_worker \<times> 'w \<Rightarrow> (pod_worker outcome \<times> 'w) option" where
  "worker_turn dk now node store ev = (\<lambda>(s, w). case ev of
       WkUpdate \<Rightarrow> (case wk_queue s of
           [] \<Rightarrow> Some (Inr s, w)
         | u # us \<Rightarrow> (case worker_handle_update dk now node u (wk_pods s) w of
             (Inl e, w') \<Rightarrow> Some (Inl e, w')
           | (Inr pods, w') \<Rightarrow> Some (Inr \<lparr>wk_pods = pods, wk_queue = us\<rparr>, w')))
     | WkResync \<Rightarrow> (case worker_handle_resync node store (wk_pods s, wk_queue s) of
           None \<Rightarrow> None
         | Some (pods, queue) \<Rightarrow> Some (Inr \<lparr>wk_pods = pods, wk_queue = queue\<rparr>, w)))"

section \<open>The status manager\<close>

definition post_pod_status :: "'w api \<Rightarrow> kubelet_pod \<Rightarrow> ('w, unit) io" where
  "post_pod_status api kp = io_bind (api_send api \<lparr>rq_method = PUT,
       rq_path = ''/api/v1/pods/'' @ md_name (kp_metadata kp), rq_body = Some (pod_object kp)\<rparr>) (\<lambda>_. io_return ())"

text \<open>The body of the loop for one name: only the \<open>?\<close> of \<open>Pod::load\<close> leaves it.\<close>

definition report_pod ::
    "'w docker \<Rightarrow> 'w api \<Rightarrow> (string, pod) hashmap \<Rightarrow> string \<Rightarrow> ('w, unit) io" where
  "report_pod dk api store name = (case hm_get store (''/api/v1/pods/'' @ name) of
       None \<Rightarrow> io_return ()
     | Some p \<Rightarrow> io_bind (io_lift (pod_load p)) (\<lambda>kp.
         io_bind (io_try (update_status dk kp)) (\<lambda>r. case r of
             Inr (True, kp) \<Rightarrow> io_bind (io_try (post_pod_status api kp)) (\<lambda>_. io_return ())
           | _ \<Rightarrow> io_return ())))"

definition status_pass :: "'w docker \<Rightarrow> 'w api \<Rightarrow> (string, pod) hashmap \<Rightarrow> pod_list \<Rightarrow> ('w, unit) io" where
  "status_pass dk api store pods = io_each (report_pod dk api store) (map fst pods)"

section \<open>The node status manager\<close>

text \<open>
  What the libraries read from the machine: the host name, the network interfaces, the processors and the memory, the
  text of \<open>/etc/machine-id\<close> (empty when it cannot be read), and the versions.
\<close>

datatype ip_addr = IpV4 ipv4 | IpV6 string

record net_interface =
  if_name :: string
  if_loopback :: bool
  if_up :: bool
  if_running :: bool
  if_addrs :: "ip_addr option list"

record machine =
  mc_host_name :: "string option"
  mc_interfaces :: "string + net_interface list"
  mc_processors :: nat
  mc_total_memory :: u64
  mc_available_memory :: u64
  mc_machine_id :: string
  mc_arch :: string
  mc_os :: string
  mc_os_version :: "string option"

record node_manager =
  nm_metadata :: metadata
  nm_status :: node_status
  nm_last_report :: time

definition node_manager_new :: "machine \<Rightarrow> node_manager outcome" where
  "node_manager_new mc = (case mc_host_name mc of
       Some host_name \<Rightarrow> Inr \<lparr>nm_metadata = metadata_default\<lparr>md_name := host_name\<rparr>,
         nm_status = node_status_default, nm_last_report = 0\<rparr>
     | None \<Rightarrow> Inl (Panic ''Failed to get host name''))"

definition add_address ::
    "net_interface \<Rightarrow> ip_addr option \<Rightarrow> (node_address_type, string) hashmap \<Rightarrow> (node_address_type, string) hashmap" where
  "add_address i addr addresses = (case addr of
       Some (IpV4 ip) \<Rightarrow> if starts_with (if_name i) ''en'' then hm_insert InternalIP (show_ipv4 ip) addresses else addresses
     | _ \<Rightarrow> addresses)"

definition get_addresses :: "machine \<Rightarrow> (node_address_type, string) hashmap" where
  "get_addresses mc =
     (let addresses = (case mc_host_name mc of None \<Rightarrow> hm_empty | Some host_name \<Rightarrow> hm_insert Hostname host_name hm_empty)
      in case mc_interfaces mc of
           Inl e \<Rightarrow> addresses
         | Inr interfaces \<Rightarrow> fold (\<lambda>i. fold (add_address i) (if_addrs i))
             (filter (\<lambda>i. \<not> if_loopback i \<and> if_up i \<and> if_running i) interfaces) addresses)"

definition get_info :: "machine \<Rightarrow> node_info" where
  "get_info mc = \<lparr>ni_architecture = mc_arch mc, ni_machine_id = butlast (mc_machine_id mc),
     ni_operating_system = mc_os mc, ni_os_image = (case mc_os_version mc of None \<Rightarrow> [] | Some v \<Rightarrow> v)\<rparr>"

definition get_capacity :: "machine \<Rightarrow> capacity \<times> capacity" where
  "get_capacity mc =
     (\<lparr>cap_cpu = of_nat (mc_processors mc), cap_memory = mc_available_memory mc\<rparr>,
      \<lparr>cap_cpu = of_nat (mc_processors mc), cap_memory = mc_total_memory mc\<rparr>)"

definition get_node_status :: "kubelet_config \<Rightarrow> time \<Rightarrow> machine \<Rightarrow> node_status" where
  "get_node_status cfg now mc = (case get_capacity mc of (allocatable, capacity) \<Rightarrow>
     \<lparr>ns_addresses = get_addresses mc, ns_allocatable = allocatable, ns_capacity = capacity,
      ns_kubelet_port = kc_port cfg, ns_node_info = get_info mc, ns_last_heartbeat = now\<rparr>)"

definition node_object :: "node_manager \<Rightarrow> kube_object" where
  "node_object s = KNode \<lparr>node_metadata = nm_metadata s, node_status = nm_status s\<rparr>"

text \<open>A body that is not a \<open>Response<Node>\<close> is an error.\<close>

definition answered_node :: "api_reply \<Rightarrow> node option" where
  "answered_node r = (case r of Reply status msg (Some (DObject (KNode n))) \<Rightarrow> Some n | _ \<Rightarrow> None)"

definition post_node_status :: "'w api \<Rightarrow> node_manager \<Rightarrow> ('w, unit) io" where
  "post_node_status api s = io_bind (api_send api (put_object (node_object s))) (\<lambda>_. io_return ())"

text \<open>
  The registration tries until the API server answers with the node; \<open>slept\<close> collects the pauses. Without such an
  answer it never returns.
\<close>

definition max_backoff :: u64 where
  "max_backoff = 20"

partial_function (option) register_loop ::
    "'w api \<Rightarrow> api_request \<Rightarrow> u64 \<Rightarrow> u64 list \<Rightarrow> 'w \<Rightarrow> (metadata \<times> u64 list \<times> 'w) option" where
  "register_loop api payload backoff slept w = (case api payload w of (reply, w') \<Rightarrow>
     (case answered_node reply of
        Some n \<Rightarrow> Some (node_metadata n, slept, w')
      | None \<Rightarrow> register_loop api payload (backoff + 2) (slept @ [min backoff max_backoff]) w'))"

definition register_node ::
    "'w api \<Rightarrow> kubelet_config \<Rightarrow> time \<Rightarrow> machine \<Rightarrow> node_manager \<Rightarrow> 'w \<Rightarrow> (node_manager \<times> u64 list \<times> 'w) option" where
  "register_node api cfg now mc s w =
     (let s = s\<lparr>nm_status := get_node_status cfg now mc\<rparr>
      in case register_loop api (put_object (node_object s)) 2 [] w of
           None \<Rightarrow> None
         | Some (metadata, slept, w') \<Rightarrow> Some (s\<lparr>nm_metadata := metadata\<rparr>, slept, w'))"

text \<open>One round of the loop, after its pause.\<close>

definition node_tick :: "'w api \<Rightarrow> kubelet_config \<Rightarrow> time \<Rightarrow> machine \<Rightarrow> node_manager \<Rightarrow> ('w, node_manager) io" where
  "node_tick api cfg now mc s =
     (let status = get_node_status cfg now mc in
      if \<not> node_status_eq status (nm_status s) \<or>
         now - nm_last_report s > sint (kc_node_status_report_frequency cfg) * 1000000000
      then (let s = s\<lparr>nm_status := status\<rparr> in
        io_bind (io_try (post_node_status api s)) (\<lambda>_. io_return s))
      else io_return s)"

definition node_ticks ::
    "'w api \<Rightarrow> kubelet_config \<Rightarrow> (time \<times> machine) list \<Rightarrow> node_manager \<Rightarrow> ('w, node_manager) io" where
  "node_ticks api cfg = io_fold (\<lambda>(now, mc). node_tick api cfg now mc)"

section \<open>The logs of the kubelet's API\<close>

definition find_pod :: "(string, pod) hashmap \<Rightarrow> string \<Rightarrow> ('w, api_fault, pod) eio" where
  "find_pod store pod_name = (case hm_get store (''/api/v1/pods/'' @ pod_name) of
       None \<Rightarrow> api_err ''Pod not found'' (Some (''Pod '' @ pod_name @ '' not found''))
     | Some p \<Rightarrow> io_return p)"

definition named_logs :: "'w docker \<Rightarrow> pod \<Rightarrow> string \<Rightarrow> string outcome \<Rightarrow> string option \<Rightarrow> ('w, api_fault, string) eio" where
  "named_logs dk p pod_name container_name tail = (case md_uid (pod_metadata p) of
       None \<Rightarrow> api_err ''Pod has no uid'' None
     | Some uid \<Rightarrow>
         io_bind (io_map_err (\<lambda>e. ApiPanic (case e of Panic m \<Rightarrow> m | Err m \<Rightarrow> m)) (io_lift container_name)) (\<lambda>name.
         io_map_err (\<lambda>e. ApiErr (err_new ''Failed to get container logs'' (Some (case e of Panic m \<Rightarrow> m | Err m \<Rightarrow> m))))
           (container_logs dk (unique_container_name uid pod_name name) tail)))"

definition api_container_logs ::
    "'w docker \<Rightarrow> (string, pod) hashmap \<Rightarrow> string \<Rightarrow> string \<Rightarrow> string option \<Rightarrow> ('w, api_fault, string) eio" where
  "api_container_logs dk store pod_name container_name tail =
     io_bind (find_pod store pod_name) (\<lambda>p. named_logs dk p pod_name (Inr container_name) tail)"

definition api_pod_logs ::
    "'w docker \<Rightarrow> (string, pod) hashmap \<Rightarrow> string \<Rightarrow> string option \<Rightarrow> ('w, api_fault, string) eio" where
  "api_pod_logs dk store pod_name tail =
     io_bind (find_pod store pod_name) (\<lambda>p.
     if length (ps_containers (pod_spec p)) > 1 then api_err ''Pod has more than one container'' None
     else named_logs dk p pod_name (case ps_containers (pod_spec p) of
         [] \<Rightarrow> Inl (Panic ''index out of bounds'')
       | c # cs \<Rightarrow> Inr (co_name c)) tail)"

section \<open>The queue of the worker\<close>

lemma worker_send_all_iff:
  "worker_send_all ps (pods, queue) = (if ps = [] \<or> length queue + length ps \<le> work_queue_capacity
     then Some (fold (\<lambda>p. hm_insert (md_name (pod_metadata p)) ()) ps pods, queue @ map (\<lambda>p. UUpdate p p) ps) else None)"
  by (induction ps arbitrary: pods queue) auto

section \<open>The status manager ends\<close>

lemma io_each_Inr:
  assumes "io_each f xs w = (Inr (), w')" and "x \<in> set xs"
  shows "\<exists>w1 w2. f x w1 = (Inr (), w2)"
  using assms
proof (induction xs arbitrary: w)
  case (Cons y ys)
  from Cons.prems(1) obtain w1 where "f y w = (Inr (), w1)" "io_each f ys w1 = (Inr (), w')"
    by (auto elim: io_bind_InrE)
  with Cons show ?case by (cases "x = y") auto
qed simp

text \<open>
  A pod in the list of the kubelet whose stored object has no status ends the status manager: the pass fails, whatever the
  engine and the API server answer, and the loop around it ends.
\<close>

theorem status_manager_ends:
  assumes "(name, ()) \<in> set pods" and "hm_get store (''/api/v1/pods/'' @ name) = Some p" and "pod_status p = None"
  shows "\<exists>e. fst (status_pass dk api store pods w) = Inl e"
proof (cases "status_pass dk api store pods w")
  case (Pair r w')
  show ?thesis
  proof (cases r)
    case (Inr u)
    with Pair have "io_each (report_pod dk api store) (map fst pods) w = (Inr (), w')" by (simp add: status_pass_def)
    moreover from assms(1) have "name \<in> set (map fst pods)" by force
    ultimately obtain w1 w2 where "report_pod dk api store name w1 = (Inr (), w2)" using io_each_Inr by metis
    then show ?thesis unfolding report_pod_def assms(2) by (simp add: assms(3) pod_load_def io_bind_def)
  qed (simp add: Pair)
qed

section \<open>The node status\<close>

text \<open>
  The manager never notes when it reported last, so the frequency of reports has no effect: past the first moments of the epoch every
  round sends exactly one request, with the status of that moment, also when the status has not changed and whatever the API
  server answers.
\<close>

theorem heartbeat_every_round:
  assumes "nm_last_report s = 0"
    and "list_all (\<lambda>(now, mc). now > sint (kc_node_status_report_frequency cfg) * 1000000000) ticks"
    and "node_ticks (logged api) cfg ticks s (l, w) = (r, (l', w'))"
  shows "l' = l @ map (\<lambda>(now, mc). put_object (KNode \<lparr>node_metadata = nm_metadata s,
    node_status = get_node_status cfg now mc\<rparr>)) ticks"
  using assms
proof (induction ticks arbitrary: s l w)
  case (Cons t ticks)
  obtain now mc where t: "t = (now, mc)" by (cases t)
  let ?s = "s\<lparr>nm_status := get_node_status cfg now mc\<rparr>"
  obtain q l1 w1 where post: "io_try (post_node_status (logged api) ?s) (l, w) = (q, (l1, w1))" by (metis prod_cases3)
  have "logs (io_try (post_node_status (logged api) ?s)) [put_object (node_object ?s)]"
    unfolding post_node_status_def by (intro logs_rules)
  from logsD [OF this post] have l1: "l1 = l @ [put_object (node_object ?s)]" by simp
  have "\<exists>a. q = Inr a"
    using post by (auto simp: post_node_status_def io_try_def io_bind_def api_send_def logged_def
        split: prod.splits api_reply.splits sum.splits fault.splits)
  then have "node_tick (logged api) cfg now mc s (l, w) = (Inr ?s, (l1, w1))"
    using Cons.prems(1,2) post by (auto simp: node_tick_def t Let_def io_bind_def)
  with Cons.prems(3) have "node_ticks (logged api) cfg ticks ?s (l1, w1) = (r, (l', w'))"
    by (simp add: node_ticks_def t io_bind_def)
  from Cons.IH [OF _ _ this] Cons.prems(1,2) show ?case by (simp add: t l1 node_object_def)
qed (simp add: node_ticks_def)

text \<open>
  The registration ends with the first answer that carries the node, and takes the metadata of that answer; the pauses before it
  are 2, 4, 6, ... seconds, at most 20.
\<close>

theorem registration_ends:
  assumes "\<forall>i < k. answered_node (fst (api r (((\<lambda>w. snd (api r w)) ^^ i) w))) = None"
    and "api r (((\<lambda>w. snd (api r w)) ^^ k) w) = (reply, w')" and "answered_node reply = Some n"
  shows "register_loop api r 2 [] w =
    Some (node_metadata n, map (\<lambda>i. min (2 + 2 * of_nat i) 20) [0..<k], w')"
proof -
  have "register_loop api r b sl w =
      Some (node_metadata n, sl @ map (\<lambda>i. min (b + 2 * of_nat i) 20) [0..<k], w')" for b sl
    using assms(1,2)
  proof (induction k arbitrary: b sl w)
    case 0
    then show ?case using assms(3) by (subst register_loop.simps) simp
  next
    case (Suc k)
    obtain q w1 where q: "api r w = (q, w1)" by (cases "api r w")
    with Suc.prems(1) have none: "answered_node q = None" by (metis fst_conv funpow_0 zero_less_Suc)
    have shift: "((\<lambda>w. snd (api r w)) ^^ Suc i) w = ((\<lambda>w. snd (api r w)) ^^ i) w1" for i
      by (simp only: funpow_Suc_right comp_apply q snd_conv)
    have "register_loop api r (b + 2) (sl @ [min b max_backoff]) w1 = Some (node_metadata n,
        (sl @ [min b max_backoff]) @ map (\<lambda>i. min (b + 2 + 2 * of_nat i) 20) [0..<k], w')"
    proof (rule Suc.IH)
      show "\<forall>i < k. answered_node (fst (api r (((\<lambda>w. snd (api r w)) ^^ i) w1))) = None"
        using Suc.prems(1) shift by (metis Suc_less_eq)
      show "api r (((\<lambda>w. snd (api r w)) ^^ k) w1) = (reply, w')"
        using Suc.prems(2) shift by metis
    qed
    moreover have "map (\<lambda>i. min (b + 2 * of_nat i) 20) [0..<Suc k] =
        min b 20 # map (\<lambda>i. min (b + 2 + 2 * of_nat i) 20) [0..<k]"
      by (simp add: upt_conv_Cons map_Suc_upt [symmetric] algebra_simps del: upt_Suc)
    ultimately show ?case
      by (subst register_loop.simps) (simp add: q none max_backoff_def)
  qed
  then show ?thesis by simp
qed

section \<open>Witnesses\<close>

definition deaf_api :: "'w api" where
  "deaf_api r w = (SendError ''connection refused'', w)"

theorem status_manager_ends_witness:
  "\<exists>e. fst (status_pass mem_docker deaf_api
    [(''/api/v1/pods/web'', \<lparr>pod_metadata = metadata_default, pod_spec = pod_spec_default, pod_status = None\<rparr>)]
    [(''web'', ())] ([], [])) = Inl e"
  by (rule status_manager_ends [where name = "''web''"
      and p = "\<lparr>pod_metadata = metadata_default, pod_spec = pod_spec_default, pod_status = None\<rparr>"]) simp_all

definition small_machine :: machine where
  "small_machine = \<lparr>mc_host_name = Some ''node1'',
     mc_interfaces = Inr [\<lparr>if_name = ''ens3'', if_loopback = False, if_up = True, if_running = True, if_addrs = [Some (IpV4 167772161)]\<rparr>],
     mc_processors = 2, mc_total_memory = 4096, mc_available_memory = 1024, mc_machine_id = [], mc_arch = ''x86_64'',
     mc_os = ''linux'', mc_os_version = None\<rparr>"

definition fresh_manager :: node_manager where
  "fresh_manager = \<lparr>nm_metadata = metadata_default\<lparr>md_name := ''node1''\<rparr>, nm_status = node_status_default, nm_last_report = 0\<rparr>"

text \<open>Two rounds ten seconds apart on a machine that does not change.\<close>

theorem heartbeat_every_round_witness:
  "fst (snd (node_ticks (logged deaf_api) kubelet_config_default
      [(100000000000, small_machine), (110000000000, small_machine)] fresh_manager ([], ()))) =
    map (\<lambda>now. put_object (KNode \<lparr>node_metadata = nm_metadata fresh_manager,
      node_status = get_node_status kubelet_config_default now small_machine\<rparr>)) [100000000000, 110000000000]"
proof -
  obtain r l' w' where run: "node_ticks (logged deaf_api) kubelet_config_default
      [(100000000000, small_machine), (110000000000, small_machine)] fresh_manager ([], ()) = (r, (l', w'))"
    by (metis prod_cases3)
  have "l' = [] @ map (\<lambda>(now, mc). put_object (KNode \<lparr>node_metadata = nm_metadata fresh_manager,
      node_status = get_node_status kubelet_config_default now mc\<rparr>))
    [(100000000000, small_machine), (110000000000, small_machine)]"
    by (rule heartbeat_every_round [OF _ _ run]) (simp_all add: fresh_manager_def kubelet_config_default_def)
  then show ?thesis unfolding run by simp
qed

definition waking_api :: "nat api" where
  "waking_api r w = (if w < 2 then SendError ''connection refused''
     else Reply 200 None (Some (DObject (KNode \<lparr>node_metadata = metadata_default\<lparr>md_uid := Some 1\<rparr>, node_status = node_status_default\<rparr>))), w + 1)"

theorem registration_ends_witness:
  "register_loop waking_api r 2 [] 0 = Some (metadata_default\<lparr>md_uid := Some 1\<rparr>, [2, 4], 3)"
proof -
  have pauses: "map (\<lambda>i. min (2 + 2 * of_nat i) 20) [0..<2] = [2, 4 :: u64]" by (simp add: upt_rec)
  have step: "(\<lambda>w. snd (waking_api r w)) = Suc" by (simp add: waking_api_def fun_eq_iff)
  have steps: "((\<lambda>w. snd (waking_api r w)) ^^ i) 0 = i" for i unfolding step by (induction i) simp_all
  show ?thesis
    using registration_ends [of 2 waking_api r 0 _ 3 "\<lparr>node_metadata = metadata_default\<lparr>md_uid := Some 1\<rparr>, node_status = node_status_default\<rparr>"]
    unfolding steps pauses by (simp add: waking_api_def answered_node_def)
qed

end
