(* ===== verification/FunctionController.thy ===== *)
theory FunctionController
  imports GpuJobController
begin

text \<open>
  The function controller (\<open>controllers/src/function\<close>): it builds the image of a new function, notes it in the
  status of the function, and creates a replica set and an autoscaler for it. The operations of the build are those of the
  GPU job controller, with \<open>unzip\<close> and the copy of the templates.

  The lemmas: what the controller sends for a new function, in which order, and how the objects it makes refer to each other.
\<close>

section \<open>The objects of a function\<close>

definition function_reference :: "func \<Rightarrow> object_reference" where
  "function_reference f = \<lparr>or_kind = ''function'', or_name = md_name (fn_metadata f)\<rparr>"

definition pod_template_from_function :: "func \<Rightarrow> pod_template_spec outcome" where
  "pod_template_from_function f = (case Option.bind (fn_status f) fst_image of
       None \<Rightarrow> Inl (Panic ''called `Option::unwrap()` on a `None` value'')
     | Some img \<Rightarrow> Inr
         \<lparr>pt_metadata = metadata_default\<lparr>md_name := md_name (fn_metadata f), md_labels := md_labels (fn_metadata f)\<rparr>,
          pt_spec = pod_spec_default\<lparr>ps_containers := [container_default
            \<lparr>co_name := md_name (fn_metadata f), co_image := img, co_image_pull_policy := Some PullIfNotPresent,
             co_ports := [80]\<rparr>]\<rparr>\<rparr>)"

definition rs_from_function :: "func \<Rightarrow> replica_set outcome" where
  "rs_from_function f = (case pod_template_from_function f of
       Inl e \<Rightarrow> Inl e
     | Inr template \<Rightarrow> Inr
         \<lparr>rs_metadata = \<lparr>md_name = md_name (fn_metadata f), md_uid = None, md_labels = md_labels (fn_metadata f),
            md_owner_references = [function_reference f]\<rparr>,
          rs_spec = \<lparr>rsp_selector = md_labels (fn_metadata f), rsp_template = template, rsp_replicas = 0\<rparr>,
          rs_status = None\<rparr>)"

definition hpa_from_function :: "func \<Rightarrow> hpa" where
  "hpa_from_function f =
     \<lparr>hpa_metadata = \<lparr>md_name = md_name (fn_metadata f), md_uid = None, md_labels = md_labels (fn_metadata f),
        md_owner_references = [function_reference f]\<rparr>,
      hpa_spec = \<lparr>hs_max_replicas = fs_max_replicas (fn_spec f), hs_min_replicas = 0,
        hs_scale_target_ref = \<lparr>or_kind = ''ReplicaSet'', or_name = md_name (fn_metadata f)\<rparr>,
        hs_behavior = fs_behavior (fn_spec f), hs_metrics = fs_metrics (fn_spec f)\<rparr>,
      hpa_status = None\<rparr>"

section \<open>Building the image\<close>

record 'w function_ops = "'w build_ops" +
  fo_unzip :: "string \<Rightarrow> string \<Rightarrow> ('w, unit) io"
  fo_copy :: "string \<Rightarrow> string \<Rightarrow> ('w, unit) io"

definition func_dir :: "func \<Rightarrow> string" where
  "func_dir f = path_join ''/tmp/minik8s/function'' (md_name (fn_metadata f))"

definition func_filename :: "func \<Rightarrow> string outcome" where
  "func_filename f = (case fn_status f of
       None \<Rightarrow> Inl (Panic ''called `Option::unwrap()` on a `None` value'')
     | Some status \<Rightarrow> Inr (fst_filename status))"

definition func_fetch_code :: "'w function_ops \<Rightarrow> func \<Rightarrow> ('w, unit) io" where
  "func_fetch_code ops f =
     io_bind (io_lift (func_filename f)) (\<lambda>filename.
     io_bind (bo_fetch ops (''/api/v1/tmp/'' @ filename)) (\<lambda>(status, content).
     if 400 \<le> status \<and> status < 600 then io_fail (Err (''Error get file '' @ filename))
     else io_bind (bo_create_dir_all ops (func_dir f)) (\<lambda>_.
          io_bind (bo_create_file ops (path_join (func_dir f) filename)) (\<lambda>_.
          io_bind (io_lift content) (bo_write_file ops (path_join (func_dir f) filename))))))"

definition func_prepare_file :: "'w function_ops \<Rightarrow> func \<Rightarrow> ('w, unit) io" where
  "func_prepare_file ops f =
     io_bind (func_fetch_code ops f) (\<lambda>_.
     io_bind (io_lift (func_filename f)) (\<lambda>filename.
     io_bind (fo_unzip ops (func_dir f) filename) (\<lambda>_.
     fo_copy ops ''/templates/function_wrapper'' (func_dir f))))"

definition func_image_tag :: "func \<Rightarrow> string" where
  "func_image_tag f = ''minik8s.xyz/'' @ md_name (fn_metadata f) @ '':latest''"

definition func_build_image :: "'w function_ops \<Rightarrow> func \<Rightarrow> ('w, string) io" where
  "func_build_image ops f =
     io_bind (bo_docker ops (func_dir f) [''build'', ''-t'', func_image_tag f, ''.'']) (\<lambda>_.
     io_bind (bo_docker ops (func_dir f) [''push'', func_image_tag f]) (\<lambda>_. io_return (func_image_tag f)))"

definition build_function_image :: "'w function_ops \<Rightarrow> func \<Rightarrow> ('w, string) io" where
  "build_function_image ops f = io_bind (func_prepare_file ops f) (\<lambda>_. func_build_image ops f)"

section \<open>The requests\<close>

definition post_object :: "kube_object \<Rightarrow> api_request" where
  "post_object k = \<lparr>rq_method = POST, rq_path = prefix_of k, rq_body = Some k\<rparr>"

definition func_post_status :: "'w api \<Rightarrow> func \<Rightarrow> ('w, unit) io" where
  "func_post_status api f = io_bind (api_send api (put_object (KFunction f))) (\<lambda>_. io_return ())"

definition create_replica_set :: "'w api \<Rightarrow> func \<Rightarrow> ('w, unit) io" where
  "create_replica_set api f =
     io_bind (io_lift (rs_from_function f)) (\<lambda>rs.
     io_bind (api_send api (post_object (KReplicaSet rs))) (\<lambda>_. io_return ()))"

definition create_hpa :: "'w api \<Rightarrow> func \<Rightarrow> ('w, unit) io" where
  "create_hpa api f =
     io_bind (api_send api (post_object (KHorizontalPodAutoscaler (hpa_from_function f)))) (\<lambda>_. io_return ())"

definition with_image :: "func \<Rightarrow> string \<Rightarrow> func outcome" where
  "with_image f image_name = (case fn_status f of
       None \<Rightarrow> Inl (Panic ''called `Option::unwrap()` on a `None` value'')
     | Some status \<Rightarrow> Inr (f\<lparr>fn_status := Some (status\<lparr>fst_image := Some image_name\<rparr>)\<rparr>))"

definition handle_function_add :: "'w api \<Rightarrow> 'w function_ops \<Rightarrow> func \<Rightarrow> ('w, unit) io" where
  "handle_function_add api ops f =
     io_bind (build_function_image ops f) (\<lambda>image_name.
     io_bind (io_lift (with_image f image_name)) (\<lambda>f.
     io_bind (func_post_status api f) (\<lambda>_.
     io_bind (create_replica_set api f) (\<lambda>_.
     create_hpa api f))))"

text \<open>The turns of the loop: only new functions are handled, and a resynchronisation does nothing.\<close>

datatype function_event = FunctionEvent "func notification" | FunctionResync

definition function_turn :: "'w api \<Rightarrow> 'w function_ops \<Rightarrow> function_event \<Rightarrow> ('w, unit) io" where
  "function_turn api ops ev = (case ev of
       FunctionEvent (NAdd f) \<Rightarrow> io_bind (io_try (handle_function_add api ops f)) (\<lambda>_. io_return ())
     | FunctionEvent (NUpdate _ _) \<Rightarrow> io_return ()
     | FunctionEvent (NDelete _) \<Rightarrow> io_return ()
     | FunctionResync \<Rightarrow> io_return ())"

section \<open>What is sent for a new function\<close>

text \<open>The three requests, with the image in the status.\<close>

definition function_requests :: "func \<Rightarrow> string \<Rightarrow> api_request list" where
  "function_requests f img = (case with_image f img of
       Inl e \<Rightarrow> []
     | Inr f \<Rightarrow> (case rs_from_function f of
         Inl e \<Rightarrow> []
       | Inr rs \<Rightarrow> [put_object (KFunction f), post_object (KReplicaSet rs),
           post_object (KHorizontalPodAutoscaler (hpa_from_function f))]))"

lemma with_image_status: "fn_status f = Some st \<Longrightarrow>
    with_image f img = Inr (f\<lparr>fn_status := Some (st\<lparr>fst_image := Some img\<rparr>)\<rparr>)"
  by (simp add: with_image_def)

lemma rs_of_built: "\<exists>rs. rs_from_function (f\<lparr>fn_status := Some (st\<lparr>fst_image := Some img\<rparr>)\<rparr>) = Inr rs"
  by (simp add: rs_from_function_def pod_template_from_function_def)

lemma function_add_run:
  assumes "build_function_image ops f w = (Inr img, w1)" and "fn_status f = Some st"
  shows "handle_function_add api ops f w =
    io_each (\<lambda>r. io_bind (api_send api r) (\<lambda>_. io_return ())) (function_requests f img) w1"
proof -
  obtain rs where "rs_from_function (f\<lparr>fn_status := Some (st\<lparr>fst_image := Some img\<rparr>)\<rparr>) = Inr rs"
    using rs_of_built by blast
  with assms with_image_status [OF assms(2), of img] show ?thesis
    by (auto simp: handle_function_add_def function_requests_def func_post_status_def create_replica_set_def
        create_hpa_def io_bind_def split: prod.splits sum.splits)
qed

text \<open>The autoscaler made for a function scales the replica set made for it, whose selector is the labels of its pods.\<close>

lemma function_objects_fit:
  assumes "rs_from_function f = Inr rs"
  shows "uri_of (KReplicaSet rs) = ''/api/v1/replicasets/'' @ or_name (hs_scale_target_ref (hpa_spec (hpa_from_function f)))"
    and "rsp_selector (rs_spec rs) = md_labels (pt_metadata (rsp_template (rs_spec rs)))"
  using assms by (auto simp: rs_from_function_def pod_template_from_function_def hpa_from_function_def uri_of_def
      prefix_of_directory directory_def name_of_def metadata_of_def split: option.splits)

end
