(* ===== verification/Serverless.thy ===== *)
theory Serverless
  imports Http
begin

text \<open>
  The serverless router (\<open>serverless/src/router\<close>): it passes requests on to the service of a function,
  activates functions without instances, and walks the states of workflows. Its informers keep the stores of the
  functions and the services, which are part of the world; the parameter \<open>router_ops\<close> holds what the libraries do:
  reading the stores, the clock, the requests to functions and services, the JSON parser and the Prometheus registry.
\<close>

section \<open>Requests and operations\<close>

datatype json_value = JString string | JNumber "i64 option" | JOther

text \<open>The fields of a request the router looks at; a header or body that is no text is \<open>None\<close>.\<close>

record http_request =
  hq_path :: string
  hq_path_and_query :: "string option"
  hq_host :: "string option option"
  hq_body :: "string outcome"

record http_response =
  hp_status :: nat
  hp_body :: string

record 'w router_ops =
  ro_functions :: "'w \<Rightarrow> (string, func) hashmap"
  ro_services :: "'w \<Rightarrow> (string, service) hashmap"
  ro_sleep :: "'w \<Rightarrow> 'w"
  ro_count :: "string \<Rightarrow> 'w \<Rightarrow> 'w"
  ro_forward :: "http_request \<Rightarrow> string \<Rightarrow> ('w, http_response) io"
  ro_call :: "string \<Rightarrow> string \<Rightarrow> ('w, string) io"
  ro_metrics :: "('w, string) io"
  ro_parse :: "string \<Rightarrow> (string, json_value) hashmap option"
  ro_ordinal :: "i32 \<Rightarrow> string"

definition ok_response :: "string \<Rightarrow> http_response" where
  "ok_response body = \<lparr>hp_status = 200, hp_body = body\<rparr>"

definition error_response :: "string \<Rightarrow> http_response" where
  "error_response body = \<lparr>hp_status = 500, hp_body = body\<rparr>"

section \<open>Objects from the API server\<close>

text \<open>A reply whose data is not one object does not decode.\<close>

definition get_object :: "'w api \<Rightarrow> string \<Rightarrow> string \<Rightarrow> ('w, kube_object) io" where
  "get_object api path missing = io_bind (api_send api \<lparr>rq_method = GET, rq_path = path, rq_body = None\<rparr>) (\<lambda>(msg, d).
     case d of
       None \<Rightarrow> io_fail (Err missing)
     | Some (DObject x) \<Rightarrow> io_return x
     | Some _ \<Rightarrow> io_fail (Err ''error decoding response body''))"

definition get_workflow :: "'w api \<Rightarrow> string \<Rightarrow> ('w, workflow) io" where
  "get_workflow api name = io_bind (get_object api (''/api/v1/workflows/'' @ name) ''Failed to get workflow object'') (\<lambda>x.
     case x of KWorkflow flow \<Rightarrow> io_return flow | _ \<Rightarrow> io_fail (Err ''Failed to get workflow object''))"

definition get_func :: "'w api \<Rightarrow> string \<Rightarrow> ('w, func) io" where
  "get_func api name = io_bind (get_object api (''/api/v1/functions/'' @ name) ''Failed to get workflow object'') (\<lambda>x.
     case x of KFunction f \<Rightarrow> io_return f | _ \<Rightarrow> io_fail (Err ''Failed to get workflow object''))"

text \<open>The number of replicas becomes one, whatever it was.\<close>

definition activated :: "replica_set \<Rightarrow> replica_set" where
  "activated rs = rs\<lparr>rs_spec := (rs_spec rs)\<lparr>rsp_replicas := 1\<rparr>\<rparr>"

definition activate_rs :: "'w api \<Rightarrow> string \<Rightarrow> ('w, unit) io" where
  "activate_rs api rs_name =
     io_bind (get_object api (''/api/v1/replicasets/'' @ rs_name) (''No such replicaset: '' @ rs_name)) (\<lambda>x. case x of
       KReplicaSet rs \<Rightarrow> io_bind (api_send api \<lparr>rq_method = PATCH, rq_path = uri_of (KReplicaSet (activated rs)),
           rq_body = Some (KReplicaSet (activated rs))\<rparr>) (\<lambda>_. io_return ())
     | _ \<Rightarrow> io_fail (Err (''No such replicaset: '' @ rs_name)))"

section \<open>Activation\<close>

definition get_svc :: "'w router_ops \<Rightarrow> string \<Rightarrow> ('w, service) io" where
  "get_svc ops svc_key w = (ok_or (Err (''No such service: '' @ svc_key)) (hm_get (ro_services ops w) svc_key), w)"

text \<open>\<open>left\<close> is \<open>60 - i\<close>: the polls that may follow this one.\<close>

fun await_endpoints :: "'w router_ops \<Rightarrow> string \<Rightarrow> nat \<Rightarrow> ('w, unit) io" where
  "await_endpoints ops svc_key left =
     io_bind (get_svc ops svc_key) (\<lambda>svc.
     if ss_endpoints (svc_spec svc) \<noteq> [] then io_return ()
     else io_bind (\<lambda>w. (Inr (), ro_sleep ops w)) (\<lambda>_. case left of
         0 \<Rightarrow> io_fail (Err ''Function activation timeout after 60s'')
       | Suc left \<Rightarrow> await_endpoints ops svc_key left))"

declare await_endpoints.simps [simp del]

definition activate :: "'w router_ops \<Rightarrow> 'w api \<Rightarrow> string \<Rightarrow> string \<Rightarrow> ('w, unit) io" where
  "activate ops api func_name svc_key =
     io_bind (activate_rs api func_name) (\<lambda>_. await_endpoints ops svc_key 60)"

section \<open>Workflows\<close>

definition match_with :: "'w router_ops \<Rightarrow> choice_rule \<Rightarrow> string \<Rightarrow> bool" where
  "match_with ops rule text = (case ro_parse ops text of
       None \<Rightarrow> False
     | Some args \<Rightarrow> (case cr_comparison rule of
         FieldEquals field content \<Rightarrow> hm_get args field = Some (JString content)
       | FieldNumEquals field content \<Rightarrow> (case hm_get args field of
           Some (JNumber (Some v)) \<Rightarrow> v = scast content
         | _ \<Rightarrow> False)))"

text \<open>The results of the activations are dropped.\<close>

definition optimize_workflow :: "'w api \<Rightarrow> workflow \<Rightarrow> ('w, unit) io" where
  "optimize_workflow api flow = io_each (\<lambda>st. case st of
       Task resource next_state \<Rightarrow> io_bind (io_try (activate_rs api resource)) (\<lambda>_. io_return ())
     | Choice rules d \<Rightarrow> io_return ()) (hm_values (wf_states flow))"

text \<open>What follows a state, with the name that is reported for it: after a choice that is the name of the first state.\<close>

definition state_named :: "workflow \<Rightarrow> string \<Rightarrow> string \<Rightarrow> (string \<times> workflow_state) option" where
  "state_named flow shown name = map_option (Pair shown) (hm_get (wf_states flow) name)"

definition after_task :: "workflow \<Rightarrow> string option \<Rightarrow> (string \<times> workflow_state) option" where
  "after_task flow next_state = (case next_state of None \<Rightarrow> None | Some name \<Rightarrow> state_named flow name name)"

definition after_choice ::
    "'w router_ops \<Rightarrow> workflow \<Rightarrow> choice_rule list \<Rightarrow> string \<Rightarrow> string \<Rightarrow> (string \<times> workflow_state) option" where
  "after_choice ops flow rules d body = (case List.find (\<lambda>rule. match_with ops rule body) rules of
       Some rule \<Rightarrow> state_named flow (wf_start_at flow) (cr_next rule)
     | None \<Rightarrow> state_named flow (wf_start_at flow) d)"

abbreviation lf :: string where
  "lf \<equiv> [CHR 0x0A]"

definition task_header :: "'w router_ops \<Rightarrow> i32 \<Rightarrow> string \<Rightarrow> func \<Rightarrow> string \<Rightarrow> string \<Rightarrow> string" where
  "task_header ops i state_name f host body =
     ro_ordinal ops i @ '' State \"'' @ state_name @ ''\": Task, function: '' @ md_name (fn_metadata f) @
       '', host: '' @ host @ lf @ ''  args: '' @ body @ lf"

definition choice_report :: "'w router_ops \<Rightarrow> i32 \<Rightarrow> string \<Rightarrow> choice_rule list \<Rightarrow> string \<Rightarrow> string" where
  "choice_report ops i state_name rules body =
     ro_ordinal ops i @ '' State \"'' @ state_name @ ''\": Choice'' @ lf @ ''  Last response: '' @ body @ lf @
     (if List.find (\<lambda>rule. match_with ops rule body) rules \<noteq> None then ''  Rule matched!''
      else ''  No Rule matched! Fallback to default.'' @ lf @ lf @ lf)"

text \<open>
  The loop: the last response, the report and whether the workflow counts as succeeded. It need not end, since choices can
  lead back. A task whose function is not found leaves it with the workflow still succeeded.
\<close>

partial_function (option) walk ::
    "'w router_ops \<Rightarrow> 'w api \<Rightarrow> workflow \<Rightarrow> (string \<times> workflow_state) option \<Rightarrow> string \<Rightarrow> string \<Rightarrow> i32 \<Rightarrow> 'w \<Rightarrow>
     ((string \<times> string \<times> bool) outcome \<times> 'w) option" where
  "walk ops api flow next_state body final_res i w = (case next_state of
       None \<Rightarrow> Some (Inr (body, final_res, True), w)
     | Some (state_name, st) \<Rightarrow> (case st of
         Task resource after \<Rightarrow> (case get_func api resource w of
             (Inl (Panic p), w1) \<Rightarrow> Some (Inl (Panic p), w1)
           | (Inl (Err e), w1) \<Rightarrow> Some (Inr (body, final_res @ '' Failed, caused by: '' @ e, True), w1)
           | (Inr f, w1) \<Rightarrow> (case fn_status f of
               None \<Rightarrow> Some (Inl (Panic ''called `Option::unwrap()` on a `None` value''), w1)
             | Some status \<Rightarrow>
                 (let final_res = final_res @ task_header ops i state_name f (fst_host status) body
                  in case ro_call ops (fst_host status) body w1 of
                       (Inl (Panic p), w2) \<Rightarrow> Some (Inl (Panic p), w2)
                     | (Inl (Err e), w2) \<Rightarrow> Some (Inr (body, final_res @ ''  Failed, caused by: '' @ e @ lf, False), w2)
                     | (Inr res, w2) \<Rightarrow> walk ops api flow (after_task flow after) res
                         (final_res @ ''  Succeeded!'' @ lf @ lf @ lf) (i + 1) w2)))
       | Choice rules d \<Rightarrow> walk ops api flow (after_choice ops flow rules d body) body
           (final_res @ choice_report ops i state_name rules body) (i + 1) w))"

definition workflow_summary :: "string \<Rightarrow> string \<Rightarrow> bool \<Rightarrow> string" where
  "workflow_summary body final_res succeed = final_res @
     (if succeed then ''Workflow succesfully finished! The final response is:'' @ lf @ ''  '' @ body
      else ''Workflow failed!'' @ lf)"

definition handle_workflow ::
    "'w router_ops \<Rightarrow> 'w api \<Rightarrow> string \<Rightarrow> string \<Rightarrow> 'w \<Rightarrow> (http_response outcome \<times> 'w) option" where
  "handle_workflow ops api name init_args w = (case get_workflow api name w of
       (Inl e, w1) \<Rightarrow> Some (Inl e, w1)
     | (Inr flow, w1) \<Rightarrow> (case optimize_workflow api flow w1 of
         (Inl e, w2) \<Rightarrow> Some (Inl e, w2)
       | (Inr u, w2) \<Rightarrow> (case walk ops api flow (state_named flow (wf_start_at flow) (wf_start_at flow)) init_args
             (''Workflow \"'' @ name @ ''\" begins!'' @ lf @ lf) 1 w2 of
           None \<Rightarrow> None
         | Some (Inl e, w3) \<Rightarrow> Some (Inl e, w3)
         | Some (Inr (body, final_res, succeed), w3) \<Rightarrow>
             Some (Inr (ok_response (workflow_summary body final_res succeed)), w3))))"

section \<open>Routing\<close>

fun find_function :: "(string \<times> func) list \<Rightarrow> string \<Rightarrow> (string \<times> func) option outcome" where
  "find_function [] host = Inr None"
| "find_function ((key, f) # fs) host = (case fn_status f of
       None \<Rightarrow> Inl (Panic ''called `Option::unwrap()` on a `None` value'')
     | Some status \<Rightarrow> if fst_host status = host then Inr (Some (key, f)) else find_function fs host)"

definition strip_port :: "string \<Rightarrow> string" where
  "strip_port host = takeWhile (\<lambda>c. c \<noteq> CHR '':'') host"

definition request_host :: "http_request \<Rightarrow> string outcome" where
  "request_host req = (case hq_host req of
       None \<Rightarrow> Inl (Err ''No host'')
     | Some None \<Rightarrow> Inl (Err ''failed to convert header to a str'')
     | Some (Some host) \<Rightarrow> Inr (strip_port host))"

definition forward_uri :: "service \<Rightarrow> http_request \<Rightarrow> string outcome" where
  "forward_uri svc req = (case (ss_cluster_ip (svc_spec svc), hq_path_and_query req) of
       (Some ip, Some pq) \<Rightarrow> Inr (''http://'' @ show_ipv4 ip @ pq)
     | _ \<Rightarrow> Inl (Panic ''called `Option::unwrap()` on a `None` value''))"

definition route_function :: "'w router_ops \<Rightarrow> 'w api \<Rightarrow> http_request \<Rightarrow> string \<Rightarrow> ('w, http_response) io" where
  "route_function ops api req host =
     io_bind (\<lambda>w. (find_function (ro_functions ops w) host, w)) (\<lambda>found. case found of
       None \<Rightarrow> io_fail (Err (''No such function matching host: '' @ host))
     | Some (key, f) \<Rightarrow> (case fn_status f of
         None \<Rightarrow> io_fail (Panic ''called `Option::unwrap()` on a `None` value'')
       | Some status \<Rightarrow>
           io_bind (get_svc ops (fst_service_ref status)) (\<lambda>svc.
           io_bind (\<lambda>w. (Inr (), ro_count ops (md_name (fn_metadata f)) w)) (\<lambda>_.
           io_bind (if ss_endpoints (svc_spec svc) = [] then activate ops api (md_name (fn_metadata f)) (fst_service_ref status)
             else io_return ()) (\<lambda>_.
           io_bind (get_svc ops (fst_service_ref status)) (\<lambda>svc.
           io_bind (io_lift (forward_uri svc req)) (\<lambda>uri. ro_forward ops req uri)))))))"

definition route_request ::
    "'w router_ops \<Rightarrow> 'w api \<Rightarrow> http_request \<Rightarrow> 'w \<Rightarrow> (http_response outcome \<times> 'w) option" where
  "route_request ops api req w = (case request_host req of
       Inl e \<Rightarrow> Some (Inl e, w)
     | Inr host \<Rightarrow>
         if ends_with host ''.workflow.func.minik8s.com'' then (case hq_body req of
             Inl e \<Rightarrow> Some (Inl e, w)
           | Inr body \<Rightarrow> handle_workflow ops api (takeWhile (\<lambda>c. c \<noteq> CHR ''.'') host) body w)
         else if ends_with host ''.func.minik8s.com'' then Some (route_function ops api req host w)
         else Some (Inr (error_response ''No such host''), w))"


text \<open>An error becomes a reply; a panic ends the connection.\<close>

definition answer :: "http_response outcome \<Rightarrow> http_response outcome" where
  "answer r = (case r of Inl (Err e) \<Rightarrow> Inr (error_response e) | _ \<Rightarrow> r)"

definition router ::
    "'w router_ops \<Rightarrow> 'w api \<Rightarrow> http_request \<Rightarrow> 'w \<Rightarrow> (http_response outcome \<times> 'w) option" where
  "router ops api req w =
     (if hq_path req = ''/metrics''
      then (case ro_metrics ops w of
          (Inl e, w1) \<Rightarrow> Some (answer (Inl e), w1)
        | (Inr text, w1) \<Rightarrow> Some (Inr (ok_response text), w1))
      else map_option (\<lambda>(r, w1). (answer r, w1)) (route_request ops api req w))"

section \<open>Activation\<close>

text \<open>What ends the waiting: the service is gone, or it has an endpoint.\<close>

definition settled :: "'w router_ops \<Rightarrow> string \<Rightarrow> 'w \<Rightarrow> bool" where
  "settled ops svc_key w = (case hm_get (ro_services ops w) svc_key of
       None \<Rightarrow> True | Some svc \<Rightarrow> ss_endpoints (svc_spec svc) \<noteq> [])"

definition settled_result :: "'w router_ops \<Rightarrow> string \<Rightarrow> 'w \<Rightarrow> unit outcome" where
  "settled_result ops svc_key w = (case hm_get (ro_services ops w) svc_key of
       None \<Rightarrow> Inl (Err (''No such service: '' @ svc_key)) | Some svc \<Rightarrow> Inr ())"

lemma await_settled: "settled ops key w \<Longrightarrow> await_endpoints ops key n w = (settled_result ops key w, w)"
  by (subst await_endpoints.simps)
    (auto simp: settled_def settled_result_def get_svc_def io_bind_def ok_or_def split: option.splits)

lemma await_unsettled: "\<not> settled ops key w \<Longrightarrow> await_endpoints ops key n w = (case n of
    0 \<Rightarrow> (Inl (Err ''Function activation timeout after 60s''), ro_sleep ops w)
  | Suc m \<Rightarrow> await_endpoints ops key m (ro_sleep ops w))"
  by (subst await_endpoints.simps)
    (auto simp: settled_def get_svc_def io_bind_def ok_or_def split: option.splits nat.splits)

lemma await_endpoints_run:
  "await_endpoints ops key n w = (case List.find (\<lambda>j. settled ops key ((ro_sleep ops ^^ j) w)) [0..<Suc n] of
     None \<Rightarrow> (Inl (Err ''Function activation timeout after 60s''), (ro_sleep ops ^^ Suc n) w)
   | Some j \<Rightarrow> (settled_result ops key ((ro_sleep ops ^^ j) w), (ro_sleep ops ^^ j) w))"
proof (induction n arbitrary: w)
  case 0
  then show ?case by (cases "settled ops key w") (simp_all add: await_settled await_unsettled)
next
  case (Suc n)
  show ?case
  proof (cases "settled ops key w")
    case True
    then show ?thesis by (simp add: await_settled upt_conv_Cons del: upt_Suc)
  next
    case False
    have shift: "(ro_sleep ops ^^ Suc j) w = (ro_sleep ops ^^ j) (ro_sleep ops w)" for j
      by (simp only: funpow_Suc_right comp_apply)
    have find: "List.find P (map Suc js) = map_option Suc (List.find (\<lambda>j. P (Suc j)) js)" for P js
      by (induction js) simp_all
    have upt: "[0..<Suc (Suc n)] = 0 # map Suc [0..<Suc n]"
      unfolding map_Suc_upt by (rule upt_conv_Cons) simp
    show ?thesis
      unfolding upt find shift using False Suc.IH [of "ro_sleep ops w"]
      by (simp add: await_unsettled find shift del: upt_Suc funpow.simps split: option.splits)
  qed
qed

text \<open>
  Waiting for an endpoint always returns: with the first of the 61 looks at the store, a second apart, at which the service has an
  endpoint or is gone, and with the timeout, a second after the last look, when there is none.
\<close>

theorem activation_bounded:
  "await_endpoints ops key 60 w = (case List.find (\<lambda>j. settled ops key ((ro_sleep ops ^^ j) w)) [0..<61] of
     None \<Rightarrow> (Inl (Err ''Function activation timeout after 60s''), (ro_sleep ops ^^ 61) w)
   | Some j \<Rightarrow> (settled_result ops key ((ro_sleep ops ^^ j) w), (ro_sleep ops ^^ j) w))"
  using await_endpoints_run [of ops key 60 w] by (simp only: eval_nat_numeral)

section \<open>Workflows\<close>

lemma optimize_returns: "\<exists>w'. optimize_workflow api flow w = (Inr (), w')"
proof -
  have rs: "\<exists>r w'. activate_rs api name w = (r, w') \<and> (\<forall>p. r \<noteq> Inl (Panic p))" for name w
    by (auto simp: activate_rs_def get_object_def api_send_def io_bind_def split: prod.splits api_reply.splits
        option.splits reply_data.splits kube_object.splits)
  have "\<exists>w'. (case st of Task resource next_state \<Rightarrow> io_bind (io_try (activate_rs api resource)) (\<lambda>_. io_return ())
      | Choice rules d \<Rightarrow> io_return ()) w = (Inr (), w')" for st w
  proof (cases st)
    case (Task resource next_state)
    obtain r w' where "activate_rs api resource w = (r, w')" "\<forall>p. r \<noteq> Inl (Panic p)" using rs by blast
    with Task show ?thesis by (auto simp: io_bind_def io_try_def split: sum.splits fault.splits)
  qed simp
  then have "\<exists>w'. io_each (\<lambda>st. case st of Task resource next_state \<Rightarrow> io_bind (io_try (activate_rs api resource)) (\<lambda>_. io_return ())
      | Choice rules d \<Rightarrow> io_return ()) sts w = (Inr (), w')" for sts w
  proof (induction sts arbitrary: w)
    case (Cons st sts)
    from Cons.prems obtain w1 where "(case st of Task resource next_state \<Rightarrow> io_bind (io_try (activate_rs api resource)) (\<lambda>_. io_return ())
      | Choice rules d \<Rightarrow> io_return ()) w = (Inr (), w1)" by blast
    with Cons.IH [OF Cons.prems, of w1] show ?case by (auto simp: io_bind_def)
  qed simp
  then show ?thesis by (simp add: optimize_workflow_def)
qed

text \<open>A run of the loop that returns has followed finitely many states.\<close>

lemma choice_loop:
  assumes "after_choice ops flow rules d body = Some (wf_start_at flow, Choice rules d)"
  shows "walk ops api flow (Some (name, Choice rules d)) body final_res i w = None"
proof -
  have never: "\<not> (\<exists>nm. x = Some (nm, Choice rules d) \<and> after_choice ops flow rules d b = Some (wf_start_at flow, Choice rules d))"
    if "walk ops api flow x b fin i w = Some y" for ops :: "'w router_ops" and api flow x b fin i w y
  proof (rule walk.raw_induct [where P = "\<lambda>ops api flow x b fin i w y. \<not> (\<exists>nm. x = Some (nm, Choice rules d) \<and>
      after_choice ops flow rules d b = Some (wf_start_at flow, Choice rules d))", OF _ that], goal_cases)
    case (1 rec ops api flow x b fin i w y)
    show ?case
    proof
      assume "\<exists>nm. x = Some (nm, Choice rules d) \<and> after_choice ops flow rules d b = Some (wf_start_at flow, Choice rules d)"
      then obtain nm where x: "x = Some (nm, Choice rules d)"
        and again: "after_choice ops flow rules d b = Some (wf_start_at flow, Choice rules d)" by blast
      from 1(2) have "rec ops api flow (Some (wf_start_at flow, Choice rules d)) b
          (fin @ choice_report ops i nm rules b) (i + 1) w = Some y"
        by (simp add: x again)
      from 1(1) [OF this] again show False by simp
    qed
  qed
  show ?thesis
  proof (cases "walk ops api flow (Some (name, Choice rules d)) body final_res i w")
    case (Some y)
    from never [OF Some] assms show ?thesis by simp
  qed
qed

text \<open>
  C19. A workflow that starts with a choice whose fallback, for the given input, is the choice itself is walked forever: the request is never
  answered, although its validation accepted it.
\<close>

theorem choice_cycle_never_answers:
  assumes "get_workflow api name w = (Inr flow, w1)" and "hm_get (wf_states flow) (wf_start_at flow) = Some (Choice rules d)"
    and "d = wf_start_at flow" and "List.find (\<lambda>rule. match_with ops rule body) rules = None"
  shows "handle_workflow ops api name body w = None"
proof -
  obtain w2 where "optimize_workflow api flow w1 = (Inr (), w2)" using optimize_returns [of api flow w1] by blast
  moreover have "after_choice ops flow rules d body = Some (wf_start_at flow, Choice rules d)"
    using assms(2-4) by (simp add: after_choice_def state_named_def)
  ultimately show ?thesis
    using assms(2) by (simp add: handle_workflow_def assms(1) state_named_def choice_loop)
qed

text \<open>A path of tasks through the states: the resources in the order they are reached, up to the task without a next state.\<close>

fun task_path :: "workflow \<Rightarrow> string option \<Rightarrow> string list \<Rightarrow> bool" where
  "task_path flow next_state [] \<longleftrightarrow> next_state = None"
| "task_path flow next_state (r # rs) \<longleftrightarrow> (case next_state of
       None \<Rightarrow> False
     | Some s \<Rightarrow> (case hm_get (wf_states flow) s of
         Some (Task resource after) \<Rightarrow> resource = r \<and> task_path flow after rs
       | _ \<Rightarrow> False))"

text \<open>A function that is registered and answers every call: \<open>g r\<close> is what the function of the resource \<open>r\<close> computes.\<close>

definition computes :: "'w router_ops \<Rightarrow> 'w api \<Rightarrow> (string \<Rightarrow> string \<Rightarrow> string) \<Rightarrow> string \<Rightarrow> bool" where
  "computes ops api g r \<longleftrightarrow> (\<forall>w. \<exists>f w1 status. get_func api r w = (Inr f, w1) \<and> fn_status f = Some status \<and>
     (\<forall>b. \<exists>w2. ro_call ops (fst_host status) b w1 = (Inr (g r b), w2)))"

lemma walk_tasks:
  assumes "task_path flow next_state rs" and "\<forall>r \<in> set rs. computes ops api g r"
  shows "\<exists>report w'. walk ops api flow (after_task flow next_state) b fin i w =
    Some (Inr (fold g rs b, fin @ report, True), w')"
  using assms
proof (induction rs arbitrary: next_state b fin i w)
  case Nil
  then show ?case by (subst walk.simps) (simp add: after_task_def)
next
  case (Cons r rs)
  then obtain s after where s: "next_state = Some s" "hm_get (wf_states flow) s = Some (Task r after)"
      "task_path flow after rs"
    by (auto split: option.splits workflow_state.splits)
  from Cons.prems(2) have "computes ops api g r" by simp
  then obtain f w1 status where f: "get_func api r w = (Inr f, w1)" "fn_status f = Some status"
      "\<forall>b. \<exists>w2. ro_call ops (fst_host status) b w1 = (Inr (g r b), w2)"
    unfolding computes_def by meson
  then obtain w2 where call: "ro_call ops (fst_host status) b w1 = (Inr (g r b), w2)" by meson
  let ?fin = "fin @ task_header ops i s f (fst_host status) b @ ''  Succeeded!'' @ lf @ lf @ lf"
  obtain report w' where "walk ops api flow (after_task flow after) (g r b) ?fin (i + 1) w2 =
      Some (Inr (fold g rs (g r b), ?fin @ report, True), w')"
    using Cons.IH [OF s(3), of "g r b" ?fin "i + 1" w2] Cons.prems(2) by auto
  then show ?case
    by (subst walk.simps) (simp add: after_task_def s(1,2) state_named_def f(1,2) call Let_def)
qed

text \<open>
  C18. A workflow whose states are tasks in a row computes the composition of its functions: the answer ends with the last response, for
  every input, and whatever the activations that went before did.
\<close>

theorem workflow_composes_functions:
  assumes "get_workflow api name w = (Inr flow, w1)" and "task_path flow (Some (wf_start_at flow)) rs"
    and "\<forall>r \<in> set rs. computes ops api g r"
  shows "\<exists>report w'. handle_workflow ops api name body w = Some (Inr (ok_response
    (report @ ''Workflow succesfully finished! The final response is:'' @ lf @ ''  '' @ fold g rs body)), w')"
proof -
  obtain w2 where w2: "optimize_workflow api flow w1 = (Inr (), w2)" using optimize_returns [of api flow w1] by blast
  obtain report w' where "walk ops api flow (after_task flow (Some (wf_start_at flow))) body
      (''Workflow \"'' @ name @ ''\" begins!'' @ lf @ lf) 1 w2 =
    Some (Inr (fold g rs body, (''Workflow \"'' @ name @ ''\" begins!'' @ lf @ lf) @ report, True), w')"
    using walk_tasks [OF assms(2,3)] by blast
  then show ?thesis
    by (intro exI [of _ "(''Workflow \"'' @ name @ ''\" begins!'' @ lf @ lf) @ report"] exI [of _ w'])
      (simp add: handle_workflow_def assms(1) w2 after_task_def workflow_summary_def)
qed

text \<open>
  A workflow whose first function is not registered is answered as finished successfully, with the input as the final response.
\<close>

theorem missing_function_succeeds:
  assumes "get_workflow api name w = (Inr flow, w1)"
    and "hm_get (wf_states flow) (wf_start_at flow) = Some (Task resource after)"
    and "\<forall>w. \<exists>e w'. get_func api resource w = (Inl (Err e), w')"
  shows "\<exists>report w'. handle_workflow ops api name body w = Some (Inr (ok_response
    (report @ ''Workflow succesfully finished! The final response is:'' @ lf @ ''  '' @ body)), w')"
proof -
  obtain w2 where w2: "optimize_workflow api flow w1 = (Inr (), w2)" using optimize_returns [of api flow w1] by blast
  obtain e w3 where e: "get_func api resource w2 = (Inl (Err e), w3)" using assms(3) by blast
  have "walk ops api flow (state_named flow (wf_start_at flow) (wf_start_at flow)) body
      (''Workflow \"'' @ name @ ''\" begins!'' @ lf @ lf) 1 w2 =
    Some (Inr (body, (''Workflow \"'' @ name @ ''\" begins!'' @ lf @ lf) @ '' Failed, caused by: '' @ e, True), w3)"
    by (subst walk.simps) (simp add: state_named_def assms(2) e)
  then show ?thesis
    by (intro exI [of _ "(''Workflow \"'' @ name @ ''\" begins!'' @ lf @ lf) @ '' Failed, caused by: '' @ e"] exI [of _ w3])
      (simp add: handle_workflow_def assms(1) w2 workflow_summary_def)
qed

section \<open>Witnesses\<close>

definition table_api :: "(string \<times> kube_object) list \<Rightarrow> 'w api" where
  "table_api table r w = (Reply 200 None (map_option DObject (hm_get table (rq_path r))), w)"

definition echo_ops :: "unit router_ops" where
  "echo_ops = \<lparr>ro_functions = (\<lambda>_. []), ro_services = (\<lambda>_. []), ro_sleep = id, ro_count = (\<lambda>_. id),
     ro_forward = (\<lambda>req uri w. (Inr (ok_response uri), w)),
     ro_call = (\<lambda>host b w. (Inr (host @ ''<'' @ b @ ''>''), w)), ro_metrics = (\<lambda>w. (Inr [], w)),
     ro_parse = (\<lambda>_. None), ro_ordinal = (\<lambda>_. ''n-th'')\<rparr>"

definition echo_function :: "string \<Rightarrow> func" where
  "echo_function host = \<lparr>fn_metadata = metadata_default,
     fn_spec = \<lparr>fs_max_replicas = 10, fs_behavior = hpa_behavior_default, fs_metrics = default_metrics\<rparr>,
     fn_status = Some \<lparr>fst_service_ref = [], fst_filename = [], fst_host = host, fst_image = None\<rparr>\<rparr>"

definition echo_table :: "(string, workflow_state) hashmap \<Rightarrow> (string \<times> kube_object) list" where
  "echo_table states = [(''/api/v1/workflows/w'', KWorkflow \<lparr>wf_metadata = metadata_default, wf_start_at = ''a'', wf_states = states\<rparr>),
     (''/api/v1/functions/f'', KFunction (echo_function ''F'')), (''/api/v1/functions/g'', KFunction (echo_function ''G''))]"

lemma echo_workflow: "get_workflow (table_api (echo_table states)) ''w'' w =
    (Inr \<lparr>wf_metadata = metadata_default, wf_start_at = ''a'', wf_states = states\<rparr>, w)"
  by (simp add: get_workflow_def get_object_def api_send_def table_api_def echo_table_def io_bind_def)

lemma echo_func: "get_func (table_api (echo_table states)) ''f'' w = (Inr (echo_function ''F''), w)"
  "get_func (table_api (echo_table states)) ''g'' w = (Inr (echo_function ''G''), w)"
  "get_func (table_api (echo_table states)) ''h'' w = (Inl (Err ''Failed to get workflow object''), w)"
  by (simp_all add: get_func_def get_object_def api_send_def table_api_def echo_table_def io_bind_def)

theorem choice_cycle_never_answers_witness:
  "handle_workflow echo_ops (table_api (echo_table [(''a'', Choice [] ''a'')])) ''w'' ''{}'' () = None"
  by (rule choice_cycle_never_answers [OF echo_workflow, where rules = "[]" and d = "''a''"]) simp_all

theorem workflow_composes_functions_witness:
  "\<exists>report w'. handle_workflow echo_ops
      (table_api (echo_table [(''a'', Task ''f'' (Some ''b'')), (''b'', Task ''g'' None)])) ''w'' ''x'' () =
    Some (Inr (ok_response (report @ ''Workflow succesfully finished! The final response is:'' @ lf @ ''  '' @ ''G<F<x>>'')), w')"
proof -
  let ?api = "table_api (echo_table [(''a'', Task ''f'' (Some ''b'')), (''b'', Task ''g'' None)]) :: unit api"
  let ?g = "\<lambda>r b. (if r = ''f'' then ''F'' else ''G'') @ ''<'' @ b @ ''>''"
  have "computes echo_ops ?api ?g r" if "r \<in> set [''f'', ''g'']" for r
    using that by (auto simp: computes_def echo_func echo_function_def echo_ops_def)
  then have "\<exists>report w'. handle_workflow echo_ops ?api ''w'' ''x'' () = Some (Inr (ok_response
      (report @ ''Workflow succesfully finished! The final response is:'' @ lf @ ''  '' @ fold ?g [''f'', ''g''] ''x'')), w')"
    by (intro workflow_composes_functions [OF echo_workflow]) simp_all
  then show ?thesis by simp
qed

theorem missing_function_succeeds_witness:
  "\<exists>report w'. handle_workflow echo_ops (table_api (echo_table [(''a'', Task ''h'' None)])) ''w'' ''x'' () =
    Some (Inr (ok_response (report @ ''Workflow succesfully finished! The final response is:'' @ lf @ ''  '' @ ''x'')), w')"
  by (rule missing_function_succeeds [OF echo_workflow, where resource = "''h''" and after = None]) (simp_all add: echo_func)

end
