(* ===== verification/Ingress.thy ===== *)
theory Ingress
  imports Objects "HOL-Library.Sublist"
begin

text \<open>
  The ingress controller (\<open>controllers/src/ingress\<close>): it writes the rules of all ingresses into the configuration of nginx.
  The parser of the crate \<open>nginx_config\<close>, which the configuration is passed through, and the machine (the file and the reload command) are
  parameters. The informers only send a notification for every change; a turn of the loop reads both stores.

  The lemmas: the text of the configuration is the one of a reference printer, as long as the names do not contain the
  placeholders of the templates.
\<close>

section \<open>Templates\<close>

text \<open>\<open>str::replace\<close>: all occurrences from the left, which do not overlap; the pattern is not empty.\<close>

function replace_all :: "string \<Rightarrow> string \<Rightarrow> string \<Rightarrow> string" where
  "replace_all pat new [] = []"
| "replace_all pat new (c # s) =
     (if pat \<noteq> [] \<and> prefix pat (c # s) then new @ replace_all pat new (drop (length pat) (c # s))
      else c # replace_all pat new s)"
  by pat_completeness auto
termination by (relation "measure (\<lambda>(pat, new, s). length s)") (auto simp: Suc_le_eq)

abbreviation eol :: string where
  "eol \<equiv> [CHR 0x0A]"

definition config_header :: string where
  "config_header = eol @ ''user www-data;'' @ eol @ ''worker_processes auto;'' @ eol @ ''pid /run/nginx.pid;'' @ eol @
     ''include /etc/nginx/modules-enabled/*.conf;'' @ eol @ eol @ ''events {'' @ eol @ [CHR 0x09] @
     ''worker_connections 768;'' @ eol @ ''}'' @ eol @ eol"

definition config_base :: string where
  "config_base = eol @ ''http {'' @ eol @ ''    SERVERS'' @ eol @ eol @ ''    server {'' @ eol @
     ''        listen       80 default_server;'' @ eol @ ''        server_name  _;'' @ eol @ ''    '' @ eol @
     ''        # Everything is a 404'' @ eol @ ''        location / {'' @ eol @ ''            return 404;'' @ eol @
     ''        }'' @ eol @ ''    }'' @ eol @ ''}'' @ eol"

definition server_base :: string where
  "server_base = eol @ ''server {'' @ eol @ ''    server_name SERVER_NAME;'' @ eol @ ''    listen 80;'' @ eol @ eol @
     ''    LOCATIONS'' @ eol @ ''}'' @ eol"

definition location_base :: string where
  "location_base = eol @ ''location PATH {'' @ eol @ ''    proxy_pass http://IP:PORT/;'' @ eol @ ''}'' @ eol"

record nginx_path =
  np_path :: string
  np_ip :: ipv4
  np_port :: u16

record nginx_host =
  nh_host :: string
  nh_paths :: "nginx_path list"

definition host_new :: "string \<Rightarrow> nginx_host" where
  "host_new host = \<lparr>nh_host = host, nh_paths = []\<rparr>"

definition add_path :: "nginx_host \<Rightarrow> string \<Rightarrow> ipv4 \<Rightarrow> u16 \<Rightarrow> nginx_host" where
  "add_path h path svc_ip svc_port =
     h\<lparr>nh_paths := nh_paths h @ [\<lparr>np_path = path, np_ip = svc_ip, np_port = svc_port\<rparr>]\<rparr>"

definition path_text :: "nginx_path \<Rightarrow> string" where
  "path_text p = replace_all ''PORT'' (show_u16 (np_port p))
     (replace_all ''IP'' (show_ipv4 (np_ip p)) (replace_all ''PATH'' (np_path p) location_base))"

definition host_text :: "nginx_host \<Rightarrow> string" where
  "host_text h = (let out = replace_all ''SERVER_NAME'' (nh_host h) server_base;
       locations = fold (\<lambda>p acc. acc @ path_text p) (nh_paths h) []
     in replace_all ''LOCATIONS'' locations out)"

text \<open>\<open>parse\<close> parses the configuration and prints it; an error of the parser is a panic.\<close>

definition config_text :: "(string \<Rightarrow> string option) \<Rightarrow> nginx_host list \<Rightarrow> string outcome" where
  "config_text parse servers =
     (let out = replace_all ''SERVERS'' (fold (\<lambda>h acc. acc @ host_text h) servers []) config_base
      in case parse out of
           None \<Rightarrow> Inl (Panic ''called `Result::unwrap()` on an `Err` value'')
         | Some formatted \<Rightarrow> Inr (config_header @ formatted))"

section \<open>The controller\<close>

record 'w nginx_ops =
  ng_write :: "string \<Rightarrow> string \<Rightarrow> ('w, unit) io"
  ng_reload :: "('w, unit) io"

definition flush :: "(string \<Rightarrow> string option) \<Rightarrow> 'w nginx_ops \<Rightarrow> nginx_host list \<Rightarrow> ('w, unit) io" where
  "flush parse ops servers =
     (if servers = [] then io_return ()
      else io_bind (io_lift (config_text parse servers)) (\<lambda>config.
           io_bind (ng_write ops ''/etc/nginx/nginx.conf'' config) (\<lambda>_. ng_reload ops)))"

fun add_paths :: "(string, service) hashmap \<Rightarrow> ingress_path list \<Rightarrow> nginx_host \<Rightarrow> nginx_host outcome" where
  "add_paths svcs [] h = Inr h"
| "add_paths svcs (p # ps) h = (case hm_get svcs (''/api/v1/services/'' @ is_name (ip_service p)) of
       None \<Rightarrow> add_paths svcs ps h
     | Some svc \<Rightarrow> (case ss_cluster_ip (svc_spec svc) of
         None \<Rightarrow> Inl (Panic ''called `Option::unwrap()` on a `None` value'')
       | Some cluster_ip \<Rightarrow> add_paths svcs ps (add_path h (ip_path p) cluster_ip (is_port (ip_service p)))))"

fun add_rules :: "(string, service) hashmap \<Rightarrow> ingress_rule list \<Rightarrow> nginx_host list \<Rightarrow> nginx_host list outcome" where
  "add_rules svcs [] servers = Inr servers"
| "add_rules svcs (r # rs) servers = (case ir_host r of
       None \<Rightarrow> Inl (Panic ''called `Option::unwrap()` on a `None` value'')
     | Some host \<Rightarrow> (case add_paths svcs (ir_paths r) (host_new host) of
         Inl e \<Rightarrow> Inl e
       | Inr h \<Rightarrow> add_rules svcs rs (servers @ [h])))"

definition reconfigure_nginx ::
    "(string \<Rightarrow> string option) \<Rightarrow> 'w nginx_ops \<Rightarrow> (string, ingress) hashmap \<Rightarrow> (string, service) hashmap \<Rightarrow> ('w, unit) io" where
  "reconfigure_nginx parse ops ingresses svcs =
     io_bind (io_lift (add_rules svcs (concat (map ing_rules (hm_values ingresses))) [])) (\<lambda>servers. flush parse ops servers)"

text \<open>A turn of the loop: an error is logged, a panic ends the controller.\<close>

definition ingress_turn ::
    "(string \<Rightarrow> string option) \<Rightarrow> 'w nginx_ops \<Rightarrow> (string, ingress) hashmap \<Rightarrow> (string, service) hashmap \<Rightarrow> ('w, unit) io" where
  "ingress_turn parse ops ingresses svcs = io_bind (io_try (reconfigure_nginx parse ops ingresses svcs)) (\<lambda>_. io_return ())"

section \<open>Replacing\<close>

lemma prefix_delimiter:
  assumes "c \<notin> set pat"
  shows "prefix pat (a @ c # b) \<longleftrightarrow> prefix pat a"
  using assms by (auto simp: prefix_def append_eq_append_conv2 Cons_eq_append_conv)

lemma replace_delimiter:
  assumes "c \<notin> set pat"
  shows "replace_all pat new (a @ c # b) = replace_all pat new a @ c # replace_all pat new b"
  using assms
proof (induction pat new a rule: replace_all.induct)
  case (1 pat new)
  then show ?case by (cases pat) auto
next
  case (2 pat new x a)
  have pre: "prefix pat (x # (a @ c # b)) \<longleftrightarrow> prefix pat (x # a)"
    using prefix_delimiter [OF 2(3), of "x # a" b] by simp
  show ?case
  proof (cases "pat \<noteq> [] \<and> prefix pat (x # a)")
    case True
    then have "length pat \<le> length (x # a)" using prefix_length_le by blast
    then have "drop (length pat) (x # (a @ c # b)) = drop (length pat) (x # a) @ c # b"
      using True by (cases pat) auto
    with True 2(1) [OF True 2(3)] pre show ?thesis by simp
  next
    case False
    with 2(2) [OF False 2(3)] pre show ?thesis by auto
  qed
qed

lemma replace_absent: "\<not> sublist pat s \<Longrightarrow> replace_all pat new s = s"
proof (induction s)
  case (Cons c s)
  then have "\<not> prefix pat (c # s)" using prefix_imp_sublist by blast
  moreover from Cons.prems have "\<not> sublist pat s" by (meson sublist_order.order.trans sublist_Cons_right)
  ultimately show ?case using Cons.IH by simp
qed simp

section \<open>The reference printer\<close>

definition ref_location :: "nginx_path \<Rightarrow> string" where
  "ref_location p = eol @ ''location '' @ np_path p @ '' {'' @ eol @ ''    proxy_pass http://'' @ show_ipv4 (np_ip p) @ '':'' @
     show_u16 (np_port p) @ ''/;'' @ eol @ ''}'' @ eol"

definition ref_server :: "nginx_host \<Rightarrow> string" where
  "ref_server h = eol @ ''server {'' @ eol @ ''    server_name '' @ nh_host h @ '';'' @ eol @ ''    listen 80;'' @ eol @ eol @
     ''    '' @ concat (map ref_location (nh_paths h)) @ eol @ ''}'' @ eol"

definition ref_config :: "nginx_host list \<Rightarrow> string" where
  "ref_config servers = eol @ ''http {'' @ eol @ ''    '' @ concat (map ref_server servers) @ eol @ eol @ ''    server {'' @ eol @
     ''        listen       80 default_server;'' @ eol @ ''        server_name  _;'' @ eol @ ''    '' @ eol @
     ''        # Everything is a 404'' @ eol @ ''        location / {'' @ eol @ ''            return 404;'' @ eol @
     ''        }'' @ eol @ ''    }'' @ eol @ ''}'' @ eol"

text \<open>Names without the placeholders that are replaced after them.\<close>

definition plain_path :: "string \<Rightarrow> bool" where
  "plain_path p \<longleftrightarrow> \<not> sublist ''IP'' p \<and> \<not> sublist ''PORT'' p"

definition plain_host :: "string \<Rightarrow> bool" where
  "plain_host h \<longleftrightarrow> \<not> sublist ''LOCATIONS'' h"

lemma digits_no_P: "CHR ''P'' \<notin> set (dec_of_nat n)"
  using dec_of_nat_digits [of "CHR ''P''" n] by auto

lemma address_no_port: "\<not> sublist ''PORT'' (show_ipv4 ip)"
proof
  assume "sublist ''PORT'' (show_ipv4 ip)"
  then have "CHR ''P'' \<in> set (show_ipv4 ip)" by (auto simp: sublist_def)
  then show False by (simp add: show_ipv4_def Let_def digits_no_P)
qed

lemma path_text_ref:
  assumes "plain_path (np_path p)"
  shows "path_text p = ref_location p"
proof -
  have one: "replace_all ''PATH'' (np_path p) location_base =
      (eol @ ''location'') @ CHR '' '' # np_path p @ CHR '' '' # (''{'' @ eol @ ''    proxy_pass http://IP:PORT/;'' @ eol @ ''}'' @ eol)"
    by (simp add: location_base_def)
  have two: "replace_all ''IP'' (show_ipv4 (np_ip p)) (replace_all ''PATH'' (np_path p) location_base) =
      (eol @ ''location'') @ CHR '' '' # np_path p @ CHR '' '' # (''{'' @ eol @ ''    proxy_pass http:/'') @ CHR ''/'' # show_ipv4 (np_ip p) @ CHR '':'' #
        (''PORT/;'' @ eol @ ''}'' @ eol)"
    unfolding one using assms by (simp add: replace_delimiter replace_absent plain_path_def)
  show ?thesis
    unfolding path_text_def two using assms
    by (simp add: replace_delimiter replace_absent plain_path_def address_no_port ref_location_def)
qed

lemma fold_texts: "fold (\<lambda>x acc. acc @ f x) xs acc = acc @ concat (map f xs)"
  by (induction xs arbitrary: acc) simp_all

lemma host_text_ref:
  assumes "plain_host (nh_host h)" and "\<forall>p \<in> set (nh_paths h). plain_path (np_path p)"
  shows "host_text h = ref_server h"
proof -
  have paths: "map path_text (nh_paths h) = map ref_location (nh_paths h)" using assms(2) by (simp add: path_text_ref)
  have locations: "fold (\<lambda>p acc. acc @ path_text p) (nh_paths h) [] = concat (map ref_location (nh_paths h))"
    unfolding fold_texts paths by simp
  have out: "replace_all ''SERVER_NAME'' (nh_host h) server_base =
      (eol @ ''server {'' @ eol @ ''    server_name'') @ CHR '' '' # nh_host h @ CHR '';'' #
        (eol @ ''    listen 80;'' @ eol @ eol @ ''    LOCATIONS'' @ eol @ ''}'' @ eol)"
    by (simp add: server_base_def)
  show ?thesis
    unfolding host_text_def Let_def locations out using assms(1)
    by (simp add: replace_delimiter replace_absent plain_host_def ref_server_def)
qed

lemma config_text_ref:
  assumes "\<forall>h \<in> set servers. plain_host (nh_host h) \<and> (\<forall>p \<in> set (nh_paths h). plain_path (np_path p))"
  shows "config_text parse servers = (case parse (ref_config servers) of
    None \<Rightarrow> Inl (Panic ''called `Result::unwrap()` on an `Err` value'') | Some formatted \<Rightarrow> Inr (config_header @ formatted))"
proof -
  have hosts: "map host_text servers = map ref_server servers" using assms by (simp add: host_text_ref)
  have "fold (\<lambda>h acc. acc @ host_text h) servers [] = concat (map ref_server servers)"
    unfolding fold_texts hosts by simp
  moreover have "replace_all ''SERVERS'' (concat (map ref_server servers)) config_base = ref_config servers"
    by (simp add: config_base_def ref_config_def)
  ultimately show ?thesis by (simp add: config_text_def Let_def)
qed

section \<open>The rules\<close>

text \<open>The servers the rules ask for: a path to a service that does not exist is left out.\<close>

definition path_target :: "(string, service) hashmap \<Rightarrow> ingress_path \<Rightarrow> nginx_path option" where
  "path_target svcs p = Option.bind (hm_get svcs (''/api/v1/services/'' @ is_name (ip_service p))) (\<lambda>svc.
     map_option (\<lambda>ip. \<lparr>np_path = ip_path p, np_ip = ip, np_port = is_port (ip_service p)\<rparr>) (ss_cluster_ip (svc_spec svc)))"

definition rule_server :: "(string, service) hashmap \<Rightarrow> ingress_rule \<Rightarrow> nginx_host" where
  "rule_server svcs r = \<lparr>nh_host = (case ir_host r of None \<Rightarrow> [] | Some host \<Rightarrow> host),
     nh_paths = List.map_filter (path_target svcs) (ir_paths r)\<rparr>"

text \<open>Every rule has a host without a placeholder, every path is plain, and the services it names have an address.\<close>

definition good_rule :: "(string, service) hashmap \<Rightarrow> ingress_rule \<Rightarrow> bool" where
  "good_rule svcs r \<longleftrightarrow> (case ir_host r of None \<Rightarrow> False | Some host \<Rightarrow> plain_host host) \<and>
     list_all (\<lambda>p. plain_path (ip_path p) \<and>
       (case hm_get svcs (''/api/v1/services/'' @ is_name (ip_service p)) of
          None \<Rightarrow> True | Some svc \<Rightarrow> ss_cluster_ip (svc_spec svc) \<noteq> None)) (ir_paths r)"

lemma add_paths_run:
  assumes "list_all (\<lambda>p. case hm_get svcs (''/api/v1/services/'' @ is_name (ip_service p)) of
     None \<Rightarrow> True | Some svc \<Rightarrow> ss_cluster_ip (svc_spec svc) \<noteq> None) ps"
  shows "add_paths svcs ps h = Inr (h\<lparr>nh_paths := nh_paths h @ List.map_filter (path_target svcs) ps\<rparr>)"
  using assms
proof (induction ps arbitrary: h)
  case (Cons p ps)
  then show ?case
    by (cases "hm_get svcs (''/api/v1/services/'' @ is_name (ip_service p))")
      (auto simp: map_filter_simps path_target_def add_path_def simp del: append.simps)
qed (simp add: map_filter_simps)

lemma add_rules_run:
  assumes "\<forall>r \<in> set rules. good_rule svcs r"
  shows "add_rules svcs rules servers = Inr (servers @ map (rule_server svcs) rules)"
  using assms
proof (induction rules arbitrary: servers)
  case (Cons r rules)
  then have "good_rule svcs r" by simp
  then have "list_all (\<lambda>p. case hm_get svcs (''/api/v1/services/'' @ is_name (ip_service p)) of
     None \<Rightarrow> True | Some svc \<Rightarrow> ss_cluster_ip (svc_spec svc) \<noteq> None) (ir_paths r)" and "ir_host r \<noteq> None"
    by (auto simp: good_rule_def list_all_iff split: option.splits)
  with Cons show ?case by (auto simp: add_paths_run rule_server_def host_new_def)
qed simp

lemma rule_server_plain:
  assumes "good_rule svcs r"
  shows "plain_host (nh_host (rule_server svcs r)) \<and> (\<forall>p \<in> set (nh_paths (rule_server svcs r)). plain_path (np_path p))"
  using assms
  by (auto simp: good_rule_def rule_server_def map_filter_def path_target_def list_all_iff split: option.splits bind_splits)


text \<open>A path with a placeholder in it is not passed on as it is.\<close>

lemma placeholder_in_path:
  "path_text \<lparr>np_path = ''/SHIPS'', np_ip = 0, np_port = 80\<rparr> =
    eol @ ''location /SH0.0.0.0S {'' @ eol @ ''    proxy_pass http://0.0.0.0:80/;'' @ eol @ ''}'' @ eol"
  by (simp add: path_text_def location_base_def show_ipv4_def show_u16_def Let_def dec_of_nat.simps char_of_eq_iff)

section \<open>Witness\<close>

definition shop_ingress :: ingress where
  "shop_ingress = \<lparr>ing_metadata = metadata_default, ing_rules = [\<lparr>ir_host = Some ''shop.example'',
     ir_paths = [\<lparr>ip_path = ''/cart'', ip_service = \<lparr>is_name = ''cart'', is_port = 80\<rparr>\<rparr>]\<rparr>]\<rparr>"

definition cart_service :: service where
  "cart_service = \<lparr>svc_metadata = metadata_default, svc_spec = \<lparr>ss_selector = [], ss_ports = [], ss_endpoints = [],
     ss_cluster_ip = Some 2886729729\<rparr>\<rparr>"

definition note_ops :: "(string \<times> string) list nginx_ops" where
  "note_ops = \<lparr>ng_write = (\<lambda>file text w. (Inr (), w @ [(file, text)])), ng_reload = (\<lambda>w. (Inr (), w))\<rparr>"

lemma not_sublist: "length p > length s \<Longrightarrow> \<not> sublist p s"
  by (auto dest: sublist_length_le)


end
