(* ===== verification/Describe.thy ===== *)
theory Describe
  imports Objects
begin

text \<open>
  The texts of objects (the \<open>Display\<close> implementations of \<open>resources/src/objects\<close>), which \<open>rkubectl describe\<close> prints. The crate
  \<open>indenter\<close> and the local time are parameters: a printer has the function that indents a text and the one that
  prints a time.
\<close>

section \<open>Formatting\<close>

abbreviation eoln :: string where
  "eoln \<equiv> [CHR 0x0A]"

text \<open>\<open>{:<n}\<close>: padded with blanks on the right.\<close>

definition pad :: "nat \<Rightarrow> string \<Rightarrow> string" where
  "pad n s = s @ replicate (n - length s) (CHR '' '')"

definition show_i64 :: "i64 \<Rightarrow> string" where
  "show_i64 n = (if n <s 0 then ''-'' @ dec_of_nat (nat (- sint n)) else dec_of_nat (nat (sint n)))"

definition show_u64 :: "u64 \<Rightarrow> string" where
  "show_u64 n = dec_of_nat (unat n)"

text \<open>A line \<open>{:<n} {}\<close> of a name and a value.\<close>

definition field_line :: "nat \<Rightarrow> string \<Rightarrow> string \<Rightarrow> string" where
  "field_line n name v = pad n name @ '' '' @ v @ eoln"

record printer =
  pr_indented :: "string \<Rightarrow> string"
  pr_local_time :: "time \<Rightarrow> string"

text \<open>\<open>strum::Display\<close> prints the name of the variant.\<close>

definition show_phase :: "pod_phase \<Rightarrow> string" where
  "show_phase p = (case p of Pending \<Rightarrow> ''Pending'' | Running \<Rightarrow> ''Running'' | Succeeded \<Rightarrow> ''Succeeded'' | Failed \<Rightarrow> ''Failed'')"

definition show_condition_type :: "pod_condition_type \<Rightarrow> string" where
  "show_condition_type t = (case t of ContainersReady \<Rightarrow> ''ContainersReady'' | PodScheduled \<Rightarrow> ''PodScheduled'' | Ready \<Rightarrow> ''Ready'')"

definition show_container_state :: "container_state \<Rightarrow> string" where
  "show_container_state s = (case s of CRunning \<Rightarrow> ''Running'' | CTerminated _ \<Rightarrow> ''Terminated'' | CWaiting \<Rightarrow> ''Waiting'')"

definition show_volume_config :: "volume_config \<Rightarrow> string" where
  "show_volume_config c = (case c of HostPath _ \<Rightarrow> ''HostPath'' | EmptyDir \<Rightarrow> ''EmptyDir'')"

definition show_address_type :: "node_address_type \<Rightarrow> string" where
  "show_address_type t = (case t of Hostname \<Rightarrow> ''Hostname'' | ExternalIP \<Rightarrow> ''ExternalIP'' | InternalIP \<Rightarrow> ''InternalIP'')"

definition show_bool :: "bool \<Rightarrow> string" where
  "show_bool b = (if b then ''true'' else ''false'')"

section \<open>Pods\<close>

definition show_volume_mount :: "volume_mount \<Rightarrow> string" where
  "show_volume_mount m = vm_mount_path m @ '' from '' @ vm_name m"

definition show_quantity :: "resource_quantity \<Rightarrow> string" where
  "show_quantity r = field_line 8 ''CPU:'' (show_i64 (rq_cpu r)) @ field_line 8 ''Memory:'' (show_i64 (rq_memory r))"

definition show_requirements :: "printer \<Rightarrow> resource_requirements \<Rightarrow> string" where
  "show_requirements pr r = ''  Requests:'' @ eoln @ pr_indented pr (show_quantity (rr_requests r)) @
     ''  Limits:'' @ eoln @ pr_indented pr (show_quantity (rr_limits r))"

definition show_volume :: "volume \<Rightarrow> string" where
  "show_volume v = pad 16 (vo_name v) @ '': '' @ show_volume_config (vo_config v) @ eoln"

definition show_container_pair :: "printer \<Rightarrow> container \<times> container_status option \<Rightarrow> string" where
  "show_container_pair pr = (\<lambda>(container, status).
     field_line 16 ''Image:'' (co_image container) @
     field_line 16 ''Port:'' (join '','' (map show_u16 (co_ports container))) @
     (case status of
        Some status \<Rightarrow> field_line 16 ''Container ID:'' (cs_container_id status) @
          field_line 16 ''State:'' (show_container_state (cs_state status)) @
          field_line 16 ''Restart Count:'' (show_u32 (cs_restart_count status))
      | None \<Rightarrow> []) @
     (if co_volume_mounts container = [] then []
      else ''Mounts'' @ eoln @ concat (map (\<lambda>m. pr_indented pr (show_volume_mount m @ eoln)) (co_volume_mounts container))) @
     ''Resources:'' @ eoln @ show_requirements pr (co_resources container))"

definition show_pod :: "printer \<Rightarrow> pod \<Rightarrow> string" where
  "show_pod pr p = field_line 16 ''Name:'' (md_name (pod_metadata p)) @
     (case pod_status p of
        None \<Rightarrow> []
      | Some status \<Rightarrow>
          field_line 16 ''Node:'' (case_option ''<none>'' id (ps_node_name (pod_spec p)) @ ''/'' @
            case_option ''<none>'' id (pst_host_ip status)) @
          field_line 16 ''Start Time:'' (pr_local_time pr (pst_start_time status)) @
          field_line 16 ''Labels:'' (labels_to_string (md_labels (pod_metadata p))) @
          field_line 16 ''Phase:'' (show_phase (pst_phase status)) @
          field_line 16 ''IP:'' (case_option ''<none>'' show_ipv4 (pst_pod_ip status)) @
          ''Containers:'' @ eoln @
          concat (map (\<lambda>pair. ''  '' @ co_name (fst pair) @ '':'' @ eoln @ pr_indented pr (show_container_pair pr pair))
            (container_pairs p)) @
          ''Conditions:'' @ eoln @
          pr_indented pr (pad 16 ''Type'' @ '' '' @ pad 8 ''Status'' @ eoln) @
          concat (map (\<lambda>(condition_type, condition).
            pr_indented pr (pad 16 (show_condition_type condition_type) @ '' '' @ pad 8 (show_bool condition) @ eoln))
            (pst_conditions status)) @
          (if ps_volumes (pod_spec p) = [] then []
           else ''Volumes:'' @ eoln @
             concat (map (\<lambda>volume. pr_indented pr (show_volume volume @ eoln)) (ps_volumes (pod_spec p)))))"

section \<open>Nodes and replica sets\<close>

definition show_capacity :: "capacity \<Rightarrow> string" where
  "show_capacity c = ''CPU: '' @ show_u16 (cap_cpu c) @ eoln @ ''Memory: '' @ show_u64 (cap_memory c) @ ''KB'' @ eoln"

definition show_node_info :: "node_info \<Rightarrow> string" where
  "show_node_info i = field_line 20 ''Architecture:'' (ni_architecture i) @ field_line 20 ''Machine ID:'' (ni_machine_id i) @
     field_line 20 ''Operating System:'' (ni_operating_system i) @ field_line 20 ''OS Image:'' (ni_os_image i)"

definition show_node :: "printer \<Rightarrow> node \<Rightarrow> string" where
  "show_node pr n = (let status = node_status n in
     field_line 16 ''Name:'' (md_name (node_metadata n)) @
     field_line 16 ''Labels:'' (labels_to_string (md_labels (node_metadata n))) @
     field_line 16 ''Last Heartbeat:'' (pr_local_time pr (ns_last_heartbeat status)) @
     ''Addresses:'' @ eoln @
     concat (map (\<lambda>(address_type, address). pr_indented pr (show_address_type address_type @ '': '' @ address @ eoln))
       (ns_addresses status)) @
     ''Capacity:'' @ eoln @ pr_indented pr (show_capacity (ns_capacity status)) @
     ''Allocatable:'' @ eoln @ pr_indented pr (show_capacity (ns_allocatable status)) @
     ''System Info:'' @ eoln @ pr_indented pr (show_node_info (ns_node_info status)))"

definition show_replica_set :: "replica_set \<Rightarrow> string" where
  "show_replica_set rs = field_line 16 ''Name:'' (md_name (rs_metadata rs)) @
     field_line 16 ''Selector:'' (labels_to_string (rsp_selector (rs_spec rs))) @
     field_line 16 ''Labels:'' (labels_to_string (md_labels (rs_metadata rs))) @
     (case rs_status rs of
        None \<Rightarrow> []
      | Some status \<Rightarrow> field_line 16 ''Replicas:''
          (show_u32 (rss_ready_replicas status) @ '' ready / '' @ show_u32 (rss_replicas status) @ '' current / '' @
           show_u32 (rsp_replicas (rs_spec rs)) @ '' desired''))"

end
