(* ===== verification/Rkubectl.thy ===== *)
theory Rkubectl
  imports Http Describe
begin

text \<open>
  The command line client (\<open>rkubectl/src\<close>): its commands send requests to the API server and print tables. The state of a command is the
  text it has printed and the world; the client of the API server, the files and the text of an age
  (crate \<open>chrono_humanize\<close>), the indentation and the derived \<open>Debug\<close> texts are parameters.
\<close>

section \<open>Requests and printing\<close>

text \<open>
  The answer to a request: its status and, when the body is JSON, the fields of \<open>Response\<close> and
  \<open>ErrResponse\<close>, of which a body has \<open>msg\<close> and one of the others. The data of the logs is a text.
\<close>

datatype ctl_data = CtlData reply_data | CtlText string

datatype ctl_json = CtlJson (json_msg: "string option") (json_cause: "string option") (json_data: "ctl_data option")

datatype ctl_answer = CtlFailed string | CtlAnswer nat "ctl_json option"

text \<open>The body of a request: none, JSON, or a form with the object and the uploaded code file.\<close>

datatype ctl_body = CtlEmpty | CtlObject kube_object | CtlForm string kube_object "string option" string

record 'w ctl =
  ct_send :: "http_method \<Rightarrow> string \<Rightarrow> ctl_body \<Rightarrow> 'w \<Rightarrow> ctl_answer \<times> 'w"
  ct_parse_yaml :: "string \<Rightarrow> kube_object outcome"
  ct_read_file :: "string \<Rightarrow> ('w, string) io"
  ct_file_name :: "string \<Rightarrow> string option"
  ct_age :: "time \<Rightarrow> string"
  ct_printer :: printer
  ct_debug :: "kube_object \<Rightarrow> string"
  ct_status_error :: "nat \<Rightarrow> string \<Rightarrow> string"

type_synonym ('w, 'a) cmd = "(string \<times> 'w, 'a) io"

definition print_text :: "string \<Rightarrow> ('w, unit) cmd" where
  "print_text s = (\<lambda>(out, w). (Inr (), (out @ s, w)))"

definition in_cmd :: "('w, 'a) io \<Rightarrow> ('w, 'a) cmd" where
  "in_cmd m = (\<lambda>(out, w). case m w of (r, w') \<Rightarrow> (r, (out, w')))"

definition row :: "(nat \<times> string) list \<Rightarrow> string" where
  "row columns = join '' '' (map (\<lambda>(n, s). pad n s) columns) @ eoln"

definition gen_url :: "string \<Rightarrow> string option \<Rightarrow> string" where
  "gen_url kinds name = (case name of
       Some name \<Rightarrow> ''/api/v1/'' @ to_lowercase kinds @ ''/'' @ name
     | None \<Rightarrow> ''/api/v1/'' @ to_lowercase kinds)"

definition send_raw :: "'w ctl \<Rightarrow> http_method \<Rightarrow> string \<Rightarrow> ctl_body \<Rightarrow> ('w, nat \<times> ctl_json option) cmd" where
  "send_raw c m url body = in_cmd (\<lambda>w. case ct_send c m url body w of
       (CtlFailed e, w') \<Rightarrow> (Inl (Err e), w')
     | (CtlAnswer status json, w') \<Rightarrow> (Inr (status, json), w'))"

abbreviation no_json :: fault where
  "no_json \<equiv> Err ''error decoding response body''"

definition as_json :: "ctl_json option \<Rightarrow> ('s, ctl_json) io" where
  "as_json json = io_lift (ok_or no_json json)"

definition send_request :: "'w ctl \<Rightarrow> http_method \<Rightarrow> string \<Rightarrow> ctl_body \<Rightarrow> ('w, ctl_json) cmd" where
  "send_request c m url body = io_bind (send_raw c m url body) (\<lambda>(status, json). as_json json)"

text \<open>
  \<open>CreateRes\<close>, \<open>PatchRes\<close> and \<open>DeleteRes\<close> have a message that is not optional, the first two a cause.
\<close>

definition message_of :: "ctl_json \<Rightarrow> ('s, string) io" where
  "message_of json = io_lift (ok_or no_json (json_msg json))"

definition message_or_cause :: "ctl_json \<Rightarrow> ('s, string) io" where
  "message_or_cause json = io_bind (message_of json) (\<lambda>msg. case json_cause json of
       Some cause \<Rightarrow> io_fail (Err (msg @ '': '' @ cause))
     | None \<Rightarrow> io_return msg)"

section \<open>Getting objects\<close>

definition get_one :: "'w ctl \<Rightarrow> string \<Rightarrow> ('w, kube_object option) cmd" where
  "get_one c url = io_bind (send_request c GET url CtlEmpty) (\<lambda>json. case json_data json of
       None \<Rightarrow> io_return None
     | Some (CtlData (DObject x)) \<Rightarrow> io_return (Some x)
     | Some _ \<Rightarrow> io_fail no_json)"

definition get_all :: "'w ctl \<Rightarrow> string \<Rightarrow> ('w, kube_object list) cmd" where
  "get_all c url = io_bind (send_request c GET url CtlEmpty) (\<lambda>json. case json_data json of
       None \<Rightarrow> io_return []
     | Some (CtlData (DObjects xs)) \<Rightarrow> io_return xs
     | Some _ \<Rightarrow> io_fail no_json)"

definition get_data :: "'w ctl \<Rightarrow> string \<Rightarrow> string option \<Rightarrow> ('w, kube_object list) cmd" where
  "get_data c kinds name =
     (if name = None then get_all c (gen_url kinds name)
      else io_bind (get_one c (gen_url kinds name)) (\<lambda>x. io_return (case x of None \<Rightarrow> [] | Some x \<Rightarrow> [x])))"

section \<open>The table of a kind\<close>

datatype resource_kind = RkPods | RkReplicaSets | RkServices | RkIngresses | RkHorizontalPodAutoscalers | RkGpuJobs
  | RkNodes | RkFunctions | RkWorkflows

definition show_kind :: "resource_kind \<Rightarrow> string" where
  "show_kind k = (case k of RkPods \<Rightarrow> ''pods'' | RkReplicaSets \<Rightarrow> ''replicasets'' | RkServices \<Rightarrow> ''services''
     | RkIngresses \<Rightarrow> ''ingresses'' | RkHorizontalPodAutoscalers \<Rightarrow> ''horizontalpodautoscalers''
     | RkGpuJobs \<Rightarrow> ''gpujobs'' | RkNodes \<Rightarrow> ''nodes'' | RkFunctions \<Rightarrow> ''functions'' | RkWorkflows \<Rightarrow> ''workflows'')"

definition unwrap_or_panic :: "string \<Rightarrow> 'a option \<Rightarrow> ('s, 'a) io" where
  "unwrap_or_panic msg x = io_lift (ok_or (Panic msg) x)"

abbreviation unwrap_none :: string where
  "unwrap_none \<equiv> ''called `Option::unwrap()` on a `None` value''"

definition pod_row :: "'w ctl \<Rightarrow> kube_object \<Rightarrow> ('w, unit) cmd" where
  "pod_row c x = (case x of
       KPod p \<Rightarrow> io_bind (unwrap_or_panic unwrap_none (pod_status p)) (\<lambda>status.
         let restarts = fold (\<lambda>s n. n + cs_restart_count s) (pst_container_statuses status) 0
         in print_text (row [(20, md_name (pod_metadata p)), (10, show_phase (pst_phase status)), (8, show_u32 restarts),
           (10, ct_age c (pst_start_time status))]))
     | _ \<Rightarrow> io_return ())"

definition rs_row :: "kube_object \<Rightarrow> ('w, unit) cmd" where
  "rs_row x = (case x of
       KReplicaSet rs \<Rightarrow> (let status = case_option replica_set_status_default id (rs_status rs)
         in print_text (row [(20, md_name (rs_metadata rs)), (8, show_u32 (rsp_replicas (rs_spec rs))),
           (8, show_u32 (rss_replicas status)), (8, show_u32 (rss_ready_replicas status))]))
     | _ \<Rightarrow> io_return ())"

definition port_text :: "service_port \<Rightarrow> string" where
  "port_text p = (if sp_port p = sp_target_port p then show_u16 (sp_port p)
     else show_u16 (sp_port p) @ '':'' @ show_u16 (sp_target_port p) @ '','')"

definition svc_row :: "kube_object \<Rightarrow> ('w, unit) cmd" where
  "svc_row x = (case x of
       KService svc \<Rightarrow> io_bind (io_lift (ok_or (Err ''Service should always have a cluster IP'') (ss_cluster_ip (svc_spec svc)))) (\<lambda>ip.
         print_text (row [(20, md_name (svc_metadata svc)), (16, show_ipv4 ip), (20, join '','' (map port_text (ss_ports (svc_spec svc)))),
           (0, join '','' (map show_ipv4 (ss_endpoints (svc_spec svc))))]))
     | _ \<Rightarrow> io_return ())"

definition ingress_path_text :: "ingress_path \<Rightarrow> string" where
  "ingress_path_text p = ip_path p @ '':'' @ is_name (ip_service p) @ '':'' @ show_u16 (is_port (ip_service p))"

definition ingress_row :: "kube_object \<Rightarrow> ('w, unit) cmd" where
  "ingress_row x = (case x of
       KIngress ing \<Rightarrow> io_each (\<lambda>rule. io_bind (unwrap_or_panic unwrap_none (ir_host rule)) (\<lambda>host.
         print_text (row [(20, md_name (ing_metadata ing)), (30, host), (0, join '','' (map ingress_path_text (ir_paths rule)))])))
         (ing_rules ing)
     | _ \<Rightarrow> io_return ())"

definition last_scale :: "'w ctl \<Rightarrow> hpa_status \<Rightarrow> string" where
  "last_scale c status = (case hst_last_scale_time status of None \<Rightarrow> ''Never'' | Some t \<Rightarrow> ct_age c t)"

definition hpa_row :: "'w ctl \<Rightarrow> kube_object \<Rightarrow> ('w, unit) cmd" where
  "hpa_row c x = (case x of
       KHorizontalPodAutoscaler hpa \<Rightarrow>
         io_bind (io_lift (ok_or (Err ''HorizontalPodAutoscaler has no status'') (hpa_status hpa))) (\<lambda>status.
         print_text (row [(16, md_name (hpa_metadata hpa)),
           (24, or_kind (hs_scale_target_ref (hpa_spec hpa)) @ ''/'' @ or_name (hs_scale_target_ref (hpa_spec hpa))),
           (8, show_u32 (hst_current_replicas status)), (8, show_u32 (hst_desired_replicas status)), (0, last_scale c status)]))
     | _ \<Rightarrow> io_return ())"

definition job_row :: "kube_object \<Rightarrow> ('w, unit) cmd" where
  "job_row x = (case x of
       KGpuJob job \<Rightarrow> (let status = case_option gpu_job_status_default id (gj_status job)
         in print_text (row [(20, md_name (gj_metadata job)), (10, show_u32 (gs_completions (gj_spec job))),
           (8, show_u32 (gst_active status)), (8, show_u32 (gst_failed status)), (8, show_u32 (gst_succeeded status))]))
     | _ \<Rightarrow> io_return ())"

definition node_row :: "'w ctl \<Rightarrow> kube_object \<Rightarrow> ('w, unit) cmd" where
  "node_row c x = (case x of
       KNode n \<Rightarrow> print_text (row [(16, md_name (node_metadata n)), (16, ct_age c (ns_last_heartbeat (node_status n))),
         (0, case hm_get (ns_addresses (node_status n)) InternalIP of None \<Rightarrow> [] | Some ip \<Rightarrow> ip)])
     | _ \<Rightarrow> io_return ())"

text \<open>The row of a function takes a request for its autoscaler.\<close>

definition function_state :: "function_status \<Rightarrow> hpa_status \<Rightarrow> string" where
  "function_state status h = (if fst_image status = None then ''Pending''
     else if hst_current_replicas h > 0 then ''Ready'' else ''Hibernated'')"

definition function_row :: "'w ctl \<Rightarrow> kube_object \<Rightarrow> ('w, unit) cmd" where
  "function_row c x = (case x of
       KFunction f \<Rightarrow>
         io_bind (unwrap_or_panic ''Function has no status'' (fn_status f)) (\<lambda>status.
         io_bind (get_one c (gen_url ''horizontalpodautoscalers'' (Some (md_name (fn_metadata f))))) (\<lambda>found.
         io_bind (unwrap_or_panic ''Failed to get HPA'' found) (\<lambda>found. case found of
             KHorizontalPodAutoscaler hpa \<Rightarrow> io_bind (unwrap_or_panic ''HPA has no status'' (hpa_status hpa)) (\<lambda>h.
               print_text (row [(16, md_name (fn_metadata f)), (10, function_state status h), (8, show_u32 (hst_current_replicas h)),
                 (8, show_u32 (hst_desired_replicas h)), (16, last_scale c h), (0, fst_host status)]))
           | _ \<Rightarrow> io_return ())))
     | _ \<Rightarrow> io_return ())"

definition workflow_row :: "kube_object \<Rightarrow> ('w, unit) cmd" where
  "workflow_row x = (case x of
       KWorkflow flow \<Rightarrow> print_text (row [(10, md_name (wf_metadata flow)),
         (0, md_name (wf_metadata flow) @ ''.workflow.func.minik8s.com'')])
     | _ \<Rightarrow> io_return ())"

definition table_header :: "resource_kind \<Rightarrow> string" where
  "table_header k = row (case k of
       RkPods \<Rightarrow> [(20, ''NAME''), (10, ''STATUS''), (8, ''RESTARTS''), (10, ''AGE'')]
     | RkReplicaSets \<Rightarrow> [(20, ''NAME''), (8, ''DESIRED''), (8, ''CURRENT''), (8, ''READY'')]
     | RkServices \<Rightarrow> [(20, ''NAME''), (16, ''CLUSTER-IP''), (20, ''PORTS''), (0, ''ENDPOINTS'')]
     | RkIngresses \<Rightarrow> [(20, ''NAME''), (30, ''HOST''), (0, ''PATH:SERVICE:PORT'')]
     | RkHorizontalPodAutoscalers \<Rightarrow> [(16, ''NAME''), (24, ''REFERENCE''), (8, ''CURRENT''), (8, ''DESIRED''), (0, ''LAST-SCALE'')]
     | RkGpuJobs \<Rightarrow> [(20, ''NAME''), (10, ''DESIRED''), (8, ''ACTIVE''), (8, ''FAILED''), (8, ''SUCCEEDED'')]
     | RkNodes \<Rightarrow> [(16, ''NAME''), (16, ''LAST HEARTBEAT''), (0, ''INTERNAL-IP'')]
     | RkFunctions \<Rightarrow> [(16, ''NAME''), (10, ''STATUS''), (8, ''CURRENT''), (8, ''DESIRED''), (16, ''LAST-SCALE''), (0, ''HOST'')]
     | RkWorkflows \<Rightarrow> [(10, ''Name''), (0, ''HOST'')])"

definition table_row :: "'w ctl \<Rightarrow> resource_kind \<Rightarrow> kube_object \<Rightarrow> ('w, unit) cmd" where
  "table_row c k = (case k of
       RkPods \<Rightarrow> pod_row c | RkReplicaSets \<Rightarrow> rs_row | RkServices \<Rightarrow> svc_row | RkIngresses \<Rightarrow> ingress_row
     | RkHorizontalPodAutoscalers \<Rightarrow> hpa_row c | RkGpuJobs \<Rightarrow> job_row | RkNodes \<Rightarrow> node_row c
     | RkFunctions \<Rightarrow> function_row c | RkWorkflows \<Rightarrow> workflow_row)"

definition ctl_get :: "'w ctl \<Rightarrow> resource_kind \<Rightarrow> string option \<Rightarrow> ('w, unit) cmd" where
  "ctl_get c k name =
     io_bind (get_data c (show_kind k) name) (\<lambda>xs.
     io_bind (print_text (table_header k)) (\<lambda>_. io_each (table_row c k) xs))"

text \<open>Pods, replica sets and nodes are printed by their \<open>Display\<close>, other objects by the derived \<open>Debug\<close>.\<close>

definition describe_text :: "'w ctl \<Rightarrow> kube_object \<Rightarrow> string" where
  "describe_text c x = (case x of
       KPod p \<Rightarrow> show_pod (ct_printer c) p
     | KReplicaSet rs \<Rightarrow> show_replica_set rs
     | KNode n \<Rightarrow> show_node (ct_printer c) n
     | _ \<Rightarrow> ct_debug c x)"

definition ctl_describe :: "'w ctl \<Rightarrow> resource_kind \<Rightarrow> string option \<Rightarrow> ('w, unit) cmd" where
  "ctl_describe c k name = io_bind (get_data c (show_kind k) name) (\<lambda>xs.
     io_each (\<lambda>x. print_text (describe_text c x @ eoln)) xs)"

section \<open>Commands that change objects\<close>

text \<open>\<open>with_context\<close> puts a text before the error.\<close>

definition with_context :: "string \<Rightarrow> ('w, 'a) io \<Rightarrow> ('w, 'a) io" where
  "with_context msg m = io_map_err (\<lambda>e. case e of Err cause \<Rightarrow> Err (msg @ '': '' @ cause) | Panic p \<Rightarrow> Panic p) m"

definition load_object :: "'w ctl \<Rightarrow> string \<Rightarrow> ('w, kube_object) cmd" where
  "load_object c path =
     io_bind (with_context (''Failed to open file '' @ path) (in_cmd (ct_read_file c path))) (\<lambda>bytes.
     with_context (''Failed to parse file '' @ path) (io_lift (ct_parse_yaml c bytes)))"

definition code_form :: "'w ctl \<Rightarrow> kube_object \<Rightarrow> string \<Rightarrow> ('w, ctl_body) cmd" where
  "code_form c x path = io_bind (in_cmd (ct_read_file c path)) (\<lambda>bytes.
     io_return (CtlForm (to_lowercase (kind_of x)) x (ct_file_name c path) bytes))"

definition create_object :: "'w ctl \<Rightarrow> kube_object \<Rightarrow> ('w, string) cmd" where
  "create_object c x = io_bind (send_request c POST (gen_url (kind_plural x) None) (CtlObject x)) message_or_cause"

definition create_with_file :: "'w ctl \<Rightarrow> kube_object \<Rightarrow> string \<Rightarrow> ('w, string) cmd" where
  "create_with_file c x path = (let url = gen_url (kind_plural x) None in
     io_bind (code_form c x path) (\<lambda>form.
     io_bind (send_raw c POST url form) (\<lambda>(status, json).
       if 400 \<le> status \<and> status < 600 then io_fail (Err (ct_status_error c status url))
       else io_bind (as_json json) message_of)))"

definition code_path :: "string option \<Rightarrow> ('s, string) io" where
  "code_path code_file = io_lift (ok_or (Err ''Code file is not provided'') code_file)"

definition print_line :: "string \<Rightarrow> ('w, unit) cmd" where
  "print_line s = print_text (s @ eoln)"

definition ctl_create :: "'w ctl \<Rightarrow> string \<Rightarrow> string option \<Rightarrow> ('w, unit) cmd" where
  "ctl_create c path code_file =
     (let context = with_context (''Failed to create using file '' @ path);
          upload = (\<lambda>x. io_bind (code_path code_file) (\<lambda>code. context (create_with_file c x code)))
      in io_bind (load_object c path) (\<lambda>x.
         io_bind (case x of
             KGpuJob _ \<Rightarrow> upload x
           | KFunction _ \<Rightarrow> upload x
           | _ \<Rightarrow> context (create_object c x)) print_line))"

definition patch_object :: "'w ctl \<Rightarrow> kube_object \<Rightarrow> ('w, string) cmd" where
  "patch_object c x = io_bind (send_request c PATCH (uri_of x) (CtlObject x)) message_of"

text \<open>A function is deleted and created again; the code file is read in between.\<close>

definition patch_with_file :: "'w ctl \<Rightarrow> kube_object \<Rightarrow> string \<Rightarrow> ('w, string) cmd" where
  "patch_with_file c x path =
     io_bind (send_request c DELETE (gen_url (kind_plural x) (Some (name_of x))) CtlEmpty) (\<lambda>json.
     io_bind (message_or_cause json) (\<lambda>_.
     io_bind (code_form c x path) (\<lambda>form.
     io_bind (send_request c POST (gen_url (kind_plural x) None) form) message_or_cause)))"

definition ctl_patch :: "'w ctl \<Rightarrow> string \<Rightarrow> string option \<Rightarrow> ('w, unit) cmd" where
  "ctl_patch c path code_file =
     io_bind (load_object c path) (\<lambda>x.
     io_bind (case x of
         KFunction _ \<Rightarrow> io_bind (code_path code_file) (\<lambda>code.
           with_context (''Failed to update using file '' @ path) (patch_with_file c x code))
       | _ \<Rightarrow> with_context (''Failed to patch using file '' @ path) (patch_object c x)) print_line)"

definition ctl_delete :: "'w ctl \<Rightarrow> resource_kind \<Rightarrow> string \<Rightarrow> ('w, unit) cmd" where
  "ctl_delete c k name =
     io_bind (send_request c DELETE (gen_url (show_kind k) (Some name)) CtlEmpty) (\<lambda>json.
     io_bind (message_of json) print_line)"

section \<open>Logs\<close>

text \<open>
  The answer is read as an \<open>ErrResponse\<close> whenever it has a message, as a \<open>Response\<close> otherwise.
\<close>

definition ctl_logs :: "'w ctl \<Rightarrow> string \<Rightarrow> string option \<Rightarrow> string option \<Rightarrow> bool \<Rightarrow> ('w, unit) cmd" where
  "ctl_logs c name container_name tail job =
     (let url = (if job then gen_url ''gpujobs'' (Some name) @ ''/logs''
                 else case container_name of
                     Some container \<Rightarrow> gen_url ''pods'' (Some name) @ ''/containers/'' @ container @ ''/logs''
                   | None \<Rightarrow> gen_url ''pods'' (Some name) @ ''/logs'')
      in io_bind (send_request c GET (url @ ''?tail='' @ (case tail of Some t \<Rightarrow> t | None \<Rightarrow> ''all'')) CtlEmpty) (\<lambda>json.
         case json_msg json of
           Some msg \<Rightarrow> print_line (msg @ '': '' @ (case json_cause json of Some cause \<Rightarrow> cause | None \<Rightarrow> []))
         | None \<Rightarrow> (case json_data json of
               None \<Rightarrow> print_text []
             | Some (CtlText s) \<Rightarrow> print_text s
             | Some _ \<Rightarrow> io_fail no_json)))"

section \<open>The commands\<close>

datatype command =
    CmdCreate string "string option"
  | CmdDelete resource_kind string
  | CmdGet resource_kind "string option"
  | CmdPatch string "string option"
  | CmdDescribe resource_kind "string option"
  | CmdLogs string "string option" "string option" bool

definition run_command :: "'w ctl \<Rightarrow> command \<Rightarrow> ('w, unit) cmd" where
  "run_command c cmd = (case cmd of
       CmdCreate path code_file \<Rightarrow> ctl_create c path code_file
     | CmdDelete k name \<Rightarrow> ctl_delete c k name
     | CmdGet k name \<Rightarrow> ctl_get c k name
     | CmdPatch path code_file \<Rightarrow> ctl_patch c path code_file
     | CmdDescribe k name \<Rightarrow> ctl_describe c k name
     | CmdLogs name container_name tail job \<Rightarrow> ctl_logs c name container_name tail job)"

section \<open>What the commands do\<close>

lemma in_cmd_apply: "m w = (r, w') \<Longrightarrow> in_cmd m (out, w) = (r, (out, w'))"
  by (simp add: in_cmd_def)

lemma print_text_apply [simp]: "print_text s (out, w) = (Inr (), (out @ s, w))"
  by (simp add: print_text_def)

lemma with_context_Inr: "m s = (Inr a, s') \<Longrightarrow> with_context msg m s = (Inr a, s')"
  and with_context_Err: "m s = (Inl (Err e), s') \<Longrightarrow> with_context msg m s = (Inl (Err (msg @ '': '' @ e)), s')"
  by (simp_all add: with_context_def io_map_err_def)

lemma send_request_json:
  "ct_send c m url body w = (CtlAnswer status (Some json), w') \<Longrightarrow>
    send_request c m url body (out, w) = (Inr json, (out, w'))"
  by (simp add: send_request_def send_raw_def in_cmd_def io_bind_def as_json_def)

lemma message_or_cause_ok: "message_or_cause (CtlJson (Some msg) None d) = io_return msg"
  by (simp add: message_or_cause_def message_of_def fun_eq_iff)

lemma cmd_step: "m s = (Inr a, s') \<Longrightarrow> f a s' = q \<Longrightarrow> io_bind m f s = q"
  by (simp add: io_bind_def)

text \<open>
  Updating a function whose code file cannot be read: the request that deletes the function has been
  sent and accepted, the command fails without a further request, and nothing is printed.
\<close>

theorem patch_loses_function:
  assumes yaml: "ct_read_file c path w = (Inr bytes, w1)" "ct_parse_yaml c bytes = Inr (KFunction f)"
    and deleted: "ct_send c DELETE (''/api/v1/functions/'' @ md_name (fn_metadata f)) CtlEmpty w1 =
      (CtlAnswer status (Some (CtlJson (Some msg) None d)), w2)"
    and unreadable: "ct_read_file c code w2 = (Inl (Err e), w3)"
  shows "ctl_patch c path (Some code) (out, w) =
    (Inl (Err ((''Failed to update using file '' @ path) @ '': '' @ e)), (out, w3))"
proof -
  have url: "gen_url (kind_plural (KFunction f)) (Some (name_of (KFunction f))) = ''/api/v1/functions/'' @ md_name (fn_metadata f)"
    by (simp add: gen_url_def kind_plural_def kind_of_def name_of_def metadata_of_def to_lowercase_def char_to_lower_def char_of_eq_iff)
  have load: "load_object c path (out, w) = (Inr (KFunction f), (out, w1))"
    unfolding load_object_def
    by (rule cmd_step, rule with_context_Inr, rule in_cmd_apply, rule yaml, rule with_context_Inr, simp add: yaml(2))
  have form: "code_form c (KFunction f) code (out, w2) = (Inl (Err e), (out, w3))"
    unfolding code_form_def by (rule io_bind_Inl, rule in_cmd_apply, rule unreadable)
  have patch: "patch_with_file c (KFunction f) code (out, w1) = (Inl (Err e), (out, w3))"
    unfolding patch_with_file_def url
    by (rule cmd_step, rule send_request_json, rule deleted)
      (unfold message_or_cause_ok io_bind_return, rule io_bind_Inl, rule form)
  show ?thesis
    unfolding ctl_patch_def
    by (rule cmd_step, rule load, rule io_bind_Inl)
      (unfold kube_object.case code_path_def ok_or_simps io_lift_Inr io_bind_return, rule with_context_Err, rule patch)
qed

text \<open>
  Listing the functions while one of them has no autoscaler yet (it is made once the image is built):
  the command panics after the header.
\<close>

theorem get_functions_panics:
  assumes listed: "ct_send c GET ''/api/v1/functions'' CtlEmpty w =
      (CtlAnswer s (Some (CtlJson m None (Some (CtlData (DObjects (KFunction f # fs)))))), w1)"
    and status: "fn_status f = Some st"
    and no_hpa: "ct_send c GET (''/api/v1/horizontalpodautoscalers/'' @ md_name (fn_metadata f)) CtlEmpty w1 =
      (CtlAnswer s' (Some (CtlJson m' cause None)), w2)"
  shows "ctl_get c RkFunctions None (out, w) =
    (Inl (Panic ''Failed to get HPA''), (out @ table_header RkFunctions, w2))"
proof -
  have url: "gen_url (show_kind RkFunctions) None = ''/api/v1/functions''"
    "gen_url ''horizontalpodautoscalers'' (Some n) = ''/api/v1/horizontalpodautoscalers/'' @ n" for n
    by (simp_all add: gen_url_def show_kind_def to_lowercase_def char_to_lower_def char_of_eq_iff)
  have get: "get_data c (show_kind RkFunctions) None (out, w) = (Inr (KFunction f # fs), (out, w1))"
    unfolding get_data_def get_all_def url
    by (simp, rule cmd_step, rule send_request_json, rule listed, simp)
  have none: "get_one c (''/api/v1/horizontalpodautoscalers/'' @ md_name (fn_metadata f)) (out', w1) = (Inr None, (out', w2))" for out'
    unfolding get_one_def by (rule cmd_step, rule send_request_json, rule no_hpa, simp)
  have row: "function_row c (KFunction f) (out', w1) = (Inl (Panic ''Failed to get HPA''), (out', w2))" for out'
    unfolding function_row_def kube_object.case status url unwrap_or_panic_def ok_or_simps io_lift_Inr io_lift_Inl io_bind_return
    by (rule cmd_step, rule none, simp)
  show ?thesis
    unfolding ctl_get_def
    by (rule cmd_step, rule get) (simp add: io_bind_def table_row_def row)
qed

text \<open>The table of the replica sets: the header and one row per object, in the order of the answer.\<close>

definition rs_line :: "replica_set \<Rightarrow> string" where
  "rs_line rs = (let status = case_option replica_set_status_default id (rs_status rs)
     in row [(20, md_name (rs_metadata rs)), (8, show_u32 (rsp_replicas (rs_spec rs))),
       (8, show_u32 (rss_replicas status)), (8, show_u32 (rss_ready_replicas status))])"

lemma rs_rows: "io_each rs_row (map KReplicaSet rss) (out, w) = (Inr (), (out @ concat (map rs_line rss), w))"
  by (induction rss arbitrary: out) (simp_all add: rs_row_def rs_line_def Let_def io_bind_def)

theorem get_replicasets_table:
  assumes listed: "ct_send c GET ''/api/v1/replicasets'' CtlEmpty w =
      (CtlAnswer s (Some (CtlJson m None (Some (CtlData (DObjects (map KReplicaSet rss)))))), w1)"
  shows "ctl_get c RkReplicaSets None (out, w) =
    (Inr (), (out @ table_header RkReplicaSets @ concat (map rs_line rss), w1))"
proof -
  have url: "gen_url (show_kind RkReplicaSets) None = ''/api/v1/replicasets''"
    by (simp add: gen_url_def show_kind_def to_lowercase_def char_to_lower_def char_of_eq_iff)
  have get: "get_data c (show_kind RkReplicaSets) None (out, w) = (Inr (map KReplicaSet rss), (out, w1))"
    unfolding get_data_def get_all_def url
    by (simp, rule cmd_step, rule send_request_json, rule listed, simp)
  show ?thesis
    unfolding ctl_get_def
    by (rule cmd_step, rule get) (simp add: io_bind_def table_row_def rs_rows)
qed

end
