(* ===== verification/InformerWiring.thy ===== *)
theory InformerWiring
  imports Cluster Autoscaler Endpoints GpuJobController FunctionController KubeProxy Ingress Kubelet Serverless
begin

text \<open>
  How the components connect to their informers (\<open>create_informer\<close> and its kin in the files \<open>utils.rs\<close>, the scheduler's
  \<open>informer.rs\<close>, the kubelet's \<open>main.rs\<close>): where an informer lists and watches, and the messages it sends into the channels of the
  component. A message is written as the event by which the loop of the component receives it.

  The lemmas: every informer lists and watches what the API server serves under the same path, and the
  informer of the autoscaler is silent about updates that leave the specification as it is.
\<close>

section \<open>Informers\<close>

datatype 'a informer_item = Notified "'a notification" | Resynchronise

record ('a, 'm) informer =
  inf_list :: string
  inf_watch :: string
  inf_add :: "'a \<Rightarrow> 'm list"
  inf_update :: "'a \<Rightarrow> 'a \<Rightarrow> 'm list"
  inf_delete :: "'a \<Rightarrow> 'm list"
  inf_resync :: "'m list"

text \<open>A turn of \<open>Informer::run\<close>: the messages its handler sends.\<close>

definition informer_turn :: "('a, 'm) informer \<Rightarrow> 'a informer_item \<Rightarrow> 'm list" where
  "informer_turn i item = (case item of
       Notified (NAdd new) \<Rightarrow> inf_add i new
     | Notified (NUpdate old new) \<Rightarrow> inf_update i old new
     | Notified (NDelete old) \<Rightarrow> inf_delete i old
     | Resynchronise \<Rightarrow> inf_resync i)"

text \<open>The lister: the data of the reply, all of the informer's type.\<close>

definition informer_lister :: "'w api \<Rightarrow> (kube_object \<Rightarrow> 'a option) \<Rightarrow> ('a, 'm) informer \<Rightarrow> ('w, 'a list) io" where
  "informer_lister api decode i =
     io_bind (api_send api \<lparr>rq_method = GET, rq_path = inf_list i, rq_body = None\<rparr>) (\<lambda>(msg, d). case d of
       None \<Rightarrow> io_fail (Err ''Lister failed'')
     | Some (DObjects xs) \<Rightarrow> io_lift (ok_or (Err ''error decoding response body'') (those (map decode xs)))
     | Some _ \<Rightarrow> io_fail (Err ''error decoding response body''))"

definition list_url :: "string \<Rightarrow> string" where
  "list_url path = ''/api/v1/'' @ path"

definition watch_url :: "string \<Rightarrow> string" where
  "watch_url path = ''/api/v1/watch/'' @ path"

section \<open>The controllers\<close>

text \<open>
  \<open>create_informer\<close> of the replica set, job and function controllers: every notification is sent on, as an event of the channel \<open>tx\<close>, and
  a resynchronisation into the other channel.
\<close>

definition create_informer :: "string \<Rightarrow> ('a notification \<Rightarrow> 'm) \<Rightarrow> 'm \<Rightarrow> ('a, 'm) informer" where
  "create_informer path tx resync_tx = \<lparr>inf_list = list_url path, inf_watch = watch_url path,
     inf_add = (\<lambda>new. [tx (NAdd new)]), inf_update = (\<lambda>old new. [tx (NUpdate old new)]),
     inf_delete = (\<lambda>old. [tx (NDelete old)]), inf_resync = [resync_tx]\<rparr>"

definition rs_informers :: "(replica_set, rs_event) informer \<times> (pod, rs_event) informer" where
  "rs_informers = (create_informer ''replicasets'' RsEvent RsResync, create_informer ''pods'' RsPodEvent RsPodResync)"

definition job_create_informer :: "string \<Rightarrow> ('a notification \<Rightarrow> 'm) \<Rightarrow> 'm \<Rightarrow> ('a, 'm) informer" where
  "job_create_informer path tx resync_tx = \<lparr>inf_list = list_url path, inf_watch = watch_url path,
     inf_add = (\<lambda>new. [tx (NAdd new)]), inf_update = (\<lambda>old new. [tx (NUpdate old new)]),
     inf_delete = (\<lambda>old. [tx (NDelete old)]), inf_resync = [resync_tx]\<rparr>"

definition job_informers :: "(gpu_job, job_event) informer \<times> (pod, job_event) informer" where
  "job_informers = (job_create_informer ''gpujobs'' JobEvent JobResync, job_create_informer ''pods'' JobPodEvent JobPodResync)"

definition func_create_informer :: "string \<Rightarrow> ('a notification \<Rightarrow> 'm) \<Rightarrow> 'm \<Rightarrow> ('a, 'm) informer" where
  "func_create_informer path tx resync_tx = \<lparr>inf_list = list_url path, inf_watch = watch_url path,
     inf_add = (\<lambda>new. [tx (NAdd new)]), inf_update = (\<lambda>old new. [tx (NUpdate old new)]),
     inf_delete = (\<lambda>old. [tx (NDelete old)]), inf_resync = [resync_tx]\<rparr>"

definition func_informer :: "(func, function_event) informer" where
  "func_informer = func_create_informer ''functions'' FunctionEvent FunctionResync"

text \<open>The autoscaler is sent names, of new objects and of those whose specification changed; \<open>None\<close> is a resynchronisation.\<close>

definition create_hpa_informer :: "(hpa, string option) informer" where
  "create_hpa_informer = \<lparr>inf_list = list_url ''horizontalpodautoscalers'', inf_watch = watch_url ''horizontalpodautoscalers'',
     inf_add = (\<lambda>new. [Some (md_name (hpa_metadata new))]),
     inf_update = (\<lambda>old new. if hpa_spec old \<noteq> hpa_spec new then [Some (md_name (hpa_metadata new))] else []),
     inf_delete = (\<lambda>old. []), inf_resync = [None]\<rparr>"

definition create_pod_informer :: "(pod, string option) informer" where
  "create_pod_informer = \<lparr>inf_list = list_url ''pods'', inf_watch = watch_url ''pods'',
     inf_add = (\<lambda>new. []), inf_update = (\<lambda>old new. []), inf_delete = (\<lambda>old. []), inf_resync = []\<rparr>"

text \<open>The endpoints controller hears of new services only.\<close>

definition ep_services_informer :: "(service, ep_notification option) informer" where
  "ep_services_informer = \<lparr>inf_list = list_url ''services'', inf_watch = watch_url ''services'',
     inf_add = (\<lambda>new. [Some (EpServiceAdd new)]), inf_update = (\<lambda>old new. []), inf_delete = (\<lambda>old. []),
     inf_resync = [None]\<rparr>"

definition ep_pods_informer :: "(pod, ep_notification option) informer" where
  "ep_pods_informer = \<lparr>inf_list = list_url ''pods'', inf_watch = watch_url ''pods'',
     inf_add = (\<lambda>new. [Some (EpPod (NAdd new))]), inf_update = (\<lambda>old new. [Some (EpPod (NUpdate old new))]),
     inf_delete = (\<lambda>old. [Some (EpPod (NDelete old))]), inf_resync = [None]\<rparr>"

text \<open>The ingress controller is only told that something changed.\<close>

definition ingress_svc_informer :: "(service, unit) informer" where
  "ingress_svc_informer = \<lparr>inf_list = list_url ''services'', inf_watch = watch_url ''services'',
     inf_add = (\<lambda>new. [()]), inf_update = (\<lambda>old new. [()]), inf_delete = (\<lambda>old. [()]), inf_resync = [()]\<rparr>"

definition ingress_informer :: "(ingress, unit) informer" where
  "ingress_informer = \<lparr>inf_list = list_url ''ingresses'', inf_watch = watch_url ''ingresses'',
     inf_add = (\<lambda>new. [()]), inf_update = (\<lambda>old new. [()]), inf_delete = (\<lambda>old. [()]), inf_resync = [()]\<rparr>"

section \<open>Scheduler, proxy, kubelet and router\<close>

text \<open>The resynchronisations of both informers of the scheduler share a channel, of \<open>SEnqueuePods\<close> and \<open>SRefreshCache\<close>.\<close>

datatype sched_message = SmPod "pod notification" | SmTurn sched_event

definition run_pod_informer :: "(pod, sched_message) informer" where
  "run_pod_informer = \<lparr>inf_list = list_url ''pods'', inf_watch = watch_url ''pods'',
     inf_add = (\<lambda>p. [SmPod (NAdd p)]), inf_update = (\<lambda>old new. [SmPod (NUpdate old new)]),
     inf_delete = (\<lambda>p. [SmPod (NDelete p)]), inf_resync = [SmTurn SEnqueuePods]\<rparr>"

definition run_node_informer :: "(node, sched_message) informer" where
  "run_node_informer = \<lparr>inf_list = list_url ''nodes'', inf_watch = watch_url ''nodes'',
     inf_add = (\<lambda>n. [SmTurn (SNode (NAdd n))]), inf_update = (\<lambda>old new. [SmTurn (SNode (NUpdate old new))]),
     inf_delete = (\<lambda>n. [SmTurn (SNode (NDelete n))]), inf_resync = [SmTurn SRefreshCache]\<rparr>"

text \<open>The proxy reads the store when it turns to a resynchronisation, which is \<open>None\<close> here.\<close>

definition proxy_services_informer :: "(service, service notification option) informer" where
  "proxy_services_informer = \<lparr>inf_list = list_url ''services'', inf_watch = watch_url ''services'',
     inf_add = (\<lambda>new. [Some (NAdd new)]), inf_update = (\<lambda>old new. [Some (NUpdate old new)]),
     inf_delete = (\<lambda>old. [Some (NDelete old)]), inf_resync = [None]\<rparr>"

definition kubelet_pod_informer :: "(pod, pod_update option) informer" where
  "kubelet_pod_informer = \<lparr>inf_list = list_url ''pods'', inf_watch = watch_url ''pods'',
     inf_add = (\<lambda>p. [Some (UAdd p)]), inf_update = (\<lambda>old new. [Some (UUpdate old new)]),
     inf_delete = (\<lambda>p. [Some (UDelete p)]), inf_resync = [None]\<rparr>"

text \<open>The router only uses the stores.\<close>

definition router_create_informer :: "string \<Rightarrow> ('a, unit) informer" where
  "router_create_informer kinds = \<lparr>inf_list = list_url kinds, inf_watch = watch_url kinds,
     inf_add = (\<lambda>new. []), inf_update = (\<lambda>old new. []), inf_delete = (\<lambda>old. []), inf_resync = []\<rparr>"

definition router_informers :: "(func, unit) informer \<times> (service, unit) informer" where
  "router_informers = (router_create_informer ''functions'', router_create_informer ''services'')"

section \<open>What the informers ask for, and the API server\<close>

abbreviation asked :: "('a, 'm) informer \<Rightarrow> string \<times> string" where
  "asked i \<equiv> (inf_list i, inf_watch i)"

definition informer_paths :: "(string \<times> string) list" where
  "informer_paths = [asked (fst rs_informers), asked (snd rs_informers), asked (fst job_informers), asked (snd job_informers),
     asked func_informer, asked create_hpa_informer, asked create_pod_informer, asked ep_services_informer,
     asked ep_pods_informer, asked ingress_svc_informer, asked ingress_informer, asked run_pod_informer,
     asked run_node_informer, asked proxy_services_informer, asked kubelet_pod_informer,
     asked (fst router_informers), asked (snd router_informers)]"

text \<open>A path the server lists, whose changes the other path watches.\<close>

definition served :: "'w externals \<Rightarrow> 'w env \<Rightarrow> string \<times> string \<Rightarrow> bool" where
  "served ex env p \<longleftrightarrow> (\<exists>kind. route ex env GET (fst p) None NoBody = Run (list_kind ex (fst p) kind)) \<and>
     route ex env GET (snd p) None NoBody = Watch (fst p)"

lemma served_kind:
  assumes "listed_kind y" and "directory y \<in> set watched_kinds"
  shows "served ex env (list_url (directory y), watch_url (directory y))"
proof -
  obtain kind where "route ex env GET (''/api/v1/'' @ directory y) None NoBody =
      Run (list_kind ex (''/api/v1/'' @ directory y) kind)"
    using route_list [OF assms(1)] .
  moreover have "route ex env GET (''/api/v1/watch/'' @ directory y) None NoBody = Watch (''/api/v1/'' @ directory y)"
    using assms by (cases y)
      (simp_all add: route_def directory_def route_item_def watched_kinds_def only_get_def)
  ultimately show ?thesis by (auto simp: served_def list_url_def watch_url_def)
qed

text \<open>
  All informers list a path the API server serves, and watch the changes under this very path.
\<close>

theorem informers_served: "list_all (served ex env) informer_paths"
proof -
  note k = served_kind [of "KPod undefined" ex env] served_kind [of "KReplicaSet undefined" ex env]
    served_kind [of "KService undefined" ex env] served_kind [of "KIngress undefined" ex env]
    served_kind [of "KNode undefined" ex env] served_kind [of "KGpuJob undefined" ex env]
    served_kind [of "KFunction undefined" ex env] served_kind [of "KHorizontalPodAutoscaler undefined" ex env]
  show ?thesis
    using k by (simp add: informer_paths_def directory_def listed_kind_def watched_kinds_def rs_informers_def
        job_informers_def func_informer_def create_informer_def job_create_informer_def func_create_informer_def
        create_hpa_informer_def create_pod_informer_def ep_services_informer_def ep_pods_informer_def
        ingress_svc_informer_def ingress_informer_def run_pod_informer_def run_node_informer_def
        proxy_services_informer_def kubelet_pod_informer_def router_informers_def router_create_informer_def)
qed

text \<open>
  The autoscaler writes its status into the object it watches; these updates come back without a message, so a
  reconciliation does not cause the next one.
\<close>

lemma status_update_silent:
  "informer_turn create_hpa_informer (Notified (NUpdate h (h\<lparr>hpa_status := s\<rparr>))) = []"
  by (simp add: informer_turn_def create_hpa_informer_def)

end
