(* ===== verification/Exec.thy ===== *)
theory Exec
  imports ApiProperties Kubelet Rkubectl
begin

text \<open>
  Commands in a container: \<open>rkubectl exec\<close> opens a web socket to the API server, which opens another one to the kubelet of the
  pod's node and passes the messages on; the kubelet passes them to the command and its output back. A loop over a \<open>select!\<close> is
  a function of the items in the order in which they are received; an item carries the answer to the send or the write it
  leads to. The list ends when both sources have ended. The close codes of the crate \<open>tungstenite\<close> and the
  Docker engine are parameters.

  The lemmas: messages pass the conversions unchanged, and what is typed arrives at the command, up to and with the
  end of transmission, while all the output is shown.
\<close>

section \<open>Messages\<close>

text \<open>The messages of \<open>axum\<close> and of \<open>tungstenite\<close>.\<close>

datatype ws_message = WsText string | WsBinary string | WsPing string | WsPong string | WsClose "(u16 \<times> string) option"

datatype 'c ts_message = TsText string | TsBinary string | TsPing string | TsPong string
  | TsClose "('c \<times> string) option" | TsFrame string

record 'c close_codes =
  code_from :: "u16 \<Rightarrow> 'c"
  code_into :: "'c \<Rightarrow> u16"

definition into_tungstenite :: "'c close_codes \<Rightarrow> ws_message \<Rightarrow> 'c ts_message" where
  "into_tungstenite cs message = (case message of
       WsText t \<Rightarrow> TsText t
     | WsBinary b \<Rightarrow> TsBinary b
     | WsPing p \<Rightarrow> TsPing p
     | WsPong p \<Rightarrow> TsPong p
     | WsClose (Some (code, reason)) \<Rightarrow> TsClose (Some (code_from cs code, reason))
     | WsClose None \<Rightarrow> TsClose None)"

definition from_tungstenite :: "'c close_codes \<Rightarrow> 'c ts_message \<Rightarrow> ws_message option" where
  "from_tungstenite cs message = (case message of
       TsText t \<Rightarrow> Some (WsText t)
     | TsBinary b \<Rightarrow> Some (WsBinary b)
     | TsPing p \<Rightarrow> Some (WsPing p)
     | TsPong p \<Rightarrow> Some (WsPong p)
     | TsClose (Some (code, reason)) \<Rightarrow> Some (WsClose (Some (code_into cs code, reason)))
     | TsClose None \<Rightarrow> Some (WsClose None)
     | TsFrame _ \<Rightarrow> None)"

section \<open>The client\<close>

text \<open>
  The messages for what is typed: a message per byte, and a close after the byte 4 (Ctrl-D), which ends the task. Errors of the
  sender are ignored.
\<close>

definition end_of_transmission :: char where
  "end_of_transmission = CHR 0x04"

fun stdin_messages :: "string \<Rightarrow> 'c ts_message list" where
  "stdin_messages [] = []"
| "stdin_messages (byte # bytes) = TsBinary [byte] #
     (if byte = end_of_transmission then [TsClose None] else stdin_messages bytes)"

text \<open>What is written to the terminal, until the first error; messages that are not binary are skipped.\<close>

fun shown :: "'c ts_message option list \<Rightarrow> string" where
  "shown [] = []"
| "shown (None # ms) = []"
| "shown (Some m # ms) = (case m of TsBinary output \<Rightarrow> output | _ \<Rightarrow> []) @ shown ms"

definition exec_path :: "string \<Rightarrow> string \<Rightarrow> string \<Rightarrow> string" where
  "exec_path pod_name container_name cmd =
     ''/api/v1/pods/'' @ pod_name @ ''/containers/'' @ container_name @ ''/exec?command='' @ cmd"

section \<open>The API server\<close>

text \<open>The connection to the kubelet, before the client's socket is accepted.\<close>

definition proxy_ws_to_rkubelet ::
    "'w externals \<Rightarrow> (string \<Rightarrow> ('w, string, unit) eio) \<Rightarrow> string \<Rightarrow> string \<Rightarrow> ('w, string) handler" where
  "proxy_ws_to_rkubelet ex connect_async path_query pod_name =
     io_bind (pod_node_rkubelet_addr ex pod_name) (\<lambda>addr. case addr of
       None \<Rightarrow> api_err ''Pod not found'' None
     | Some addr \<Rightarrow> (let uri = ''ws://'' @ addr @ path_query in
         io_bind (io_map_err (\<lambda>e. ApiErr (err_new ''Failed to connect to rKubelet'' (Some e))) (in_world (connect_async uri)))
           (\<lambda>_. io_return uri)))"

text \<open>A message of the client or the kubelet, or an error of the socket, and whether it could be sent on.\<close>

datatype 'c proxy_item = ClientItem "ws_message option" bool | KubeletItem "'c ts_message option" bool

record 'c proxy =
  px_to_kubelet :: "'c ts_message list"
  px_to_client :: "ws_message list"

definition proxy_new :: "'c proxy" where
  "proxy_new = \<lparr>px_to_kubelet = [], px_to_client = []\<rparr>"

fun proxy_loop :: "'c close_codes \<Rightarrow> 'c proxy_item list \<Rightarrow> ('c proxy, unit) io" where
  "proxy_loop cs [] s = (Inr (), s)"
| "proxy_loop cs (ClientItem None sent # items) s = (Inr (), s)"
| "proxy_loop cs (ClientItem (Some msg) sent # items) s =
     (if sent then proxy_loop cs items (s\<lparr>px_to_kubelet := px_to_kubelet s @ [into_tungstenite cs msg]\<rparr>) else (Inr (), s))"
| "proxy_loop cs (KubeletItem None sent # items) s = (Inr (), s)"
| "proxy_loop cs (KubeletItem (Some msg) sent # items) s = (case from_tungstenite cs msg of
       None \<Rightarrow> (Inl (Panic ''called `Option::unwrap()` on a `None` value''), s)
     | Some msg \<Rightarrow> (if sent then proxy_loop cs items (s\<lparr>px_to_client := px_to_client s @ [msg]\<rparr>) else (Inr (), s)))"

section \<open>The kubelet\<close>

text \<open>\<open>Container::exec\<close>: the words of the command between single blanks, attached to the session.\<close>

record 'w exec_ops =
  eo_create_exec :: "string \<Rightarrow> string list \<Rightarrow> ('w, string) io"
  eo_start_exec :: "string \<Rightarrow> ('w, bool) io"

definition container_exec :: "'w exec_ops \<Rightarrow> string \<Rightarrow> string \<Rightarrow> ('w, string) io" where
  "container_exec ops container_id cmd =
     io_bind (eo_create_exec ops container_id (split_on (CHR '' '') cmd)) (\<lambda>exec.
     io_bind (eo_start_exec ops exec) (\<lambda>attached.
     if attached then io_return exec else io_fail (Err ''Failed to start exec'')))"

definition api_container_exec ::
    "'w exec_ops \<Rightarrow> (string, pod) hashmap \<Rightarrow> string \<Rightarrow> string \<Rightarrow> string \<Rightarrow> ('w, api_fault, string) eio" where
  "api_container_exec ops store pod_name container_name cmd =
     io_bind (find_pod store pod_name) (\<lambda>p. case md_uid (pod_metadata p) of
       None \<Rightarrow> api_err ''Pod has no uid'' None
     | Some uid \<Rightarrow> io_map_err (\<lambda>e. ApiErr (err_new ''Failed to attach to container''
           (Some (case e of Panic m \<Rightarrow> m | Err m \<Rightarrow> m))))
         (container_exec ops (unique_container_name uid pod_name container_name) cmd))"

text \<open>
  A message of the socket with the number of bytes \<open>input.write\<close> takes of it, which may be fewer than there are, or \<open>None\<close> for an error;
  an output of the command, and whether it could be sent.
\<close>

datatype exec_item = SocketItem "ws_message option" "nat option" | OutputItem "string option" bool

record exec_session =
  es_input :: string
  es_sent :: "ws_message list"

definition exec_new :: exec_session where
  "exec_new = \<lparr>es_input = [], es_sent = []\<rparr>"

fun exec_loop :: "exec_item list \<Rightarrow> exec_session \<Rightarrow> exec_session" where
  "exec_loop [] s = s"
| "exec_loop (SocketItem None written # items) s = s"
| "exec_loop (SocketItem (Some msg) written # items) s = (case msg of
       WsClose _ \<Rightarrow> s
     | WsBinary msg \<Rightarrow> (case written of
           None \<Rightarrow> s
         | Some n \<Rightarrow> exec_loop items (s\<lparr>es_input := es_input s @ take n msg\<rparr>))
     | _ \<Rightarrow> exec_loop items s)"
| "exec_loop (OutputItem None sent # items) s = s"
| "exec_loop (OutputItem (Some bytes) sent # items) s =
     (if sent then exec_loop items (s\<lparr>es_sent := es_sent s @ [WsBinary bytes]\<rparr>) else s)"

section \<open>Conversions\<close>

text \<open>
  A message converted for the other web socket and back is the message, when the close codes of the crate keep their numbers; so
  the proxy passes every message of a client to the kubelet with its content.
\<close>

lemma ws_message_roundtrip:
  assumes "\<forall>code. code_into cs (code_from cs code) = code"
  shows "from_tungstenite cs (into_tungstenite cs message) = Some message"
proof (cases message)
  case (WsClose close)
  with assms show ?thesis by (cases close) (auto simp: into_tungstenite_def from_tungstenite_def)
qed (simp_all add: into_tungstenite_def from_tungstenite_def)

definition number_codes :: "u16 close_codes" where
  "number_codes = \<lparr>code_from = id, code_into = id\<rparr>"

lemma ws_message_roundtrip_numbers:
  "from_tungstenite number_codes (into_tungstenite number_codes (WsClose (Some (1000, ''bye'')))) =
     Some (WsClose (Some (1000, ''bye'')))"
  by (rule ws_message_roundtrip) (simp add: number_codes_def)

section \<open>From the terminal to the command and back\<close>

fun client_part :: "'c proxy_item list \<Rightarrow> ws_message list" where
  "client_part [] = []"
| "client_part (ClientItem (Some msg) sent # items) = msg # client_part items"
| "client_part (_ # items) = client_part items"

fun kubelet_part :: "'c proxy_item list \<Rightarrow> 'c ts_message list" where
  "kubelet_part [] = []"
| "kubelet_part (KubeletItem (Some msg) sent # items) = msg # kubelet_part items"
| "kubelet_part (_ # items) = kubelet_part items"

fun socket_part :: "exec_item list \<Rightarrow> ws_message list" where
  "socket_part [] = []"
| "socket_part (SocketItem (Some msg) written # items) = msg # socket_part items"
| "socket_part (_ # items) = socket_part items"

fun output_part :: "exec_item list \<Rightarrow> string list" where
  "output_part [] = []"
| "output_part (OutputItem (Some bytes) sent # items) = bytes # output_part items"
| "output_part (_ # items) = output_part items"

text \<open>A session without errors: everything is sent and written as a whole; a raw frame is never received.\<close>

definition passed :: "'c close_codes \<Rightarrow> 'c proxy_item \<Rightarrow> bool" where
  "passed cs item = (case item of
       ClientItem msg sent \<Rightarrow> msg \<noteq> None \<and> sent
     | KubeletItem msg sent \<Rightarrow> (case msg of None \<Rightarrow> False | Some m \<Rightarrow> from_tungstenite cs m \<noteq> None) \<and> sent)"

definition handled :: "exec_item \<Rightarrow> bool" where
  "handled item = (case item of
       SocketItem msg written \<Rightarrow> (case msg of
           None \<Rightarrow> False
         | Some (WsBinary b) \<Rightarrow> written = Some (length b)
         | Some _ \<Rightarrow> True)
     | OutputItem bytes sent \<Rightarrow> bytes \<noteq> None \<and> sent)"

text \<open>The items up to the close of the socket.\<close>

definition closes :: "exec_item \<Rightarrow> bool" where
  "closes item = (case item of SocketItem (Some (WsClose _)) _ \<Rightarrow> True | _ \<Rightarrow> False)"

definition live :: "exec_item list \<Rightarrow> exec_item list" where
  "live items = takeWhile (\<lambda>i. \<not> closes i) items"

lemma live_Cons: "live (i # items) = (if closes i then [] else i # live items)"
  by (simp add: live_def)

fun binaries :: "ws_message list \<Rightarrow> string" where
  "binaries [] = []"
| "binaries (WsClose _ # ms) = []"
| "binaries (WsBinary b # ms) = b @ binaries ms"
| "binaries (_ # ms) = binaries ms"

text \<open>What is typed, up to and with the end of transmission.\<close>

fun up_to_eot :: "string \<Rightarrow> string" where
  "up_to_eot [] = []"
| "up_to_eot (byte # bytes) = byte # (if byte = end_of_transmission then [] else up_to_eot bytes)"

lemma proxy_passes:
  assumes "list_all (passed cs) items"
  shows "proxy_loop cs items s = (Inr (), s\<lparr>
    px_to_kubelet := px_to_kubelet s @ map (into_tungstenite cs) (client_part items),
    px_to_client := px_to_client s @ List.map_filter (from_tungstenite cs) (kubelet_part items)\<rparr>)"
  using assms
  by (induction cs items s rule: proxy_loop.induct) (auto simp: passed_def map_filter_simps split: option.splits)

lemma exec_handles:
  assumes "list_all handled items"
  shows "exec_loop items s = s\<lparr>es_input := es_input s @ binaries (socket_part items),
    es_sent := es_sent s @ map WsBinary (output_part (live items))\<rparr>"
  using assms
proof (induction items s rule: exec_loop.induct)
  case (3 msg written items s)
  then show ?case by (cases msg) (auto simp: handled_def live_Cons closes_def)
qed (auto simp: handled_def live_Cons closes_def live_def)

text \<open>The typed messages, through both conversions.\<close>

lemma typed_binaries:
  "binaries (List.map_filter (from_tungstenite cs) (map (into_tungstenite cs)
     (List.map_filter (from_tungstenite cs) (stdin_messages typed)))) = up_to_eot typed"
  by (induction typed) (simp_all add: map_filter_simps from_tungstenite_def into_tungstenite_def)

lemma shown_binaries: "shown (map Some (map (into_tungstenite cs) (List.map_filter (from_tungstenite cs)
    (map (into_tungstenite cs) (map WsBinary outputs))))) = concat outputs"
  by (induction outputs) (simp_all add: map_filter_simps from_tungstenite_def into_tungstenite_def)



text \<open>
  The kubelet does not look at the number of bytes written: of a longer message the command may see a part only.
\<close>

lemma short_write_loses_input:
  "es_input (exec_loop [SocketItem (Some (WsBinary ''ls -l'')) (Some 2)] exec_new) = ''ls''"
  by (simp add: exec_new_def)

end
