(* ===== verification/RsLoop.thy ===== *)
theory RsLoop
  imports Cluster
begin

text \<open>
  The replica set controller and the API server as a closed loop: the informers report what the server has stored, the controller
  sends requests, the server stores their effect. A round is a reconciliation of the replica set, the change of a pod it
  leads to, and the update of the status when the informer reports that change.

  The lemmas: a round in which every request is answered with status 200 brings the number of pods one closer to the
  number wanted, and the status keeps up; so the loop reaches the number wanted and rests.
\<close>

section \<open>Requests that are accepted\<close>

text \<open>The flag in front of the world records whether every reply so far had status 200.\<close>

definition all_ok :: "'w api \<Rightarrow> (bool \<times> 'w) api" where
  "all_ok api r = (\<lambda>(ok, w). case api r w of (reply, w') \<Rightarrow>
     (reply, (ok \<and> (case reply of Reply status msg d \<Rightarrow> status = 200 | _ \<Rightarrow> False), w')))"

lemma all_ok_True:
  assumes "all_ok api r (ok, w) = (reply, (True, w'))"
  obtains msg d where "api r w = (Reply 200 msg d, w')" and "reply = Reply 200 msg d"
  using assms by (auto simp: all_ok_def split: prod.splits api_reply.splits)

lemma api_send_all_ok:
  assumes "api_send (all_ok api) r (ok, w) = (q, (True, w'))"
  obtains msg d where "api r w = (Reply 200 msg d, w')" and "q = Inr (msg, d)"
proof -
  obtain reply st where run: "all_ok api r (ok, w) = (reply, st)" by (cases "all_ok api r (ok, w)")
  with assms have "st = (True, w')" by (auto simp: api_send_def split: api_reply.splits)
  with run show ?thesis
    using that assms by (auto elim!: all_ok_True simp: api_send_def)
qed

lemma sent_all_ok:
  assumes "io_bind (api_send (all_ok api) r) (\<lambda>_. io_return ()) (True, w) = (q, (True, w'))"
  shows "\<exists>msg d. api r w = (Reply 200 msg d, w')"
proof -
  obtain u where "api_send (all_ok api) r (True, w) = (u, (True, w'))"
    using assms by (elim io_bindE) auto
  then show ?thesis by (rule api_send_all_ok) blast
qed

lemma io_try_world: "io_bind (io_try m) (\<lambda>_. io_return ()) s = (r, s') \<Longrightarrow> \<exists>q. m s = (q, s')"
  by (auto simp: io_bind_def io_try_def split: prod.splits sum.splits fault.splits)

section \<open>The effect of the requests\<close>

lemma post_pod_run:
  assumes world: "api_world ex contents conf" and sound: "well_stored (ex_be ex) (contents (sv_world s))"
    and reply: "api_server ex (post_pod p) (s, envs) = (Reply 200 msg d, (s', envs'))"
  shows "stored_objects (ex_be ex) (contents (sv_world s')) = (stored_objects (ex_be ex) (contents (sv_world s)))
      (uri_of (KPod (created_pod (envs 0) p)) \<mapsto> KPod (created_pod (envs 0) p))"
    and "well_stored (ex_be ex) (contents (sv_world s'))"
proof -
  have "respond ex (Run (api_pod_create ex (envs 0) (KPod p))) s = (Reply 200 msg d, s')"
    using reply by (auto simp: api_server_def post_pod_def serve_pods split: prod.splits)
  then have "api_pod_create ex (envs 0) (KPod p) s = (Inr (msg, d), s')"
    using pod_handlers_fail(1) by (rule respond_200)
  then have st: "store_object ex (KPod (created_pod (envs 0) p)) s = (Inr (), s')"
    by (auto simp: api_pod_create_def Let_def done_msg_def elim!: io_bind_InrE)
  show "stored_objects (ex_be ex) (contents (sv_world s')) = (stored_objects (ex_be ex) (contents (sv_world s)))
      (uri_of (KPod (created_pod (envs 0) p)) \<mapsto> KPod (created_pod (envs 0) p))"
    and "well_stored (ex_be ex) (contents (sv_world s'))"
    using api_world.store_object_run [OF world st sound] by simp_all
qed

lemma delete_pod_run:
  assumes world: "api_world ex contents conf" and sound: "well_stored (ex_be ex) (contents (sv_world s))"
    and name: "path_name name"
    and reply: "api_server ex (delete_pod_request name) (s, envs) = (Reply 200 msg d, (s', envs'))"
  shows "stored_objects (ex_be ex) (contents (sv_world s')) =
      (stored_objects (ex_be ex) (contents (sv_world s)))(''/api/v1/pods/'' @ name := None)"
    and "well_stored (ex_be ex) (contents (sv_world s'))"
proof -
  have "serve ex env (delete_pod_request name) = respond ex (Run (api_pod_delete ex name))" for env
    using name by (simp add: serve_def delete_pod_request_def split_query_plain path_name_def handle_request_def route_def
        split_on_no_sep route_item_def pod_item_def)
  with reply have "respond ex (Run (api_pod_delete ex name)) s = (Reply 200 msg d, s')"
    by (auto simp: api_server_def split: prod.splits)
  then have "api_pod_delete ex name s = (Inr (msg, d), s')"
    using pod_handlers_fail(4) by (rule respond_200)
  then have st: "erase ex (''/api/v1/pods/'' @ name) s = (Inr (), s')"
    unfolding api_pod_delete_def delete_named_def done_msg_def by (elim io_bind_InrE) simp
  show "stored_objects (ex_be ex) (contents (sv_world s')) =
      (stored_objects (ex_be ex) (contents (sv_world s)))(''/api/v1/pods/'' @ name := None)"
    and "well_stored (ex_be ex) (contents (sv_world s'))"
    using api_world.erase_run [OF world st sound] by simp_all
qed

lemma put_rs_run:
  assumes world: "api_world ex contents conf" and sound: "well_stored (ex_be ex) (contents (sv_world s))"
    and name: "path_name (md_name (rs_metadata rs))"
    and reply: "api_server ex (put_object (KReplicaSet rs)) (s, envs) = (Reply 200 msg d, (s', envs'))"
  shows "stored_objects (ex_be ex) (contents (sv_world s')) = (stored_objects (ex_be ex) (contents (sv_world s)))
      (uri_of (KReplicaSet rs) \<mapsto> KReplicaSet rs)"
    and "well_stored (ex_be ex) (contents (sv_world s'))"
proof -
  have "respond ex (Run (api_rs_update ex (md_name (rs_metadata rs)) (KReplicaSet rs))) s = (Reply 200 msg d, s')"
    using reply name by (auto simp: api_server_def serve_put_replicaset split: prod.splits)
  then have "api_rs_update ex (md_name (rs_metadata rs)) (KReplicaSet rs) s = (Inr (msg, d), s')"
    using rs_handlers_fail(4) by (rule respond_200)
  then have st: "store_object ex (KReplicaSet rs) s = (Inr (), s')"
    by (auto simp: api_rs_update_def done_msg_def elim!: io_bind_InrE)
  show "stored_objects (ex_be ex) (contents (sv_world s')) = (stored_objects (ex_be ex) (contents (sv_world s)))
      (uri_of (KReplicaSet rs) \<mapsto> KReplicaSet rs)"
    and "well_stored (ex_be ex) (contents (sv_world s'))"
    using api_world.store_object_run [OF world st sound] by simp_all
qed

section \<open>What the informers report\<close>

text \<open>The stores of the controller hold the stored pods and replica sets under their keys.\<close>

definition reported :: "(string \<rightharpoonup> kube_object) \<Rightarrow> rs_controller \<Rightarrow> bool" where
  "reported m c \<longleftrightarrow> hm_wf (rsc_pod_store c) \<and> hm_wf (rsc_rs_store c) \<and>
     (\<forall>k p. hm_get (rsc_pod_store c) k = Some p \<longleftrightarrow> m k = Some (KPod p)) \<and>
     (\<forall>k rs. hm_get (rsc_rs_store c) k = Some rs \<longleftrightarrow> m k = Some (KReplicaSet rs))"

text \<open>The keys of the stored pods a selector selects.\<close>

definition selected :: "labels \<Rightarrow> (string \<rightharpoonup> kube_object) \<Rightarrow> string set" where
  "selected sel m = {k. \<exists>p. m k = Some (KPod p) \<and> labels_matches (md_labels (pod_metadata p)) sel}"

lemma selected_keys:
  assumes "reported m c"
  shows "selected (rsp_selector (rs_spec rs)) m =
    fst ` set (filter (\<lambda>(k, p). labels_matches (md_labels (pod_metadata p)) (rsp_selector (rs_spec rs))) (rsc_pod_store c))"
  using assms by (force simp: selected_def reported_def hm_get_iff [symmetric])

lemma selected_finite: "reported m c \<Longrightarrow> finite (selected (rsp_selector (rs_spec rs)) m)"
  by (simp add: selected_keys)

lemma selected_count:
  assumes "reported m c"
  shows "length (rs_get_pods c rs) = card (selected (rsp_selector (rs_spec rs)) m)"
proof -
  let ?P = "\<lambda>p. labels_matches (md_labels (pod_metadata p)) (rsp_selector (rs_spec rs))"
  let ?F = "filter (\<lambda>(k, p). ?P p) (rsc_pod_store c)"
  have "rs_get_pods c rs = map snd ?F"
    by (simp add: rs_get_pods_def hm_values_def filter_map comp_def case_prod_unfold)
  moreover have "distinct (map fst ?F)"
    using assms by (simp add: reported_def hm_wf_def distinct_map_filter)
  ultimately show ?thesis
    using distinct_card [of "map fst ?F"] by (simp add: selected_keys [OF assms])
qed

lemma rs_get_pods_stored:
  assumes "reported m c" and "p \<in> set (rs_get_pods c rs)"
  obtains k where "m k = Some (KPod p)" and "k \<in> selected (rsp_selector (rs_spec rs)) m"
proof -
  from assms(2) obtain k where "(k, p) \<in> set (rsc_pod_store c)"
    and l: "labels_matches (md_labels (pod_metadata p)) (rsp_selector (rs_spec rs))"
    by (auto simp: rs_get_pods_def hm_values_def)
  with assms(1) have "m k = Some (KPod p)" by (simp add: reported_def hm_get_iff [symmetric])
  with l show ?thesis by (intro that [of k]) (auto simp: selected_def)
qed

section \<open>The loop\<close>

text \<open>The change of a pod between two states of the store, as the informer reports it.\<close>

definition pod_change :: "(string \<rightharpoonup> kube_object) \<Rightarrow> (string \<rightharpoonup> kube_object) \<Rightarrow> pod notification \<Rightarrow> bool" where
  "pod_change m m' n \<longleftrightarrow> (\<exists>k. case n of
       NAdd p \<Rightarrow> m k = None \<and> m' k = Some (KPod p)
     | NUpdate old p \<Rightarrow> m k = Some (KPod old) \<and> m' k = Some (KPod p) \<and> old \<noteq> p
     | NDelete p \<Rightarrow> m k = Some (KPod p) \<and> m' k = None)"

text \<open>Rounds in which every request is answered with status 200 and created pods get names that are not in use.\<close>

inductive rs_rounds :: "'w externals \<Rightarrow> ('w \<Rightarrow> string \<rightharpoonup> string) \<Rightarrow> string \<Rightarrow>
    'w server \<times> (nat \<Rightarrow> 'w env) \<Rightarrow> nat \<Rightarrow> 'w server \<times> (nat \<Rightarrow> 'w env) \<Rightarrow> bool"
  for ex contents key st where
  none: "rs_rounds ex contents key st 0 st"
| more: "rs_rounds ex contents key st n (s, envs) \<Longrightarrow>
    m = stored_objects (ex_be ex) (contents (sv_world s)) \<Longrightarrow>
    m1 = stored_objects (ex_be ex) (contents (sv_world s1)) \<Longrightarrow>
    reported m c \<Longrightarrow> hm_get (rsc_rs_store c) key = Some rs \<Longrightarrow>
    rs_turn (all_ok (api_server ex)) c (RsEvent (NUpdate old rs)) (True, (s, envs)) = (r, (True, (s1, envs1))) \<Longrightarrow>
    m (uri_of (KPod (created_pod (envs 0) (rs_new_pod rs)))) = None \<Longrightarrow>
    reported m1 c1 \<Longrightarrow> pod_change m m1 change \<Longrightarrow>
    rs_turn (all_ok (api_server ex)) c1 (RsPodEvent change) (True, (s1, envs1)) = (r1, (True, st2)) \<Longrightarrow>
    rs_rounds ex contents key st (Suc n) st2"

inductive_cases rs_rounds_0E: "rs_rounds ex contents key st 0 st'"
inductive_cases rs_rounds_SucE: "rs_rounds ex contents key st (Suc n) st'"

section \<open>One round\<close>

definition change_pod :: "pod notification \<Rightarrow> pod" where
  "change_pod n = (case n of NAdd p \<Rightarrow> p | NUpdate _ p \<Rightarrow> p | NDelete p \<Rightarrow> p)"

lemma rs_turn_pod:
  "rs_turn api c (RsPodEvent n) = io_bind (io_try (rs_handle_pod_change api c (change_pod n))) (\<lambda>_. io_return ())"
  by (cases n) (simp_all add: rs_turn_def change_pod_def)

text \<open>The replica set owns the pod, and nothing else of its kind does.\<close>

definition owned_by :: "string \<Rightarrow> pod \<Rightarrow> bool" where
  "owned_by name p \<longleftrightarrow> filter (\<lambda>r. or_kind r = ''ReplicaSet'') (md_owner_references (pod_metadata p)) =
     [\<lparr>or_kind = ''ReplicaSet'', or_name = name\<rparr>]"

text \<open>The status of the stored replica set counts the pods, of which there are \<open>k\<close>.\<close>

definition counting :: "string \<Rightarrow> replica_set_spec \<Rightarrow> metadata \<Rightarrow> nat \<Rightarrow> (string \<rightharpoonup> kube_object) \<Rightarrow> bool" where
  "counting key spec md k m \<longleftrightarrow> (\<exists>rs status. m key = Some (KReplicaSet rs) \<and> rs_spec rs = spec \<and> rs_metadata rs = md \<and>
     rs_status rs = Some status \<and> rss_replicas status = of_nat k \<and> card (selected (rsp_selector spec) m) = k)"

lemma rs_uri: "uri_of (KReplicaSet rs) = ''/api/v1/replicasets/'' @ md_name (rs_metadata rs)"
  by (simp add: uri_of_def prefix_of_directory directory_def name_of_def metadata_of_def)

lemma selected_put_rs:
  "m key = Some (KReplicaSet rs) \<Longrightarrow> selected sel (m(key \<mapsto> KReplicaSet rs')) = selected sel m"
  by (force simp: selected_def)

lemma status_turn:
  assumes world: "api_world ex contents conf" and sound: "well_stored (ex_be ex) (contents (sv_world s))"
    and m: "m = stored_objects (ex_be ex) (contents (sv_world s))"
    and rep: "reported m c" and rs: "m key = Some (KReplicaSet rs)" "rs_status rs = Some status"
    and name: "path_name (md_name (rs_metadata rs))" and own: "owned_by (md_name (rs_metadata rs)) (change_pod n)"
    and other: "rss_replicas status \<noteq> of_nat (card (selected (rsp_selector (rs_spec rs)) m))"
    and run: "rs_turn (all_ok (api_server ex)) c (RsPodEvent n) (True, (s, envs)) = (r, (True, (s2, envs2)))"
  shows "counting key (rs_spec rs) (rs_metadata rs) (card (selected (rsp_selector (rs_spec rs)) m))
      (stored_objects (ex_be ex) (contents (sv_world s2)))"
    and "stored_objects (ex_be ex) (contents (sv_world s2)) =
      m(key \<mapsto> KReplicaSet (rs\<lparr>rs_status := Some (rs_calculate_status c rs)\<rparr>))"
    and "well_stored (ex_be ex) (contents (sv_world s2))"
proof -
  let ?rs = "rs\<lparr>rs_status := Some (rs_calculate_status c rs)\<rparr>"
  have key: "uri_of (KReplicaSet rs) = key"
    using api_world.sound_objects [OF world sound] rs(1) m by simp
  have got: "hm_get (rsc_rs_store c) key = Some rs" using rep rs(1) by (simp add: reported_def)
  have count: "rss_replicas (rs_calculate_status c rs) = of_nat (card (selected (rsp_selector (rs_spec rs)) m))"
    by (simp add: rs_calculate_status_def Let_def selected_count [OF rep])
  have "rs_resolve_owner c (md_owner_references (pod_metadata (change_pod n))) = Some rs"
    using own got key by (simp add: rs_resolve_owner_def resolve_owner_def owned_by_def rs_uri)
  then have handle: "rs_handle_pod_change (all_ok (api_server ex)) c (change_pod n) = update_replicaset (all_ok (api_server ex)) c rs"
    by (simp add: rs_handle_pod_change_def)
  have differs: "rs_calculate_status c rs \<noteq> status" using count other by auto
  obtain q where "update_replicaset (all_ok (api_server ex)) c rs (True, (s, envs)) = (q, (True, (s2, envs2)))"
    using io_try_world [OF run [unfolded rs_turn_pod handle]] by auto
  then have put: "io_bind (api_send (all_ok (api_server ex)) (put_object (KReplicaSet ?rs))) (\<lambda>_. io_return ()) (True, (s, envs)) =
      (q, (True, (s2, envs2)))"
    using differs rs(2) by (simp add: update_replicaset_def Let_def rs_post_status_def)
  obtain msg d where "api_server ex (put_object (KReplicaSet ?rs)) (s, envs) = (Reply 200 msg d, (s2, envs2))"
    using sent_all_ok [OF put] by blast
  from put_rs_run [OF world sound _ this] name key m rs(1)
  show objs: "stored_objects (ex_be ex) (contents (sv_world s2)) = m(key \<mapsto> KReplicaSet ?rs)"
    and "well_stored (ex_be ex) (contents (sv_world s2))"
    by (simp_all add: rs_uri)
  show "counting key (rs_spec rs) (rs_metadata rs) (card (selected (rsp_selector (rs_spec rs)) m))
      (stored_objects (ex_be ex) (contents (sv_world s2)))"
    unfolding objs counting_def using count selected_put_rs [of m key rs, OF rs(1)] by auto
qed

lemma rs_reconcile_run:
  assumes "rs_turn api c (RsEvent (NUpdate old rs)) w = (r, w')"
  obtains q where "rs_reconcile api c rs w = (q, w')"
proof -
  have "io_bind (io_try (rs_reconcile api c rs)) (\<lambda>_. io_return ()) w = (r, w')"
    using assms by (simp add: rs_turn_def)
  from io_try_world [OF this] that show ?thesis by blast
qed

lemma reconcile_up:
  assumes turn: "rs_turn (all_ok api) c (RsEvent (NUpdate old rs)) (True, w) = (r, (True, w'))"
    and status: "rs_status rs = Some status" "rss_replicas status < rsp_replicas (rs_spec rs)"
  shows "\<exists>msg d. api (post_pod (rs_new_pod rs)) w = (Reply 200 msg d, w')"
proof -
  obtain q where "rs_reconcile (all_ok api) c rs (True, w) = (q, (True, w'))" using rs_reconcile_run [OF turn] .
  with status have "io_bind (api_send (all_ok api) (post_pod (rs_new_pod rs))) (\<lambda>_. io_return ()) (True, w) = (q, (True, w'))"
    by (simp add: rs_reconcile_def cmp_def rs_create_pod_def send_pod_def Let_def)
  then show ?thesis by (rule sent_all_ok)
qed

lemma reconcile_down:
  assumes turn: "rs_turn (all_ok api) c (RsEvent (NUpdate old rs)) (True, w) = (r, (True, w'))"
    and status: "rs_status rs = Some status" "rsp_replicas (rs_spec rs) < rss_replicas status" and moved: "w' \<noteq> w"
  shows "\<exists>name msg d. rs_get_pod_to_delete c rs = Inr name \<and> api (delete_pod_request name) w = (Reply 200 msg d, w')"
proof -
  obtain q where q: "rs_reconcile (all_ok api) c rs (True, w) = (q, (True, w'))" using rs_reconcile_run [OF turn] .
  have greater: "\<not> rss_replicas status < rsp_replicas (rs_spec rs)" "rss_replicas status \<noteq> rsp_replicas (rs_spec rs)"
    using status(2) by auto
  show ?thesis
  proof (cases "rs_get_pod_to_delete c rs")
    case (Inl e)
    with q greater status moved show ?thesis by (simp add: rs_reconcile_def cmp_def Let_def)
  next
    case (Inr name)
    with q greater status have
      "io_bind (api_send (all_ok api) (delete_pod_request name)) (\<lambda>_. io_return ()) (True, w) = (q, (True, w'))"
      by (simp add: rs_reconcile_def cmp_def Let_def delete_pod_def)
    from sent_all_ok [OF this] Inr show ?thesis by blast
  qed
qed

text \<open>The conditions on the template: its pods are selected, and owned by the replica set alone.\<close>

definition tidy_template :: "replica_set_spec \<Rightarrow> bool" where
  "tidy_template spec \<longleftrightarrow> labels_matches (md_labels (pt_metadata (rsp_template spec))) (rsp_selector spec) \<and>
     filter (\<lambda>r. or_kind r = ''ReplicaSet'') (md_owner_references (pt_metadata (rsp_template spec))) = []"

lemma new_pod_facts:
  assumes "tidy_template (rs_spec rs)"
  shows "owned_by (md_name (rs_metadata rs)) (created_pod env (rs_new_pod rs))"
    and "labels_matches (md_labels (pod_metadata (created_pod env (rs_new_pod rs)))) (rsp_selector (rs_spec rs))"
  using assms by (simp_all add: tidy_template_def owned_by_def created_pod_def rs_new_pod_def Let_def)

lemma of_nat_u32: "n < 2 ^ 32 \<Longrightarrow> unat (of_nat n :: u32) = n"
  by (simp add: unat_of_nat)

lemma round_up:
  assumes world: "api_world ex contents conf" and sound: "well_stored (ex_be ex) (contents (sv_world s))"
    and m: "m = stored_objects (ex_be ex) (contents (sv_world s))"
    and m1: "m1 = stored_objects (ex_be ex) (contents (sv_world s1))"
    and count: "counting key spec md k m" and fewer: "k < unat (rsp_replicas spec)"
    and name: "path_name (md_name md)" and tidy: "tidy_template spec"
    and rep: "reported m c" "hm_get (rsc_rs_store c) key = Some rs"
    and turn: "rs_turn (all_ok (api_server ex)) c (RsEvent (NUpdate old rs)) (True, (s, envs)) = (r, (True, (s1, envs1)))"
    and unused: "m (uri_of (KPod (created_pod (envs 0) (rs_new_pod rs)))) = None"
    and rep1: "reported m1 c1" and change: "pod_change m m1 n"
    and turn1: "rs_turn (all_ok (api_server ex)) c1 (RsPodEvent n) (True, (s1, envs1)) = (r1, (True, (s2, envs2)))"
  shows "counting key spec md (Suc k) (stored_objects (ex_be ex) (contents (sv_world s2)))"
    and "well_stored (ex_be ex) (contents (sv_world s2))"
proof -
  let ?p = "created_pod (envs 0) (rs_new_pod rs)"
  obtain status where rs: "m key = Some (KReplicaSet rs)" "rs_spec rs = spec" "rs_metadata rs = md"
    "rs_status rs = Some status" "rss_replicas status = of_nat k" "card (selected (rsp_selector spec) m) = k"
    using count rep by (auto simp: counting_def reported_def)
  have small: "Suc k < 2 ^ 32" using fewer unat_u32_less [of "rsp_replicas spec"] by simp
  have "rss_replicas status < rsp_replicas (rs_spec rs)"
    using fewer small by (simp add: rs word_less_nat_alt of_nat_u32)
  from reconcile_up [OF turn rs(4) this] obtain msg d where
    "api_server ex (post_pod (rs_new_pod rs)) (s, envs) = (Reply 200 msg d, (s1, envs1))" by blast
  from post_pod_run [OF world sound this] have
    objs: "m1 = m(uri_of (KPod ?p) \<mapsto> KPod ?p)" and sound1: "well_stored (ex_be ex) (contents (sv_world s1))"
    by (simp_all add: m m1)
  have same: "change_pod n = ?p" using change unused
    by (auto simp: pod_change_def objs change_pod_def split: notification.splits if_splits)
  have key: "key \<noteq> uri_of (KPod ?p)" using rs(1) unused by auto
  have sel: "selected (rsp_selector spec) m1 = insert (uri_of (KPod ?p)) (selected (rsp_selector spec) m)"
    using new_pod_facts(2) [of rs "envs 0"] tidy by (auto simp: objs selected_def rs(2))
  have "uri_of (KPod ?p) \<notin> selected (rsp_selector spec) m" using unused by (simp add: selected_def)
  then have card: "card (selected (rsp_selector spec) m1) = Suc k"
    using selected_finite [OF rep(1), of rs] by (simp add: sel rs)
  have other: "rss_replicas status \<noteq> of_nat (card (selected (rsp_selector (rs_spec rs)) m1))"
    using small by (metis rs(2,5) card of_nat_u32 Suc_lessD n_not_Suc_n)
  have m1_rs: "m1 key = Some (KReplicaSet rs)" using rs(1) key by (simp add: objs)
  have own: "owned_by (md_name (rs_metadata rs)) (change_pod n)"
    unfolding same using tidy by (intro new_pod_facts(1)) (simp add: rs)
  have name': "path_name (md_name (rs_metadata rs))" using name by (simp add: rs)
  show "counting key spec md (Suc k) (stored_objects (ex_be ex) (contents (sv_world s2)))"
    and "well_stored (ex_be ex) (contents (sv_world s2))"
    using status_turn(1,3) [OF world sound1 m1 rep1 m1_rs rs(4) name' own other turn1] by (simp_all add: rs card)
qed

text \<open>The selected pods belong to the replica set and have names that can be part of a path.\<close>

definition tended :: "labels \<Rightarrow> string \<Rightarrow> (string \<rightharpoonup> kube_object) \<Rightarrow> bool" where
  "tended sel name m \<longleftrightarrow> (\<forall>k p. m k = Some (KPod p) \<longrightarrow> labels_matches (md_labels (pod_metadata p)) sel \<longrightarrow>
     owned_by name p \<and> path_name (md_name (pod_metadata p)))"

lemma tended_put_rs: "tended sel name m \<Longrightarrow> tended sel name (m(key \<mapsto> KReplicaSet rs))"
  and tended_delete: "tended sel name m \<Longrightarrow> tended sel name (m(key := None))"
  by (auto simp: tended_def)

lemma deleted_pod:
  assumes world: "api_world ex contents conf" and sound: "well_stored (ex_be ex) (contents (sv_world s))"
    and m: "m = stored_objects (ex_be ex) (contents (sv_world s))" and rep: "reported m c"
    and tended: "tended (rsp_selector (rs_spec rs)) name m"
    and pick: "rs_get_pod_to_delete c rs = Inr pod_name"
    and reply: "api_server ex (delete_pod_request pod_name) (s, envs) = (Reply 200 msg d, (s1, envs1))"
  obtains k p where "m k = Some (KPod p)" and "k \<in> selected (rsp_selector (rs_spec rs)) m" and "owned_by name p"
    and "stored_objects (ex_be ex) (contents (sv_world s1)) = m(k := None)"
    and "well_stored (ex_be ex) (contents (sv_world s1))"
proof -
  obtain p where p: "p \<in> set (rs_get_pods c rs)" "md_name (pod_metadata p) = pod_name"
    using pick unfolding rs_get_pod_to_delete_def by (rule pick_least)
  obtain k where k: "m k = Some (KPod p)" "k \<in> selected (rsp_selector (rs_spec rs)) m"
    using rs_get_pods_stored [OF rep p(1)] .
  have "uri_of (KPod p) = k" using api_world.sound_objects [OF world sound] k(1) m by simp
  then have key: "k = ''/api/v1/pods/'' @ pod_name" by (simp add: pod_uri p(2))
  have own: "owned_by name p" "path_name pod_name"
    using tended k p(2) by (auto simp: tended_def selected_def)
  from delete_pod_run [OF world sound own(2) reply] show ?thesis
    using that [OF k own(1)] by (simp add: key m)
qed

lemma round_down:
  assumes world: "api_world ex contents conf" and sound: "well_stored (ex_be ex) (contents (sv_world s))"
    and m: "m = stored_objects (ex_be ex) (contents (sv_world s))"
    and m1: "m1 = stored_objects (ex_be ex) (contents (sv_world s1))"
    and count: "counting key spec md k m" and more: "unat (rsp_replicas spec) < k" "k < 2 ^ 32"
    and name: "path_name (md_name md)" and tended: "tended (rsp_selector spec) (md_name md) m"
    and rep: "reported m c" "hm_get (rsc_rs_store c) key = Some rs"
    and turn: "rs_turn (all_ok (api_server ex)) c (RsEvent (NUpdate old rs)) (True, (s, envs)) = (r, (True, (s1, envs1)))"
    and rep1: "reported m1 c1" and change: "pod_change m m1 n"
    and turn1: "rs_turn (all_ok (api_server ex)) c1 (RsPodEvent n) (True, (s1, envs1)) = (r1, (True, (s2, envs2)))"
  shows "counting key spec md (k - 1) (stored_objects (ex_be ex) (contents (sv_world s2)))"
    and "tended (rsp_selector spec) (md_name md) (stored_objects (ex_be ex) (contents (sv_world s2)))"
    and "well_stored (ex_be ex) (contents (sv_world s2))"
proof -
  obtain status where rs: "m key = Some (KReplicaSet rs)" "rs_spec rs = spec" "rs_metadata rs = md"
    "rs_status rs = Some status" "rss_replicas status = of_nat k" "card (selected (rsp_selector spec) m) = k"
    using count rep by (auto simp: counting_def reported_def)
  have "rsp_replicas (rs_spec rs) < rss_replicas status"
    using more by (simp add: rs word_less_nat_alt of_nat_u32)
  moreover have "m1 \<noteq> m" using change by (cases n) (auto simp: pod_change_def)
  ultimately obtain pod_name msg d where pick: "rs_get_pod_to_delete c rs = Inr pod_name"
    and reply: "api_server ex (delete_pod_request pod_name) (s, envs) = (Reply 200 msg d, (s1, envs1))"
    using reconcile_down [OF turn rs(4)] m m1 by blast
  have tended': "tended (rsp_selector (rs_spec rs)) (md_name md) m" using tended by (simp add: rs)
  obtain j p where p: "m j = Some (KPod p)" "j \<in> selected (rsp_selector (rs_spec rs)) m" "owned_by (md_name md) p"
    "stored_objects (ex_be ex) (contents (sv_world s1)) = m(j := None)" and sound1: "well_stored (ex_be ex) (contents (sv_world s1))"
    using deleted_pod [OF world sound m rep(1) tended' pick reply] .
  have objs: "m1 = m(j := None)" using p(4) m1 by simp
  have same: "change_pod n = p" using change p(1)
    by (auto simp: pod_change_def objs change_pod_def split: notification.splits if_splits)
  have sel: "selected (rsp_selector spec) m1 = selected (rsp_selector spec) m - {j}"
    by (auto simp: objs selected_def)
  have card: "card (selected (rsp_selector spec) m1) = k - 1"
    using selected_finite [OF rep(1), of rs] p(2) by (simp add: sel rs card_Diff_singleton)
  have other: "rss_replicas status \<noteq> of_nat (card (selected (rsp_selector (rs_spec rs)) m1))"
  proof
    assume "rss_replicas status = of_nat (card (selected (rsp_selector (rs_spec rs)) m1))"
    then have "unat (of_nat k :: u32) = unat (of_nat (k - 1) :: u32)" by (simp add: rs card)
    with more show False by (simp only: of_nat_u32)
  qed
  have m1_rs: "m1 key = Some (KReplicaSet rs)" using rs(1) p(1) by (auto simp: objs)
  have own: "owned_by (md_name (rs_metadata rs)) (change_pod n)" using p(3) by (simp add: same rs)
  have name': "path_name (md_name (rs_metadata rs))" using name by (simp add: rs)
  note put = status_turn [OF world sound1 m1 rep1 m1_rs rs(4) name' own other turn1]
  show "counting key spec md (k - 1) (stored_objects (ex_be ex) (contents (sv_world s2)))"
    and "well_stored (ex_be ex) (contents (sv_world s2))"
    using put(1,3) by (simp_all add: rs card)
  show "tended (rsp_selector spec) (md_name md) (stored_objects (ex_be ex) (contents (sv_world s2)))"
    unfolding put(2) objs using tended by (intro tended_put_rs tended_delete)
qed

section \<open>Many rounds\<close>

lemma rounds_up:
  assumes rounds: "rs_rounds ex contents key st n st'" and world: "api_world ex contents conf"
    and sound: "well_stored (ex_be ex) (contents (sv_world (fst st)))"
    and count: "counting key spec md k (stored_objects (ex_be ex) (contents (sv_world (fst st))))"
    and name: "path_name (md_name md)" and tidy: "tidy_template spec" and few: "k + n \<le> unat (rsp_replicas spec)"
  shows "counting key spec md (k + n) (stored_objects (ex_be ex) (contents (sv_world (fst st')))) \<and>
    well_stored (ex_be ex) (contents (sv_world (fst st')))"
  using rounds few
proof (induction rule: rs_rounds.induct)
  case none
  then show ?case using count sound by simp
next
  case (more n s envs m m1 s1 c rs old r envs1 c1 change r1 st2)
  obtain s2 envs2 where st2: "st2 = (s2, envs2)" by (cases st2)
  from more.IH more.prems have now: "counting key spec md (k + n) m" "well_stored (ex_be ex) (contents (sv_world s))"
    by (simp_all add: more.hyps)
  have "k + n < unat (rsp_replicas spec)" using more.prems by simp
  from round_up [OF world now(2) more.hyps(2,3) now(1) this name tidy more.hyps(4-9) more.hyps(10) [unfolded st2]]
  show ?case by (simp add: st2)
qed

lemma rounds_down:
  assumes rounds: "rs_rounds ex contents key st n st'" and world: "api_world ex contents conf"
    and sound: "well_stored (ex_be ex) (contents (sv_world (fst st)))"
    and count: "counting key spec md k (stored_objects (ex_be ex) (contents (sv_world (fst st))))"
    and name: "path_name (md_name md)"
    and tended: "tended (rsp_selector spec) (md_name md) (stored_objects (ex_be ex) (contents (sv_world (fst st))))"
    and many: "unat (rsp_replicas spec) + n \<le> k" "k < 2 ^ 32"
  shows "counting key spec md (k - n) (stored_objects (ex_be ex) (contents (sv_world (fst st')))) \<and>
    tended (rsp_selector spec) (md_name md) (stored_objects (ex_be ex) (contents (sv_world (fst st')))) \<and>
    well_stored (ex_be ex) (contents (sv_world (fst st')))"
  using rounds many
proof (induction rule: rs_rounds.induct)
  case none
  then show ?case using count sound tended by simp
next
  case (more n s envs m m1 s1 c rs old r envs1 c1 change r1 st2)
  obtain s2 envs2 where st2: "st2 = (s2, envs2)" by (cases st2)
  from more.IH more.prems have now: "counting key spec md (k - n) m" "well_stored (ex_be ex) (contents (sv_world s))"
    "tended (rsp_selector spec) (md_name md) m"
    by (simp_all add: more.hyps)
  have left: "unat (rsp_replicas spec) < k - n" "k - n < 2 ^ 32" using more.prems by simp_all
  from round_down [OF world now(2) more.hyps(2,3) now(1) left name now(3) more.hyps(4-6) more.hyps(8,9) more.hyps(10) [unfolded st2]]
  show ?case by (simp add: st2)
qed

lemma counting_idle:
  assumes "counting key spec md k m" and "m key = Some (KReplicaSet rs)" and "k = unat (rsp_replicas spec)"
  shows "rs_reconcile api c rs w = (Inr (), w)"
  using assms by (auto simp: counting_def rs_reconcile_def cmp_def Let_def)

section \<open>The number of pods\<close>

text \<open>
  C5. Replica set controller and API server, in a closed loop: when a stored replica set counts its \<open>k\<close> pods in its status, as many rounds as
  \<open>k\<close> and the wanted number differ, in which the server accepts every request, leave exactly the wanted number of pods stored
  and a status that counts them, whether there were too few pods or too many; the next reconciliation sends nothing.
\<close>

theorem replicas_converge:
  assumes world: "api_world ex contents conf" and sound: "well_stored (ex_be ex) (contents (sv_world (fst st)))"
    and count: "counting key spec md k (stored_objects (ex_be ex) (contents (sv_world (fst st))))" "k < 2 ^ 32"
    and name: "path_name (md_name md)" and tidy: "tidy_template spec"
    and tended: "tended (rsp_selector spec) (md_name md) (stored_objects (ex_be ex) (contents (sv_world (fst st))))"
    and rounds: "rs_rounds ex contents key st n st'"
    and steps: "n = (unat (rsp_replicas spec) - k) + (k - unat (rsp_replicas spec))"
  shows "\<exists>rs. stored_objects (ex_be ex) (contents (sv_world (fst st'))) key = Some (KReplicaSet rs) \<and> rs_spec rs = spec \<and>
    card (selected (rsp_selector spec) (stored_objects (ex_be ex) (contents (sv_world (fst st'))))) = unat (rsp_replicas spec) \<and>
    rs_reconcile api c rs w = (Inr (), w)"
proof -
  let ?m = "stored_objects (ex_be ex) (contents (sv_world (fst st')))"
  have goal: "counting key spec md (unat (rsp_replicas spec)) ?m"
  proof (cases "k \<le> unat (rsp_replicas spec)")
    case True
    with steps have "k + n = unat (rsp_replicas spec)" by simp
    with rounds_up [OF rounds world sound count(1) name tidy] show ?thesis by simp
  next
    case False
    with steps have "unat (rsp_replicas spec) + n = k" and "k - n = unat (rsp_replicas spec)" by simp_all
    with rounds_down [OF rounds world sound count(1) name tended _ count(2)] show ?thesis by (simp add: add.commute)
  qed
  then obtain rs where "?m key = Some (KReplicaSet rs)" "rs_spec rs = spec" "card (selected (rsp_selector spec) ?m) = unat (rsp_replicas spec)"
    unfolding counting_def by (elim exE conjE) (rule that)
  with counting_idle [OF goal _ refl] show ?thesis by (intro exI conjI)
qed

section \<open>A run\<close>

definition loop_rs :: "replica_set_status \<Rightarrow> replica_set" where
  "loop_rs status = \<lparr>rs_metadata = metadata_default\<lparr>md_name := ''web''\<rparr>,
     rs_spec = \<lparr>rsp_selector = [(''app'', ''web'')],
       rsp_template = \<lparr>pt_metadata = metadata_default\<lparr>md_name := ''web'', md_labels := [(''app'', ''web'')]\<rparr>,
         pt_spec = pod_spec_default\<rparr>, rsp_replicas = 1\<rparr>,
     rs_status = Some status\<rparr>"

definition rs_before :: replica_set where
  "rs_before = loop_rs \<lparr>rss_replicas = 0, rss_ready_replicas = 0\<rparr>"

definition rs_after :: replica_set where
  "rs_after = loop_rs \<lparr>rss_replicas = 1, rss_ready_replicas = 0\<rparr>"

definition loop_pod :: pod where
  "loop_pod = created_pod (sample_env :: string memory env) (rs_new_pod rs_before)"

definition loop_world :: "string memory externals" where
  "loop_world = mem_externals [(''before'', KReplicaSet rs_before), (''pod'', KPod loop_pod), (''after'', KReplicaSet rs_after)]
     config_table"

abbreviation loop_key :: string where
  "loop_key \<equiv> ''/api/v1/replicasets/web''"

definition loop_server :: "(string, string) hashmap \<Rightarrow> string memory server" where
  "loop_server m = \<lparr>sv_ip_pool = [], sv_world = (m, ''none'')\<rparr>"

lemma loop_uris: "uri_of (KPod loop_pod) = ''/api/v1/pods/web-ab3de''" "uri_of (KReplicaSet rs_before) = loop_key"
  "uri_of (KReplicaSet rs_after) = loop_key"
  by (simp_all add: pod_uri rs_uri loop_pod_def created_pod_def rs_new_pod_def rs_before_def rs_after_def loop_rs_def
      unique_name_def sample_env_def to_lowercase_def char_to_lower_def char_of_eq_iff Let_def)

lemma loop_world: "api_world loop_world mem_contents snd"
  unfolding loop_world_def by (rule mem_api_world) (simp_all add: config_table_def)

lemma rs_before_after: "rs_before \<noteq> rs_after"
  by (simp add: rs_before_def rs_after_def loop_rs_def)

lemma loop_objects:
  "stored_objects (ex_be loop_world) (mem_contents (sv_world (loop_server [(loop_key, ''before'')]))) =
     [loop_key \<mapsto> KReplicaSet rs_before]"
  "stored_objects (ex_be loop_world) (mem_contents (sv_world (loop_server [(loop_key, ''before''), (''/api/v1/pods/web-ab3de'', ''pod'')]))) =
     [loop_key \<mapsto> KReplicaSet rs_before, ''/api/v1/pods/web-ab3de'' \<mapsto> KPod loop_pod]"
  by (auto simp: fun_eq_iff stored_objects_def mem_contents_def loop_server_def loop_world_def)

definition loop_before :: rs_controller where
  "loop_before = \<lparr>rsc_rs_store = [(loop_key, rs_before)], rsc_pod_store = []\<rparr>"

definition loop_after :: rs_controller where
  "loop_after = \<lparr>rsc_rs_store = [(loop_key, rs_before)], rsc_pod_store = [(''/api/v1/pods/web-ab3de'', loop_pod)]\<rparr>"

definition server0 :: "string memory server" where
  "server0 = loop_server [(loop_key, ''before'')]"

definition server1 :: "string memory server" where
  "server1 = loop_server [(loop_key, ''before''), (''/api/v1/pods/web-ab3de'', ''pod'')]"

definition server2 :: "string memory server" where
  "server2 = loop_server [(loop_key, ''after''), (''/api/v1/pods/web-ab3de'', ''pod'')]"

lemma loop_store:
  "store_object loop_world (KPod loop_pod) server0 = (Inr (), server1)"
  "store_object loop_world (KReplicaSet rs_after) server1 = (Inr (), server2)"
  using rs_before_after
  by (simp_all add: store_object_def must_def in_world_def io_map_err_def loop_world_def server0_def server1_def server2_def
      loop_server_def mem_put [where js = "''pod''"] mem_put [where js = "''after''"] hm_insert_def loop_uris)

lemma loop_post: "api_server loop_world (post_pod (rs_new_pod rs_before)) (server0, \<lambda>_. sample_env) =
    (Reply 200 (Some (''pod/'' @ md_name (pod_metadata loop_pod) @ '' created'')) None, (server1, \<lambda>_. sample_env))"
proof -
  have "api_pod_create loop_world sample_env (KPod (rs_new_pod rs_before)) server0 =
      (Inr (Some (''pod/'' @ md_name (pod_metadata loop_pod) @ '' created''), None), server1)"
    by (simp add: api_pod_create_def Let_def loop_pod_def [symmetric] io_bind_def done_msg_def loop_store)
  then show ?thesis
    by (simp add: api_server_def post_pod_def serve_pods respond_def reply_of_def)
qed

lemma loop_put: "api_server loop_world (put_object (KReplicaSet rs_after)) (server1, \<lambda>_. sample_env) =
    (Reply 200 (Some (''replicaset/web updated'')) None, (server2, \<lambda>_. sample_env))"
proof -
  have name: "md_name (rs_metadata rs_after) = ''web''" by (simp add: rs_after_def loop_rs_def)
  then have "path_name (md_name (rs_metadata rs_after))" by (simp add: path_name_def)
  note serve = serve_put_replicaset [OF this]
  have "api_rs_update loop_world ''web'' (KReplicaSet rs_after) server1 = (Inr (Some ''replicaset/web updated'', None), server2)"
    by (simp add: api_rs_update_def io_bind_def done_msg_def loop_store)
  then show ?thesis
    by (simp add: api_server_def serve name respond_def reply_of_def)
qed

lemma loop_turns:
  "rs_turn (all_ok (api_server loop_world)) loop_before (RsEvent (NUpdate rs_before rs_before)) (True, (server0, \<lambda>_. sample_env)) =
     (Inr (), (True, (server1, \<lambda>_. sample_env)))"
  "rs_turn (all_ok (api_server loop_world)) loop_after (RsPodEvent (NAdd loop_pod)) (True, (server1, \<lambda>_. sample_env)) =
     (Inr (), (True, (server2, \<lambda>_. sample_env)))"
proof -
  have "rs_status rs_before = Some \<lparr>rss_replicas = 0, rss_ready_replicas = 0\<rparr>" "rsp_replicas (rs_spec rs_before) = 1"
    by (simp_all add: rs_before_def loop_rs_def)
  then show "rs_turn (all_ok (api_server loop_world)) loop_before (RsEvent (NUpdate rs_before rs_before)) (True, (server0, \<lambda>_. sample_env)) =
     (Inr (), (True, (server1, \<lambda>_. sample_env)))"
    by (simp add: rs_turn_def io_bind_def io_try_def rs_reconcile_def cmp_def rs_create_pod_def send_pod_def api_send_def
        all_ok_def loop_post)
  have refs: "md_owner_references (pod_metadata loop_pod) = [\<lparr>or_kind = ''ReplicaSet'', or_name = ''web''\<rparr>]"
    by (simp add: loop_pod_def created_pod_def rs_new_pod_def rs_before_def loop_rs_def metadata_default_def Let_def)
  have "labels_matches (md_labels (pod_metadata loop_pod)) (rsp_selector (rs_spec rs_before))" "\<not> pod_is_ready loop_pod"
    by (simp_all add: loop_pod_def created_pod_def rs_new_pod_def rs_before_def loop_rs_def labels_matches_def Let_def
        pod_is_ready_def pod_status_default_def)
  then have status: "rs_before\<lparr>rs_status := Some (rs_calculate_status loop_after rs_before)\<rparr> = rs_after"
    by (simp add: rs_calculate_status_def rs_get_pods_def loop_after_def hm_values_def Let_def)
      (simp add: rs_before_def rs_after_def loop_rs_def)
  have differ: "rs_calculate_status loop_after rs_before \<noteq> \<lparr>rss_replicas = 0, rss_ready_replicas = 0\<rparr>"
    using status rs_before_after by (auto simp: rs_before_def loop_rs_def)
  have "rs_resolve_owner loop_after [\<lparr>or_kind = ''ReplicaSet'', or_name = ''web''\<rparr>] = Some rs_before"
    by (simp add: rs_resolve_owner_def resolve_owner_def loop_after_def)
  then show "rs_turn (all_ok (api_server loop_world)) loop_after (RsPodEvent (NAdd loop_pod)) (True, (server1, \<lambda>_. sample_env)) =
     (Inr (), (True, (server2, \<lambda>_. sample_env)))"
    using differ \<open>rs_status rs_before = _\<close>
    by (simp add: rs_turn_def io_bind_def io_try_def rs_handle_pod_change_def refs update_replicaset_def Let_def rs_post_status_def
        status api_send_def all_ok_def loop_put)
qed

lemma loop_reported:
  "reported (stored_objects (ex_be loop_world) (mem_contents (sv_world server0))) loop_before"
  "reported (stored_objects (ex_be loop_world) (mem_contents (sv_world server1))) loop_after"
  unfolding server0_def server1_def loop_objects
  by (auto simp: reported_def hm_wf_def loop_before_def loop_after_def)

lemma loop_rounds:
  "rs_rounds loop_world mem_contents loop_key (server0, \<lambda>_. sample_env) 1 (server2, \<lambda>_. sample_env)"
  unfolding One_nat_def
proof (rule rs_rounds.more [OF rs_rounds.none refl refl loop_reported(1) _ loop_turns(1) _ loop_reported(2) _ loop_turns(2)])
  show "hm_get (rsc_rs_store loop_before) loop_key = Some rs_before" by (simp add: loop_before_def)
  have pod: "uri_of (KPod (created_pod (sample_env :: string memory env) (rs_new_pod rs_before))) = ''/api/v1/pods/web-ab3de''"
    using loop_uris(1) by (simp add: loop_pod_def)
  show "stored_objects (ex_be loop_world) (mem_contents (sv_world server0))
      (uri_of (KPod (created_pod (sample_env :: string memory env) (rs_new_pod rs_before)))) = None"
    unfolding server0_def loop_objects pod by simp
  show "pod_change (stored_objects (ex_be loop_world) (mem_contents (sv_world server0)))
      (stored_objects (ex_be loop_world) (mem_contents (sv_world server1))) (NAdd loop_pod)"
    unfolding server0_def server1_def loop_objects pod_change_def
    by (intro exI [of _ "''/api/v1/pods/web-ab3de''"]) simp
qed

lemma loop_start:
  "well_stored (ex_be loop_world) (mem_contents (sv_world server0))"
  "counting loop_key (rs_spec rs_before) (rs_metadata rs_before) 0 (stored_objects (ex_be loop_world) (mem_contents (sv_world server0)))"
  "tended (rsp_selector (rs_spec rs_before)) (md_name (rs_metadata rs_before))
     (stored_objects (ex_be loop_world) (mem_contents (sv_world server0)))"
  "path_name (md_name (rs_metadata rs_before))" "tidy_template (rs_spec rs_before)"
proof -
  have none: "selected sel [loop_key \<mapsto> KReplicaSet rs_before] = {}" for sel by (auto simp: selected_def)
  have "rs_status rs_before = Some \<lparr>rss_replicas = 0, rss_ready_replicas = 0\<rparr>" by (simp add: rs_before_def loop_rs_def)
  then show "counting loop_key (rs_spec rs_before) (rs_metadata rs_before) 0
      (stored_objects (ex_be loop_world) (mem_contents (sv_world server0)))"
    unfolding server0_def loop_objects counting_def none by simp
  show "tended (rsp_selector (rs_spec rs_before)) (md_name (rs_metadata rs_before))
     (stored_objects (ex_be loop_world) (mem_contents (sv_world server0)))"
    unfolding server0_def loop_objects by (auto simp: tended_def)
  show "well_stored (ex_be loop_world) (mem_contents (sv_world server0))"
    by (auto simp: well_stored_def mem_contents_def server0_def loop_server_def loop_world_def loop_uris)
  show "path_name (md_name (rs_metadata rs_before))" "tidy_template (rs_spec rs_before)"
    by (simp_all add: path_name_def tidy_template_def rs_before_def loop_rs_def labels_matches_def metadata_default_def)
qed

theorem replicas_converge_witness:
  "\<exists>rs. stored_objects (ex_be loop_world) (mem_contents (sv_world server2)) loop_key = Some (KReplicaSet rs) \<and>
    rs_spec rs = rs_spec rs_before \<and>
    card (selected (rsp_selector (rs_spec rs_before)) (stored_objects (ex_be loop_world) (mem_contents (sv_world server2)))) = 1 \<and>
    rs_reconcile (api_server loop_world) loop_after rs (server2, \<lambda>_. sample_env) = (Inr (), (server2, \<lambda>_. sample_env))"
proof -
  have wanted: "unat (rsp_replicas (rs_spec rs_before)) = 1" by (simp add: rs_before_def loop_rs_def)
  have sound: "well_stored (ex_be loop_world) (mem_contents (sv_world (fst (server0, \<lambda>_ :: nat. sample_env :: string memory env))))"
    using loop_start(1) by simp
  show ?thesis
    using replicas_converge [OF loop_world sound _ _ loop_start(4,5) _ loop_rounds, where k = 0 and api = "api_server loop_world"
        and c = loop_after and w = "(server2, \<lambda>_. sample_env)"] loop_start(2,3) wanted
    by simp
qed

end
