(* ===== verification/Spec2Isabelle.thy ===== *)
theory Spec2Isabelle
  imports Autoscaler GpuJobController Endpoints Cluster LoadBalance Kubelet FunctionController Serverless Ingress Rkubectl InformerWiring Exec RsLoop
begin

text \<open>
  A verification development of rMiniK8s, a small Kubernetes in Rust: an API server in front of etcd, a scheduler, six
  controllers, a kubelet and a service proxy per node, an ingress, a serverless router and a command line client.

  \<^bold>\<open>The program.\<close> Only the API server (\<open>src/api_server\<close>) touches etcd. It stores every object as JSON under
  \<open>/api/v1/\<close> kind \<open>/\<close> name, answers HTTP requests, and forwards the changes of etcd over web sockets. Every other component has
  informers (\<open>src/resources/src/informer\<close>): a reflector lists the objects of one kind, watches their changes, keeps them in a
  store and notifies; the informer turns notifications into messages in the channels of its component, whose
  loop takes them one at a time and sends requests to the API server. The scheduler binds pods to nodes;
  the controllers of replica sets and jobs make and delete pods, the autoscaler sets the replicas of
  replica sets from metrics the API server reads from Prometheus, the endpoints controller writes the addresses of the
  pods into services, from which the service proxy makes the rules of iptables and the ingress controller the
  configuration of nginx. The function controller builds an image and a replica set for a function, the router
  passes requests on to functions and walks through workflows. The kubelet runs the pods of its node with Docker
  and reports their status.

  \<^bold>\<open>Theories and sources.\<close>
    \<^item> \<open>Prelude\<close>: widths of integers, failures as values, the state-and-error monad with its rules for what runs preserve,
      achieve and fail with, hash maps (locale \<open>key_store\<close>, interpreted on the lists used for them), texts of numbers.
    \<^item> \<open>Objects\<close>, \<open>Describe\<close>: \<open>resources/src/objects\<close>: records of all objects, their keys, labels, defaults, derived
      equalities, and the texts \<open>describe\<close> prints.
    \<^item> \<open>Http\<close>: requests and replies as the clients see them, with the logics \<open>sends\<close> and \<open>logs\<close> of what an operation asks.
    \<^item> \<open>Informer\<close>: \<open>resources/src/informer\<close>; \<open>InformerWiring\<close>: the functions \<open>create_informer\<close> of all components.
    \<^item> \<open>F64\<close>, \<open>ReplicaCalculator\<close>, \<open>Autoscaler\<close>: \<open>controllers/src/podautoscaler\<close>, with binary64 arithmetic written out.
    \<^item> \<open>Workload\<close>, \<open>ReplicaSetController\<close>, \<open>GpuJobController\<close>, \<open>Endpoints\<close>, \<open>FunctionController\<close>, \<open>Ingress\<close>: the other
      directories of \<open>controllers/src\<close>; \<open>Workload\<close> holds what the first two share.
    \<^item> \<open>Scheduler\<close>: \<open>scheduler/src\<close>.
    \<^item> \<open>ApiStore\<close> (\<open>etcd.rs\<close>, \<open>handler/mod.rs\<close>, error replies), \<open>ApiMetrics\<close> (\<open>handler/metrics.rs\<close>, scrape targets), \<open>ApiHandlers\<close>
      (\<open>handler/*.rs\<close>), \<open>ApiServer\<close> (\<open>main.rs\<close>: routes and replies), with \<open>ApiFacts\<close>, \<open>ApiProperties\<close>, \<open>ApiErrors\<close>: \<open>api_server/src\<close>.
    \<^item> \<open>Cluster\<close>: the API server as the world of its clients, and its store as an informer sees it; \<open>RsLoop\<close>: the replica set
      controller, the API server and the informers as a closed loop.
    \<^item> \<open>KubeProxy\<close> (\<open>rkube_proxy/src\<close>), \<open>NatTable\<close> (what a packet meets in the nat table), \<open>ProxyTables\<close>, \<open>LoadBalance\<close>.
    \<^item> \<open>Docker\<close>, \<open>KubeletPod\<close>, \<open>Kubelet\<close> (\<open>rkubelet/src\<close>: \<open>docker.rs\<close>, \<open>pod.rs\<close> and \<open>volume.rs\<close>, the workers and managers), with
      \<open>KubeletFacts\<close> and the engine in memory \<open>DockerMemory\<close>.
    \<^item> \<open>Serverless\<close>: \<open>serverless/src/router\<close>; \<open>Rkubectl\<close>: \<open>rkubectl/src\<close>; \<open>Exec\<close>: \<open>rkubectl exec\<close> through the API server
      to the kubelet.
    \<^item> this theory: the properties in which two components meet.

  \<^bold>\<open>How code is written.\<close> A struct is a record, an enum a datatype, an integer a word of its width; additions and subtractions wrap as in a
  release build, and where a debug build would panic the properties say what the wrapped value is. A \<open>HashMap\<close> is a
  list of pairs without duplicate keys, in the map's iteration order, which is arbitrary in Rust; no property depends on it.
  An asynchronous operation is a function of a world that ends with a value, an error (\<open>Err\<close>) or a panic
  (\<open>Panic\<close>) and the changed world; a failed operation keeps the changes it made. A turn of a \<open>select!\<close> is a
  function of the event it takes, and a run a list of events in any order. A send into a bounded channel that
  nobody will empty is \<open>None\<close> (scheduler) or a state without a step (\<open>pipe_step\<close>).

  \<^bold>\<open>Parameters.\<close> Code outside the repository is an argument. Its documented behaviour is the contract of a locale, interpreted in the
  theories on a model in memory, with which the witnesses run:
    \<^item> the etcd client and serde (\<open>backend\<close>, locale \<open>etcd\<close>, a sublocale of \<open>object_store\<close>), Prometheus and its
      configuration file (locale \<open>scrape_file\<close>), together \<open>externals\<close> with the locale \<open>api_world\<close>;
    \<^item> the crate iptables (\<open>iptables\<close>, locale \<open>nat_table\<close>) and the Docker engine (\<open>docker\<close>, locale \<open>docker_engine\<close>);
    \<^item> the derived and hand-written equalities an informer compares objects with (locale \<open>object_equality\<close>, interpreted for
      equality and for nodes, whose heartbeat is ignored);
    \<^item> the API server as its clients see it (\<open>api\<close>), any function of a request, and in \<open>Cluster\<close> and here the modelled server;
    \<^item> \<open>build_ops\<close> and \<open>function_ops\<close> (downloads, files, docker build), \<open>router_ops\<close> (HTTP, JSON, the counter of requests), the parser and
      printer of nginx, \<open>machine\<close> (what the node reports of itself), \<open>ctl\<close> (client and files of rkubectl), \<open>printer\<close>,
      \<open>close_codes\<close>, \<open>exec_ops\<close>; clocks, random numbers and uuids are arguments of the operations that read them.

  \<^bold>\<open>Bounds and fuel.\<close> \<open>await_image\<close> and \<open>await_endpoints\<close> recurse on the attempts the code counts (61 looks: the counter is
  compared after the look, from 0 to 60). Draws of random names and addresses are lists; \<open>gen_service_ip_returns\<close>
  shows that one more different draw than addresses in use suffices. \<open>register_loop\<close> and \<open>walk\<close> may run for ever
  and are partial functions whose \<open>None\<close> means just that; that they return, or do not, is proved as such. The work queue of the kubelet and the
  channels have 16 places. \<open>endpoints_share_equally\<close> holds for fewer than 2 to the 24 endpoints, beyond which the
  printed probabilities are not exact enough. All other loops are structural.

  \<^bold>\<open>What the lemmas show.\<close>
    \<^item> Between components: an informer mirrors the store of the server (\<open>informer_mirrors_server\<close>), a binding, a new pod, an
      activation and a built function have exactly their effect in the store, and a deleted replica set can return;
      the loop of replica sets reaches the number of pods wanted, and rests.
    \<^item> API server: every request keeps the store well formed; patches change specifications only; error replies have
      an error status; the scrape targets of a node come and go; service addresses are drawn from the pool.
    \<^item> Informers: notifications replay to the store; the pipeline to a handler that reads the store can deadlock from 35 changes on, and
      not below; all informers list and watch what the server serves.
    \<^item> Controllers and scheduler: the exact requests of every reconciliation, the choice of the pod to delete and of the node, bounds
      and rate limits of scaling, endpoints equal to the reference, also incrementally.
    \<^item> Node: the nat table mirrors the services after every notification, traffic is shared equally; a look after a
      pod brings its containers into the state of the abstract specification.
    \<^item> Router and clients: a workflow computes the composition of its functions; the text of the nginx configuration is that of a
      reference printer; what is typed in an exec session arrives, and its output is shown.
    \<^item> Where the code does not do what it means to, the theorem says what it does (deadlocks, panics, lost updates, heartbeats
      that are not seen); the findings of the manifest name these theorems.

  \<^bold>\<open>Not modelled.\<close> Reading configuration files and environment variables, starting tasks and binding ports (\<open>main.rs\<close> of
  the components), the pool of etcd connections, the file server under \<open>/tmp\<close>, shell completion, logging, the scripts and
  examples (\<open>controllers/examples/dummy-controller\<close>): they call other crates or do not act on the state. Of a web socket the messages are modelled, not the frames; a slow reader and the memory it
  costs are not. The scheduling of tasks is seen only in the order of events and in the pipelines.
\<close>

section \<open>The components together\<close>

lemma watched_texts_on:
  "list_all (\<lambda>e. parse (pr e) = Some e) evs \<Longrightarrow> watched parse (map (\<lambda>e. TextMessage (pr e)) evs) = evs"
  by (induction evs) simp_all



text \<open>
  C3. Scheduler and API server: when the server answers the scheduler's binding with status 200, the
  node and the pod were stored, and the store differs only in the pod, which is now on the node the
  algorithm chose, with the node's address and the condition PodScheduled, and in the binding.
\<close>

theorem scheduler_binds_pod:
  assumes world: "api_world ex contents conf" and sound: "well_stored (ex_be ex) (contents (sv_world s))"
    and free: "ps_node_name (pod_spec p) = None" and choice: "algorithm p c = Some target"
    and reply: "api_server ex (binding_request p target) (s, envs) = (Reply 200 msg d, (s', envs'))"
  shows "\<exists>node q q'.
    sched_pod_add (api_server ex) algorithm p (c, (s, envs)) =
      (Inr (), (cache_pod_add (or_name target) c, (s', envs'))) \<and>
    stored_objects (ex_be ex) (contents (sv_world s)) (''/api/v1/nodes/'' @ or_name target) = Some (KNode node) \<and>
    stored_objects (ex_be ex) (contents (sv_world s)) (uri_of (KPod p)) = Some (KPod q) \<and>
    pod_is_on_node q' (or_name target) \<and> pod_metadata q' = pod_metadata q \<and>
    (\<exists>status. pod_status q' = Some status \<and> hm_get (pst_conditions status) PodScheduled = Some True \<and>
      pst_host_ip status = hm_get (ns_addresses (node_status node)) InternalIP) \<and>
    stored_objects (ex_be ex) (contents (sv_world s')) = (stored_objects (ex_be ex) (contents (sv_world s)))
      (uri_of (KPod p) \<mapsto> KPod q', ''/api/v1/bindings/'' @ md_name (pod_metadata p) \<mapsto>
         KBinding \<lparr>bd_metadata = pod_metadata p, bd_target = target\<rparr>)"
proof -
  let ?b = "\<lparr>bd_metadata = pod_metadata p, bd_target = target\<rparr>"
  have "respond ex (Run (api_bind ex (KBinding ?b))) s = (Reply 200 msg d, s')"
    using reply by (auto simp: api_server_def binding_request_def serve_bindings split: prod.splits)
  then have "api_bind ex (KBinding ?b) s = (Inr (msg, d), s')"
    using bind_fails by (rule respond_200)
  from bind_run [OF world sound this] obtain node q q' where
    "stored_objects (ex_be ex) (contents (sv_world s)) (''/api/v1/nodes/'' @ or_name target) = Some (KNode node)"
    "stored_objects (ex_be ex) (contents (sv_world s)) (''/api/v1/pods/'' @ md_name (pod_metadata p)) = Some (KPod q)"
    and q': "bound node (or_name target) q = Some q'" and
    "stored_objects (ex_be ex) (contents (sv_world s')) = (stored_objects (ex_be ex) (contents (sv_world s)))
       (''/api/v1/pods/'' @ md_name (pod_metadata p) \<mapsto> KPod q', uri_of (KBinding ?b) \<mapsto> KBinding ?b)"
    by auto
  moreover have "uri_of (KBinding ?b) = ''/api/v1/bindings/'' @ md_name (pod_metadata p)"
    by (simp add: uri_of_def prefix_of_directory directory_def name_of_def metadata_of_def)
  moreover have "sched_pod_add (api_server ex) algorithm p (c, (s, envs)) =
      (Inr (), (cache_pod_add (or_name target) c, (s', envs')))"
    using free choice reply by (simp add: sched_pod_add_def sched_bind_def api_send_checked_def)
  ultimately show ?thesis
    using bound_props [OF q'] by (intro exI [of _ node] exI [of _ q] exI [of _ q']) (simp add: pod_uri)
qed

text \<open>
  C4. Replica set controller and API server: when a replica set has fewer replicas than it asks for and
  the server answers with status 200, reconciliation stores exactly one pod more or replaces the one of
  the drawn name: it has the labels and the spec of the template, is owned by the replica set and is
  pending; no other object changes.
\<close>

theorem replicaset_stores_pod:
  assumes world: "api_world ex contents conf" and sound: "well_stored (ex_be ex) (contents (sv_world s))"
    and status: "rs_status rs = Some status" and fewer: "rss_replicas status < rsp_replicas (rs_spec rs)"
    and reply: "api_server ex (post_pod (rs_new_pod rs)) (s, envs) = (Reply 200 msg d, (s', envs'))"
  shows "\<exists>p. rs_reconcile (api_server ex) c rs (s, envs) = (Inr (), (s', envs')) \<and>
    stored_objects (ex_be ex) (contents (sv_world s')) =
      (stored_objects (ex_be ex) (contents (sv_world s)))(uri_of (KPod p) \<mapsto> KPod p) \<and>
    md_name (pod_metadata p) = unique_name (envs 0) (md_name (pt_metadata (rsp_template (rs_spec rs)))) \<and>
    md_labels (pod_metadata p) = md_labels (pt_metadata (rsp_template (rs_spec rs))) \<and>
    \<lparr>or_kind = ''ReplicaSet'', or_name = md_name (rs_metadata rs)\<rparr> \<in> set (md_owner_references (pod_metadata p)) \<and>
    pod_spec p = pt_spec (rsp_template (rs_spec rs)) \<and> pod_is_active p"
proof -
  let ?p = "created_pod (envs 0) (rs_new_pod rs)"
  note post_pod_run(1) [OF world sound reply]
  moreover have "rs_reconcile (api_server ex) c rs (s, envs) = (Inr (), (s', envs'))"
    using status fewer reply
    by (simp add: rs_reconcile_def cmp_def rs_create_pod_def send_pod_def api_send_def io_bind_def)
  moreover have "pod_is_active ?p" by (simp add: created_pod_def pod_is_active_def Let_def)
  ultimately show ?thesis
    by (intro exI [of _ ?p]) (simp add: created_pod_def rs_new_pod_def Let_def)
qed


text \<open>
  C7. Serverless router and API server: activating a function, which the start of a workflow does for every task, sets the replicas of its replica set to one,
  also when the autoscaler had given it more; nothing else in the store changes.
\<close>

theorem activation_resets_replicas:
  assumes world: "api_world ex contents conf" and sound: "well_stored (ex_be ex) (contents (sv_world s))"
    and name: "path_name name"
    and get: "api_server ex \<lparr>rq_method = GET, rq_path = ''/api/v1/replicasets/'' @ name, rq_body = None\<rparr> (s, envs) =
      (Reply 200 m1 (Some (DObject (KReplicaSet rs))), (s1, envs1))"
    and patch: "api_server ex \<lparr>rq_method = PATCH, rq_path = ''/api/v1/replicasets/'' @ name,
        rq_body = Some (KReplicaSet (activated rs))\<rparr> (s1, envs1) = (Reply 200 m2 d2, (s2, envs2))"
  shows "activate_rs (api_server ex) name (s, envs) = (Inr (), (s2, envs2)) \<and>
    stored_objects (ex_be ex) (contents (sv_world s)) (''/api/v1/replicasets/'' @ name) = Some (KReplicaSet rs) \<and>
    stored_objects (ex_be ex) (contents (sv_world s2)) = (stored_objects (ex_be ex) (contents (sv_world s)))
      (''/api/v1/replicasets/'' @ name \<mapsto> KReplicaSet (rs\<lparr>rs_spec := (rs_spec rs)\<lparr>rsp_replicas := 1\<rparr>\<rparr>))"
proof -
  let ?path = "''/api/v1/replicasets/'' @ name"
  have "respond ex (Run (api_rs_get ex name)) s = (Reply 200 m1 (Some (DObject (KReplicaSet rs))), s1)"
    using get unfolding api_server_def prod.case serve_replicaset [OF name] by (auto split: prod.splits)
  then have "api_rs_get ex name s = (Inr (m1, Some (DObject (KReplicaSet rs))), s1)"
    using rs_handlers_fail(2) by (rule respond_200)
  then have f: "fetch ex ?path ''replicaset'' s = (Inr (KReplicaSet rs), s1)"
    by (auto simp: api_rs_get_def get_named_def elim!: io_bind_InrE)
  note fetched = api_world.fetch_run [OF world f sound]
  have uri: "uri_of (KReplicaSet rs) = ?path"
    using api_world.sound_objects [OF world sound fetched(2)] .
  have "respond ex (Run (api_rs_patch ex name (KReplicaSet (activated rs)))) s1 = (Reply 200 m2 d2, s2)"
    using patch unfolding api_server_def prod.case serve_replicaset [OF name] by (auto split: prod.splits)
  then have "api_rs_patch ex name (KReplicaSet (activated rs)) s1 = (Inr (m2, d2), s2)"
    using rs_handlers_fail(5) by (rule respond_200)
  then obtain old s3 where f2: "fetch ex ?path ''replicaset'' s1 = (Inr (KReplicaSet old), s3)"
    and st: "store_object ex (KReplicaSet (old\<lparr>rs_spec := rs_spec (activated rs)\<rparr>)) s3 = (Inr (), s2)"
    by (auto simp: api_rs_patch_def expecting_def api_err_def done_msg_def elim!: io_bind_InrE split: kube_object.splits)
  note fetched2 = api_world.fetch_run [OF world f2 fetched(5)]
  have old: "old = rs" using fetched(1,2) fetched2(2) by simp
  have new: "old\<lparr>rs_spec := rs_spec (activated rs)\<rparr> = activated rs" by (simp add: old activated_def)
  have uri': "uri_of (KReplicaSet (activated rs)) = ?path"
    using uri by (simp add: activated_def uri_of_def prefix_of_directory directory_def name_of_def metadata_of_def)
  have "get_object (api_server ex) ?path (''No such replicaset: '' @ name) (s, envs) = (Inr (KReplicaSet rs), (s1, envs1))"
    unfolding get_object_def io_bind_def api_send_def get by simp
  then have "activate_rs (api_server ex) name (s, envs) = (Inr (), (s2, envs2))"
    unfolding activate_rs_def io_bind_def by (simp only: prod.case sum.case kube_object.case uri' api_send_def patch api_reply.case io_return_def)
  moreover have "stored_objects (ex_be ex) (contents (sv_world s2)) =
      (stored_objects (ex_be ex) (contents (sv_world s)))(?path \<mapsto> KReplicaSet (activated rs))"
    using api_world.store_object_run(1) [OF world st [unfolded new] fetched2(5)] fetched(1) fetched2(1) uri' by simp
  ultimately show ?thesis using fetched(2) by (simp add: activated_def)
qed

text \<open>
  C8. Function controller and API server: the handler that creates a function polls the store until the function has its image. Once the
  server has accepted the status the controller puts after the build, the next poll finds the image and the
  handler goes on.
\<close>

theorem built_function_ends_waiting:
  assumes world: "api_world ex contents conf" and sound: "well_stored (ex_be ex) (contents (sv_world s))"
    and name: "path_name (md_name (fn_metadata f))" and status: "with_image f img = Inr f'"
    and put: "api_server ex (put_object (KFunction f')) (s, envs) = (Reply 200 m d, (s', envs'))"
    and poll: "fetch ex (uri_of (KFunction f)) (kind_of (KFunction f)) s' = (Inr x, s'')"
  shows "func_post_status (api_server ex) f' (s, envs) = (Inr (), (s', envs')) \<and>
    x = KFunction f' \<and> await_image ex env (KFunction f) left s' = (Inr (), s'')"
proof -
  obtain st where f': "f' = f\<lparr>fn_status := Some (st\<lparr>fst_image := Some img\<rparr>)\<rparr>"
    using status by (auto simp: with_image_def split: option.splits)
  have uri: "uri_of (KFunction f') = uri_of (KFunction f)"
    by (simp add: f' uri_of_def prefix_of_directory directory_def name_of_def metadata_of_def)
  have name': "path_name (md_name (fn_metadata f'))" using name by (simp add: f')
  have "respond ex (Run (api_function_update ex (KFunction f'))) s = (Reply 200 m d, s')"
    using put unfolding api_server_def prod.case serve_put_function [OF name'] by (auto split: prod.splits)
  then have "api_function_update ex (KFunction f') s = (Inr (m, d), s')"
    by (rule respond_200) (intro fails_rules)
  then have st: "store_object ex (KFunction f') s = (Inr (), s')"
    by (auto simp: api_function_update_def done_msg_def elim!: io_bind_InrE)
  note stored = api_world.store_object_run [OF world st sound]
  note fetched = api_world.fetch_run [OF world poll stored(3)]
  from stored(1) fetched(2) have x: "x = KFunction f'" by (simp add: uri)
  then have "await_image ex env (KFunction f) left s' = (Inr (), s'')"
    by (subst await_image.simps) (simp add: io_bind_def poll image_ready_def f')
  moreover have "func_post_status (api_server ex) f' (s, envs) = (Inr (), (s', envs'))"
    unfolding func_post_status_def api_send_def io_bind_def put by simp
  ultimately show ?thesis using x by simp
qed

section \<open>Concrete runs\<close>

definition web_pod :: pod where
  "web_pod = \<lparr>pod_metadata = metadata_default\<lparr>md_name := ''web''\<rparr>, pod_spec = pod_spec_default,
     pod_status = Some (pod_status_default 0)\<rparr>"

definition bound_web_pod :: pod where
  "bound_web_pod = \<lparr>pod_metadata = metadata_default\<lparr>md_name := ''web''\<rparr>,
     pod_spec = pod_spec_default\<lparr>ps_node_name := Some ''n1''\<rparr>,
     pod_status = Some ((pod_status_default 0)\<lparr>pst_conditions := hm_insert PodScheduled True (pst_conditions (pod_status_default 0)),
       pst_host_ip := Some ''10.0.0.1''\<rparr>)\<rparr>"

definition n1_ref :: object_reference where
  "n1_ref = \<lparr>or_kind = ''Node'', or_name = ''n1''\<rparr>"

definition web_binding :: binding where
  "web_binding = \<lparr>bd_metadata = pod_metadata web_pod, bd_target = n1_ref\<rparr>"

definition binding_world :: "string memory externals" where
  "binding_world = mem_externals [(''pod'', KPod web_pod), (''node'', KNode (kubelet_node (Some 1))),
     (''bound'', KPod bound_web_pod), (''binding'', KBinding web_binding)] config_table"

definition binding_server :: "string \<Rightarrow> (string, string) hashmap \<Rightarrow> string memory server" where
  "binding_server js rest = \<lparr>sv_ip_pool = [],
     sv_world = ([(''/api/v1/pods/web'', js), (''/api/v1/nodes/n1'', ''node'')] @ rest, ''none'')\<rparr>"

lemma binding_world: "api_world binding_world mem_contents snd"
  unfolding binding_world_def by (rule mem_api_world) (simp_all add: config_table_def)

lemma binding_server_sound: "well_stored (ex_be binding_world) (mem_contents (sv_world (binding_server ''pod'' [])))"
  by (auto simp: well_stored_def mem_contents_def binding_server_def binding_world_def pod_uri node_uri
      web_pod_def kubelet_node_def)

lemma web_pods: "web_pod \<noteq> bound_web_pod" "bound (kubelet_node (Some 1)) ''n1'' web_pod = Some bound_web_pod"
  by (simp_all add: web_pod_def bound_web_pod_def bound_def kubelet_node_def pod_spec_default_def)

lemma binding_reply:
  "api_server binding_world (binding_request web_pod n1_ref) (binding_server ''pod'' [], \<lambda>_. sample_env) =
     (Reply 200 (Some ''bind successfully'') None,
      (binding_server ''bound'' [(''/api/v1/bindings/web'', ''binding'')], \<lambda>_. sample_env))"
proof -
  let ?s = "binding_server ''pod'' []"
  have f1: "fetch binding_world ''/api/v1/nodes/n1'' ''node'' ?s = (Inr (KNode (kubelet_node (Some 1))), ?s)"
    by (simp add: fetch_def must_def in_world_def io_map_err_def binding_world_def binding_server_def
        mem_get [where js = "''node''" and x = "KNode (kubelet_node (Some 1))"] kind_of_def
        eq_ignore_ascii_case_def to_lowercase_def char_to_lower_def char_of_eq_iff)
  have f2: "fetch binding_world ''/api/v1/pods/web'' ''pod'' ?s = (Inr (KPod web_pod), ?s)"
    by (simp add: fetch_def must_def in_world_def io_map_err_def binding_world_def binding_server_def
        mem_get [where js = "''pod''" and x = "KPod web_pod"] kind_of_def
        eq_ignore_ascii_case_def to_lowercase_def char_to_lower_def char_of_eq_iff)
  have uris: "uri_of (KPod bound_web_pod) = ''/api/v1/pods/web''" "uri_of (KBinding web_binding) = ''/api/v1/bindings/web''"
    by (simp_all add: uri_of_def prefix_of_directory directory_def name_of_def metadata_of_def bound_web_pod_def
        web_binding_def web_pod_def)
  have p1: "store_object binding_world (KPod bound_web_pod) ?s = (Inr (), binding_server ''bound'' [])"
    by (simp add: store_object_def must_def in_world_def io_map_err_def binding_world_def binding_server_def
        mem_put [where js = "''bound''"] web_pods uris hm_insert_def)
  have p2: "store_object binding_world (KBinding web_binding) (binding_server ''bound'' []) =
      (Inr (), binding_server ''bound'' [(''/api/v1/bindings/web'', ''binding'')])"
    by (simp add: store_object_def must_def in_world_def io_map_err_def binding_world_def binding_server_def
        mem_put [where js = "''binding''"] uris hm_insert_def)
  have b: "or_name (bd_target web_binding) = ''n1''" "md_name (bd_metadata web_binding) = ''web''"
    by (simp_all add: web_binding_def n1_ref_def web_pod_def)
  have "api_bind binding_world (KBinding web_binding) ?s = (Inr (Some ''bind successfully'', None),
      binding_server ''bound'' [(''/api/v1/bindings/web'', ''binding'')])"
    by (simp add: api_bind_def Let_def b io_bind_def f1 f2 p1 p2 web_pods done_msg_def)
  then show ?thesis
    by (simp add: api_server_def binding_request_def serve_bindings respond_def reply_of_def web_binding_def)
qed

theorem scheduler_binds_pod_witness:
  "\<exists>q'. pod_is_on_node q' ''n1'' \<and> stored_objects (ex_be binding_world)
     (mem_contents (sv_world (binding_server ''bound'' [(''/api/v1/bindings/web'', ''binding'')])))
     ''/api/v1/pods/web'' = Some (KPod q')"
proof -
  have free: "ps_node_name (pod_spec web_pod) = None" and name: "uri_of (KPod web_pod) = ''/api/v1/pods/web''"
    and other: "''/api/v1/bindings/'' @ md_name (pod_metadata web_pod) = ''/api/v1/bindings/web''"
    and target: "or_name n1_ref = ''n1''"
    by (simp_all add: web_pod_def pod_spec_default_def pod_uri n1_ref_def)
  from scheduler_binds_pod [where algorithm = "\<lambda>_ _. Some n1_ref" and c = "cache_new [] []",
      OF binding_world binding_server_sound free refl binding_reply]
  show ?thesis
    unfolding name other target by auto
qed

definition small_rs :: replica_set where
  "small_rs = \<lparr>rs_metadata = metadata_default\<lparr>md_name := ''web''\<rparr>,
     rs_spec = \<lparr>rsp_selector = [(''app'', ''web'')],
       rsp_template = \<lparr>pt_metadata = metadata_default\<lparr>md_name := ''web'', md_labels := [(''app'', ''web'')]\<rparr>,
         pt_spec = pod_spec_default\<rparr>, rsp_replicas = 2\<rparr>,
     rs_status = Some \<lparr>rss_replicas = 1, rss_ready_replicas = 1\<rparr>\<rparr>"

definition small_pod :: pod where
  "small_pod = created_pod (sample_env :: string memory env) (rs_new_pod small_rs)"

definition pod_world :: "string memory externals" where
  "pod_world = mem_externals [(''pod'', KPod small_pod)] config_table"

lemma pod_world: "api_world pod_world mem_contents snd"
  unfolding pod_world_def by (rule mem_api_world) (simp_all add: config_table_def)

lemma pod_reply:
  "api_server pod_world (post_pod (rs_new_pod small_rs)) (empty_server, \<lambda>_. sample_env) =
     (Reply 200 (Some (''pod/'' @ md_name (pod_metadata small_pod) @ '' created'')) None,
      (empty_server\<lparr>sv_world := ([(uri_of (KPod small_pod), ''pod'')], ''none'')\<rparr>, \<lambda>_. sample_env))"
proof -
  have "store_object pod_world (KPod small_pod) empty_server =
      (Inr (), empty_server\<lparr>sv_world := ([(uri_of (KPod small_pod), ''pod'')], ''none'')\<rparr>)"
    by (simp add: store_object_def must_def in_world_def io_map_err_def pod_world_def empty_server_def
        mem_put [where js = "''pod''"] hm_insert_def hm_empty_def)
  then have "api_pod_create pod_world sample_env (KPod (rs_new_pod small_rs)) empty_server =
      (Inr (Some (''pod/'' @ md_name (pod_metadata small_pod) @ '' created''), None),
       empty_server\<lparr>sv_world := ([(uri_of (KPod small_pod), ''pod'')], ''none'')\<rparr>)"
    by (simp add: api_pod_create_def Let_def small_pod_def [symmetric] io_bind_def done_msg_def)
  then show ?thesis
    by (simp add: api_server_def post_pod_def serve_pods respond_def reply_of_def)
qed

lemma sample_unique_name: "unique_name sample_env ''web'' = ''web-ab3de''"
  by (simp add: unique_name_def sample_env_def to_lowercase_def char_to_lower_def char_of_eq_iff)

theorem replicaset_stores_pod_witness:
  "\<exists>p. rs_reconcile (api_server pod_world) sample_rsc small_rs (empty_server, \<lambda>_. sample_env) =
      (Inr (), (empty_server\<lparr>sv_world := ([(uri_of (KPod small_pod), ''pod'')], ''none'')\<rparr>, \<lambda>_. sample_env)) \<and>
    md_name (pod_metadata p) = ''web-ab3de'' \<and> md_labels (pod_metadata p) = [(''app'', ''web'')] \<and> pod_is_active p"
proof -
  have "rs_status small_rs = Some \<lparr>rss_replicas = 1, rss_ready_replicas = 1\<rparr>"
    "rss_replicas \<lparr>rss_replicas = 1, rss_ready_replicas = 1\<rparr> < rsp_replicas (rs_spec small_rs)"
    by (simp_all add: small_rs_def)
  from replicaset_stores_pod [OF pod_world empty_server_sound this pod_reply, of sample_rsc]
  moreover have "md_name (pt_metadata (rsp_template (rs_spec small_rs))) = ''web''"
    "md_labels (pt_metadata (rsp_template (rs_spec small_rs))) = [(''app'', ''web'')]"
    by (simp_all add: small_rs_def)
  ultimately show ?thesis by (simp only: sample_unique_name) blast
qed

definition counted_rs :: replica_set where
  "counted_rs = small_rs\<lparr>rs_status := Some (rs_calculate_status sample_rsc small_rs)\<rparr>"

definition rs_world :: "string memory externals" where
  "rs_world = mem_externals [(''rs'', KReplicaSet counted_rs)] config_table"

lemma rs_world: "api_world rs_world mem_contents snd"
  unfolding rs_world_def by (rule mem_api_world) (simp_all add: config_table_def)

lemma rs_reply:
  "api_server rs_world (put_object (KReplicaSet (small_rs\<lparr>rs_status := Some (rs_calculate_status sample_rsc small_rs)\<rparr>)))
      (empty_server, \<lambda>_. sample_env) =
     (Reply 200 (Some ''replicaset/web updated'') None,
      (empty_server\<lparr>sv_world := ([(''/api/v1/replicasets/web'', ''rs'')], ''none'')\<rparr>, \<lambda>_. sample_env))"
proof -
  have name: "md_name (rs_metadata counted_rs) = ''web''" by (simp add: counted_rs_def small_rs_def)
  then have uri: "uri_of (KReplicaSet counted_rs) = ''/api/v1/replicasets/web''"
    by (simp add: uri_of_def prefix_of_directory directory_def name_of_def metadata_of_def)
  have "store_object rs_world (KReplicaSet counted_rs) empty_server =
      (Inr (), empty_server\<lparr>sv_world := ([(''/api/v1/replicasets/web'', ''rs'')], ''none'')\<rparr>)"
    by (simp add: store_object_def must_def in_world_def io_map_err_def rs_world_def empty_server_def
        mem_put [where js = "''rs''"] uri hm_insert_def hm_empty_def)
  moreover have "path_name (md_name (rs_metadata counted_rs))" by (simp add: name path_name_def)
  ultimately show ?thesis
    unfolding counted_rs_def [symmetric]
    by (simp add: api_server_def serve_put_replicaset name respond_def api_rs_update_def io_bind_def done_msg_def reply_of_def)
qed


definition busy_rs :: replica_set where
  "busy_rs = \<lparr>rs_metadata = metadata_default\<lparr>md_name := ''web''\<rparr>,
     rs_spec = \<lparr>rsp_selector = [(''app'', ''web'')],
       rsp_template = \<lparr>pt_metadata = metadata_default\<lparr>md_name := ''web''\<rparr>, pt_spec = pod_spec_default\<rparr>, rsp_replicas = 5\<rparr>,
     rs_status = None\<rparr>"

definition busy_world :: "string memory externals" where
  "busy_world = mem_externals [(''five'', KReplicaSet busy_rs), (''one'', KReplicaSet (activated busy_rs))] config_table"

definition busy_server :: "string \<Rightarrow> string memory server" where
  "busy_server js = \<lparr>sv_ip_pool = [], sv_world = ([(''/api/v1/replicasets/web'', js)], ''none'')\<rparr>"

lemma busy_world: "api_world busy_world mem_contents snd"
  unfolding busy_world_def by (rule mem_api_world) (simp_all add: config_table_def)

lemma busy_uris: "uri_of (KReplicaSet busy_rs) = ''/api/v1/replicasets/web''"
  "uri_of (KReplicaSet (activated busy_rs)) = ''/api/v1/replicasets/web''" "activated busy_rs \<noteq> busy_rs"
  by (simp_all add: uri_of_def prefix_of_directory directory_def name_of_def metadata_of_def busy_rs_def activated_def)

lemma busy_sound: "well_stored (ex_be busy_world) (mem_contents (sv_world (busy_server ''five'')))"
  by (auto simp: well_stored_def mem_contents_def busy_server_def busy_world_def busy_uris)

lemma busy_fetch:
  "fetch busy_world ''/api/v1/replicasets/web'' ''replicaset'' (busy_server ''five'') = (Inr (KReplicaSet busy_rs), busy_server ''five'')"
  by (simp add: fetch_def must_def in_world_def io_map_err_def busy_world_def busy_server_def
      mem_get [where js = "''five''" and x = "KReplicaSet busy_rs"] kind_of_def
      eq_ignore_ascii_case_def to_lowercase_def char_to_lower_def char_of_eq_iff)

lemma busy_get:
  "api_server busy_world \<lparr>rq_method = GET, rq_path = ''/api/v1/replicasets/'' @ ''web'', rq_body = None\<rparr>
     (busy_server ''five'', \<lambda>_. sample_env) =
   (Reply 200 None (Some (DObject (KReplicaSet busy_rs))), (busy_server ''five'', \<lambda>_. sample_env))"
proof -
  have "path_name ''web''" by (simp add: path_name_def)
  then show ?thesis
    unfolding api_server_def prod.case serve_replicaset(1) [OF \<open>path_name ''web''\<close>]
    by (simp add: respond_def api_rs_get_def get_named_def io_bind_def busy_fetch reply_of_def)
qed

lemma busy_patch:
  "api_server busy_world \<lparr>rq_method = PATCH, rq_path = ''/api/v1/replicasets/'' @ ''web'',
      rq_body = Some (KReplicaSet (activated busy_rs))\<rparr> (busy_server ''five'', \<lambda>_. sample_env) =
   (Reply 200 (Some ''replicaset/web patched'') None, (busy_server ''one'', \<lambda>_. sample_env))"
proof -
  have name: "path_name ''web''" by (simp add: path_name_def)
  have new: "busy_rs\<lparr>rs_spec := rs_spec (activated busy_rs)\<rparr> = activated busy_rs" by (simp add: activated_def)
  have "store_object busy_world (KReplicaSet (activated busy_rs)) (busy_server ''five'') = (Inr (), busy_server ''one'')"
    by (simp add: store_object_def must_def in_world_def io_map_err_def busy_world_def busy_server_def
        mem_put [where js = "''one''"] busy_uris busy_uris(3) [symmetric] hm_insert_def)
  then show ?thesis
    unfolding api_server_def prod.case serve_replicaset(2) [OF name]
    by (simp add: respond_def api_rs_patch_def io_bind_def busy_fetch new done_msg_def reply_of_def)
qed

theorem activation_resets_replicas_witness:
  "activate_rs (api_server busy_world) ''web'' (busy_server ''five'', \<lambda>_. sample_env) =
     (Inr (), (busy_server ''one'', \<lambda>_. sample_env)) \<and>
   rsp_replicas (rs_spec busy_rs) = 5 \<and> rsp_replicas (rs_spec (activated busy_rs)) = 1"
proof -
  have "path_name ''web''" by (simp add: path_name_def)
  from activation_resets_replicas [OF busy_world busy_sound this busy_get busy_patch] show ?thesis
    by (simp add: busy_rs_def activated_def)
qed

definition plain_function :: "string option \<Rightarrow> func" where
  "plain_function img = \<lparr>fn_metadata = metadata_default\<lparr>md_name := ''web''\<rparr>,
     fn_spec = \<lparr>fs_max_replicas = 10, fs_behavior = hpa_behavior_default, fs_metrics = default_metrics\<rparr>,
     fn_status = Some \<lparr>fst_service_ref = ''/api/v1/services/func-web'', fst_filename = ''web.zip'',
       fst_host = ''web.func.minik8s.com'', fst_image = img\<rparr>\<rparr>"

definition function_world :: "string memory externals" where
  "function_world = mem_externals [(''new'', KFunction (plain_function None)),
     (''built'', KFunction (plain_function (Some ''minik8s.xyz/web:latest'')))] config_table"

definition function_server :: "string \<Rightarrow> string memory server" where
  "function_server js = \<lparr>sv_ip_pool = [], sv_world = ([(''/api/v1/functions/web'', js)], ''none'')\<rparr>"

lemma function_world: "api_world function_world mem_contents snd"
  unfolding function_world_def by (rule mem_api_world) (simp_all add: config_table_def)

lemma function_facts:
  "uri_of (KFunction (plain_function img)) = ''/api/v1/functions/web''" "kind_of (KFunction (plain_function img)) = ''Function''"
  "plain_function None \<noteq> plain_function (Some img2)" "path_name (md_name (fn_metadata (plain_function img)))"
  "with_image (plain_function None) img2 = Inr (plain_function (Some img2))"
  by (simp_all add: uri_of_def prefix_of_directory directory_def name_of_def metadata_of_def plain_function_def kind_of_def
      path_name_def with_image_def)

lemma function_sound: "well_stored (ex_be function_world) (mem_contents (sv_world (function_server ''new'')))"
  by (auto simp: well_stored_def mem_contents_def function_server_def function_world_def function_facts)

lemma function_put:
  "api_server function_world (put_object (KFunction (plain_function (Some ''minik8s.xyz/web:latest''))))
     (function_server ''new'', \<lambda>_. sample_env) =
   (Reply 200 (Some ''functions/web updated'') None, (function_server ''built'', \<lambda>_. sample_env))"
proof -
  let ?f = "plain_function (Some ''minik8s.xyz/web:latest'')"
  have "store_object function_world (KFunction ?f) (function_server ''new'') = (Inr (), function_server ''built'')"
    by (simp add: store_object_def must_def in_world_def io_map_err_def function_world_def function_server_def
        mem_put [where js = "''built''"] function_facts function_facts(3) [symmetric] hm_insert_def)
  moreover have "name_of (KFunction ?f) = ''web''" by (simp add: name_of_def metadata_of_def plain_function_def)
  ultimately show ?thesis
    unfolding api_server_def prod.case serve_put_function [OF function_facts(4)]
    by (simp add: respond_def api_function_update_def io_bind_def done_msg_def reply_of_def)
qed

lemma function_poll:
  "fetch function_world (uri_of (KFunction (plain_function None))) (kind_of (KFunction (plain_function None))) (function_server ''built'') =
     (Inr (KFunction (plain_function (Some ''minik8s.xyz/web:latest''))), function_server ''built'')"
  by (simp add: fetch_def must_def in_world_def io_map_err_def function_world_def function_server_def function_facts
      function_facts(3) [symmetric] mem_get [where js = "''built''" and x = "KFunction (plain_function (Some ''minik8s.xyz/web:latest''))"]
      kind_of_def eq_ignore_ascii_case_def to_lowercase_def char_to_lower_def char_of_eq_iff)

theorem built_function_ends_waiting_witness:
  "await_image function_world sample_env (KFunction (plain_function None)) 60 (function_server ''built'') =
     (Inr (), function_server ''built'')"
  using built_function_ends_waiting [OF function_world function_sound function_facts(4) function_facts(5) function_put function_poll]
  by blast

end
